(* ===== verification/DQ_Prelude.thy ===== *)
theory DQ_Prelude
  imports
    Complex_Main
    "HOL-Library.AList"
    "HOL-Library.Char_ord"
    "HOL-Library.List_Lexorder"
    "HOL-Library.Product_Lexorder"
begin

text \<open>
  Shared vocabulary of the development: how values of the Python sources are written in HOL,
  and the generic lemmas on text, dictionaries, paging and decimal identifiers that the
  component theories use.

  \<^item> A Python \<open>str\<close> is a \<^typ>\<open>string\<close>: a list of code points below 256 (Latin-1). On those
    \<open>strip\<close> and \<open>lower\<close> below are exactly \<open>str.strip\<close> and \<open>str.lower\<close>.
  \<^item> A Python \<open>dict\<close> is an association list in insertion order; \<open>d[k] = v\<close> is
    \<^const>\<open>AList.update\<close>, which keeps the position of a present key and appends a new one.
  \<^item> An untyped payload (\<open>Any\<close>, parsed JSON) is a \<open>pyval\<close>; the type parameter stands for
    application objects that travel inside a payload.
  \<^item> A raised exception is the \<^const>\<open>Inl\<close> side of a sum.
  \<^item> Wall-clock time and fresh identifiers (\<open>datetime.now\<close>, \<open>uuid4\<close>) are arguments of the
    operations that read them.
\<close>

named_theorems text_simps \<open>normalisation of Python text\<close>
named_theorems dict_simps \<open>lookup in updated dictionaries\<close>

type_synonym ('k, 'v) dict = "('k \<times> 'v) list"


section \<open>Text\<close>

text \<open>\<open>str.isspace\<close>: tab to carriage return, the separators 28 to 32, and 133, 160.\<close>

definition is_space :: "char \<Rightarrow> bool" where
  "is_space c \<longleftrightarrow>
     (let n = (of_char c :: nat)
      in (9 \<le> n \<and> n \<le> 13) \<or> (28 \<le> n \<and> n \<le> 32) \<or> n = 133 \<or> n = 160)"

definition strip :: "string \<Rightarrow> string" where
  "strip s = rev (dropWhile is_space (rev (dropWhile is_space s)))"

definition lower_char :: "char \<Rightarrow> char" where
  "lower_char c =
     (let n = (of_char c :: nat)
      in if (65 \<le> n \<and> n \<le> 90) \<or> (192 \<le> n \<and> n \<le> 222 \<and> n \<noteq> 215) then char_of (n + 32) else c)"

definition lower :: "string \<Rightarrow> string" where
  "lower s = map lower_char s"

text \<open>\<open>str.upper\<close>; the sharp s becomes two letters.\<close>

definition upper_char :: "char \<Rightarrow> string" where
  "upper_char c =
     (let n = (of_char c :: nat)
      in if (97 \<le> n \<and> n \<le> 122) \<or> (224 \<le> n \<and> n \<le> 254 \<and> n \<noteq> 247) then [char_of (n - 32)]
         else if n = 223 then ''SS'' else [c])"

definition upper :: "string \<Rightarrow> string" where
  "upper s = concat (map upper_char s)"

text \<open>The class of word characters of regular expressions on Latin-1.\<close>

definition word_char :: "char \<Rightarrow> bool" where
  "word_char c \<longleftrightarrow>
     (let n = (of_char c :: nat)
      in (48 \<le> n \<and> n \<le> 57) \<or> (65 \<le> n \<and> n \<le> 90) \<or> n = 95 \<or> (97 \<le> n \<and> n \<le> 122) \<or>
         n \<in> {170, 178, 179, 181, 185, 186, 188, 189, 190} \<or> (192 \<le> n \<and> n \<noteq> 215 \<and> n \<noteq> 247))"

text \<open>\<open>s.replace(a, b)\<close> for one-character arguments.\<close>

definition replace_char :: "char \<Rightarrow> char \<Rightarrow> string \<Rightarrow> string" where
  "replace_char a b s = map (\<lambda>c. if c = a then b else c) s"

text \<open>\<open>str(value or "")\<close> of an optional text, and \<open>s or None\<close>.\<close>

definition text_of :: "string option \<Rightarrow> string" where
  "text_of v = (case v of None \<Rightarrow> [] | Some s \<Rightarrow> s)"

definition or_none :: "string \<Rightarrow> string option" where
  "or_none s = (if s = [] then None else Some s)"

text \<open>\<open>str(value or "").strip() or None\<close>.\<close>

definition clean :: "string option \<Rightarrow> string option" where
  "clean v = or_none (strip (text_of v))"

text \<open>\<open>bool(value)\<close> of an optional text.\<close>

definition truthy :: "string option \<Rightarrow> bool" where
  "truthy v \<longleftrightarrow> text_of v \<noteq> []"

definition starts_with :: "string \<Rightarrow> string \<Rightarrow> bool" where
  "starts_with p s \<longleftrightarrow> take (length p) s = p"

text \<open>\<open>needle in haystack\<close>.\<close>

fun contains :: "string \<Rightarrow> string \<Rightarrow> bool" where
  "contains p [] = (p = [])"
| "contains p (c # cs) = (starts_with p (c # cs) \<or> contains p cs)"

text \<open>\<open>sep.join(parts)\<close>.\<close>

fun join_text :: "string \<Rightarrow> string list \<Rightarrow> string" where
  "join_text sep [] = []"
| "join_text sep [x] = x"
| "join_text sep (x # y # xs) = x @ sep @ join_text sep (y # xs)"

lemma dropWhile_idem [simp]: "dropWhile P (dropWhile P xs) = dropWhile P xs"
  by (induction xs) auto

lemma dropWhile_hd_stable: "xs = [] \<or> \<not> P (hd xs) \<Longrightarrow> dropWhile P xs = xs"
  by (cases xs) auto

lemma dropWhile_suffix_hd:
  assumes "xs = [] \<or> \<not> P (hd xs)"
  shows "rev (dropWhile P (rev xs)) = [] \<or> \<not> P (hd (rev (dropWhile P (rev xs))))"
proof (cases "dropWhile P (rev xs)")
  case Nil
  then show ?thesis by simp
next
  case (Cons y ys)
  obtain zs where zs: "rev xs = zs @ dropWhile P (rev xs)"
    by (metis takeWhile_dropWhile_id)
  then have "xs = rev (dropWhile P (rev xs)) @ rev zs"
    by (metis rev_append rev_rev_ident)
  then have "hd (rev (dropWhile P (rev xs))) = hd xs" and "xs \<noteq> []"
    using Cons by (metis hd_append2 list.distinct(1) rev_is_Nil_conv, simp)
  with assms show ?thesis by simp
qed

lemma strip_idem [simp, text_simps]: "strip (strip s) = strip s"
proof -
  let ?t = "dropWhile is_space s"
  have "?t = [] \<or> \<not> is_space (hd ?t)"
    by (metis hd_dropWhile)
  then have "dropWhile is_space (rev (dropWhile is_space (rev ?t))) = rev (dropWhile is_space (rev ?t))"
    by (intro dropWhile_hd_stable dropWhile_suffix_hd)
  then show ?thesis by (simp add: strip_def)
qed

lemma strip_Nil [simp, text_simps]: "strip [] = []"
  by (simp add: strip_def)

text \<open>A character map that keeps white space apart from the rest commutes with \<open>strip\<close>.\<close>

lemma dropWhile_map_inv:
  "(\<And>c. P (f c) = P c) \<Longrightarrow> dropWhile P (map f xs) = map f (dropWhile P xs)"
  by (induction xs) auto

lemma strip_map:
  assumes "\<And>c. is_space (f c) = is_space c"
  shows "strip (map f s) = map f (strip s)"
  using assms by (simp add: strip_def dropWhile_map_inv rev_map)

lemma of_char_lower_char:
  "(of_char (lower_char c) :: nat) =
     (let n = of_char c
      in if (65 \<le> n \<and> n \<le> 90) \<or> (192 \<le> n \<and> n \<le> 222 \<and> n \<noteq> 215) then n + 32 else n)"
  by (simp add: lower_char_def Let_def)

lemma is_space_lower_char [simp, text_simps]: "is_space (lower_char c) = is_space c"
  unfolding is_space_def of_char_lower_char Let_def by auto

lemma lower_char_idem [simp, text_simps]: "lower_char (lower_char c) = lower_char c"
proof -
  have "(of_char (lower_char (lower_char c)) :: nat) = of_char (lower_char c)"
    by (auto simp: of_char_lower_char Let_def)
  then show ?thesis by (metis char_of_char)
qed

lemma lower_idem [simp, text_simps]: "lower (lower s) = lower s"
  by (simp add: lower_def)

lemma strip_lower [text_simps]: "strip (lower s) = lower (strip s)"
  by (simp add: lower_def strip_map)

lemma lower_Nil [simp, text_simps]: "lower [] = []"
  by (simp add: lower_def)

lemma strip_replace_char [text_simps]:
  "\<not> is_space a \<Longrightarrow> \<not> is_space b \<Longrightarrow> strip (replace_char a b s) = replace_char a b (strip s)"
  unfolding replace_char_def by (rule strip_map) auto

lemma replace_char_idem [simp, text_simps]:
  "replace_char a b (replace_char a b s) = replace_char a b s"
  by (cases "a = b") (simp_all add: replace_char_def)

lemma text_of_simps [simp, text_simps]:
  "text_of None = []" "text_of (Some s) = s"
  by (simp_all add: text_of_def)

lemma text_of_or_none [simp, text_simps]: "text_of (or_none s) = s"
  by (simp add: or_none_def)

lemma truthy_simps [simp, text_simps]:
  "\<not> truthy None" "truthy (Some s) \<longleftrightarrow> s \<noteq> []"
  by (simp_all add: truthy_def)


text \<open>Evaluation of the text operations on literals.\<close>

lemmas text_eval = strip_def is_space_def lower_def lower_char_def replace_char_def char_of_def bit_0


section \<open>Errors\<close>

text \<open>Sequencing of computations that may raise.\<close>

definition try_bind :: "'e + 'a \<Rightarrow> ('a \<Rightarrow> 'e + 'b) \<Rightarrow> 'e + 'b" where
  "try_bind m k = (case m of Inl e \<Rightarrow> Inl e | Inr x \<Rightarrow> k x)"

fun try_map :: "('a \<Rightarrow> 'e + 'b) \<Rightarrow> 'a list \<Rightarrow> 'e + 'b list" where
  "try_map f [] = Inr []"
| "try_map f (x # xs) = try_bind (f x) (\<lambda>y. try_bind (try_map f xs) (\<lambda>ys. Inr (y # ys)))"

lemma try_bind_simps [simp]:
  "try_bind (Inl e) k = Inl e" "try_bind (Inr x) k = k x"
  by (simp_all add: try_bind_def)

lemma try_bind_Inr: "try_bind m k = Inr y \<longleftrightarrow> (\<exists>x. m = Inr x \<and> k x = Inr y)"
  by (cases m) simp_all

lemma try_map_all:
  "try_map f xs = Inr ys \<Longrightarrow> (\<And>x y. x \<in> set xs \<Longrightarrow> f x = Inr y \<Longrightarrow> P y) \<Longrightarrow> list_all P ys"
proof (induction xs arbitrary: ys)
  case (Cons x xs)
  then obtain y zs where ys: "f x = Inr y" "try_map f xs = Inr zs" "ys = y # zs"
    by (auto simp: try_bind_Inr)
  moreover have "P y" using Cons.prems(2) [of x y] ys(1) by simp
  moreover have "list_all P zs" by (rule Cons.IH [OF ys(2)]) (use Cons.prems(2) in auto)
  ultimately show ?case by simp
qed simp

section \<open>Dictionaries\<close>

text \<open>\<open>d.setdefault(k, v)\<close> as the new dictionary; the value read is then \<^term>\<open>map_of\<close> of it.\<close>

definition dict_setdefault :: "'k \<Rightarrow> 'v \<Rightarrow> ('k, 'v) dict \<Rightarrow> ('k, 'v) dict" where
  "dict_setdefault k v d = (case map_of d k of None \<Rightarrow> d @ [(k, v)] | Some _ \<Rightarrow> d)"

definition dict_get :: "('k, 'v) dict \<Rightarrow> 'k \<Rightarrow> 'v \<Rightarrow> 'v" where
  "dict_get d k v = (case map_of d k of None \<Rightarrow> v | Some w \<Rightarrow> w)"

abbreviation dict_wf :: "('k, 'v) dict \<Rightarrow> bool" where
  "dict_wf d \<equiv> distinct (map fst d)"

lemma map_of_update [simp, dict_simps]:
  "map_of (AList.update k v d) k' = (if k' = k then Some v else map_of d k')"
  by (simp add: AList.update_conv)

lemma update_in_keys [simp, dict_simps]:
  "fst ` set (AList.update k v d) = insert k (fst ` set d)"
  by (simp add: AList.dom_update)

lemma dict_wf_update [simp, dict_simps]: "dict_wf d \<Longrightarrow> dict_wf (AList.update k v d)"
  by (rule AList.distinct_update)

lemma map_of_append_None:
  "map_of d k = None \<Longrightarrow> map_of (d @ [(k, v)]) k' = (if k' = k then Some v else map_of d k')"
  by (induction d) (auto split: if_splits)

lemma map_of_setdefault [dict_simps]:
  "map_of (dict_setdefault k v d) k' =
     (if k' = k \<and> map_of d k = None then Some v else map_of d k')"
  by (auto simp: dict_setdefault_def map_of_append_None simp del: map_of_append split: option.split)

lemma dict_get_update [simp, dict_simps]:
  "dict_get (AList.update k v d) k' w = (if k' = k then v else dict_get d k' w)"
  by (simp add: dict_get_def)


section \<open>Untyped payloads\<close>

datatype 'o pyval =
    PNone
  | PBool bool
  | PInt int
  | PStr string
  | PList "'o pyval list"
  | PDict "(string \<times> 'o pyval) list"
  | PObj 'o

type_synonym json = "unit pyval"

text \<open>\<open>mapping.get(key)\<close>, \<open>mapping.get(key, default)\<close>.\<close>

definition pget :: "(string \<times> 'o pyval) list \<Rightarrow> string \<Rightarrow> 'o pyval" where
  "pget d k = dict_get d k PNone"


section \<open>Paging\<close>

text \<open>\<open>rows[safe_offset : safe_offset + safe_limit]\<close> with the clamped bounds of the repositories.\<close>

definition safe_limit :: "int \<Rightarrow> nat" where
  "safe_limit limit = nat (max 1 (min 100 limit))"

definition safe_offset :: "int \<Rightarrow> nat" where
  "safe_offset offset = nat (max 0 offset)"

definition page_window :: "int \<Rightarrow> int \<Rightarrow> 'a list \<Rightarrow> 'a list" where
  "page_window limit offset rows = take (safe_limit limit) (drop (safe_offset offset) rows)"

lemma safe_limit_bounds: "1 \<le> safe_limit l \<and> safe_limit l \<le> 100"
  by (auto simp: safe_limit_def)

lemma page_window_length: "length (page_window l off rows) \<le> 100"
  using safe_limit_bounds [of l] by (simp add: page_window_def min_le_iff_disj)

lemma set_page_window: "set (page_window l off rows) \<subseteq> set rows"
  unfolding page_window_def by (meson order_trans set_drop_subset set_take_subset)


section \<open>Decimal identifiers\<close>

definition digit_char :: "nat \<Rightarrow> char" where
  "digit_char n = char_of (48 + n)"

fun show_nat :: "nat \<Rightarrow> string" where
  "show_nat n = (if n < 10 then [digit_char n] else show_nat (n div 10) @ [digit_char (n mod 10)])"

declare show_nat.simps [simp del]

text \<open>The format \<open>{n:03d}\<close>.\<close>

definition pad3 :: "nat \<Rightarrow> string" where
  "pad3 n = replicate (3 - length (show_nat n)) (CHR ''0'') @ show_nat n"

definition read_digits :: "nat \<Rightarrow> string \<Rightarrow> nat" where
  "read_digits = foldl (\<lambda>acc c. 10 * acc + (of_char c - 48))"

lemma of_char_digit_char: "n < 10 \<Longrightarrow> (of_char (digit_char n) :: nat) = 48 + n"
  by (simp add: digit_char_def)

lemma read_digits_show_nat: "read_digits 0 (show_nat n) = n"
proof (induction n rule: show_nat.induct)
  case (1 n)
  show ?case
  proof (cases "n < 10")
    case True
    then show ?thesis
      by (simp add: show_nat.simps [of n] read_digits_def of_char_digit_char)
  next
    case False
    with "1.IH" show ?thesis
      by (simp add: show_nat.simps [of n] read_digits_def of_char_digit_char)
  qed
qed

lemma read_digits_zeros: "read_digits 0 (replicate k (CHR ''0'') @ s) = read_digits 0 s"
  by (induction k) (simp_all add: read_digits_def)

lemma read_digits_pad3: "read_digits 0 (pad3 n) = n"
  by (simp add: pad3_def read_digits_zeros read_digits_show_nat)

lemma pad3_inject [simp]: "pad3 m = pad3 n \<longleftrightarrow> m = n"
  by (metis read_digits_pad3)


text \<open>\<open>int(text)\<close>: blanks around, an optional sign, digits with single underscores between them.\<close>

definition is_digit :: "char \<Rightarrow> bool" where
  "is_digit c \<longleftrightarrow> (let n = (of_char c :: nat) in 48 \<le> n \<and> n \<le> 57)"

fun digits_ok :: "string \<Rightarrow> bool" where
  "digits_ok [] = False"
| "digits_ok [c] = is_digit c"
| "digits_ok (c # d # cs) = (is_digit c \<and> (if d = CHR ''_'' then digits_ok cs else digits_ok (d # cs)))"

definition unsigned_int :: "string \<Rightarrow> int option" where
  "unsigned_int s = (if digits_ok s then Some (int (read_digits 0 (filter is_digit s))) else None)"

definition int_of_text :: "string \<Rightarrow> int option" where
  "int_of_text s =
     (case strip s of
        c # cs \<Rightarrow> (if c = CHR ''-'' then map_option uminus (unsigned_int cs)
                   else if c = CHR ''+'' then unsigned_int cs else unsigned_int (c # cs))
      | [] \<Rightarrow> None)"


section \<open>Text of payloads\<close>

text \<open>
  \<open>repr\<close> and \<open>str\<close> of a payload. A text is quoted with single quotes unless it holds a single
  and no double quote; the quote in use, the backslash and the characters that are not
  printable are escaped. Application objects have a \<open>str\<close> of their own, given as an argument.
\<close>

definition hex_char :: "nat \<Rightarrow> char" where
  "hex_char n = char_of (if n < 10 then 48 + n else 87 + n)"

definition escape_char :: "char \<Rightarrow> char \<Rightarrow> string" where
  "escape_char q c =
     (let n = (of_char c :: nat); backslash = char_of (92 :: nat)
      in if c = q \<or> n = 92 then [backslash, c]
         else if n = 9 then [backslash, CHR ''t'']
         else if n = 10 then [backslash, CHR ''n'']
         else if n = 13 then [backslash, CHR ''r'']
         else if n < 32 \<or> (127 \<le> n \<and> n \<le> 160) \<or> n = 173
           then [backslash, CHR ''x'', hex_char (n div 16), hex_char (n mod 16)]
         else [c])"

definition repr_text :: "string \<Rightarrow> string" where
  "repr_text s =
     (let single = char_of (39 :: nat); double = char_of (34 :: nat);
          q = (if single \<in> set s \<and> double \<notin> set s then double else single)
      in q # concat (map (escape_char q) s) @ [q])"

text \<open>A text between single quotes, as in a formatted message.\<close>

definition quoted :: "string \<Rightarrow> string" where
  "quoted s = char_of (39 :: nat) # s @ [char_of (39 :: nat)]"

definition show_int :: "int \<Rightarrow> string" where
  "show_int i = (if i < 0 then CHR ''-'' # show_nat (nat (- i)) else show_nat (nat i))"

fun py_repr :: "('o \<Rightarrow> string) \<Rightarrow> 'o pyval \<Rightarrow> string" where
  "py_repr f PNone = ''None''"
| "py_repr f (PBool b) = (if b then ''True'' else ''False'')"
| "py_repr f (PInt i) = show_int i"
| "py_repr f (PStr s) = repr_text s"
| "py_repr f (PList vs) = ''['' @ join_text '', '' (map (py_repr f) vs) @ '']''"
| "py_repr f (PDict kvs) =
     CHR ''{'' # join_text '', '' (map (\<lambda>kv. repr_text (fst kv) @ '': '' @ py_repr f (snd kv)) kvs) @ [CHR ''}'']"
| "py_repr f (PObj x) = f x"

text \<open>\<open>bool(value)\<close>, and \<open>str(value or "").strip()\<close> of a JSON value.\<close>

fun py_true :: "'o pyval \<Rightarrow> bool" where
  "py_true PNone = False"
| "py_true (PBool b) = b"
| "py_true (PInt i) = (i \<noteq> 0)"
| "py_true (PStr s) = (s \<noteq> [])"
| "py_true (PList vs) = (vs \<noteq> [])"
| "py_true (PDict kvs) = (kvs \<noteq> [])"
| "py_true (PObj x) = True"

definition py_str :: "json \<Rightarrow> string" where
  "py_str v = (case v of PStr s \<Rightarrow> s | _ \<Rightarrow> py_repr (\<lambda>_. []) v)"

definition json_text :: "json \<Rightarrow> string" where
  "json_text v = (if py_true v then strip (py_str v) else [])"

lemma json_text_simps [simp]:
  "json_text PNone = []" "json_text (PStr s) = strip s"
  by (simp_all add: json_text_def py_str_def)


text \<open>\<open>int(value)\<close> of a JSON value; a value of another type raises.\<close>

definition json_int :: "json \<Rightarrow> int option" where
  "json_int v = (case v of PInt i \<Rightarrow> Some i | PStr s \<Rightarrow> int_of_text s | _ \<Rightarrow> None)"


section \<open>Time\<close>

text \<open>
  A point in time is a number of microseconds since the first day of year 1. \<open>fromisoformat\<close>
  is an argument of the operations that use it: it answers with a naive time, with an aware
  time and its offset from UTC, or with \<^const>\<open>None\<close> for its \<open>ValueError\<close>.
\<close>

datatype stamp =
    Naive int
  | Aware int int

type_synonym iso_reader = "string \<Rightarrow> stamp option"

definition normalize_utc :: "stamp \<Rightarrow> int" where
  "normalize_utc st = (case st of Naive t \<Rightarrow> t | Aware t off \<Rightarrow> t - off)"

definition replace_Z :: "string \<Rightarrow> string" where
  "replace_Z s = concat (map (\<lambda>c. if c = CHR ''Z'' then ''+00:00'' else [c]) s)"

definition is_aware :: "stamp \<Rightarrow> bool" where
  "is_aware st = (case st of Naive _ \<Rightarrow> False | Aware _ _ \<Rightarrow> True)"

text \<open>The comparison \<open>a < b\<close> of two times: a naive and an aware time raise \<open>TypeError\<close>.\<close>

definition earlier :: "stamp \<Rightarrow> stamp \<Rightarrow> bool option" where
  "earlier a b = (if is_aware a = is_aware b then Some (normalize_utc a < normalize_utc b) else None)"

section \<open>Lists\<close>

text \<open>An assignment to the first list element that satisfies a condition.\<close>

fun update_first :: "('a \<Rightarrow> bool) \<Rightarrow> ('a \<Rightarrow> 'a) \<Rightarrow> 'a list \<Rightarrow> 'a list" where
  "update_first P f [] = []"
| "update_first P f (x # xs) = (if P x then f x # xs else x # update_first P f xs)"

lemma map_update_first: "(\<And>x. g (f x) = g x) \<Longrightarrow> map g (update_first P f xs) = map g xs"
  by (induction xs) simp_all

lemma find_first: "find P xs = Some x \<Longrightarrow> x \<in> set xs \<and> P x"
  by (induction xs) (auto split: if_splits)

lemma find_update_first: "find P xs = Some x \<Longrightarrow> P (f x) \<Longrightarrow> find P (update_first P f xs) = Some (f x)"
  by (induction xs) (auto split: if_splits)

lemma find_update_first_other:
  "(\<And>x. P x \<Longrightarrow> \<not> Q x \<and> \<not> Q (f x)) \<Longrightarrow> find Q (update_first P f xs) = find Q xs"
  by (induction xs) auto

lemma set_update_first:
  assumes "distinct (map g xs)" and "find (\<lambda>x. g x = k) xs = Some x"
  shows "set (update_first (\<lambda>x. g x = k) f xs) = insert (f x) {y \<in> set xs. g y \<noteq> k}"
  using assms by (induction xs) (auto simp: image_iff split: if_splits)

lemma find_unique:
  assumes "distinct (map g xs)" and "x \<in> set xs"
  shows "find (\<lambda>y. g y = g x) xs = Some x"
  using assms by (induction xs) auto

lemma find_noneE: "find P xs = None \<Longrightarrow> x \<in> set xs \<Longrightarrow> \<not> P x"
  by (metis find_None_iff)

text \<open>Removing a set of present keys from rows with distinct keys.\<close>

lemma filter_keys_length:
  assumes "distinct (map f xs)" and "distinct ks" and "set ks \<subseteq> f ` set xs"
  shows "length (filter (\<lambda>x. f x \<notin> set ks) xs) = length xs - length ks"
proof -
  have inj: "inj_on f (set xs)" and dist: "distinct xs"
    using assms(1) by (simp_all add: distinct_map)
  have "f ` {x \<in> set xs. f x \<in> set ks} = set ks"
    using assms(3) by auto
  then have "card {x \<in> set xs. f x \<in> set ks} = length ks"
    using inj distinct_card [OF assms(2)] by (metis (no_types, lifting) card_image inj_on_subset mem_Collect_eq subsetI)
  then have "length (filter (\<lambda>x. f x \<in> set ks) xs) = length ks"
    using dist by (metis distinct_card distinct_filter set_filter)
  then show ?thesis
    using sum_length_filter_compl [of "\<lambda>x. f x \<in> set ks" xs] by simp
qed

lemma foldl_delete: "foldl (\<lambda>d k. AList.delete k d) d ks = filter (\<lambda>x. fst x \<notin> set ks) d"
  by (induction ks arbitrary: d) (auto simp: AList.delete_eq case_prod_unfold intro!: filter_cong)

lemma filter_compl_eq: "filter P xs = [] \<Longrightarrow> filter (\<lambda>x. \<not> P x) xs = xs"
  by (induction xs) (auto split: if_splits)

text \<open>The slice \<open>rows[start : stop]\<close>; a negative bound counts from the end.\<close>

definition slice_bound :: "int \<Rightarrow> 'a list \<Rightarrow> nat" where
  "slice_bound i rows = min (length rows) (nat (if i < 0 then max 0 (int (length rows) + i) else i))"

definition py_slice :: "int \<Rightarrow> int \<Rightarrow> 'a list \<Rightarrow> 'a list" where
  "py_slice start stop rows =
     drop (slice_bound start rows) (take (slice_bound stop rows) rows)"

lemma set_py_slice: "set (py_slice i j rows) \<subseteq> set rows"
  unfolding py_slice_def by (meson order_trans set_drop_subset set_take_subset)

text \<open>\<open>sorted(rows, key=k, reverse=True)\<close> keeps the order of rows with equal keys.\<close>

definition sort_desc :: "('a \<Rightarrow> 'k::linorder) \<Rightarrow> 'a list \<Rightarrow> 'a list" where
  "sort_desc k xs = rev (sort_key k (rev xs))"


section \<open>Preserved properties\<close>

text \<open>
  The contract of a component whose operations are the steps of a relation: a property of
  the state that each step keeps holds after every run.
\<close>

locale preserved =
  fixes step :: "'s \<Rightarrow> 's \<Rightarrow> bool" and inv :: "'s \<Rightarrow> bool"
  assumes keep: "inv s \<Longrightarrow> step s t \<Longrightarrow> inv t"
begin

lemma run: "step\<^sup>*\<^sup>* s t \<Longrightarrow> inv s \<Longrightarrow> inv t"
  by (induction rule: rtranclp_induct) (auto intro: keep)

end



end
