(* ===== verification/Status_Governance.thy ===== *)
theory Status_Governance
  imports DQ_Prelude
begin

text \<open>
  The status models of \<open>app/domain/status_governance.py\<close> and the policy loader of
  \<open>app/application/services/status_governance_policy_loader.py\<close>: five tables of statuses and
  transitions, the normalisation of status names, the policy overrides (the module's only
  state, here the argument \<open>ov\<close>), and the two transition checks.

  \<open>has_required_scope\<close> of \<open>app/core/auth_scopes.py\<close> only forwards to the scope resolver of the
  external package \<open>platform_auth\<close>; the resolver's \<open>has_any_scope\<close> is the argument \<open>has_any\<close>
  of the definitions that use it.
\<close>

section \<open>Status values and transitions\<close>

record status_value =
  sv_value :: string
  sv_label :: string
  sv_description :: "string option"
  sv_isInitial :: bool
  sv_isTerminal :: bool

record status_transition =
  fromStatus :: string
  toStatus :: string
  st_label :: string
  requiredAnyScopes :: "string list"

abbreviation status_val :: "string \<Rightarrow> string \<Rightarrow> string \<Rightarrow> bool \<Rightarrow> bool \<Rightarrow> status_value" where
  "status_val v l d i t \<equiv>
     \<lparr>sv_value = v, sv_label = l, sv_description = Some d, sv_isInitial = i, sv_isTerminal = t\<rparr>"

abbreviation transition :: "string \<Rightarrow> string \<Rightarrow> string \<Rightarrow> string list \<Rightarrow> status_transition" where
  "transition f t l r \<equiv> \<lparr>fromStatus = f, toStatus = t, st_label = l, requiredAnyScopes = r\<rparr>"

definition rule_status_values :: "status_value list" where
  "rule_status_values = [
     status_val ''draft'' ''Draft'' ''Rule has been authored but not tested'' True False,
     status_val ''testing'' ''Testing'' ''Tests are currently running'' False False,
     status_val ''tested'' ''Tested'' ''Rule has been tested and is ready for review'' False False,
     status_val ''pending-approval'' ''Pending Approval'' ''Awaiting reviewer decision'' False False,
     status_val ''approved'' ''Approved'' ''Approved and ready for activation'' False False,
     status_val ''activated'' ''Activated'' ''Rule is active in production'' False False,
     status_val ''deactivated'' ''Deactivated'' ''Rule was deactivated after approval'' False False,
     status_val ''removed'' ''Removed'' ''Rule was soft-deleted and can only be recovered by admin'' False False,
     status_val ''recovered'' ''Recovered'' ''Rule was recovered by admin and must re-enter approval flow'' False False,
     status_val ''rejected'' ''Rejected'' ''Rejected and requires rework'' False False]"

definition rule_status_transitions :: "status_transition list" where
  "rule_status_transitions = [
     transition ''draft'' ''testing'' ''Start Test'' [''dq:rules:test'', ''dq:rules:write''],
     transition ''testing'' ''tested'' ''Mark Tested'' [''dq:rules:test'', ''dq:rules:write''],
     transition ''tested'' ''pending-approval'' ''Submit for Approval'' [''dq:rules:create'', ''dq:rules:write''],
     transition ''draft'' ''pending-approval'' ''Submit for Approval'' [''dq:rules:create'', ''dq:rules:write''],
     transition ''rejected'' ''pending-approval'' ''Resubmit for Approval'' [''dq:rules:create'', ''dq:rules:write''],
     transition ''pending-approval'' ''approved'' ''Approve'' [''dq:rules:approve''],
     transition ''pending-approval'' ''rejected'' ''Reject'' [''dq:rules:approve''],
     transition ''approved'' ''activated'' ''Activate'' [''dq:rules:activate''],
     transition ''activated'' ''deactivated'' ''Deactivate'' [''dq:rules:approve''],
     transition ''deactivated'' ''draft'' ''Reopen'' [''dq:rules:edit'', ''dq:rules:write''],
     transition ''deactivated'' ''removed'' ''Remove'' [''dq:rules:delete'', ''dq:rules:write''],
     transition ''removed'' ''recovered'' ''Recover'' [''dq:users:manage''],
     transition ''recovered'' ''pending-approval'' ''Submit for Approval'' [''dq:rules:create'', ''dq:rules:write''],
     transition ''rejected'' ''draft'' ''Reopen'' [''dq:rules:edit'', ''dq:rules:write'']]"

definition rule_lifecycle_status_values :: "status_value list" where
  "rule_lifecycle_status_values = [
     status_val ''active'' ''Active'' ''Rule is available for continued use'' True False,
     status_val ''deprecated'' ''Deprecated'' ''Rule remains visible but should no longer be adopted for new use'' False False,
     status_val ''superseded'' ''Superseded'' ''Rule has been replaced by a newer governed alternative'' False False,
     status_val ''retired'' ''Retired'' ''Rule has been retired from governed use'' False True]"

definition rule_lifecycle_status_transitions :: "status_transition list" where
  "rule_lifecycle_status_transitions = [
     transition ''active'' ''deprecated'' ''Deprecate'' [''dq:rules:write''],
     transition ''active'' ''superseded'' ''Supersede'' [''dq:rules:write''],
     transition ''active'' ''retired'' ''Retire'' [''dq:rules:delete'', ''dq:rules:write''],
     transition ''deprecated'' ''active'' ''Reactivate'' [''dq:rules:write''],
     transition ''deprecated'' ''superseded'' ''Supersede'' [''dq:rules:write''],
     transition ''deprecated'' ''retired'' ''Retire'' [''dq:rules:delete'', ''dq:rules:write''],
     transition ''superseded'' ''retired'' ''Retire'' [''dq:rules:delete'', ''dq:rules:write'']]"

definition approval_status_values :: "status_value list" where
  "approval_status_values = [
     status_val ''pending'' ''Pending'' ''Approval request is waiting for review'' True False,
     status_val ''approved'' ''Approved'' ''Approval was accepted'' False True,
     status_val ''rejected'' ''Rejected'' ''Approval was rejected'' False True]"

definition approval_status_transitions :: "status_transition list" where
  "approval_status_transitions = [
     transition ''pending'' ''approved'' ''Approve'' [''dq:rules:approve''],
     transition ''pending'' ''rejected'' ''Reject'' [''dq:rules:approve'']]"

definition run_plan_status_values :: "status_value list" where
  "run_plan_status_values = [
     status_val ''inactive'' ''Inactive'' ''The plan version is not allowed to run'' True False,
     status_val ''activation-requested'' ''Activation Requested'' ''An activation approval has been requested; the plan remains inactive until it is approved'' False False,
     status_val ''active'' ''Active'' ''The plan version is allowed to run'' False False,
     status_val ''deactivation-requested'' ''Deactivation Requested'' ''A deactivation approval has been requested; the plan remains active until it is approved'' False False,
     status_val ''deactivated'' ''Deactivated'' ''The plan version is no longer allowed to run'' False True]"

definition run_plan_status_transitions :: "status_transition list" where
  "run_plan_status_transitions = [
     transition ''inactive'' ''activation-requested'' ''Request Activation'' [''dq:rules:write''],
     transition ''draft'' ''activation-requested'' ''Request Activation'' [''dq:rules:write''],
     transition ''activation-requested'' ''active'' ''Approve Activation'' [''dq:rules:approve''],
     transition ''activation-requested'' ''inactive'' ''Reject Activation'' [''dq:rules:approve''],
     transition ''active'' ''deactivation-requested'' ''Request Deactivation'' [''dq:rules:write''],
     transition ''deactivation-requested'' ''deactivated'' ''Approve Deactivation'' [''dq:rules:approve''],
     transition ''deactivation-requested'' ''active'' ''Reject Deactivation'' [''dq:rules:approve'']]"

definition connector_sync_job_status_values :: "status_value list" where
  "connector_sync_job_status_values = [
     status_val ''queued'' ''Queued'' ''Connector metadata sync job has been accepted and is waiting to start'' True False,
     status_val ''running'' ''Running'' ''Connector metadata sync job is currently running'' False False,
     status_val ''completed'' ''Completed'' ''Connector metadata sync job completed successfully'' False True,
     status_val ''failed'' ''Failed'' ''Connector metadata sync job failed'' False True,
     status_val ''cancelled'' ''Cancelled'' ''Connector metadata sync job was cancelled before completion'' False True]"

definition connector_sync_job_status_transitions :: "status_transition list" where
  "connector_sync_job_status_transitions = [
     transition ''queued'' ''running'' ''Start Sync'' [],
     transition ''queued'' ''failed'' ''Fail Sync'' [],
     transition ''queued'' ''cancelled'' ''Cancel Sync'' [],
     transition ''running'' ''completed'' ''Complete Sync'' [],
     transition ''running'' ''failed'' ''Fail Sync'' [],
     transition ''running'' ''cancelled'' ''Cancel Sync'' []]"


type_synonym status_model = "status_value list \<times> status_transition list"
type_synonym policy_overrides = "(string, status_transition list) dict"
type_synonym scope_check = "string list \<Rightarrow> string list \<Rightarrow> bool"

definition status_models :: "(string, status_model) dict" where
  "status_models = [
     (''rule'', (rule_status_values, rule_status_transitions)),
     (''rule_lifecycle'', (rule_lifecycle_status_values, rule_lifecycle_status_transitions)),
     (''approval'', (approval_status_values, approval_status_transitions)),
     (''run_plan'', (run_plan_status_values, run_plan_status_transitions)),
     (''connector_sync_job'', (connector_sync_job_status_values, connector_sync_job_status_transitions))]"


section \<open>Normalisation of status names\<close>

definition normalize_status_value :: "string option \<Rightarrow> string" where
  "normalize_status_value v = replace_char (CHR ''_'') (CHR ''-'') (lower (strip (text_of v)))"

definition canonicalize_status_value :: "string \<Rightarrow> string option \<Rightarrow> string" where
  "canonicalize_status_value entity status =
     (let normalized_entity = lower (strip entity);
          normalized_status = normalize_status_value status
      in if normalized_entity = ''rule'' \<and> normalized_status = ''pending'' then ''pending-approval''
         else if normalized_entity = ''rule'' \<and> normalized_status = ''declined'' then ''rejected''
         else if normalized_entity = ''approval'' \<and> normalized_status = ''declined'' then ''rejected''
         else normalized_status)"

definition normalize_status :: "string option \<Rightarrow> string" where
  "normalize_status v = normalize_status_value v"

definition canonicalize_status :: "string \<Rightarrow> string option \<Rightarrow> string" where
  "canonicalize_status entity status = canonicalize_status_value entity status"


section \<open>Transition checks\<close>

text \<open>Whether a transition of the table joins the two canonical statuses.\<close>

definition matches_transition :: "string \<Rightarrow> string \<Rightarrow> string \<Rightarrow> status_transition \<Rightarrow> bool" where
  "matches_transition entity from_status to_status tr \<longleftrightarrow>
     canonicalize_status_value entity (Some (fromStatus tr)) = canonicalize_status_value entity (Some from_status) \<and>
     canonicalize_status_value entity (Some (toStatus tr)) = canonicalize_status_value entity (Some to_status)"

fun is_transition_defined_for_entity ::
  "string \<Rightarrow> string \<Rightarrow> string \<Rightarrow> status_transition list \<Rightarrow> bool" where
  "is_transition_defined_for_entity entity from_status to_status [] = False"
| "is_transition_defined_for_entity entity from_status to_status (tr # trs) =
     (if matches_transition entity from_status to_status tr then True
      else is_transition_defined_for_entity entity from_status to_status trs)"

definition has_required_scope :: "scope_check \<Rightarrow> string list \<Rightarrow> string list \<Rightarrow> bool" where
  "has_required_scope has_any granted required = has_any granted required"

text \<open>The first matching row decides; its scopes are not combined with those of later rows.\<close>

fun is_transition_allowed_for_entity ::
  "scope_check \<Rightarrow> string \<Rightarrow> string \<Rightarrow> string \<Rightarrow> status_transition list \<Rightarrow> string list \<Rightarrow> bool" where
  "is_transition_allowed_for_entity has_any entity from_status to_status [] granted = False"
| "is_transition_allowed_for_entity has_any entity from_status to_status (tr # trs) granted =
     (if \<not> matches_transition entity from_status to_status tr
      then is_transition_allowed_for_entity has_any entity from_status to_status trs granted
      else requiredAnyScopes tr = [] \<or> has_required_scope has_any granted (requiredAnyScopes tr))"

text \<open>One turn of the grouping loop, and the loop.\<close>

definition add_allowed_target ::
  "scope_check \<Rightarrow> string list \<Rightarrow> (string, string list) dict \<Rightarrow> status_transition \<Rightarrow> (string, string list) dict" where
  "add_allowed_target has_any granted grouped tr =
     (if requiredAnyScopes tr \<noteq> [] \<and> \<not> has_required_scope has_any granted (requiredAnyScopes tr)
      then grouped
      else (let targets = dict_get grouped (fromStatus tr) []
            in AList.update (fromStatus tr)
                 (if toStatus tr \<in> set targets then targets else targets @ [toStatus tr]) grouped))"

definition build_allowed_transitions_by_status ::
  "scope_check \<Rightarrow> status_transition list \<Rightarrow> string list \<Rightarrow> (string, string list) dict" where
  "build_allowed_transitions_by_status has_any trs granted = foldl (add_allowed_target has_any granted) [] trs"

definition build_allowed_transitions_by_status_map ::
  "scope_check \<Rightarrow> status_transition list \<Rightarrow> string list \<Rightarrow> (string, string list) dict" where
  "build_allowed_transitions_by_status_map has_any trs granted =
     build_allowed_transitions_by_status has_any trs granted"

definition get_supported_status_model_entities :: "string set" where
  "get_supported_status_model_entities = set (map fst status_models)"

definition get_status_model_definition :: "policy_overrides \<Rightarrow> string \<Rightarrow> status_model option" where
  "get_status_model_definition ov entity =
     (let normalized_entity = lower (strip entity)
      in case map_of status_models normalized_entity of
           None \<Rightarrow> None
         | Some (statuses, default_transitions) \<Rightarrow>
             Some (statuses, dict_get ov normalized_entity default_transitions))"

definition set_status_model_policy_overrides ::
  "policy_overrides option \<Rightarrow> policy_overrides \<Rightarrow> policy_overrides" where
  "set_status_model_policy_overrides policy ov =
     (case policy of None \<Rightarrow> [] | Some p \<Rightarrow> foldl (\<lambda>acc (k, v). AList.update k v acc) [] p)"

definition is_transition_defined :: "policy_overrides \<Rightarrow> string \<Rightarrow> string \<Rightarrow> string \<Rightarrow> bool" where
  "is_transition_defined ov entity from_status to_status =
     (case get_status_model_definition ov entity of
        None \<Rightarrow> False
      | Some (_, trs) \<Rightarrow> is_transition_defined_for_entity entity from_status to_status trs)"

definition is_transition_allowed ::
  "scope_check \<Rightarrow> policy_overrides \<Rightarrow> string \<Rightarrow> string \<Rightarrow> string \<Rightarrow> string list \<Rightarrow> bool" where
  "is_transition_allowed has_any ov entity from_status to_status granted =
     (case get_status_model_definition ov entity of
        None \<Rightarrow> False
      | Some (_, trs) \<Rightarrow> is_transition_allowed_for_entity has_any entity from_status to_status trs granted)"


section \<open>Policy loader\<close>

datatype policy_error =
    TransitionsMustBeObjects
  | InvalidTransition
  | PolicyMustBeObject
  | EntityNotSupported string
  | EntityMustBeObject string
  | UnsupportedKeys string "string list"
  | TransitionsMustBeList string

text \<open>
  The configuration the policy is read from: absent, an object with a \<open>statusGovernance\<close>
  attribute, a mapping, or anything else. Transition definitions that are already objects
  travel inside a payload as \<^const>\<open>PObj\<close>.
\<close>

type_synonym policy_val = "status_transition pyval"

datatype policy_source =
    NoSource
  | ObjectSource policy_val
  | MappingSource "(string \<times> policy_val) list"
  | OtherSource

definition extract_status_governance_payload :: "policy_source \<Rightarrow> policy_val option" where
  "extract_status_governance_payload src =
     (let given = (\<lambda>v. if v = PNone then None else Some v) in
      case src of
        NoSource \<Rightarrow> None
      | ObjectSource v \<Rightarrow> given v
      | MappingSource m \<Rightarrow>
          (case map_of m ''statusGovernance'' of
             Some v \<Rightarrow> given v
           | None \<Rightarrow> (case map_of m ''status_governance'' of Some v \<Rightarrow> given v | None \<Rightarrow> None))
      | OtherSource \<Rightarrow> None)"

fun all_texts :: "policy_val list \<Rightarrow> string list option" where
  "all_texts [] = Some []"
| "all_texts (PStr s # vs) = map_option (\<lambda>ss. s # ss) (all_texts vs)"
| "all_texts (_ # vs) = None"

text \<open>
  \<open>StatusTransitionDefinition.model_validate\<close>: three text fields and a list of texts, anything
  else is a validation error (a \<open>ValueError\<close>).
\<close>

definition validate_transition ::
  "policy_val \<Rightarrow> policy_val \<Rightarrow> policy_val \<Rightarrow> policy_val \<Rightarrow> policy_error + status_transition" where
  "validate_transition f t l r =
     (case (f, t, l, r) of
        (PStr f', PStr t', PStr l', PList rs) \<Rightarrow>
          (case all_texts rs of
             None \<Rightarrow> Inl InvalidTransition
           | Some rs' \<Rightarrow> Inr (transition f' t' l' rs'))
      | _ \<Rightarrow> Inl InvalidTransition)"

definition normalize_status_transition_definition :: "policy_val \<Rightarrow> policy_error + status_transition" where
  "normalize_status_transition_definition v =
     (case v of
        PDict m \<Rightarrow>
          validate_transition
            (dict_get m ''fromStatus'' (pget m ''from_status''))
            (dict_get m ''toStatus'' (pget m ''to_status''))
            (pget m ''label'')
            (dict_get m ''requiredAnyScopes'' (dict_get m ''required_any_scopes'' (PList [])))
      | PObj tr \<Rightarrow> Inr tr
      | _ \<Rightarrow> Inl TransitionsMustBeObjects)"

fun normalize_all :: "policy_val list \<Rightarrow> policy_error + status_transition list" where
  "normalize_all [] = Inr []"
| "normalize_all (v # vs) =
     (case normalize_status_transition_definition v of
        Inl e \<Rightarrow> Inl e
      | Inr tr \<Rightarrow> (case normalize_all vs of Inl e \<Rightarrow> Inl e | Inr trs \<Rightarrow> Inr (tr # trs)))"

fun build_status_model_policy_overrides_loop ::
  "policy_overrides \<Rightarrow> (string \<times> policy_val) list \<Rightarrow> policy_error + policy_overrides" where
  "build_status_model_policy_overrides_loop acc [] = Inr acc"
| "build_status_model_policy_overrides_loop acc ((entity_key, entity_policy) # rest) =
     (let entity = lower (strip entity_key)
      in if entity \<notin> get_supported_status_model_entities then Inl (EntityNotSupported entity_key)
         else case entity_policy of
           PNone \<Rightarrow> build_status_model_policy_overrides_loop acc rest
         | PDict m \<Rightarrow>
             (let unexpected = sorted_list_of_set (set (map fst m) - {''transitions''})
              in if unexpected \<noteq> [] then Inl (UnsupportedKeys entity unexpected)
                 else case pget m ''transitions'' of
                   PNone \<Rightarrow> build_status_model_policy_overrides_loop acc rest
                 | PList vs \<Rightarrow>
                     (case normalize_all vs of
                        Inl e \<Rightarrow> Inl e
                      | Inr trs \<Rightarrow> build_status_model_policy_overrides_loop (AList.update entity trs acc) rest)
                 | _ \<Rightarrow> Inl (TransitionsMustBeList entity))
         | _ \<Rightarrow> Inl (EntityMustBeObject entity))"

definition build_status_model_policy_overrides :: "policy_val \<Rightarrow> policy_error + policy_overrides" where
  "build_status_model_policy_overrides raw =
     (case raw of
        PDict m \<Rightarrow> build_status_model_policy_overrides_loop [] m
      | _ \<Rightarrow> Inl PolicyMustBeObject)"

text \<open>The new overrides, or the error; the overrides in force are unchanged on an error.\<close>

definition set_status_model_policy_from_source ::
  "policy_source \<Rightarrow> policy_overrides \<Rightarrow> policy_error + policy_overrides" where
  "set_status_model_policy_from_source src ov =
     (case extract_status_governance_payload src of
        None \<Rightarrow> Inr (set_status_model_policy_overrides None ov)
      | Some raw \<Rightarrow>
          (case build_status_model_policy_overrides raw of
             Inl e \<Rightarrow> Inl e
           | Inr policy \<Rightarrow> Inr (set_status_model_policy_overrides (Some policy) ov)))"


section \<open>Facts about normalisation and the checks\<close>

lemma not_space_status_chars [simp]: "\<not> is_space (CHR ''_'')" "\<not> is_space (CHR ''-'')"
  by (simp_all add: is_space_def)

lemma lower_char_dash [simp]: "lower_char (CHR ''-'') = CHR ''-''"
  by (simp add: lower_char_def)

lemma lower_replace_underscore:
  "lower (replace_char (CHR ''_'') (CHR ''-'') (lower s)) = replace_char (CHR ''_'') (CHR ''-'') (lower s)"
  by (auto simp: lower_def replace_char_def)

lemma normalize_status_value_idem [simp]:
  "normalize_status_value (Some (normalize_status_value v)) = normalize_status_value v"
  by (simp add: normalize_status_value_def strip_replace_char strip_lower lower_replace_underscore)

lemma normalize_literals:
  "normalize_status_value (Some ''pending-approval'') = ''pending-approval''"
  "normalize_status_value (Some ''rejected'') = ''rejected''"
  by (simp_all add: normalize_status_value_def strip_def is_space_def lower_def lower_char_def replace_char_def)

lemma canonicalize_idem [simp]:
  "canonicalize_status_value e (Some (canonicalize_status_value e v)) = canonicalize_status_value e v"
  by (simp add: canonicalize_status_value_def Let_def normalize_literals)

lemma defined_iff:
  "is_transition_defined_for_entity e f t trs \<longleftrightarrow> (\<exists>tr \<in> set trs. matches_transition e f t tr)"
  by (induction trs) auto

lemma allowed_for_entity_imp_defined:
  "is_transition_allowed_for_entity has_any e f t trs granted \<Longrightarrow> is_transition_defined_for_entity e f t trs"
  by (induction trs) (auto split: if_splits)

lemma matches_canonical:
  "matches_transition e (canonicalize_status_value e (Some f)) (canonicalize_status_value e (Some t)) tr
     = matches_transition e f t tr"
  by (simp add: matches_transition_def)

text \<open>A table whose names are canonical: matching is then equality of canonical names.\<close>

definition canonical_table :: "string \<Rightarrow> status_transition list \<Rightarrow> bool" where
  "canonical_table e trs \<longleftrightarrow>
     list_all (\<lambda>tr. canonicalize_status_value e (Some (fromStatus tr)) = fromStatus tr \<and>
                    canonicalize_status_value e (Some (toStatus tr)) = toStatus tr) trs"

definition table_edges :: "status_transition list \<Rightarrow> (string \<times> string) list" where
  "table_edges trs = map (\<lambda>tr. (fromStatus tr, toStatus tr)) trs"

lemma canonical_tables:
  "canonical_table ''rule'' rule_status_transitions"
  "canonical_table ''rule_lifecycle'' rule_lifecycle_status_transitions"
  "canonical_table ''approval'' approval_status_transitions"
  "canonical_table ''run_plan'' run_plan_status_transitions"
  "canonical_table ''connector_sync_job'' connector_sync_job_status_transitions"
  by (simp_all add: canonical_table_def canonicalize_status_value_def normalize_status_value_def
      strip_def is_space_def lower_def lower_char_def replace_char_def
      rule_status_transitions_def rule_lifecycle_status_transitions_def approval_status_transitions_def
      run_plan_status_transitions_def connector_sync_job_status_transitions_def)

lemma distinct_edges:
  "distinct (table_edges rule_status_transitions)"
  "distinct (table_edges rule_lifecycle_status_transitions)"
  "distinct (table_edges approval_status_transitions)"
  "distinct (table_edges run_plan_status_transitions)"
  "distinct (table_edges connector_sync_job_status_transitions)"
  by (simp_all add: table_edges_def rule_status_transitions_def rule_lifecycle_status_transitions_def
      approval_status_transitions_def run_plan_status_transitions_def connector_sync_job_status_transitions_def)

lemma defined_canonical_table:
  assumes "canonical_table e trs"
  shows "is_transition_defined_for_entity e f t trs \<longleftrightarrow>
           (canonicalize_status_value e (Some f), canonicalize_status_value e (Some t)) \<in> set (table_edges trs)"
  using assms
  by (force simp: defined_iff matches_transition_def canonical_table_def table_edges_def list_all_iff)

lemma entity_literals [simp]:
  "lower (strip ''rule'') = ''rule''" "lower (strip ''rule_lifecycle'') = ''rule_lifecycle''"
  "lower (strip ''approval'') = ''approval''" "lower (strip ''run_plan'') = ''run_plan''"
  "lower (strip ''connector_sync_job'') = ''connector_sync_job''"
  by (simp_all add: strip_def is_space_def lower_def lower_char_def)

lemma default_definitions:
  "get_status_model_definition [] ''rule'' = Some (rule_status_values, rule_status_transitions)"
  "get_status_model_definition [] ''rule_lifecycle'' = Some (rule_lifecycle_status_values, rule_lifecycle_status_transitions)"
  "get_status_model_definition [] ''approval'' = Some (approval_status_values, approval_status_transitions)"
  "get_status_model_definition [] ''run_plan'' = Some (run_plan_status_values, run_plan_status_transitions)"
  "get_status_model_definition [] ''connector_sync_job'' =
     Some (connector_sync_job_status_values, connector_sync_job_status_transitions)"
  by (simp_all add: get_status_model_definition_def status_models_def dict_get_def)


section \<open>Interfaces of a status graph\<close>

text \<open>
  A consumer of a status model relies on two kinds of guarantee: a status that can be entered
  only from given statuses, and a status that is never left. \<open>cls\<close> is the canonical name of a
  status; a path is a list of raw statuses joined by defined transitions.
\<close>

locale entry_gate =
  fixes step :: "'s \<Rightarrow> 's \<Rightarrow> bool" and cls :: "'s \<Rightarrow> 'c" and tgt :: 'c and pres :: "'c set"
  assumes entry: "step s t \<Longrightarrow> cls t = tgt \<Longrightarrow> cls s \<in> pres"
begin

lemma path_entry:
  assumes "successively step p" and "2 \<le> length p" and "cls (last p) = tgt"
  obtains r s t where "p = r @ [s, t]" and "cls s \<in> pres" and "cls t = tgt"
proof -
  obtain q t where p: "p = q @ [t]"
    using assms(2) by (cases p rule: rev_cases) auto
  moreover from p assms(2) obtain r s where r: "q = r @ [s]"
    by (cases q rule: rev_cases) auto
  moreover from assms(1) p r have "step s t" by (simp add: successively_append_iff)
  moreover from assms(3) p have "cls t = tgt" by simp
  ultimately show ?thesis using entry by (intro that [of r s t]) auto
qed

end

locale absorbing_status =
  fixes step :: "'s \<Rightarrow> 's \<Rightarrow> bool" and cls :: "'s \<Rightarrow> 'c" and fin :: 'c
  assumes stuck: "cls s = fin \<Longrightarrow> \<not> step s t"
begin

lemma path_stops:
  assumes "successively step (s # p)" and "cls s = fin"
  shows "p = []"
  using assms stuck by (cases p) auto

lemma only_last:
  assumes "successively step p" and "i < length p" and "cls (p ! i) = fin"
  shows "Suc i = length p"
proof (rule ccontr)
  assume "Suc i \<noteq> length p"
  with assms(2) have "Suc i < length p" by simp
  with assms(1) have "step (p ! i) (p ! Suc i)" by (simp add: successively_conv_nth)
  with assms(3) stuck show False by blast
qed

end

abbreviation rule_step :: "string \<Rightarrow> string \<Rightarrow> bool" where
  "rule_step \<equiv> is_transition_defined [] ''rule''"

abbreviation canon :: "string \<Rightarrow> string \<Rightarrow> string" where
  "canon e s \<equiv> canonicalize_status_value e (Some s)"

lemmas default_step_simps =
  is_transition_defined_def default_definitions defined_canonical_table canonical_tables

lemmas default_table_defs =
  table_edges_def rule_status_transitions_def rule_lifecycle_status_transitions_def
  approval_status_transitions_def run_plan_status_transitions_def connector_sync_job_status_transitions_def

lemma default_step_edges:
  "is_transition_defined [] ''rule'' f t \<longleftrightarrow> (canon ''rule'' f, canon ''rule'' t) \<in> set (table_edges rule_status_transitions)"
  "is_transition_defined [] ''rule_lifecycle'' f t \<longleftrightarrow>
     (canon ''rule_lifecycle'' f, canon ''rule_lifecycle'' t) \<in> set (table_edges rule_lifecycle_status_transitions)"
  "is_transition_defined [] ''approval'' f t \<longleftrightarrow>
     (canon ''approval'' f, canon ''approval'' t) \<in> set (table_edges approval_status_transitions)"
  "is_transition_defined [] ''run_plan'' f t \<longleftrightarrow>
     (canon ''run_plan'' f, canon ''run_plan'' t) \<in> set (table_edges run_plan_status_transitions)"
  "is_transition_defined [] ''connector_sync_job'' f t \<longleftrightarrow>
     (canon ''connector_sync_job'' f, canon ''connector_sync_job'' t) \<in> set (table_edges connector_sync_job_status_transitions)"
  by (simp_all add: default_step_simps)

interpretation activated_gate: entry_gate rule_step "canon ''rule''" "''activated''" "{''approved''}"
  by unfold_locales (auto simp: default_step_edges default_table_defs)

interpretation approved_gate: entry_gate rule_step "canon ''rule''" "''approved''" "{''pending-approval''}"
  by unfold_locales (auto simp: default_step_edges default_table_defs)

interpretation removed_gate: entry_gate rule_step "canon ''rule''" "''removed''" "{''deactivated''}"
  by unfold_locales (auto simp: default_step_edges default_table_defs)

interpretation run_plan_active_gate: entry_gate "is_transition_defined [] ''run_plan''" "canon ''run_plan''"
    "''active''" "{''activation-requested'', ''deactivation-requested''}"
  by unfold_locales (auto simp: default_step_edges default_table_defs)

interpretation retired: absorbing_status "is_transition_defined [] ''rule_lifecycle''" "canon ''rule_lifecycle''" "''retired''"
  by unfold_locales (auto simp: default_step_edges default_table_defs)

interpretation plan_deactivated: absorbing_status "is_transition_defined [] ''run_plan''" "canon ''run_plan''" "''deactivated''"
  by unfold_locales (auto simp: default_step_edges default_table_defs)

lemma activation_path:
  assumes path: "successively rule_step p" and len: "2 \<le> length p"
    and start: "canon ''rule'' (hd p) \<notin> {''approved'', ''pending-approval''}"
    and goal: "canon ''rule'' (last p) = ''activated''"
  shows "\<exists>ys. map (canon ''rule'') p = ys @ [''pending-approval'', ''approved'', ''activated'']"
proof -
  obtain q s t where p: "p = q @ [s, t]" and s: "canon ''rule'' s \<in> {''approved''}"
    by (rule activated_gate.path_entry [OF path len goal])
  have q: "q \<noteq> []" using start p s by auto
  have path': "successively rule_step (q @ [s])"
    using path p successively_append_iff [of rule_step "q @ [s]" "[t]"] by simp
  have len': "2 \<le> length (q @ [s])" using q by (cases q) auto
  have goal': "canon ''rule'' (last (q @ [s])) = ''approved''" using s by simp
  obtain r u v where r: "q @ [s] = r @ [u, v]" and "canon ''rule'' u \<in> {''pending-approval''}"
    by (rule approved_gate.path_entry [OF path' len' goal'])
  moreover from r have "q = r @ [u]" using append1_eq_conv [of q s "r @ [u]" v] by simp
  ultimately have "map (canon ''rule'') p = map (canon ''rule'') r @ [''pending-approval'', ''approved'', ''activated'']"
    using p s goal by simp
  then show ?thesis by (rule exI [where x = "map (canon ''rule'') r"])
qed

text \<open>What the grouping loop computes: the targets of the rows whose scopes are satisfied.\<close>

definition scope_ok :: "scope_check \<Rightarrow> string list \<Rightarrow> status_transition \<Rightarrow> bool" where
  "scope_ok has_any granted tr \<longleftrightarrow>
     requiredAnyScopes tr = [] \<or> has_required_scope has_any granted (requiredAnyScopes tr)"

lemma add_allowed_target_mem:
  "x \<in> set (dict_get (add_allowed_target has_any granted d tr) f []) \<longleftrightarrow>
     x \<in> set (dict_get d f []) \<or> (scope_ok has_any granted tr \<and> fromStatus tr = f \<and> toStatus tr = x)"
  by (auto simp: add_allowed_target_def scope_ok_def Let_def)

lemma foldl_allowed_mem:
  "x \<in> set (dict_get (foldl (add_allowed_target has_any granted) d trs) f []) \<longleftrightarrow>
     x \<in> set (dict_get d f []) \<or>
     (\<exists>tr \<in> set trs. scope_ok has_any granted tr \<and> fromStatus tr = f \<and> toStatus tr = x)"
  by (induction trs arbitrary: d) (auto simp: add_allowed_target_mem)

lemma allowed_distinct_table:
  assumes "canonical_table e trs" and "distinct (table_edges trs)"
  shows "is_transition_allowed_for_entity has_any e f t trs granted \<longleftrightarrow>
     (\<exists>tr \<in> set trs. scope_ok has_any granted tr \<and> fromStatus tr = canon e f \<and> toStatus tr = canon e t)"
  using assms
proof (induction trs)
  case (Cons tr trs)
  then have IH: "is_transition_allowed_for_entity has_any e f t trs granted \<longleftrightarrow>
     (\<exists>tr \<in> set trs. scope_ok has_any granted tr \<and> fromStatus tr = canon e f \<and> toStatus tr = canon e t)"
    by (simp add: canonical_table_def table_edges_def)
  have m: "matches_transition e f t tr \<longleftrightarrow> fromStatus tr = canon e f \<and> toStatus tr = canon e t"
    using Cons.prems(1) by (auto simp: canonical_table_def matches_transition_def)
  have "matches_transition e f t tr \<Longrightarrow> tr' \<in> set trs \<Longrightarrow>
      \<not> (fromStatus tr' = canon e f \<and> toStatus tr' = canon e t)" for tr'
    using Cons.prems(2) m by (force simp: table_edges_def)
  with IH m show ?case by (auto simp: scope_ok_def)
qed simp

lemma allowed_map_agrees:
  assumes "canonical_table e trs" and "distinct (table_edges trs)"
  shows "canon e t \<in> set (dict_get (build_allowed_transitions_by_status has_any trs granted) (canon e f) [])
     \<longleftrightarrow> is_transition_allowed_for_entity has_any e f t trs granted"
  unfolding allowed_distinct_table [OF assms] build_allowed_transitions_by_status_def foldl_allowed_mem
  by (simp add: dict_get_def)

text \<open>The loader accepts only the entities of the status models.\<close>

lemma build_loop_entities:
  "build_status_model_policy_overrides_loop acc m = Inr policy \<Longrightarrow>
   fst ` set acc \<subseteq> get_supported_status_model_entities \<Longrightarrow>
   fst ` set policy \<subseteq> get_supported_status_model_entities"
  by (induction acc m rule: build_status_model_policy_overrides_loop.induct)
     (auto simp: Let_def split: if_splits pyval.splits sum.splits)

lemma foldl_update_map_of:
  "dict_wf p \<Longrightarrow> map_of (foldl (\<lambda>acc (k, v). AList.update k v acc) d p) = map_of d ++ map_of p"
  by (induction p arbitrary: d) (force simp: fun_eq_iff map_add_def split: option.split)+

lemma build_loop_wf:
  "build_status_model_policy_overrides_loop acc m = Inr policy \<Longrightarrow> dict_wf acc \<Longrightarrow> dict_wf policy"
  by (induction acc m rule: build_status_model_policy_overrides_loop.induct)
     (auto simp: Let_def split: if_splits pyval.splits sum.splits)


lemma build_loop_frame:
  "build_status_model_policy_overrides_loop acc m = Inr policy \<Longrightarrow>
   e \<notin> (\<lambda>(k, v). lower (strip k)) ` set m \<Longrightarrow> map_of policy e = map_of acc e"
  by (induction acc m rule: build_status_model_policy_overrides_loop.induct)
     (auto simp: Let_def split: if_splits pyval.splits sum.splits)

lemma build_loop_stores:
  assumes "build_status_model_policy_overrides_loop acc m = Inr policy"
    and "distinct (map (\<lambda>(k, v). lower (strip k)) m)"
    and "(k, PDict [(''transitions'', PList vs)]) \<in> set m" and "normalize_all vs = Inr trs"
  shows "map_of policy (lower (strip k)) = Some trs"
  using assms
proof (induction acc m rule: build_status_model_policy_overrides_loop.induct)
  case (2 acc key pol rest)
  show ?case
  proof (cases "(key, pol) = (k, PDict [(''transitions'', PList vs)])")
    case True
    then have "build_status_model_policy_overrides_loop (AList.update (lower (strip k)) trs acc) rest = Inr policy"
      using "2.prems" by (auto simp: Let_def pget_def dict_get_def split: if_splits)
    moreover have "lower (strip k) \<notin> (\<lambda>(k, v). lower (strip k)) ` set rest"
      using True "2.prems"(2) by auto
    ultimately show ?thesis using build_loop_frame by fastforce
  next
    case False
    with "2" show ?thesis
      by (auto simp: Let_def split: if_splits pyval.splits sum.splits)
  qed
qed simp

lemma status_models_cases:
  assumes "(e, vals, trs) \<in> set status_models"
  shows "canonical_table e trs" "distinct (table_edges trs)" "get_status_model_definition [] e = Some (vals, trs)"
  using assms unfolding status_models_def
  by (auto simp: canonical_tables distinct_edges default_definitions)

lemma terminal_status_models:
  "list_all (\<lambda>(e, vals, trs). list_all (\<lambda>v. sv_isTerminal v \<longrightarrow>
      sv_value v \<notin> set (map fromStatus trs)) vals) status_models"
  by (simp add: status_models_def rule_status_values_def rule_lifecycle_status_values_def
      approval_status_values_def run_plan_status_values_def connector_sync_job_status_values_def
      rule_status_transitions_def rule_lifecycle_status_transitions_def approval_status_transitions_def
      run_plan_status_transitions_def connector_sync_job_status_transitions_def)


section \<open>Properties\<close>

text \<open>
  C3: Under the default policy every run of a rule from a status before approval to
  \<open>activated\<close> ends with \<open>pending-approval\<close>, \<open>approved\<close>, \<open>activated\<close>: no chain of defined
  transitions activates a rule that was not submitted and approved directly before.
\<close>

theorem rule_activation_requires_approval:
  assumes "successively (is_transition_defined [] ''rule'') p" and "2 \<le> length p"
    and "canonicalize_status ''rule'' (Some (hd p)) \<notin> {''approved'', ''pending-approval''}"
    and "canonicalize_status ''rule'' (Some (last p)) = ''activated''"
  shows "\<exists>ys. map (\<lambda>s. canonicalize_status ''rule'' (Some s)) p
              = ys @ [''pending-approval'', ''approved'', ''activated'']"
  using activation_path [OF assms(1,2)] assms(3,4) by (simp add: canonicalize_status_def)

lemma rule_activation_requires_approval_witness:
  "\<exists>ys. map (\<lambda>s. canonicalize_status ''rule'' (Some s)) [''draft'', '' Pending'', ''approved'', ''ACTIVATED'']
        = ys @ [''pending-approval'', ''approved'', ''activated'']"
  by (rule rule_activation_requires_approval)
     (simp_all add: default_step_edges default_table_defs canonicalize_status_def canonicalize_status_value_def
        normalize_status_value_def text_eval)

text \<open>
  C38: The map of allowed transitions that is shown to a user and the check that is enforced
  agree for each of the five default models: a target is listed under a status exactly when
  the transition is allowed for the granted scopes, whatever the scope resolver.
\<close>

theorem allowed_transitions_map_agrees_with_check:
  assumes "(e, vals, trs) \<in> set status_models"
  shows "canonicalize_status e (Some t)
           \<in> set (dict_get (build_allowed_transitions_by_status_map has_any trs granted)
                    (canonicalize_status e (Some f)) [])
         \<longleftrightarrow> is_transition_allowed has_any [] e f t granted"
  using allowed_map_agrees [OF status_models_cases(1,2) [OF assms]] status_models_cases(3) [OF assms]
  by (simp add: build_allowed_transitions_by_status_map_def canonicalize_status_def is_transition_allowed_def)

lemma allowed_transitions_map_agrees_with_check_witness:
  "canonicalize_status ''approval'' (Some ''approved'')
     \<in> set (dict_get (build_allowed_transitions_by_status_map (\<lambda>g r. set g \<inter> set r \<noteq> {}) approval_status_transitions [''dq:rules:approve''])
              (canonicalize_status ''approval'' (Some ''pending'')) [])
   \<longleftrightarrow> is_transition_allowed (\<lambda>g r. set g \<inter> set r \<noteq> {}) [] ''approval'' ''pending'' ''approved'' [''dq:rules:approve'']"
  by (rule allowed_transitions_map_agrees_with_check [where vals = approval_status_values])
     (simp add: status_models_def)

text \<open>
  A status that a default model declares terminal is never left: no transition from it is
  defined, in whatever spelling the status is given.
\<close>

theorem terminal_statuses_have_no_exit:
  assumes "(e, vals, trs) \<in> set status_models" and "v \<in> set vals" and "sv_isTerminal v"
    and "canonicalize_status e (Some f) = sv_value v"
  shows "\<not> is_transition_defined [] e f t"
proof -
  have "sv_value v \<notin> set (map fromStatus trs)"
    using terminal_status_models assms(1-3) by (force simp: list_all_iff)
  then have "(canon e f, canon e t) \<notin> set (table_edges trs)"
    using assms(4) by (auto simp: table_edges_def canonicalize_status_def)
  then show ?thesis
    using status_models_cases [OF assms(1)] by (simp add: is_transition_defined_def defined_canonical_table)
qed

lemma terminal_statuses_have_no_exit_witness:
  "\<not> is_transition_defined [] ''rule_lifecycle'' '' Retired '' ''active''"
  by (rule terminal_statuses_have_no_exit [where vals = rule_lifecycle_status_values
        and trs = rule_lifecycle_status_transitions and v = "last rule_lifecycle_status_values"])
     (simp_all add: status_models_def rule_lifecycle_status_values_def canonicalize_status_def
        canonicalize_status_value_def normalize_status_value_def text_eval)

text \<open>
  Every status that a transition table mentions is declared among the values of its model,
  with one exception: \<open>run_plan\<close> has a transition out of \<open>draft\<close>, which is not one of its values.
\<close>

theorem undeclared_statuses:
  "[(e, s). (e, vals, trs) \<leftarrow> status_models, tr \<leftarrow> trs, s \<leftarrow> [fromStatus tr, toStatus tr],
      s \<notin> set (map sv_value vals)] = [(''run_plan'', ''draft'')]"
  by (simp add: status_models_def rule_status_values_def rule_lifecycle_status_values_def
      approval_status_values_def run_plan_status_values_def connector_sync_job_status_values_def
      rule_status_transitions_def rule_lifecycle_status_transitions_def approval_status_transitions_def
      run_plan_status_transitions_def connector_sync_job_status_transitions_def)

text \<open>
  Both checks look at statuses up to spelling: replacing the statuses by their canonical
  names changes no answer, under every policy, scope resolver and set of granted scopes.
\<close>

theorem transition_checks_canonical:
  "is_transition_defined ov e (canonicalize_status e (Some f)) (canonicalize_status e (Some t))
     = is_transition_defined ov e f t
   \<and> is_transition_allowed has_any ov e (canonicalize_status e (Some f)) (canonicalize_status e (Some t)) granted
     = is_transition_allowed has_any ov e f t granted"
proof -
  have "is_transition_allowed_for_entity has_any e (canon e f) (canon e t) trs granted
      = is_transition_allowed_for_entity has_any e f t trs granted" for trs
    by (induction trs) (simp_all add: matches_canonical)
  then show ?thesis
    by (simp add: is_transition_allowed_def is_transition_defined_def canonicalize_status_def
        defined_iff matches_canonical split: option.split)
qed

text \<open>
  Loading a policy replaces the transition table of every entity the policy lists by the
  listed transitions, whatever overrides were in force before.
\<close>

theorem loaded_policy_is_enforced:
  assumes "set_status_model_policy_from_source src ov = Inr ov'"
    and "extract_status_governance_payload src = Some (PDict m)"
    and "distinct (map (\<lambda>(k, v). lower (strip k)) m)"
    and "(k, PDict [(''transitions'', PList vs)]) \<in> set m" and "normalize_all vs = Inr trs"
    and "lower (strip k) \<in> get_supported_status_model_entities"
  shows "is_transition_defined ov' k f t = is_transition_defined_for_entity k f t trs"
proof -
  obtain policy where policy: "build_status_model_policy_overrides_loop [] m = Inr policy"
    and ov': "ov' = set_status_model_policy_overrides (Some policy) ov"
    using assms(1,2) by (auto simp: set_status_model_policy_from_source_def
        build_status_model_policy_overrides_def split: sum.splits)
  have "map_of ov' (lower (strip k)) = Some trs"
    using build_loop_stores [OF policy assms(3-5)] build_loop_wf [OF policy] ov'
    by (simp add: set_status_model_policy_overrides_def foldl_update_map_of)
  moreover obtain vals d where "map_of status_models (lower (strip k)) = Some (vals, d)"
    using assms(6) by (cases "map_of status_models (lower (strip k))")
      (auto simp: get_supported_status_model_entities_def map_of_eq_None_iff)
  ultimately show ?thesis
    by (simp add: is_transition_defined_def get_status_model_definition_def dict_get_def)
qed

lemma loaded_policy_is_enforced_witness:
  "is_transition_defined
     [(''approval'', [transition ''rejected'' ''pending'' ''Reopen'' []])] '' Approval'' ''declined'' ''pending''
   = is_transition_defined_for_entity '' Approval'' ''declined'' ''pending''
       [transition ''rejected'' ''pending'' ''Reopen'' []]"
  by (rule loaded_policy_is_enforced
        [where src = "MappingSource [(''statusGovernance'', PDict [('' Approval'',
            PDict [(''transitions'', PList [PDict [(''fromStatus'', PStr ''rejected''), (''to_status'', PStr ''pending''),
              (''label'', PStr ''Reopen'')]])])])]"
          and ov = "[(''rule'', [])]"
          and m = "[('' Approval'',
            PDict [(''transitions'', PList [PDict [(''fromStatus'', PStr ''rejected''), (''to_status'', PStr ''pending''),
              (''label'', PStr ''Reopen'')]])])]"
          and vs = "[PDict [(''fromStatus'', PStr ''rejected''), (''to_status'', PStr ''pending''),
              (''label'', PStr ''Reopen'')]]"])
     (simp_all add: set_status_model_policy_from_source_def extract_status_governance_payload_def
        build_status_model_policy_overrides_def get_supported_status_model_entities_def status_models_def
        text_eval pget_def dict_get_def
        normalize_status_transition_definition_def validate_transition_def
        set_status_model_policy_overrides_def)

end
