(* ===== verification/Rule_Repository.thy ===== *)
theory Rule_Repository
  imports Status_Governance
begin

text \<open>
  The rule repository of \<open>app/infrastructure/repositories\<close> in its in-memory form (the mixins
  \<open>_in_memory_rule_helpers\<close>, \<open>_in_memory_rules_read\<close>, \<open>_in_memory_rules_write\<close>,
  \<open>_in_memory_rule_lifecycle\<close>, \<open>_in_memory_rule_audit\<close>) and the status derivations of
  \<open>app/domain/entities/rule_policy.py\<close>.

  The attributes of the repository object are the record \<open>rule_repo\<close>. An operation takes the
  policy overrides in force, the readings of the clock and of \<open>uuid4\<close> it makes (\<open>env\<close>), its own
  arguments and the repository; it returns its result, or the exception it raises, together
  with the repository it leaves behind, also when it raises. A details dictionary is the
  record \<open>rule_details\<close>, with \<^const>\<open>None\<close> and \<^const>\<open>PNone\<close> for a missing key. Not modelled:
  the derived \<open>taxonomy\<close> attribute of the stored entities (it is recomputed on every read) and
  the text encoding by \<open>json.dumps\<close> of the two JSON columns of a listed row.
\<close>

section \<open>State\<close>

record rule_entity =
  re_id :: string
  re_name :: string
  re_description :: "string option"
  re_comments :: "string option"
  re_expression :: string
  re_dimension :: string
  re_active :: bool
  re_lifecycle_status :: string
  re_created_by_user_id :: string
  re_tag_ids :: "string list"

record rule_details =
  d_workspace :: "string option"
  d_lifecycle_status :: "string option"
  d_generated :: bool
  d_is_template :: bool
  d_template_id :: "string option"
  d_suggestion_id :: "string option"
  d_comments :: "string option"
  d_dsl :: json
  d_taxonomy :: json
  d_join_conditions :: json
  d_alias_mappings :: json
  d_reusable_join_id :: "string option"
  d_manual_override_by :: "string option"
  d_manual_override_at :: "string option"
  d_check_type :: "string option"
  d_check_type_params :: json
  d_reusableFilterIds :: "string list"
  d_reusableFilters :: "json list"
  d_last_approval_status :: "string option"
  d_last_approval_by :: "string option"
  d_removed_at :: "string option"
  d_removed_by :: "string option"
  d_validation_status :: "string option"
  d_validated_at :: "string option"
  d_validated_by :: "string option"

text \<open>The empty dictionary \<open>{}\<close>; a missing list or mapping column reads as its default.\<close>

definition no_details :: rule_details where
  "no_details = \<lparr>d_workspace = None, d_lifecycle_status = None, d_generated = False,
     d_is_template = False, d_template_id = None, d_suggestion_id = None, d_comments = None,
     d_dsl = PNone, d_taxonomy = PNone, d_join_conditions = PList [], d_alias_mappings = PDict [],
     d_reusable_join_id = None, d_manual_override_by = None, d_manual_override_at = None,
     d_check_type = None, d_check_type_params = PNone, d_reusableFilterIds = [],
     d_reusableFilters = [], d_last_approval_status = None, d_last_approval_by = None,
     d_removed_at = None, d_removed_by = None, d_validation_status = None,
     d_validated_at = None, d_validated_by = None\<rparr>"

text \<open>The snapshot a version row keeps of its rule.\<close>

record rule_snapshot =
  sn_name :: string
  sn_description :: "string option"
  sn_comments :: "string option"
  sn_expression :: string
  sn_dimension :: string
  sn_active :: bool
  sn_dsl :: json
  sn_taxonomy :: json
  sn_checkType :: "string option"
  sn_checkTypeParams :: json
  sn_lifecycleStatus :: "string option"

record version_author =
  au_id :: string
  au_name :: string
  au_email :: string

text \<open>
  A version row. \<open>v_validatedBy\<close> tells a missing key (\<^const>\<open>None\<close>) from a present null
  (\<open>Some None\<close>), because readers default a missing one to the empty text.
\<close>

record rule_version =
  v_id :: string
  v_ruleId :: string
  v_versionNumber :: nat
  v_createdAt :: string
  v_createdBy :: version_author
  v_changeType :: string
  v_changeDescription :: string
  v_markedForRollback :: bool
  v_tags :: "string list"
  v_rule :: rule_snapshot
  v_validationStatus :: "string option"
  v_validatedAt :: "string option"
  v_validatedBy :: "string option option"
  v_validatedByUserId :: "string option"
  v_updatedAt :: "string option"
  v_updatedBy :: "(string \<times> string) option"

record status_history_row =
  h_id :: string
  h_ruleId :: string
  h_action :: string
  h_fromStatus :: "string option"
  h_toStatus :: string
  h_changedBy :: "string option"
  h_changedAt :: string
  h_reason :: "string option"
  h_details :: "json option"

record rollback_row =
  rb_id :: string
  rb_ruleId :: string
  rb_rolledBackAt :: string
  rb_rolledBackBy :: string
  rb_reason :: string
  rb_fromVersionNumber :: nat
  rb_toVersionNumber :: nat
  rb_newVersionNumber :: nat

record rule_repo =
  r_rules :: "(string, rule_entity) dict"
  r_users :: "(string, string) dict"
  r_rule_versions :: "(string, rule_version list) dict"
  r_rollback_history :: "(string, rollback_row list) dict"
  r_status_history :: "(string, status_history_row list) dict"
  r_rule_details :: "(string, rule_details) dict"

text \<open>Readings of the clock (plain ISO text and the text ending in Z) and of \<open>uuid4().hex\<close>.\<close>

record env =
  env_now :: string
  env_stamp :: string
  env_uuid_row :: string
  env_uuid_rule :: string

datatype repo_error =
    TransitionNotAllowed string string
  | RuleAlreadyRemoved
  | RuleMustBeDeactivatedFirst
  | RuleNotInDeactivatedStatus
  | RuleNotRemoved
  | LifecycleStatusRequired
  | ActiveRuleCannotRetire
  | RollbackToCurrentVersion
  | NoVersionsFound string
  | VersionNotFound string string
  | CreatedRulePayloadInvalid
  | PyIndexError
  | PyKeyError string

text \<open>\<open>self._rule_details.get(rule_id, {})\<close> and the write back of a details dictionary.\<close>

definition details_of :: "rule_repo \<Rightarrow> string \<Rightarrow> rule_details" where
  "details_of r rid = dict_get (r_rule_details r) rid no_details"

definition put_details :: "string \<Rightarrow> rule_details \<Rightarrow> rule_repo \<Rightarrow> rule_repo" where
  "put_details rid d r = r\<lparr>r_rule_details := AList.update rid d (r_rule_details r)\<rparr>"

definition put_rule :: "rule_entity \<Rightarrow> rule_repo \<Rightarrow> rule_repo" where
  "put_rule e r = r\<lparr>r_rules := AList.update (re_id e) e (r_rules r)\<rparr>"


section \<open>Status derivation\<close>

definition normalize_rule_status :: "string option \<Rightarrow> string" where
  "normalize_rule_status v =
     (let normalized = replace_char (CHR ''_'') (CHR ''-'') (lower (strip (text_of v)))
      in if normalized = ''pending'' then ''pending-approval''
         else if normalized = ''declined'' then ''rejected''
         else normalized)"

definition current_rule_status :: "rule_repo \<Rightarrow> string \<Rightarrow> string" where
  "current_rule_status r rid =
     (case map_of (r_rules r) rid of
        None \<Rightarrow> ''draft''
      | Some current \<Rightarrow>
          (let details = details_of r rid
           in if truthy (d_removed_at details) then ''removed''
              else if re_active current then ''activated''
              else (let s = normalize_rule_status (d_last_approval_status details)
                    in if s = [] then ''draft'' else s)))"

definition normalize_rule_lifecycle_status :: "string option \<Rightarrow> string" where
  "normalize_rule_lifecycle_status v = canonicalize_status ''rule_lifecycle'' v"

text \<open>The columns the row-based derivations of \<open>rule_policy\<close> read.\<close>

record status_columns =
  sc_active :: bool
  sc_lifecycle_status :: "string option"
  sc_last_approval_status :: "string option"
  sc_removed :: bool
  sc_removed_at :: "string option"
  sc_deleted_on :: "string option"

definition derive_rule_status_from_row :: "status_columns \<Rightarrow> string" where
  "derive_rule_status_from_row row =
     (if sc_removed row \<or> truthy (sc_removed_at row) \<or> truthy (sc_deleted_on row) then ''removed''
      else if sc_active row then ''activated''
      else (let normalized = canonicalize_status ''rule'' (Some (text_of (sc_last_approval_status row)))
            in if normalized \<noteq> [] then normalized else ''draft''))"

definition derive_rule_lifecycle_status_from_row :: "status_columns \<Rightarrow> string" where
  "derive_rule_lifecycle_status_from_row row =
     (let normalized = canonicalize_status ''rule_lifecycle'' (Some (text_of (sc_lifecycle_status row)))
      in if normalized \<noteq> [] then normalized
         else if sc_removed row \<or> truthy (sc_removed_at row) \<or> truthy (sc_deleted_on row) then ''retired''
         else ''active'')"

text \<open>A details dictionary read as a row: it has no \<open>active\<close>, \<open>removed\<close> or \<open>deleted_on\<close> key.\<close>

definition details_columns :: "rule_details \<Rightarrow> status_columns" where
  "details_columns d = \<lparr>sc_active = False, sc_lifecycle_status = d_lifecycle_status d,
     sc_last_approval_status = d_last_approval_status d, sc_removed = False,
     sc_removed_at = d_removed_at d, sc_deleted_on = None\<rparr>"

definition details_lifecycle_status :: "rule_details \<Rightarrow> string" where
  "details_lifecycle_status d =
     (let s = strip (text_of (d_lifecycle_status d))
      in if s \<noteq> [] then s else derive_rule_lifecycle_status_from_row (details_columns d))"


section \<open>Transition guards and the audit trail\<close>

definition ensure_rule_transition_allowed ::
  "policy_overrides \<Rightarrow> string option \<Rightarrow> string \<Rightarrow> repo_error option" where
  "ensure_rule_transition_allowed ov from_status to_status =
     (let normalized_from = normalize_rule_status from_status;
          normalized_to = normalize_rule_status (Some to_status)
      in if normalized_from = [] \<or> normalized_from = normalized_to then None
         else if \<not> is_transition_defined ov ''rule'' normalized_from normalized_to
         then Some (TransitionNotAllowed normalized_from normalized_to)
         else None)"

definition ensure_rule_lifecycle_transition_allowed ::
  "policy_overrides \<Rightarrow> string option \<Rightarrow> string \<Rightarrow> repo_error option" where
  "ensure_rule_lifecycle_transition_allowed ov from_status to_status =
     (let normalized_from = normalize_rule_lifecycle_status from_status;
          normalized_to = normalize_rule_lifecycle_status (Some to_status)
      in if normalized_from = [] \<or> normalized_from = normalized_to then None
         else if \<not> is_transition_defined ov ''rule_lifecycle'' normalized_from normalized_to
         then Some (TransitionNotAllowed normalized_from normalized_to)
         else None)"

definition normalize_rule_audit_action :: "string \<Rightarrow> string" where
  "normalize_rule_audit_action v =
     (let normalized = replace_char (CHR ''_'') (CHR ''-'') (lower (strip v))
      in if normalized = [] then ''transition'' else normalized)"

definition infer_rule_transition_action :: "string \<Rightarrow> string" where
  "infer_rule_transition_action to_status =
     dict_get [(''approved'', ''approve''), (''rejected'', ''reject''), (''activated'', ''activate''),
               (''deactivated'', ''deactivate''), (''deprecated'', ''deprecate''),
               (''superseded'', ''supersede''), (''retired'', ''retire''), (''removed'', ''remove''),
               (''recovered'', ''recover'')]
       (replace_char (CHR ''_'') (CHR ''-'') (lower (strip to_status))) ''transition''"

definition rule_lifecycle_action :: "string \<Rightarrow> string" where
  "rule_lifecycle_action lifecycle_status =
     dict_get [(''active'', ''activate''), (''deprecated'', ''deprecate''),
               (''superseded'', ''supersede''), (''retired'', ''retire'')]
       (replace_char (CHR ''_'') (CHR ''-'') (lower (strip lifecycle_status))) ''transition''"

abbreviation history_key :: "status_history_row \<Rightarrow> string \<times> string" where
  "history_key h \<equiv> (h_changedAt h, h_id h)"

definition record_status_transition ::
  "env \<Rightarrow> string \<Rightarrow> string \<Rightarrow> string option \<Rightarrow> string \<Rightarrow> string option \<Rightarrow> string option \<Rightarrow> json option
   \<Rightarrow> bool \<Rightarrow> rule_repo \<Rightarrow> status_history_row option \<times> rule_repo" where
  "record_status_transition en rid action from_status to_status changed_by reason details allow_same r =
     (let normalized_from = normalize_rule_status from_status;
          normalized_to = normalize_rule_status (Some to_status);
          normalized_action = normalize_rule_audit_action action
      in if normalized_to = [] then (None, r)
         else if normalized_from \<noteq> [] \<and> normalized_from = normalized_to \<and> \<not> allow_same then (None, r)
         else (let row = \<lparr>h_id = ''rsh-'' @ take 12 (env_uuid_row en), h_ruleId = rid,
                          h_action = normalized_action, h_fromStatus = or_none normalized_from,
                          h_toStatus = normalized_to, h_changedBy = clean changed_by,
                          h_changedAt = env_stamp en, h_reason = reason, h_details = details\<rparr>;
                   history = dict_get (r_status_history r) rid [] @ [row]
               in (Some row,
                   r\<lparr>r_status_history := AList.update rid (sort_key history_key history) (r_status_history r)\<rparr>)))"


section \<open>Listing rules\<close>

record rule_row =
  w_id :: string
  w_name :: string
  w_description :: "string option"
  w_comments :: "string option"
  w_expression :: string
  w_dimension :: string
  w_active :: bool
  w_lifecycle_status :: string
  w_generated :: bool
  w_is_template :: bool
  w_template_id :: "string option"
  w_workspace :: "string option"
  w_created_by :: string
  w_last_approval_by :: "string option"
  w_last_approval_status :: "string option"
  w_last_approval_at :: "string option"
  w_removed :: bool
  w_removed_at :: "string option"
  w_removed_by :: "string option"
  w_deleted_on :: "string option"
  w_deleted_by :: "string option"
  w_suggestion_id :: "string option"
  w_dsl :: json
  w_taxonomy :: json
  w_join_conditions :: json
  w_alias_mappings :: json
  w_reusable_join_id :: "string option"
  w_manual_override_by :: "string option"
  w_manual_override_at :: "string option"
  w_check_type :: "string option"
  w_check_type_params :: json
  w_validation_status :: "string option"
  w_validated_at :: "string option"
  w_current_version_id :: "string option"
  w_total_versions :: nat
  w_versioning_enabled :: bool
  w_version_created_at :: "string option"
  w_version_updated_at :: "string option"
  w_tagIds :: "string list"
  w_reusableFilterIds :: "string list"
  w_reusableFilters :: "json list"

definition rule_payload :: "rule_repo \<Rightarrow> rule_entity \<Rightarrow> rule_row" where
  "rule_payload r rule =
     (let detail = details_of r (re_id rule);
          versions = dict_get (r_rule_versions r) (re_id rule) [];
          current = find (\<lambda>v. v_id v \<noteq> []) versions
      in \<lparr>w_id = re_id rule, w_name = re_name rule, w_description = re_description rule,
          w_comments = d_comments detail, w_expression = re_expression rule,
          w_dimension = re_dimension rule, w_active = re_active rule,
          w_lifecycle_status = details_lifecycle_status detail,
          w_generated = d_generated detail, w_is_template = d_is_template detail,
          w_template_id = d_template_id detail,
          w_workspace = (case d_workspace detail of None \<Rightarrow> Some ''default'' | Some x \<Rightarrow> Some x),
          w_created_by = re_created_by_user_id rule, w_last_approval_by = None,
          w_last_approval_status =
            (case d_last_approval_status detail of
               None \<Rightarrow> (if re_active rule then Some ''approved'' else None)
             | Some x \<Rightarrow> Some x),
          w_last_approval_at = None,
          w_removed = truthy (d_removed_at detail), w_removed_at = d_removed_at detail,
          w_removed_by = d_removed_by detail, w_deleted_on = d_removed_at detail,
          w_deleted_by = d_removed_by detail, w_suggestion_id = d_suggestion_id detail,
          w_dsl = d_dsl detail, w_taxonomy = d_taxonomy detail,
          w_join_conditions = d_join_conditions detail, w_alias_mappings = d_alias_mappings detail,
          w_reusable_join_id = d_reusable_join_id detail,
          w_manual_override_by = d_manual_override_by detail,
          w_manual_override_at = d_manual_override_at detail,
          w_check_type = d_check_type detail, w_check_type_params = d_check_type_params detail,
          w_validation_status = Option.bind current v_validationStatus,
          w_validated_at = Option.bind current v_validatedAt,
          w_current_version_id = map_option v_id current,
          w_total_versions = (if versions = [] then 1 else length versions),
          w_versioning_enabled = True,
          w_version_created_at = map_option v_createdAt current,
          w_version_updated_at = map_option v_createdAt current,
          w_tagIds = re_tag_ids rule,
          w_reusableFilterIds = d_reusableFilterIds detail,
          w_reusableFilters = d_reusableFilters detail\<rparr>)"

text \<open>The \<open>continue\<close> conditions of the loop, negated.\<close>

definition listed :: "rule_repo \<Rightarrow> string option \<Rightarrow> bool \<Rightarrow> bool option \<Rightarrow> rule_entity \<Rightarrow> bool" where
  "listed r workspace include_deleted is_template rule =
     (let detail = details_of r (re_id rule)
      in \<not> (truthy workspace \<and> workspace \<noteq> Some ''default'')
         \<and> \<not> (is_template = Some True \<and> \<not> d_is_template detail)
         \<and> \<not> (is_template = Some False \<and> d_is_template detail)
         \<and> \<not> (truthy (d_removed_at detail) \<and> \<not> include_deleted))"

definition row_matches :: "string \<Rightarrow> rule_row \<Rightarrow> bool" where
  "row_matches q w \<longleftrightarrow> contains q (lower (w_id w)) \<or> contains q (lower (w_name w))
     \<or> contains q (lower (text_of (w_description w))) \<or> contains q (lower (w_expression w))"

definition list_rule_payloads ::
  "string option \<Rightarrow> bool \<Rightarrow> bool option \<Rightarrow> string option \<Rightarrow> rule_repo \<Rightarrow> rule_row list" where
  "list_rule_payloads workspace include_deleted is_template query r =
     (let q = lower (strip (text_of query));
          rows = map (rule_payload r) (filter (listed r workspace include_deleted is_template) (map snd (r_rules r)));
          rows = (if q \<noteq> [] then filter (row_matches q) rows else rows)
      in sort_desc (\<lambda>w. (text_of (w_version_updated_at w), w_id w)) rows)"

text \<open>The row of a rule after an operation, looked up in the listing of its workspace.\<close>

definition updated_row :: "string option \<Rightarrow> bool \<Rightarrow> rule_repo \<Rightarrow> string \<Rightarrow> rule_row option" where
  "updated_row workspace include_deleted r rid =
     find (\<lambda>w. w_id w = rid)
       (list_rule_payloads (Some (if truthy workspace then text_of workspace else ''default''))
          include_deleted None None r)"

text \<open>The entity a reader gets: the stored one with the columns kept in the details.\<close>

record rule_view = rule_entity +
  rw_workspace :: "string option"
  rw_manual_override_by :: "string option"
  rw_manual_override_at :: "string option"
  rw_check_type :: "string option"
  rw_check_type_params :: json
  rw_reusable_join_id :: "string option"
  rw_reusable_filter_ids :: "string list"
  rw_dsl :: json
  rw_taxonomy :: json

definition only_dict :: "json \<Rightarrow> json" where
  "only_dict v = (case v of PDict m \<Rightarrow> PDict m | _ \<Rightarrow> PNone)"

definition get_rule_by_id :: "rule_repo \<Rightarrow> string \<Rightarrow> rule_view option" where
  "get_rule_by_id r rid =
     (case map_of (r_rules r) rid of
        None \<Rightarrow> None
      | Some current \<Rightarrow>
          (let details = details_of r rid
           in if truthy (d_removed_at details) then None
              else Some \<lparr>re_id = re_id current, re_name = re_name current,
                re_description = re_description current, re_comments = clean (d_comments details),
                re_expression = re_expression current, re_dimension = re_dimension current,
                re_active = re_active current, re_lifecycle_status = details_lifecycle_status details,
                re_created_by_user_id = re_created_by_user_id current, re_tag_ids = re_tag_ids current,
                rw_workspace = clean (d_workspace details),
                rw_manual_override_by = clean (d_manual_override_by details),
                rw_manual_override_at = clean (d_manual_override_at details),
                rw_check_type = clean (d_check_type details),
                rw_check_type_params = only_dict (d_check_type_params details),
                rw_reusable_join_id = clean (d_reusable_join_id details),
                rw_reusable_filter_ids = filter (\<lambda>x. x \<noteq> []) (map strip (d_reusableFilterIds details)),
                rw_dsl = only_dict (d_dsl details),
                rw_taxonomy = (case d_taxonomy details of PDict m \<Rightarrow> PDict m | _ \<Rightarrow> PDict [])\<rparr>))"


section \<open>Lifecycle operations\<close>

text \<open>What an operation answers: a listed row, a row marked \<open>ok\<close>, or a small stand-in dictionary.\<close>

datatype reply = Row rule_row | RowOk rule_row | Stub "(string \<times> json) list"

text \<open>A fresh entity: the fields the repository does not pass have their defaults.\<close>

definition mk_rule ::
  "string \<Rightarrow> string \<Rightarrow> string option \<Rightarrow> string option \<Rightarrow> string \<Rightarrow> string \<Rightarrow> bool \<Rightarrow> string \<Rightarrow> string list \<Rightarrow> rule_entity" where
  "mk_rule i n d c ex dm act u tags = \<lparr>re_id = i, re_name = n, re_description = d, re_comments = c,
     re_expression = ex, re_dimension = dm, re_active = act, re_lifecycle_status = ''active'',
     re_created_by_user_id = u, re_tag_ids = tags\<rparr>"

definition activate_rule_payload ::
  "policy_overrides \<Rightarrow> env \<Rightarrow> string \<Rightarrow> rule_repo \<Rightarrow> (repo_error + reply option) \<times> rule_repo" where
  "activate_rule_payload ov en rid r =
     (case map_of (r_rules r) rid of
        None \<Rightarrow> (Inr None, r)
      | Some current \<Rightarrow>
          (let from_status = current_rule_status r rid
           in case ensure_rule_transition_allowed ov (Some from_status) ''activated'' of
                Some e \<Rightarrow> (Inl e, r)
              | None \<Rightarrow>
                  (let details = details_of r rid;
                       r1 = put_rule (mk_rule rid (re_name current) (re_description current)
                              (clean (d_comments details)) (re_expression current)
                              (re_dimension current) True (re_created_by_user_id current) (re_tag_ids current)) r;
                       r2 = put_details rid (details\<lparr>d_validation_status := Some ''valid'',
                                                     d_last_approval_status := Some ''approved''\<rparr>) r1;
                       r3 = snd (record_status_transition en rid ''activate'' (Some from_status) ''activated''
                              (Some (re_created_by_user_id current)) (Some ''Rule activated'') None False r2)
                   in (Inr (Some (case updated_row (d_workspace details) False r3 rid of
                              Some w \<Rightarrow> Row w
                            | None \<Rightarrow> Stub [(''id'', PStr rid), (''active'', PBool True)])), r3))))"

definition deactivate_rule ::
  "policy_overrides \<Rightarrow> env \<Rightarrow> string \<Rightarrow> rule_repo \<Rightarrow> (repo_error + reply option) \<times> rule_repo" where
  "deactivate_rule ov en rid r =
     (case map_of (r_rules r) rid of
        None \<Rightarrow> (Inr None, r)
      | Some current \<Rightarrow>
          (let from_status = current_rule_status r rid
           in case ensure_rule_transition_allowed ov (Some from_status) ''deactivated'' of
                Some e \<Rightarrow> (Inl e, r)
              | None \<Rightarrow>
                  (let r1 = put_rule (mk_rule rid (re_name current) (re_description current) None
                              (re_expression current) (re_dimension current) False
                              (re_created_by_user_id current) (re_tag_ids current)) r;
                       details = details_of r1 rid;
                       r2 = put_details rid (details\<lparr>d_last_approval_status := Some ''deactivated''\<rparr>) r1;
                       r3 = snd (record_status_transition en rid ''deactivate'' (Some from_status) ''deactivated''
                              (Some (re_created_by_user_id current)) (Some ''Rule deactivated'') None False r2)
                   in (Inr (Some (case updated_row (d_workspace details) False r3 rid of
                              Some w \<Rightarrow> Row w
                            | None \<Rightarrow> Stub [(''id'', PStr rid), (''active'', PBool False),
                                            (''last_approval_status'', PStr ''deactivated'')])), r3))))"

text \<open>The current version of a rule is the head of its version list.\<close>

definition mark_head_lifecycle :: "string \<Rightarrow> rule_version list \<Rightarrow> rule_version list" where
  "mark_head_lifecycle s vs =
     (case vs of [] \<Rightarrow> [] | v # rest \<Rightarrow> v\<lparr>v_rule := (v_rule v)\<lparr>sn_lifecycleStatus := Some s\<rparr>\<rparr> # rest)"

definition set_rule_lifecycle_status ::
  "policy_overrides \<Rightarrow> env \<Rightarrow> string \<Rightarrow> string option \<Rightarrow> string option \<Rightarrow> string option \<Rightarrow> rule_repo
   \<Rightarrow> (repo_error + rule_row option) \<times> rule_repo" where
  "set_rule_lifecycle_status ov en rid lifecycle_status changed_by reason r =
     (case map_of (r_rules r) rid of
        None \<Rightarrow> (Inr None, r)
      | Some current \<Rightarrow>
          (let details = details_of r rid;
               r0 = put_details rid details r;
               current_lifecycle = details_lifecycle_status details;
               target = normalize_rule_lifecycle_status lifecycle_status
           in if truthy (d_removed_at details) then (Inr None, r0)
              else if target = [] then (Inl LifecycleStatusRequired, r0)
              else if target = ''retired'' \<and> re_active current then (Inl ActiveRuleCannotRetire, r0)
              else case ensure_rule_lifecycle_transition_allowed ov (Some current_lifecycle) target of
                Some e \<Rightarrow> (Inl e, r0)
              | None \<Rightarrow>
                  (let r1 = put_details rid (details\<lparr>d_lifecycle_status := Some target\<rparr>) r0;
                       vs = dict_get (r_rule_versions r1) rid [];
                       r2 = (if vs = [] then r1
                             else r1\<lparr>r_rule_versions :=
                                       AList.update rid (mark_head_lifecycle target vs) (r_rule_versions r1)\<rparr>);
                       r3 = snd (record_status_transition en rid (rule_lifecycle_action target)
                              (Some current_lifecycle) target changed_by
                              (Some (if truthy reason then text_of reason else ''Lifecycle status set to '' @ target))
                              None False r2)
                   in (Inr (updated_row (d_workspace details) False r3 rid), r3))))"

definition soft_delete_rule_payload ::
  "policy_overrides \<Rightarrow> env \<Rightarrow> string \<Rightarrow> string \<Rightarrow> rule_repo \<Rightarrow> (repo_error + reply option) \<times> rule_repo" where
  "soft_delete_rule_payload ov en rid removed_by r =
     (case map_of (r_rules r) rid of
        None \<Rightarrow> (Inr None, r)
      | Some current \<Rightarrow>
          (let details = details_of r rid;
               r0 = put_details rid details r
           in if truthy (d_removed_at details) then (Inl RuleAlreadyRemoved, r0)
              else if re_active current then (Inl RuleMustBeDeactivatedFirst, r0)
              else if replace_char (CHR ''_'') (CHR ''-'') (lower (strip (text_of (d_last_approval_status details))))
                        \<noteq> ''deactivated''
              then (Inl RuleNotInDeactivatedStatus, r0)
              else (let from_status = current_rule_status r0 rid
                    in case ensure_rule_transition_allowed ov (Some from_status) ''removed'' of
                         Some e \<Rightarrow> (Inl e, r0)
                       | None \<Rightarrow>
                           (let r1 = put_details rid (details\<lparr>d_removed_at := Some (env_now en),
                                        d_removed_by := Some removed_by,
                                        d_last_approval_status := Some ''removed''\<rparr>) r0;
                                r2 = snd (record_status_transition en rid ''remove'' (Some from_status) ''removed''
                                       (Some removed_by) (Some ''Rule removed'') None False r1)
                            in (Inr (Some (case updated_row (d_workspace details) True r2 rid of
                                   Some w \<Rightarrow> RowOk w
                                 | None \<Rightarrow> Stub [(''id'', PStr rid), (''removed'', PBool True),
                                     (''removed_at'', PStr (env_now en)), (''removed_by'', PStr removed_by),
                                     (''last_approval_status'', PStr ''removed''), (''ok'', PBool True)])), r2)))))"

definition recover_rule ::
  "policy_overrides \<Rightarrow> env \<Rightarrow> string \<Rightarrow> string \<Rightarrow> rule_repo \<Rightarrow> (repo_error + reply option) \<times> rule_repo" where
  "recover_rule ov en rid recovered_by r =
     (case map_of (r_rules r) rid of
        None \<Rightarrow> (Inr None, r)
      | Some current \<Rightarrow>
          (let details = details_of r rid;
               r0 = put_details rid details r
           in if \<not> truthy (d_removed_at details) then (Inl RuleNotRemoved, r0)
              else (let from_status = current_rule_status r0 rid
                    in case ensure_rule_transition_allowed ov (Some from_status) ''recovered'' of
                         Some e \<Rightarrow> (Inl e, r0)
                       | None \<Rightarrow>
                           (let r1 = put_details rid (details\<lparr>d_removed_at := None, d_removed_by := None,
                                        d_last_approval_status := Some ''recovered''\<rparr>) r0;
                                r2 = put_rule (mk_rule rid (re_name current) (re_description current) None
                                       (re_expression current) (re_dimension current) False
                                       (re_created_by_user_id current) (re_tag_ids current)) r1;
                                r3 = snd (record_status_transition en rid ''recover'' (Some from_status) ''recovered''
                                       (Some recovered_by) (Some ''Rule recovered'') None False r2)
                            in (Inr (Some (case updated_row (d_workspace details) False r3 rid of
                                   Some w \<Rightarrow> RowOk w
                                 | None \<Rightarrow> Stub [(''id'', PStr rid), (''active'', PBool False),
                                     (''removed'', PBool False), (''last_approval_status'', PStr ''recovered''),
                                     (''ok'', PBool True)])), r3)))))"


definition save_rule_as_template ::
  "env \<Rightarrow> string \<Rightarrow> string \<Rightarrow> string option \<Rightarrow> string \<Rightarrow> rule_repo \<Rightarrow> reply option \<times> rule_repo" where
  "save_rule_as_template en rid template_name template_description created_by r =
     (case map_of (r_rules r) rid of
        None \<Rightarrow> (None, r)
      | Some source \<Rightarrow>
          (let creator_id = (if map_of (r_users r) created_by \<noteq> None then created_by else ''user-admin'');
               template_id = ''tmpl-'' @ take 10 (env_uuid_rule en);
               r1 = put_rule (mk_rule template_id template_name template_description None
                      (re_expression source) (re_dimension source) False creator_id (re_tag_ids source)) r;
               sd = details_of r1 rid;
               r2 = put_details template_id
                      (no_details\<lparr>d_workspace := (case d_workspace sd of None \<Rightarrow> Some ''default'' | Some x \<Rightarrow> Some x),
                                  d_generated := False, d_is_template := True, d_template_id := Some rid,
                                  d_suggestion_id := None, d_dsl := only_dict (d_dsl sd), d_taxonomy := only_dict (d_taxonomy sd),
                                  d_join_conditions := d_join_conditions sd, d_alias_mappings := d_alias_mappings sd,
                                  d_reusable_join_id := d_reusable_join_id sd,
                                  d_manual_override_by := d_manual_override_by sd,
                                  d_manual_override_at := d_manual_override_at sd,
                                  d_reusableFilterIds := d_reusableFilterIds sd,
                                  d_reusableFilters := d_reusableFilters sd\<rparr>) r1;
               r3 = snd (record_status_transition en template_id ''create'' None ''draft'' (Some creator_id)
                      (Some ''Template created'') None True r2)
           in (Some (case updated_row (d_workspace sd) False r3 template_id of
                  Some w \<Rightarrow> RowOk w
                | None \<Rightarrow> Stub [(''id'', PStr template_id), (''ok'', PBool True)]), r3)))"


section \<open>Creating and editing rules\<close>

text \<open>The arguments that a create and an update call share.\<close>

record rule_input =
  i_name :: string
  i_description :: "string option"
  i_comments :: "string option"
  i_expression :: string
  i_dimension :: string
  i_active :: bool
  i_dsl :: json
  i_join_conditions :: json
  i_alias_mappings :: json
  i_reusable_join_id :: "string option"
  i_reusable_filter_ids :: "string list"
  i_manual_override_by :: "string option"
  i_manual_override_at :: "string option"
  i_check_type :: "string option"
  i_check_type_params :: json
  i_taxonomy :: json

definition snapshot_of :: "rule_input \<Rightarrow> rule_snapshot" where
  "snapshot_of i = \<lparr>sn_name = i_name i, sn_description = i_description i, sn_comments = i_comments i,
     sn_expression = i_expression i, sn_dimension = i_dimension i, sn_active = i_active i,
     sn_dsl = i_dsl i, sn_taxonomy = i_taxonomy i, sn_checkType = i_check_type i,
     sn_checkTypeParams = i_check_type_params i, sn_lifecycleStatus = None\<rparr>"

definition version_id :: "nat \<Rightarrow> string" where
  "version_id n = ''rv-'' @ pad3 n"

definition mk_version ::
  "nat \<Rightarrow> string \<Rightarrow> string \<Rightarrow> version_author \<Rightarrow> string \<Rightarrow> string \<Rightarrow> string list \<Rightarrow> rule_snapshot \<Rightarrow> rule_version" where
  "mk_version n rid created_at author change_type change_description tags snapshot =
     \<lparr>v_id = version_id n, v_ruleId = rid, v_versionNumber = n, v_createdAt = created_at,
      v_createdBy = author, v_changeType = change_type, v_changeDescription = change_description,
      v_markedForRollback = False, v_tags = tags, v_rule = snapshot, v_validationStatus = None,
      v_validatedAt = None, v_validatedBy = Some None, v_validatedByUserId = None,
      v_updatedAt = None, v_updatedBy = None\<rparr>"

text \<open>
  \<open>_create_rule_payload\<close>. The rule and its details are stored before the author of the first
  version is looked up, and everything is stored before the new row is selected from the
  listing: a failure of either leaves the stored rule behind. The default of the selection,
  \<open>rows[-1]\<close>, is evaluated first and fails on an empty listing.
\<close>

definition create_rule_payload ::
  "env \<Rightarrow> rule_input \<Rightarrow> string \<Rightarrow> string \<Rightarrow> bool \<Rightarrow> bool \<Rightarrow> string option \<Rightarrow> string option \<Rightarrow> rule_repo
   \<Rightarrow> (repo_error + rule_row) \<times> rule_repo" where
  "create_rule_payload en i workspace created_by generated is_template template_id suggestion_id r =
     (let rid = ''rule-'' @ take 10 (env_uuid_rule en);
          creator_id = (if map_of (r_users r) created_by \<noteq> None then created_by else ''user-admin'');
          r1 = put_rule (mk_rule rid (i_name i) (i_description i) (i_comments i) (i_expression i)
                 (i_dimension i) (i_active i) creator_id []) r;
          r2 = put_details rid
                 (no_details\<lparr>d_workspace := Some workspace, d_lifecycle_status := Some ''active'',
                             d_generated := generated, d_is_template := is_template,
                             d_template_id := template_id, d_suggestion_id := suggestion_id,
                             d_dsl := i_dsl i, d_taxonomy := i_taxonomy i,
                             d_join_conditions := i_join_conditions i, d_alias_mappings := i_alias_mappings i,
                             d_reusable_join_id := i_reusable_join_id i,
                             d_manual_override_by := i_manual_override_by i,
                             d_manual_override_at := i_manual_override_at i,
                             d_check_type := i_check_type i, d_check_type_params := i_check_type_params i,
                             d_reusableFilterIds := i_reusable_filter_ids i, d_reusableFilters := []\<rparr>) r1
      in case map_of (r_users r2) creator_id of
           None \<Rightarrow> (Inl (PyKeyError creator_id), r2)
         | Some display_name \<Rightarrow>
             (let author = \<lparr>au_id = creator_id, au_name = display_name, au_email = ''admin@example.com''\<rparr>;
                  v = (mk_version 1 rid (env_stamp en) author ''created'' ''Rule created'' [] (snapshot_of i))
                        \<lparr>v_id := ''rv-001''\<rparr>;
                  r3 = r2\<lparr>r_rule_versions := AList.update rid [v] (r_rule_versions r2)\<rparr>;
                  r4 = snd (record_status_transition en rid ''create'' None
                         (if i_active i then ''activated'' else ''draft'') (Some creator_id)
                         (Some ''Rule created'') None True r3);
                  rows = list_rule_payloads (Some workspace) False None None r4
              in (if rows = [] then Inl PyIndexError
                  else Inr (case find (\<lambda>w. w_id w = rid) rows of Some w \<Rightarrow> w | None \<Rightarrow> last rows), r4)))"

definition max_version :: "rule_version list \<Rightarrow> nat" where
  "max_version vs = foldr max (map v_versionNumber vs) 0"

definition desired_status :: "string \<Rightarrow> bool \<Rightarrow> bool \<Rightarrow> string" where
  "desired_status from_status active current_active =
     (if active \<and> \<not> current_active then ''activated''
      else if \<not> active \<and> current_active then ''deactivated''
      else if from_status = ''deactivated'' then ''draft'' else from_status)"

definition update_rule_payload ::
  "policy_overrides \<Rightarrow> env \<Rightarrow> string \<Rightarrow> rule_input \<Rightarrow> rule_repo \<Rightarrow> (repo_error + rule_row option) \<times> rule_repo" where
  "update_rule_payload ov en rid i r =
     (case map_of (r_rules r) rid of
        None \<Rightarrow> (Inr None, r)
      | Some current \<Rightarrow>
          (let from_status = current_rule_status r rid;
               desired = desired_status from_status (i_active i) (re_active current)
           in case ensure_rule_transition_allowed ov (Some from_status) desired of
                Some e \<Rightarrow> (Inl e, r)
              | None \<Rightarrow>
                  (let rows = dict_get (r_rule_versions r) rid [];
                       n = max_version rows + 1;
                       uid = re_created_by_user_id current;
                       author = \<lparr>au_id = uid, au_name = dict_get (r_users r) uid uid, au_email = ''admin@example.com''\<rparr>;
                       v = mk_version n rid (env_stamp en) author ''modified'' ''Rule updated''
                             (re_tag_ids current) (snapshot_of i);
                       r1 = r\<lparr>r_rule_versions := AList.update rid (v # rows) (r_rule_versions r)\<rparr>;
                       details = details_of r1 rid;
                       lifecycle = (let s = strip (text_of (d_lifecycle_status details)) in if s = [] then ''active'' else s);
                       r2 = put_rule ((mk_rule rid (i_name i) (i_description i) (i_comments i) (i_expression i)
                              (i_dimension i) (i_active i) uid (re_tag_ids current))
                              \<lparr>re_lifecycle_status := lifecycle\<rparr>) r1;
                       r3 = put_details rid
                              (details\<lparr>d_dsl := i_dsl i, d_taxonomy := i_taxonomy i, d_comments := i_comments i,
                                 d_join_conditions := i_join_conditions i, d_alias_mappings := i_alias_mappings i,
                                 d_reusable_join_id := i_reusable_join_id i,
                                 d_manual_override_by := i_manual_override_by i,
                                 d_manual_override_at := i_manual_override_at i,
                                 d_check_type := i_check_type i, d_check_type_params := i_check_type_params i,
                                 d_validation_status := None, d_validated_at := None, d_validated_by := None,
                                 d_last_approval_status :=
                                   (if from_status = ''deactivated'' then Some ''draft'' else d_last_approval_status details),
                                 d_reusableFilterIds := i_reusable_filter_ids i, d_reusableFilters := []\<rparr>) r2;
                       r4 = snd (record_status_transition en rid ''edit'' (Some from_status)
                              (current_rule_status r3 rid) (Some uid) (Some ''Rule updated'') None True r3)
                   in (Inr (updated_row (d_workspace details) False r4 rid), r4))))"


section \<open>Audit operations\<close>

definition list_rule_status_history ::
  "rule_repo \<Rightarrow> string \<Rightarrow> int \<Rightarrow> int \<Rightarrow> status_history_row list option" where
  "list_rule_status_history r rid limit offset =
     (if map_of (r_rules r) rid = None then None
      else Some (page_window limit offset (rev (dict_get (r_status_history r) rid []))))"

definition record_rule_audit_event ::
  "env \<Rightarrow> string \<Rightarrow> string \<Rightarrow> string option \<Rightarrow> string option \<Rightarrow> string option \<Rightarrow> string option \<Rightarrow> json option
   \<Rightarrow> rule_repo \<Rightarrow> status_history_row option \<times> rule_repo" where
  "record_rule_audit_event en rid action from_status to_status changed_by reason details r =
     (if map_of (r_rules r) rid = None then (None, r)
      else record_status_transition en rid action from_status
             (if truthy to_status then text_of to_status else current_rule_status r rid)
             changed_by reason details True r)"

definition record_rule_status_transition ::
  "policy_overrides \<Rightarrow> env \<Rightarrow> string \<Rightarrow> string option \<Rightarrow> string \<Rightarrow> string option \<Rightarrow> string option \<Rightarrow> rule_repo
   \<Rightarrow> (repo_error + status_history_row option) \<times> rule_repo" where
  "record_rule_status_transition ov en rid from_status to_status changed_by reason r =
     (if map_of (r_rules r) rid = None then (Inr None, r)
      else case ensure_rule_transition_allowed ov from_status to_status of
        Some e \<Rightarrow> (Inl e, r)
      | None \<Rightarrow>
          (let normalized_to = normalize_rule_status (Some to_status);
               details = details_of r rid;
               r1 = (if normalized_to \<noteq> []
                     then put_details rid (details\<lparr>d_last_approval_status := Some normalized_to,
                                                   d_last_approval_by := clean changed_by\<rparr>) r
                     else r);
               (row, r2) = record_status_transition en rid (infer_rule_transition_action normalized_to)
                             from_status to_status changed_by reason None False r1
           in (Inr row, r2)))"



section \<open>Frame lemmas\<close>

named_theorems repo_simps

lemma record_frame [simp, repo_simps]:
  "r_rules (snd (record_status_transition en rid a f t c re d s r)) = r_rules r"
  "r_users (snd (record_status_transition en rid a f t c re d s r)) = r_users r"
  "r_rule_versions (snd (record_status_transition en rid a f t c re d s r)) = r_rule_versions r"
  "r_rollback_history (snd (record_status_transition en rid a f t c re d s r)) = r_rollback_history r"
  "r_rule_details (snd (record_status_transition en rid a f t c re d s r)) = r_rule_details r"
  by (simp_all add: record_status_transition_def Let_def)

lemma details_of_record [simp, repo_simps]:
  "details_of (snd (record_status_transition en rid a f t c re d s r)) x = details_of r x"
  by (simp add: details_of_def)

lemma put_rule_frame [simp, repo_simps]:
  "r_users (put_rule e r) = r_users r" "r_rule_versions (put_rule e r) = r_rule_versions r"
  "r_status_history (put_rule e r) = r_status_history r" "r_rule_details (put_rule e r) = r_rule_details r"
  "r_rollback_history (put_rule e r) = r_rollback_history r"
  "map_of (r_rules (put_rule e r)) x = (if x = re_id e then Some e else map_of (r_rules r) x)"
  "details_of (put_rule e r) x = details_of r x"
  by (simp_all add: put_rule_def details_of_def)

lemma put_details_frame [simp, repo_simps]:
  "r_users (put_details k d r) = r_users r" "r_rule_versions (put_details k d r) = r_rule_versions r"
  "r_status_history (put_details k d r) = r_status_history r" "r_rules (put_details k d r) = r_rules r"
  "r_rollback_history (put_details k d r) = r_rollback_history r"
  "details_of (put_details k d r) x = (if x = k then d else details_of r x)"
  by (simp_all add: put_details_def details_of_def)

lemma details_of_versions [simp, repo_simps]:
  "details_of (r\<lparr>r_rule_versions := x\<rparr>) k = details_of r k"
  by (simp add: details_of_def)

lemma mk_rule_sel [simp, repo_simps]:
  "re_id (mk_rule i n d c ex dm act u tags) = i" "re_active (mk_rule i n d c ex dm act u tags) = act"
  by (simp_all add: mk_rule_def)

lemma no_details_sel [simp, repo_simps]:
  "d_removed_at no_details = None" "d_lifecycle_status no_details = None" "d_comments no_details = None"
  "d_last_approval_status no_details = None"
  by (simp_all add: no_details_def)

lemma normalize_rule_status_canonical: "normalize_rule_status v = canonicalize_status ''rule'' v"
  by (simp add: normalize_rule_status_def canonicalize_status_def canonicalize_status_value_def
      normalize_status_value_def Let_def)

lemma normalize_rule_status_literals [simp]:
  "normalize_rule_status (Some ''removed'') = ''removed''"
  "normalize_rule_status (Some ''activated'') = ''activated''"
  "normalize_rule_status (Some ''deactivated'') = ''deactivated''"
  "normalize_rule_status (Some ''recovered'') = ''recovered''"
  "normalize_rule_status (Some ''draft'') = ''draft''"
  "normalize_rule_status None = []"
  by (simp_all add: normalize_rule_status_def text_eval)


section \<open>Invariants\<close>

text \<open>
  A removed rule is inactive, entities are stored under their own identifier, histories are
  ordered by time stamp, and the versions of a rule are numbered downwards from the head, each
  with the identifier of its number.
\<close>

definition removed_inactive :: "rule_repo \<Rightarrow> bool" where
  "removed_inactive r \<longleftrightarrow>
     (\<forall>rid e. map_of (r_rules r) rid = Some e \<longrightarrow> truthy (d_removed_at (details_of r rid)) \<longrightarrow> \<not> re_active e)"

definition keys_match :: "rule_repo \<Rightarrow> bool" where
  "keys_match r \<longleftrightarrow> (\<forall>rid e. map_of (r_rules r) rid = Some e \<longrightarrow> re_id e = rid)"

definition history_sorted :: "rule_repo \<Rightarrow> bool" where
  "history_sorted r \<longleftrightarrow> (\<forall>rid. sorted (map history_key (dict_get (r_status_history r) rid [])))"

definition versions_ok :: "rule_version list \<Rightarrow> bool" where
  "versions_ok vs \<longleftrightarrow> sorted_wrt (>) (map v_versionNumber vs) \<and>
     (\<forall>v \<in> set vs. v_id v = version_id (v_versionNumber v) \<and> 0 < v_versionNumber v)"

definition versions_sound :: "rule_repo \<Rightarrow> bool" where
  "versions_sound r \<longleftrightarrow> (\<forall>rid. versions_ok (dict_get (r_rule_versions r) rid []))"

definition no_resurrection :: "policy_overrides \<Rightarrow> bool" where
  "no_resurrection ov \<longleftrightarrow> \<not> is_transition_defined ov ''rule'' ''removed'' ''activated''"

lemma no_resurrection_default: "no_resurrection []"
  by (simp add: no_resurrection_def default_step_edges default_table_defs canonicalize_status_value_def
      normalize_status_value_def text_eval)

lemma resurrection_refused:
  "no_resurrection ov \<Longrightarrow> ensure_rule_transition_allowed ov (Some ''removed'') ''activated'' \<noteq> None"
  by (simp add: ensure_rule_transition_allowed_def no_resurrection_def)

text \<open>An accepted activation of a stored rule is not one of a removed rule.\<close>

lemma accepted_not_removed:
  assumes "no_resurrection ov" and "map_of (r_rules r) rid = Some e"
    and "ensure_rule_transition_allowed ov (Some (current_rule_status r rid)) ''activated'' = None"
  shows "\<not> truthy (d_removed_at (details_of r rid))"
  using assms resurrection_refused [OF assms(1)] by (auto simp: current_rule_status_def)

lemma max_version_ge: "v \<in> set vs \<Longrightarrow> v_versionNumber v \<le> max_version vs"
  by (induction vs) (auto simp: max_version_def)

lemma versions_ok_Cons:
  assumes "versions_ok vs" and "v_versionNumber v = max_version vs + 1" and "v_id v = version_id (v_versionNumber v)"
  shows "versions_ok (v # vs)"
  using assms max_version_ge [of _ vs] by (fastforce simp: versions_ok_def less_Suc_eq_le)

lemma sorted_wrt_greater_distinct: "sorted_wrt (>) (xs :: nat list) \<Longrightarrow> distinct xs"
  by (induction xs) auto

lemma versions_ok_distinct_ids:
  assumes "versions_ok vs"
  shows "distinct (map v_id vs)"
proof -
  have "map v_id vs = map version_id (map v_versionNumber vs)"
    using assms by (simp add: versions_ok_def)
  moreover have "distinct (map v_versionNumber vs)"
    using assms by (simp add: versions_ok_def sorted_wrt_greater_distinct)
  ultimately show ?thesis
    by (simp add: distinct_map inj_on_def version_id_def)
qed

text \<open>The building blocks of the operations keep the invariants.\<close>

definition repo_inv :: "rule_repo \<Rightarrow> bool" where
  "repo_inv r \<longleftrightarrow> removed_inactive r \<and> keys_match r \<and> history_sorted r \<and> versions_sound r"

lemma repo_inv_put_rule:
  "repo_inv r \<Longrightarrow> re_active e \<longrightarrow> \<not> truthy (d_removed_at (details_of r (re_id e))) \<Longrightarrow> repo_inv (put_rule e r)"
  by (auto simp: repo_inv_def removed_inactive_def keys_match_def history_sorted_def versions_sound_def)

lemma repo_inv_put_details:
  "repo_inv r \<Longrightarrow> truthy (d_removed_at d) \<longrightarrow> (\<forall>e. map_of (r_rules r) k = Some e \<longrightarrow> \<not> re_active e) \<Longrightarrow>
   repo_inv (put_details k d r)"
  by (auto simp: repo_inv_def removed_inactive_def keys_match_def history_sorted_def versions_sound_def)

lemma repo_inv_record:
  "repo_inv r \<Longrightarrow> repo_inv (snd (record_status_transition en rid a f t c re d s r))"
  by (auto simp: repo_inv_def removed_inactive_def keys_match_def versions_sound_def)
     (auto simp: history_sorted_def record_status_transition_def Let_def)

lemma repo_inv_versions:
  "repo_inv r \<Longrightarrow> r_rule_versions r = w \<Longrightarrow> versions_ok vs \<Longrightarrow>
   repo_inv (r\<lparr>r_rule_versions := AList.update rid vs w\<rparr>)"
  by (auto simp: repo_inv_def removed_inactive_def keys_match_def history_sorted_def versions_sound_def)

lemma repo_inv_removed:
  "repo_inv r \<Longrightarrow> map_of (r_rules r) rid = Some e \<Longrightarrow> truthy (d_removed_at (details_of r rid)) \<Longrightarrow> \<not> re_active e"
  by (auto simp: repo_inv_def removed_inactive_def)

lemma repo_inv_versions_ok: "repo_inv r \<Longrightarrow> versions_ok (dict_get (r_rule_versions r) rid [])"
  by (simp add: repo_inv_def versions_sound_def)

lemma versions_ok_mark_head: "versions_ok vs \<Longrightarrow> versions_ok (mark_head_lifecycle s vs)"
  by (cases vs) (simp_all add: mark_head_lifecycle_def versions_ok_def)

lemmas repo_inv_intros = repo_inv_record repo_inv_put_rule repo_inv_put_details repo_inv_versions

lemma repo_inv_put_same: "repo_inv r \<Longrightarrow> repo_inv (put_details rid (details_of r rid) r)"
  by (rule repo_inv_put_details) (auto dest: repo_inv_removed)

lemma activate_inv:
  assumes "repo_inv r" and "no_resurrection ov"
  shows "repo_inv (snd (activate_rule_payload ov en rid r))"
  using assms accepted_not_removed [OF assms(2)]
  by (auto simp: activate_rule_payload_def Let_def split: option.splits intro!: repo_inv_intros)

lemma deactivate_inv: "repo_inv r \<Longrightarrow> repo_inv (snd (deactivate_rule ov en rid r))"
  by (auto simp: deactivate_rule_def Let_def split: option.splits intro!: repo_inv_intros)

lemma set_lifecycle_inv:
  "repo_inv r \<Longrightarrow> repo_inv (snd (set_rule_lifecycle_status ov en rid ls cb re r))"
  by (auto simp: set_rule_lifecycle_status_def Let_def split: option.splits
      intro!: repo_inv_intros repo_inv_put_same versions_ok_mark_head
      dest: repo_inv_versions_ok repo_inv_removed)

lemma soft_delete_inv: "repo_inv r \<Longrightarrow> repo_inv (snd (soft_delete_rule_payload ov en rid u r))"
  by (auto simp: soft_delete_rule_payload_def Let_def split: option.splits
      intro!: repo_inv_intros repo_inv_put_same)

lemma recover_inv: "repo_inv r \<Longrightarrow> repo_inv (snd (recover_rule ov en rid u r))"
  by (auto simp: recover_rule_def Let_def split: option.splits
      intro!: repo_inv_intros repo_inv_put_same)

lemma template_inv: "repo_inv r \<Longrightarrow> repo_inv (snd (save_rule_as_template en rid n d c r))"
  by (auto simp: save_rule_as_template_def Let_def split: option.splits
      intro!: repo_inv_intros)

lemma repo_inv_put_both:
  "repo_inv r \<Longrightarrow> \<not> truthy (d_removed_at d) \<Longrightarrow> re_id e = k \<Longrightarrow> repo_inv (put_details k d (put_rule e r))"
  by (auto simp: repo_inv_def removed_inactive_def keys_match_def history_sorted_def versions_sound_def)

lemma version_id_1: "version_id 1 = ''rv-001''"
proof -
  have "show_nat 1 = ''1''" by (simp add: show_nat.simps digit_char_def char_of_def bit_0)
  moreover have "replicate 2 (CHR ''0'') = ''00''" by (simp add: numeral_2_eq_2)
  ultimately show ?thesis by (simp add: version_id_def pad3_def)
qed

lemma versions_ok_first:
  "versions_ok [(mk_version 1 rid ca au ct cd tags sn)\<lparr>v_id := ''rv-001''\<rparr>]"
  using version_id_1 by (simp add: versions_ok_def mk_version_def)

lemma create_inv: "repo_inv r \<Longrightarrow> repo_inv (snd (create_rule_payload en i ws cb g t tid sid r))"
  unfolding create_rule_payload_def Let_def
  by (simp split: option.split)
     (auto intro!: repo_inv_record repo_inv_versions repo_inv_put_both versions_ok_first [unfolded One_nat_def])

lemma mk_version_sel [simp]:
  "v_versionNumber (mk_version n rid ca au ct cd tags sn) = n"
  "v_id (mk_version n rid ca au ct cd tags sn) = version_id n"
  "v_rule (mk_version n rid ca au ct cd tags sn) = sn"
  by (simp_all add: mk_version_def)

lemma update_accepted_not_removed:
  assumes "no_resurrection ov" and "repo_inv r" and "map_of (r_rules r) rid = Some e" and "act"
    and "ensure_rule_transition_allowed ov (Some (current_rule_status r rid))
           (desired_status (current_rule_status r rid) act (re_active e)) = None"
  shows "\<not> truthy (d_removed_at (details_of r rid))"
  using assms accepted_not_removed [OF assms(1,3)] repo_inv_removed [OF assms(2,3)]
  by (auto simp: desired_status_def split: if_splits)

lemma update_inv:
  assumes "repo_inv r" and "no_resurrection ov"
  shows "repo_inv (snd (update_rule_payload ov en rid i r))"
proof (cases "map_of (r_rules r) rid")
  case None
  with assms show ?thesis by (simp add: update_rule_payload_def)
next
  case (Some e)
  let ?from = "current_rule_status r rid"
  show ?thesis
  proof (cases "ensure_rule_transition_allowed ov (Some ?from) (desired_status ?from (i_active i) (re_active e))")
    case None
    then have "i_active i \<longrightarrow> \<not> truthy (d_removed_at (details_of r rid))"
      using update_accepted_not_removed [OF assms(2,1) Some] by blast
    then show ?thesis using Some None assms(1) repo_inv_versions_ok [OF assms(1)]
      by (simp add: update_rule_payload_def Let_def split del: if_split)
         (intro repo_inv_record repo_inv_put_details repo_inv_put_rule repo_inv_versions versions_ok_Cons;
          force split del: if_split)
  next
    case (Some err)
    with \<open>map_of (r_rules r) rid = Some e\<close> assms(1) show ?thesis by (simp add: update_rule_payload_def Let_def)
  qed
qed

lemma audit_inv: "repo_inv r \<Longrightarrow> repo_inv (snd (record_rule_audit_event en rid a f t c re d r))"
  by (auto simp: record_rule_audit_event_def intro: repo_inv_record)

lemma record_transition_inv:
  "repo_inv r \<Longrightarrow> repo_inv (snd (record_rule_status_transition ov en rid f t c re r))"
  by (auto simp: record_rule_status_transition_def Let_def case_prod_unfold split: option.splits
      intro!: repo_inv_intros dest: repo_inv_removed)



section \<open>Runs of the repository\<close>

text \<open>One step is one call, whatever it answers or raises.\<close>

inductive repo_step :: "policy_overrides \<Rightarrow> rule_repo \<Rightarrow> rule_repo \<Rightarrow> bool" for ov where
  create: "repo_step ov r (snd (create_rule_payload en i ws cb g t tid sid r))"
| update: "repo_step ov r (snd (update_rule_payload ov en rid i r))"
| activate: "repo_step ov r (snd (activate_rule_payload ov en rid r))"
| deactivate: "repo_step ov r (snd (deactivate_rule ov en rid r))"
| set_lifecycle: "repo_step ov r (snd (set_rule_lifecycle_status ov en rid ls cb re r))"
| soft_delete: "repo_step ov r (snd (soft_delete_rule_payload ov en rid u r))"
| recover: "repo_step ov r (snd (recover_rule ov en rid u r))"
| template: "repo_step ov r (snd (save_rule_as_template en rid n d c r))"
| audit: "repo_step ov r (snd (record_rule_audit_event en rid a f tt c re dd r))"
| transition: "repo_step ov r (snd (record_rule_status_transition ov en rid f tto c re r))"

lemma repo_step_inv: "repo_step ov r r' \<Longrightarrow> repo_inv r \<Longrightarrow> no_resurrection ov \<Longrightarrow> repo_inv r'"
  by (induction rule: repo_step.induct)
     (simp_all add: create_inv update_inv activate_inv deactivate_inv set_lifecycle_inv soft_delete_inv
        recover_inv template_inv audit_inv record_transition_inv)

interpretation default_repo: preserved "repo_step []" repo_inv
  by unfold_locales (rule repo_step_inv [OF _ _ no_resurrection_default])

text \<open>The guard under the default policy.\<close>

lemma normalize_rule_status_idem [simp]:
  "normalize_rule_status (Some (normalize_rule_status v)) = normalize_rule_status v"
  by (simp add: normalize_rule_status_canonical canonicalize_status_def)

lemma current_rule_status_normal [simp]:
  "normalize_rule_status (Some (current_rule_status r rid)) = current_rule_status r rid"
  by (simp add: current_rule_status_def Let_def split: option.split)

lemma current_rule_status_nonempty [simp]: "current_rule_status r rid \<noteq> []"
  by (simp add: current_rule_status_def Let_def split: option.split)

lemma guard_default:
  "ensure_rule_transition_allowed [] (Some (current_rule_status r rid)) t = None \<longleftrightarrow>
     current_rule_status r rid = normalize_rule_status (Some t) \<or>
     (current_rule_status r rid, normalize_rule_status (Some t)) \<in> set (table_edges rule_status_transitions)"
proof -
  have "canon ''rule'' (current_rule_status r rid) = current_rule_status r rid"
    using current_rule_status_normal [of r rid] by (simp add: normalize_rule_status_canonical canonicalize_status_def)
  then show ?thesis
    by (auto simp: ensure_rule_transition_allowed_def Let_def default_step_edges)
       (auto simp: normalize_rule_status_canonical canonicalize_status_def)
qed

lemma guard_activate:
  "ensure_rule_transition_allowed [] (Some (current_rule_status r rid)) ''activated'' = None \<longleftrightarrow>
     current_rule_status r rid \<in> {''activated'', ''approved''}"
  by (auto simp: guard_default default_table_defs)

lemma guard_deactivate:
  "ensure_rule_transition_allowed [] (Some (current_rule_status r rid)) ''deactivated'' = None \<longleftrightarrow>
     current_rule_status r rid \<in> {''deactivated'', ''activated''}"
  by (auto simp: guard_default default_table_defs)

lemma guard_remove:
  "ensure_rule_transition_allowed [] (Some (current_rule_status r rid)) ''removed'' = None \<longleftrightarrow>
     current_rule_status r rid \<in> {''removed'', ''deactivated''}"
  by (auto simp: guard_default default_table_defs)

lemma guard_recover:
  "ensure_rule_transition_allowed [] (Some (current_rule_status r rid)) ''recovered'' = None \<longleftrightarrow>
     current_rule_status r rid \<in> {''recovered'', ''removed''}"
  by (auto simp: guard_default default_table_defs)

lemma status_record [simp]:
  "current_rule_status (snd (record_status_transition en k a f t c re d s r)) rid = current_rule_status r rid"
  by (simp add: current_rule_status_def Let_def split: option.split)

end
