(* ===== verification/Rule_Lifecycle.thy ===== *)
theory Rule_Lifecycle
  imports Rule_Repository
begin

text \<open>
  The lifecycle of a rule as clients see it: what the lifecycle operations of the repository
  do to the status of a rule under the default policy, and the use case
  \<open>transition_rule_lifecycle\<close> of \<open>app/application/use_cases/transition_rule_lifecycle.py\<close>.
\<close>

section \<open>Rule records\<close>

text \<open>
  \<open>build_rule_record_entity\<close> of \<open>app/domain/entities/rule.py\<close> on a listed row: blank texts
  become null and a row with a blank identifier is no record. The record keeps the columns of
  the row; its derived taxonomy is not modelled.
\<close>

definition build_rule_record_entity :: "rule_row \<Rightarrow> rule_row option" where
  "build_rule_record_entity w =
     (let rule_id = strip (w_id w)
      in if rule_id = [] then None
         else Some (w\<lparr>w_id := rule_id, w_name := strip (w_name w), w_expression := strip (w_expression w),
           w_dimension := strip (w_dimension w),
           w_lifecycle_status := (let s = strip (w_lifecycle_status w) in if s = [] then ''active'' else s),
           w_template_id := clean (w_template_id w), w_workspace := clean (w_workspace w),
           w_created_by := strip (w_created_by w),
           w_last_approval_by := clean (w_last_approval_by w),
           w_last_approval_status := clean (w_last_approval_status w),
           w_last_approval_at := clean (w_last_approval_at w),
           w_removed_at := clean (w_removed_at w), w_removed_by := clean (w_removed_by w),
           w_deleted_on := clean (w_deleted_on w), w_deleted_by := clean (w_deleted_by w),
           w_suggestion_id := clean (w_suggestion_id w), w_reusable_join_id := clean (w_reusable_join_id w),
           w_manual_override_by := clean (w_manual_override_by w),
           w_manual_override_at := clean (w_manual_override_at w),
           w_check_type := clean (w_check_type w), w_dsl := only_dict (w_dsl w),
           w_validation_status := clean (w_validation_status w), w_validated_at := clean (w_validated_at w),
           w_current_version_id := clean (w_current_version_id w),
           w_version_created_at := clean (w_version_created_at w),
           w_version_updated_at := clean (w_version_updated_at w)\<rparr>))"

definition list_rule_records ::
  "string option \<Rightarrow> bool \<Rightarrow> bool option \<Rightarrow> string option \<Rightarrow> rule_repo \<Rightarrow> rule_row list" where
  "list_rule_records workspace include_deleted is_template query r =
     List.map_filter build_rule_record_entity (list_rule_payloads workspace include_deleted is_template query r)"

definition record_of_reply :: "reply option \<Rightarrow> reply option" where
  "record_of_reply p =
     (case p of
        None \<Rightarrow> None
      | Some (Row w) \<Rightarrow> map_option Row (build_rule_record_entity w)
      | Some (RowOk w) \<Rightarrow> map_option Row (build_rule_record_entity w)
      | Some (Stub d) \<Rightarrow> (case pget d ''id'' of PStr i \<Rightarrow> (if strip i = [] then None else Some (Stub d)) | _ \<Rightarrow> None))"

definition activate_rule_record ::
  "policy_overrides \<Rightarrow> env \<Rightarrow> string \<Rightarrow> rule_repo \<Rightarrow> (repo_error + reply option) \<times> rule_repo" where
  "activate_rule_record ov en rid r =
     (case activate_rule_payload ov en rid r of
        (Inl e, r') \<Rightarrow> (Inl e, r')
      | (Inr p, r') \<Rightarrow> (Inr (record_of_reply p), r'))"

definition soft_delete_rule_record ::
  "policy_overrides \<Rightarrow> env \<Rightarrow> string \<Rightarrow> string \<Rightarrow> rule_repo \<Rightarrow> (repo_error + reply option) \<times> rule_repo" where
  "soft_delete_rule_record ov en rid removed_by r =
     (case soft_delete_rule_payload ov en rid removed_by r of
        (Inl e, r') \<Rightarrow> (Inl e, r')
      | (Inr p, r') \<Rightarrow> (Inr (record_of_reply p), r'))"

definition create_rule_record ::
  "env \<Rightarrow> rule_input \<Rightarrow> string \<Rightarrow> string \<Rightarrow> bool \<Rightarrow> bool \<Rightarrow> string option \<Rightarrow> string option \<Rightarrow> rule_repo
   \<Rightarrow> (repo_error + rule_row) \<times> rule_repo" where
  "create_rule_record en i workspace created_by generated is_template template_id suggestion_id r =
     (case create_rule_payload en i workspace created_by generated is_template template_id suggestion_id r of
        (Inl e, r') \<Rightarrow> (Inl e, r')
      | (Inr payload, r') \<Rightarrow>
          (case build_rule_record_entity payload of
             None \<Rightarrow> (Inl CreatedRulePayloadInvalid, r')
           | Some rec \<Rightarrow> (Inr rec, r')))"

definition update_rule_record ::
  "policy_overrides \<Rightarrow> env \<Rightarrow> string \<Rightarrow> rule_input \<Rightarrow> rule_repo \<Rightarrow> (repo_error + rule_row option) \<times> rule_repo" where
  "update_rule_record ov en rid i r =
     (case update_rule_payload ov en rid i r of
        (Inl e, r') \<Rightarrow> (Inl e, r')
      | (Inr payload, r') \<Rightarrow> (Inr (Option.bind payload build_rule_record_entity), r'))"


section \<open>Use cases\<close>

text \<open>The HTTP errors the use cases raise: the status code and what the detail reports.\<close>

datatype http_detail =
    UnsupportedLifecycleStatus string
  | RuleNotFound string
  | TransitionRefused string string
  | RepositoryRefused repo_error

datatype http_error = HttpError nat http_detail

record transition_command =
  tc_rule_id :: string
  tc_lifecycle_status :: string
  tc_granted_scopes :: "string list option"
  tc_changed_by :: "string option"
  tc_reason :: "string option"

definition row_columns :: "rule_row \<Rightarrow> status_columns" where
  "row_columns w = \<lparr>sc_active = w_active w, sc_lifecycle_status = Some (w_lifecycle_status w),
     sc_last_approval_status = w_last_approval_status w, sc_removed = w_removed w,
     sc_removed_at = w_removed_at w, sc_deleted_on = w_deleted_on w\<rparr>"

definition clean_scopes :: "string list option \<Rightarrow> string list" where
  "clean_scopes ss = (case ss of None \<Rightarrow> [] | Some xs \<Rightarrow> filter (\<lambda>x. x \<noteq> []) (map strip xs))"

definition transition_rule_lifecycle ::
  "scope_check \<Rightarrow> policy_overrides \<Rightarrow> env \<Rightarrow> transition_command \<Rightarrow> rule_repo
   \<Rightarrow> (http_error + rule_row) \<times> rule_repo" where
  "transition_rule_lifecycle has_any ov en cmd r =
     (let target_status = canonicalize_status ''rule_lifecycle'' (Some (tc_lifecycle_status cmd));
          supported = (case get_status_model_definition ov ''rule_lifecycle'' of
                         Some (vals, _) \<Rightarrow> set (map sv_value vals)
                       | None \<Rightarrow> {})
      in if target_status \<notin> supported
         then (Inl (HttpError 400 (UnsupportedLifecycleStatus (tc_lifecycle_status cmd))), r)
         else case find (\<lambda>w. w_id w = tc_rule_id cmd) (list_rule_records None False (Some False) None r) of
           None \<Rightarrow> (Inl (HttpError 404 (RuleNotFound (tc_rule_id cmd))), r)
         | Some row \<Rightarrow>
             (let current_status = derive_rule_lifecycle_status_from_row (row_columns row)
              in if current_status \<noteq> target_status \<and>
                    \<not> is_transition_allowed has_any ov ''rule_lifecycle'' current_status target_status
                        (clean_scopes (tc_granted_scopes cmd))
                 then (Inl (HttpError 409 (TransitionRefused current_status target_status)), r)
                 else case set_rule_lifecycle_status ov en (tc_rule_id cmd) (Some target_status)
                             (tc_changed_by cmd) (tc_reason cmd) r of
                   (Inl e, r') \<Rightarrow> (Inl (HttpError 409 (RepositoryRefused e)), r')
                 | (Inr p, r') \<Rightarrow>
                     (case Option.bind p build_rule_record_entity of
                        None \<Rightarrow> (Inl (HttpError 404 (RuleNotFound (tc_rule_id cmd))), r')
                      | Some w \<Rightarrow> (Inr w, r'))))"

record remove_command =
  rc_rule_id :: string
  rc_granted_scopes :: "string list option"
  rc_removed_by :: "string option"

definition remove_rule ::
  "scope_check \<Rightarrow> policy_overrides \<Rightarrow> env \<Rightarrow> remove_command \<Rightarrow> rule_repo \<Rightarrow> (http_error + reply) \<times> rule_repo" where
  "remove_rule has_any ov en cmd r =
     (case find (\<lambda>w. w_id w = rc_rule_id cmd) (list_rule_records None True (Some False) None r) of
        None \<Rightarrow> (Inl (HttpError 404 (RuleNotFound (rc_rule_id cmd))), r)
      | Some row \<Rightarrow>
          (let current_status = derive_rule_status_from_row (row_columns row)
           in if \<not> is_transition_allowed has_any ov ''rule'' current_status ''removed'' (clean_scopes (rc_granted_scopes cmd))
              then (Inl (HttpError 409 (TransitionRefused current_status ''removed'')), r)
              else case soft_delete_rule_record ov en (rc_rule_id cmd)
                          (if truthy (rc_removed_by cmd) then text_of (rc_removed_by cmd) else ''user-admin'') r of
                (Inl e, r') \<Rightarrow> (Inl (HttpError 409 (RepositoryRefused e)), r')
              | (Inr None, r') \<Rightarrow> (Inl (HttpError 404 (RuleNotFound (rc_rule_id cmd))), r')
              | (Inr (Some p), r') \<Rightarrow> (Inr p, r')))"


section \<open>Properties of the repository\<close>



text \<open>
  Under the default policy a call that activates a stored rule succeeds exactly when the
  rule is approved or already activated; it then leaves the rule active with status
  \<open>activated\<close>, and otherwise it raises and changes nothing.
\<close>

theorem activation_needs_approved_status:
  assumes "map_of (r_rules r) rid = Some e"
  shows "if current_rule_status r rid \<in> {''approved'', ''activated''}
         then (\<exists>x. fst (activate_rule_payload [] en rid r) = Inr (Some x))
              \<and> current_rule_status (snd (activate_rule_payload [] en rid r)) rid = ''activated''
         else (\<exists>err. activate_rule_payload [] en rid r = (Inl err, r))"
proof (cases "current_rule_status r rid \<in> {''approved'', ''activated''}")
  case True
  then have g: "ensure_rule_transition_allowed [] (Some (current_rule_status r rid)) ''activated'' = None"
    by (auto simp: guard_activate)
  have "\<not> truthy (d_removed_at (details_of r rid))"
    using accepted_not_removed [OF no_resurrection_default assms g] .
  with True g assms show ?thesis
    by (simp add: activate_rule_payload_def Let_def current_rule_status_def [of "put_details _ _ _"])
next
  case False
  then have "ensure_rule_transition_allowed [] (Some (current_rule_status r rid)) ''activated'' \<noteq> None"
    by (auto simp: guard_activate)
  with False assms show ?thesis
    by (auto simp: activate_rule_payload_def Let_def)
qed

text \<open>
  A deactivated rule can be removed and then recovered; the recovered rule is inactive
  with status \<open>recovered\<close>, keeps its name and expression, and cannot be activated before it has
  passed approval again.
\<close>

theorem remove_then_recover:
  assumes "map_of (r_rules r) rid = Some e" and "\<not> re_active e"
    and "\<not> truthy (d_removed_at (details_of r rid))"
    and "d_last_approval_status (details_of r rid) = Some ''deactivated''"
    and "env_now en \<noteq> []"
    and "r1 = snd (soft_delete_rule_payload [] en rid u r)"
    and "r2 = snd (recover_rule [] en' rid u' r1)"
  shows "current_rule_status r1 rid = ''removed'' \<and> current_rule_status r2 rid = ''recovered''
       \<and> (\<exists>e'. map_of (r_rules r2) rid = Some e' \<and> \<not> re_active e'
              \<and> re_name e' = re_name e \<and> re_expression e' = re_expression e)
       \<and> (\<exists>err. activate_rule_payload [] en'' rid r2 = (Inl err, r2))"
proof -
  have s0: "current_rule_status (put_details rid (details_of r rid) r) rid = ''deactivated''"
    using assms(1-4) by (simp add: current_rule_status_def)
  have g0: "ensure_rule_transition_allowed [] (Some ''deactivated'') ''removed'' = None"
    using guard_remove [of "put_details rid (details_of r rid) r" rid] s0 by simp
  have r1: "map_of (r_rules r1) rid = Some e" "details_of r1 rid = (details_of r rid)
       \<lparr>d_removed_at := Some (env_now en), d_removed_by := Some u, d_last_approval_status := Some ''removed''\<rparr>"
    using assms(1-4,6) s0 g0 by (simp_all add: soft_delete_rule_payload_def Let_def text_eval)
  have s1: "current_rule_status r1 rid = ''removed''"
    and s1': "current_rule_status (put_details rid (details_of r1 rid) r1) rid = ''removed''"
    using r1 assms(5) by (simp_all add: current_rule_status_def)
  have g1: "ensure_rule_transition_allowed [] (Some ''removed'') ''recovered'' = None"
    using guard_recover [of r1 rid] s1 by simp
  have r2: "map_of (r_rules r2) rid = Some (mk_rule rid (re_name e) (re_description e) None (re_expression e)
              (re_dimension e) False (re_created_by_user_id e) (re_tag_ids e))"
      "details_of r2 rid = (details_of r1 rid)
         \<lparr>d_removed_at := None, d_removed_by := None, d_last_approval_status := Some ''recovered''\<rparr>"
    using r1 assms(5,7) s1' g1 by (simp_all add: recover_rule_def Let_def)
  then have s2: "current_rule_status r2 rid = ''recovered''"
    by (simp add: current_rule_status_def)
  then have "ensure_rule_transition_allowed [] (Some (current_rule_status r2 rid)) ''activated'' \<noteq> None"
    using guard_activate [of r2 rid] by simp
  with r2 s1 s2 show ?thesis
    by (auto simp: activate_rule_payload_def Let_def mk_rule_def)
qed

lemma find_record_id: "find (\<lambda>w. w_id w = rid) ws = Some w \<Longrightarrow> w \<in> set ws \<and> w_id w = rid"
  by (auto simp: find_Some_iff)

lemma list_rule_payloads_set:
  "w \<in> set (list_rule_payloads ws del tmpl None r) \<Longrightarrow>
   \<exists>e \<in> set (map snd (r_rules r)). w = rule_payload r e \<and> listed r ws del tmpl e"
  by (auto simp: list_rule_payloads_def sort_desc_def Let_def)

lemma soft_delete_effect:
  assumes "soft_delete_rule_payload ov en rid u r = (Inr (Some p), r')" and "env_now en \<noteq> []"
  shows "(\<exists>e. map_of (r_rules r) rid = Some e \<and> \<not> re_active e)
       \<and> normalize_status (d_last_approval_status (details_of r rid)) = ''deactivated''
       \<and> current_rule_status r' rid = ''removed''"
  using assms
  by (auto simp: soft_delete_rule_payload_def Let_def normalize_status_def normalize_status_value_def
        current_rule_status_def [of "put_details _ (_\<lparr>d_removed_at := _, d_removed_by := _, d_last_approval_status := _\<rparr>) _"]
        split: if_splits option.splits)

lemma soft_delete_record_payload:
  "soft_delete_rule_record ov en rid u r = (Inr (Some p), r') \<Longrightarrow>
   \<exists>q. soft_delete_rule_payload ov en rid u r = (Inr (Some q), r')"
  by (auto simp: soft_delete_rule_record_def record_of_reply_def split: sum.splits prod.splits option.splits)

text \<open>
  The lifecycle use case answers with a rule only when the requested status is one of the
  declared lifecycle statuses and the caller's scopes allow the transition from the status of
  the listed rule (or the rule has that status already).
\<close>

theorem lifecycle_transition_is_authorised:
  assumes "transition_rule_lifecycle has_any ov en cmd r = (Inr w', r')"
  shows "\<exists>w \<in> set (list_rule_records None False (Some False) None r).
           w_id w = tc_rule_id cmd \<and>
           (let target = canonicalize_status ''rule_lifecycle'' (Some (tc_lifecycle_status cmd));
                current = derive_rule_lifecycle_status_from_row (row_columns w)
            in target \<in> {''active'', ''deprecated'', ''superseded'', ''retired''}
               \<and> (current = target \<or> is_transition_allowed has_any ov ''rule_lifecycle'' current target
                     (clean_scopes (tc_granted_scopes cmd))))"
  using assms
  by (auto simp: transition_rule_lifecycle_def Let_def get_status_model_definition_def status_models_def
        rule_lifecycle_status_values_def split: if_splits option.splits sum.splits prod.splits
      dest!: find_record_id)

text \<open>
  The removal use case answers with a rule only when the caller's scopes allow the
  transition to \<open>removed\<close>, and then the rule was inactive with the last approval status
  \<open>deactivated\<close> and has status \<open>removed\<close> afterwards.
\<close>

theorem removal_is_authorised_and_effective:
  assumes "remove_rule has_any ov en cmd r = (Inr p, r')" and "env_now en \<noteq> []"
  shows "(\<exists>w \<in> set (list_rule_records None True (Some False) None r). w_id w = rc_rule_id cmd \<and>
            is_transition_allowed has_any ov ''rule'' (derive_rule_status_from_row (row_columns w)) ''removed''
              (clean_scopes (rc_granted_scopes cmd)))
       \<and> (\<exists>e. map_of (r_rules r) (rc_rule_id cmd) = Some e \<and> \<not> re_active e)
       \<and> normalize_status (d_last_approval_status (details_of r (rc_rule_id cmd))) = ''deactivated''
       \<and> current_rule_status r' (rc_rule_id cmd) = ''removed''"
proof -
  let ?u = "if truthy (rc_removed_by cmd) then text_of (rc_removed_by cmd) else ''user-admin''"
  obtain w where w: "w \<in> set (list_rule_records None True (Some False) None r)" "w_id w = rc_rule_id cmd"
      "is_transition_allowed has_any ov ''rule'' (derive_rule_status_from_row (row_columns w)) ''removed''
         (clean_scopes (rc_granted_scopes cmd))"
    and "soft_delete_rule_record ov en (rc_rule_id cmd) ?u r = (Inr (Some p), r')"
    using assms(1)
    by (auto simp: remove_rule_def Let_def split: option.splits sum.splits prod.splits if_split_asm
        dest!: find_record_id)
  with soft_delete_record_payload soft_delete_effect assms(2) show ?thesis by blast
qed

lemma details_lifecycle_cong:
  "d_lifecycle_status d' = d_lifecycle_status d \<Longrightarrow> d_removed_at d' = d_removed_at d \<Longrightarrow>
   details_lifecycle_status d' = details_lifecycle_status d"
  by (simp add: details_lifecycle_status_def details_columns_def derive_rule_lifecycle_status_from_row_def Let_def)

abbreviation new_rule_id :: "env \<Rightarrow> string" where
  "new_rule_id en \<equiv> ''rule-'' @ take 10 (env_uuid_rule en)"

lemma create_effect:
  fixes en i ws cb g t tid sid r
  defines "r' \<equiv> snd (create_rule_payload en i ws cb g t tid sid r)"
  shows "map_of (r_rules r') (new_rule_id en) =
      Some (mk_rule (new_rule_id en) (i_name i) (i_description i) (i_comments i) (i_expression i) (i_dimension i)
        (i_active i) (if map_of (r_users r) cb \<noteq> None then cb else ''user-admin'') [])"
    and "d_removed_at (details_of r' (new_rule_id en)) = None" and "d_comments (details_of r' (new_rule_id en)) = None"
    and "d_check_type (details_of r' (new_rule_id en)) = i_check_type i"
    and "d_dsl (details_of r' (new_rule_id en)) = i_dsl i"
  unfolding r'_def create_rule_payload_def Let_def
  by (cases "map_of (r_users r) (if map_of (r_users r) cb \<noteq> None then cb else ''user-admin'')";
      simp split del: if_split)+

lemma update_effect:
  assumes "fst (update_rule_payload ov en rid i r) = Inr x" and "map_of (r_rules r) rid = Some e"
  defines "r' \<equiv> snd (update_rule_payload ov en rid i r)"
  shows "\<exists>e'. map_of (r_rules r') rid = Some e' \<and> re_name e' = i_name i \<and> re_description e' = i_description i
      \<and> re_expression e' = i_expression i \<and> re_dimension e' = i_dimension i \<and> re_active e' = i_active i"
    and "d_removed_at (details_of r' rid) = d_removed_at (details_of r rid)"
    and "d_comments (details_of r' rid) = i_comments i"
    and "d_check_type (details_of r' rid) = i_check_type i" and "d_dsl (details_of r' rid) = i_dsl i"
    and "d_lifecycle_status (details_of r' rid) = d_lifecycle_status (details_of r rid)"
proof -
  have g: "ensure_rule_transition_allowed ov (Some (current_rule_status r rid))
     (desired_status (current_rule_status r rid) (i_active i) (re_active e)) = None"
    using assms(1,2) by (simp add: update_rule_payload_def Let_def split: option.splits split del: if_split)
  show "\<exists>e'. map_of (r_rules r') rid = Some e' \<and> re_name e' = i_name i \<and> re_description e' = i_description i
      \<and> re_expression e' = i_expression i \<and> re_dimension e' = i_dimension i \<and> re_active e' = i_active i"
    and "d_removed_at (details_of r' rid) = d_removed_at (details_of r rid)"
    and "d_comments (details_of r' rid) = i_comments i"
    and "d_check_type (details_of r' rid) = i_check_type i" and "d_dsl (details_of r' rid) = i_dsl i"
    and "d_lifecycle_status (details_of r' rid) = d_lifecycle_status (details_of r rid)"
    unfolding r'_def update_rule_payload_def Let_def
    by (simp_all add: assms(2) g mk_rule_def split del: if_split)
qed

lemma find_listed:
  assumes "keys_match r" and "dict_wf (r_rules r)" and "map_of (r_rules r) rid = Some e"
    and "listed r ws del tmpl e"
  shows "find (\<lambda>w. w_id w = rid) (list_rule_payloads ws del tmpl None r) = Some (rule_payload r e)"
proof -
  let ?rows = "list_rule_payloads ws del tmpl None r"
  have e: "re_id e = rid" using assms(1,3) by (simp add: keys_match_def)
  then have "rule_payload r e \<in> set ?rows" "w_id (rule_payload r e) = rid"
    using assms(3,4) map_of_SomeD [OF assms(3)]
    by (auto simp: list_rule_payloads_def sort_desc_def Let_def rule_payload_def intro!: image_eqI [where x = e] rev_image_eqI)
  moreover have "w = rule_payload r e" if "w \<in> set ?rows" "w_id w = rid" for w
  proof -
    from list_rule_payloads_set [OF that(1)] obtain k e' where "(k, e') \<in> set (r_rules r)" "w = rule_payload r e'" by auto
    moreover from this that(2) have "re_id e' = rid" by (simp add: rule_payload_def Let_def)
    ultimately show ?thesis using assms(1-3) by (metis keys_match_def map_of_is_SomeI option.inject)
  qed
  moreover obtain w where "find (\<lambda>w. w_id w = rid) ?rows = Some w"
    using calculation(1,2) by (metis (mono_tags, lifting) find_None_iff not_None_eq)
  ultimately show ?thesis using find_record_id by fastforce
qed

lemma create_payload_result:
  assumes "keys_match r" and "dict_wf (r_rules r)" and "map_of (r_users r) ''user-admin'' = Some admin"
    and "ws = ''default''"
  shows "fst (create_rule_payload en i ws cb g t tid sid r) =
    Inr (rule_payload (snd (create_rule_payload en i ws cb g t tid sid r))
      (mk_rule (new_rule_id en) (i_name i) (i_description i) (i_comments i) (i_expression i) (i_dimension i)
        (i_active i) (if map_of (r_users r) cb \<noteq> None then cb else ''user-admin'') []))"
proof -
  let ?r = "snd (create_rule_payload en i ws cb g t tid sid r)"
  let ?e = "mk_rule (new_rule_id en) (i_name i) (i_description i) (i_comments i) (i_expression i) (i_dimension i)
        (i_active i) (if map_of (r_users r) cb \<noteq> None then cb else ''user-admin'') []"
  obtain a where a: "map_of (r_users r) (if map_of (r_users r) cb \<noteq> None then cb else ''user-admin'') = Some a"
    using assms(3) by (cases "map_of (r_users r) cb") auto
  have "keys_match ?r" "dict_wf (r_rules ?r)"
    using assms(1,2) a by (simp_all add: create_rule_payload_def Let_def keys_match_def split del: if_split)
      (simp_all add: put_rule_def)
  moreover have "map_of (r_rules ?r) (new_rule_id en) = Some ?e" by (rule create_effect(1))
  moreover have "listed ?r (Some ws) False None ?e"
    using create_effect(2) [of en i ws cb g t tid sid r] assms(4) by (simp add: listed_def Let_def truthy_def)
  ultimately have "find (\<lambda>w. w_id w = new_rule_id en) (list_rule_payloads (Some ws) False None None ?r) = Some (rule_payload ?r ?e)"
    by (rule find_listed)
  then show ?thesis using a
    by (simp add: create_rule_payload_def Let_def split del: if_split) (auto split: if_splits)
qed

text \<open>
  Creating a rule in the default workspace answers with the record of the new rule itself: its
  identifier, its name and expression without surrounding blanks, its activity, and the lifecycle
  status active.
\<close>

theorem created_rule_is_returned:
  assumes "keys_match r" and "dict_wf (r_rules r)" and "map_of (r_users r) ''user-admin'' = Some admin"
    and "strip (new_rule_id en) = new_rule_id en"
  shows "\<exists>w. fst (create_rule_record en i ''default'' cb g t tid sid r) = Inr w \<and> w_id w = new_rule_id en
    \<and> w_name w = strip (i_name i) \<and> w_expression w = strip (i_expression i) \<and> w_active w = i_active i
    \<and> w_lifecycle_status w = ''active'' \<and> \<not> w_removed w"
proof -
  let ?p = "create_rule_payload en i ''default'' cb g t tid sid r"
  have "fst ?p = Inr (rule_payload (snd ?p) (mk_rule (new_rule_id en) (i_name i) (i_description i) (i_comments i)
      (i_expression i) (i_dimension i) (i_active i) (if map_of (r_users r) cb \<noteq> None then cb else ''user-admin'') []))"
    by (rule create_payload_result [OF assms(1-3)]) simp
  moreover have "d_lifecycle_status (details_of (snd ?p) (new_rule_id en)) = Some ''active''"
    unfolding create_rule_payload_def Let_def
    by (cases "map_of (r_users r) (if map_of (r_users r) cb \<noteq> None then cb else ''user-admin'')")
       (simp_all split del: if_split)
  ultimately show ?thesis using create_effect(2) [of en i "''default''" cb g t tid sid r] assms(4)
    by (cases ?p) (simp add: create_rule_record_def build_rule_record_entity_def rule_payload_def Let_def mk_rule_def
        details_lifecycle_status_def truthy_def text_eval split del: if_split)
qed

text \<open>
  What is read back after a rule is created: every field as given, except the comments,
  which are lost (the details written on creation have no comments column, and reads take the
  comments from there).
\<close>

theorem created_rule_reads_back_without_comments:
  "map_option (\<lambda>v. (re_name v, re_description v, re_expression v, re_dimension v, re_active v,
                      rw_check_type v, rw_dsl v, re_comments v))
     (get_rule_by_id (snd (create_rule_payload en i ws cb g t tid sid r)) (''rule-'' @ take 10 (env_uuid_rule en)))
   = Some (i_name i, i_description i, i_expression i, i_dimension i, i_active i,
           clean (i_check_type i), only_dict (i_dsl i), None)"
  unfolding get_rule_by_id_def create_effect(1) Let_def option.case(2)
  using create_effect(2-5) [of en i ws cb g t tid sid r]
  by (simp add: mk_rule_def clean_def or_none_def)

text \<open>
  An accepted update of a rule that is not removed is read back in full, comments included.
\<close>

theorem updated_rule_reads_back:
  assumes "fst (update_rule_payload ov en rid i r) = Inr x" and "map_of (r_rules r) rid = Some e"
    and "\<not> truthy (d_removed_at (details_of r rid))"
  shows "map_option (\<lambda>v. (re_name v, re_description v, re_expression v, re_dimension v, re_active v,
                      rw_check_type v, rw_dsl v, re_comments v, re_lifecycle_status v))
     (get_rule_by_id (snd (update_rule_payload ov en rid i r)) rid)
   = Some (i_name i, i_description i, i_expression i, i_dimension i, i_active i,
           clean (i_check_type i), only_dict (i_dsl i), clean (i_comments i),
           details_lifecycle_status (details_of r rid))"
proof -
  obtain e' where e: "map_of (r_rules (snd (update_rule_payload ov en rid i r))) rid = Some e'"
    and e': "re_name e' = i_name i" "re_description e' = i_description i" "re_expression e' = i_expression i"
      "re_dimension e' = i_dimension i" "re_active e' = i_active i"
    using update_effect(1) [OF assms(1,2)] by blast
  note d = update_effect(2-6) [OF assms(1,2)]
  have "details_lifecycle_status (details_of (snd (update_rule_payload ov en rid i r)) rid)
      = details_lifecycle_status (details_of r rid)"
    by (rule details_lifecycle_cong) (simp_all add: d)
  then show ?thesis unfolding get_rule_by_id_def e Let_def option.case(2)
    using d assms(3) e' by simp
qed

lemma list_other_workspace:
  "ws \<noteq> [] \<Longrightarrow> ws \<noteq> ''default'' \<Longrightarrow> list_rule_payloads (Some ws) del tmpl q r = []"
  by (simp add: list_rule_payloads_def listed_def sort_desc_def Let_def)

text \<open>
  Creating a rule in a workspace other than \<open>default\<close> raises \<open>IndexError\<close>, although the
  rule has been stored: the listing of another workspace is always empty, and the default
  \<open>rows[-1]\<close> of the final selection is evaluated.
\<close>

theorem create_in_other_workspace_raises:
  assumes "ws \<noteq> []" and "ws \<noteq> ''default''" and "map_of (r_users r) cb \<noteq> None"
  shows "fst (create_rule_payload en i ws cb g t tid sid r) = Inl PyIndexError
       \<and> map_of (r_rules (snd (create_rule_payload en i ws cb g t tid sid r)))
           (''rule-'' @ take 10 (env_uuid_rule en)) \<noteq> None"
  using assms by (auto simp: create_rule_payload_def Let_def list_other_workspace split: option.splits)

text \<open>
  The repository refuses to retire an active rule, yet it activates a retired one: a
  retired rule whose status is \<open>approved\<close> becomes active and stays retired.
\<close>

theorem retired_rule_can_be_activated:
  assumes "map_of (r_rules r) rid = Some e" and "current_rule_status r rid = ''approved''"
    and "details_lifecycle_status (details_of r rid) = ''retired''"
  shows "\<exists>r' x e'. activate_rule_payload [] en rid r = (Inr (Some x), r')
           \<and> map_of (r_rules r') rid = Some e' \<and> re_active e'
           \<and> details_lifecycle_status (details_of r' rid) = ''retired''
           \<and> fst (set_rule_lifecycle_status [] en rid (Some ''retired'') cb re r') = Inl ActiveRuleCannotRetire"
proof -
  have g: "ensure_rule_transition_allowed [] (Some ''approved'') ''activated'' = None"
    using guard_activate [of r rid] assms(2) by simp
  have nr: "\<not> truthy (d_removed_at (details_of r rid))"
    using assms(1,2) by (auto simp: current_rule_status_def split: if_splits)
  have l: "normalize_rule_lifecycle_status (Some ''retired'') = ''retired''"
    by (simp add: normalize_rule_lifecycle_status_def canonicalize_status_def canonicalize_status_value_def
        normalize_status_value_def text_eval)
  have "details_lifecycle_status ((details_of r rid)\<lparr>d_validation_status := Some ''valid'',
      d_last_approval_status := Some ''approved''\<rparr>) = ''retired''"
    unfolding assms(3) [symmetric] by (rule details_lifecycle_cong) simp_all
  with g nr l assms(1,2) show ?thesis
    by (simp add: activate_rule_payload_def set_rule_lifecycle_status_def Let_def)
qed


section \<open>Witnesses\<close>

definition demo_repo :: "bool \<Rightarrow> string \<Rightarrow> string \<Rightarrow> rule_repo" where
  "demo_repo active approval lifecycle =
     \<lparr>r_rules = [(''r1'', mk_rule ''r1'' ''Not null'' None None ''id > 0'' ''validity'' active ''user-admin'' [])],
      r_users = [(''user-admin'', ''Admin'')], r_rule_versions = [], r_rollback_history = [],
      r_status_history = [],
      r_rule_details = [(''r1'', no_details\<lparr>d_workspace := Some ''default'', d_lifecycle_status := Some lifecycle,
                                            d_last_approval_status := Some approval\<rparr>)]\<rparr>"

definition demo_env :: env where
  "demo_env = \<lparr>env_now = ''2026-05-01T10:00:00+00:00'', env_stamp = ''2026-05-01T10:00:00Z'',
     env_uuid_row = ''00000000000a'', env_uuid_rule = ''0000000001''\<rparr>"

definition demo_input :: rule_input where
  "demo_input = \<lparr>i_name = ''Not null'', i_description = None, i_comments = Some ''note'', i_expression = ''id > 1'',
     i_dimension = ''validity'', i_active = False, i_dsl = PNone, i_join_conditions = PList [],
     i_alias_mappings = PDict [], i_reusable_join_id = None, i_reusable_filter_ids = [],
     i_manual_override_by = None, i_manual_override_at = None, i_check_type = None,
     i_check_type_params = PNone, i_taxonomy = PNone\<rparr>"

lemma demo_inv: "repo_inv (demo_repo False approval lifecycle)"
  by (auto simp: repo_inv_def removed_inactive_def keys_match_def history_sorted_def versions_sound_def
      versions_ok_def demo_repo_def dict_get_def details_of_def split: if_splits)

lemma demo_sel:
  "map_of (r_rules (demo_repo active ap lc)) ''r1'' =
     Some (mk_rule ''r1'' ''Not null'' None None ''id > 0'' ''validity'' active ''user-admin'' [])"
  "details_of (demo_repo active ap lc) ''r1'' =
     no_details\<lparr>d_workspace := Some ''default'', d_lifecycle_status := Some lc, d_last_approval_status := Some ap\<rparr>"
  "map_of (r_users (demo_repo active ap lc)) ''user-admin'' = Some ''Admin''"
  "env_now demo_env \<noteq> []"
  by (simp_all add: demo_repo_def details_of_def dict_get_def demo_env_def)

lemma demo_status:
  "current_rule_status (demo_repo False ''deactivated'' lc) ''r1'' = ''deactivated''"
  "current_rule_status (demo_repo False ''approved'' lc) ''r1'' = ''approved''"
  by (simp_all add: current_rule_status_def demo_sel normalize_rule_status_def text_eval)



lemma activation_needs_approved_status_witness:
  "current_rule_status (snd (activate_rule_payload [] demo_env ''r1'' (demo_repo False ''approved'' ''active''))) ''r1''
     = ''activated''"
  using activation_needs_approved_status [OF demo_sel(1), of False "''approved''" "''active''" demo_env] demo_status(2)
  by simp

lemma remove_then_recover_witness:
  "let r1 = snd (soft_delete_rule_payload [] demo_env ''r1'' ''u'' (demo_repo False ''deactivated'' ''active''));
       r2 = snd (recover_rule [] demo_env ''r1'' ''u'' r1)
   in current_rule_status r1 ''r1'' = ''removed'' \<and> current_rule_status r2 ''r1'' = ''recovered''"
  using remove_then_recover [OF demo_sel(1), of False "''deactivated''" "''active''" demo_env _ "''u''" _ demo_env "''u''"]
  by (simp add: Let_def demo_sel)

lemma updated_rule_reads_back_witness:
  "map_option re_comments (get_rule_by_id (snd (update_rule_payload [] demo_env ''r1'' demo_input
      (demo_repo False ''deactivated'' ''active''))) ''r1'') = Some (Some ''note'')"
proof -
  let ?r = "demo_repo False ''deactivated'' ''active''"
  have "desired_status ''deactivated'' False False = ''draft''" by (simp add: desired_status_def)
  moreover have "ensure_rule_transition_allowed [] (Some ''deactivated'') ''draft'' = None"
    using guard_default [of ?r "''r1''" "''draft''"] demo_status(1) [of "''active''"] by (simp add: default_table_defs)
  ultimately obtain x where "fst (update_rule_payload [] demo_env ''r1'' demo_input ?r) = Inr x"
    by (simp add: update_rule_payload_def Let_def demo_sel demo_status demo_input_def mk_rule_def)
  from updated_rule_reads_back [OF this demo_sel(1)] show ?thesis
    by (auto simp: demo_sel demo_input_def clean_def or_none_def text_eval)
qed

lemma create_in_other_workspace_raises_witness:
  "fst (create_rule_payload demo_env demo_input ''retail'' ''user-admin'' False False None None
      (demo_repo False ''approved'' ''active'')) = Inl PyIndexError"
  using create_in_other_workspace_raises [of "''retail''" "demo_repo False ''approved'' ''active''" "''user-admin''"]
  by (simp add: demo_sel)

lemma retired_rule_can_be_activated_witness:
  "\<exists>r' x e'. activate_rule_payload [] demo_env ''r1'' (demo_repo False ''approved'' ''retired'') = (Inr (Some x), r')
     \<and> map_of (r_rules r') ''r1'' = Some e' \<and> re_active e'
     \<and> details_lifecycle_status (details_of r' ''r1'') = ''retired''
     \<and> fst (set_rule_lifecycle_status [] demo_env ''r1'' (Some ''retired'') None None r') = Inl ActiveRuleCannotRetire"
  by (rule retired_rule_can_be_activated)
     (simp_all add: demo_sel demo_status details_lifecycle_status_def text_eval)


definition any_scope :: scope_check where
  "any_scope granted required \<longleftrightarrow> list_ex (\<lambda>s. s \<in> set granted) required"

lemma demo_rows:
  "list_rule_payloads None del (Some False) None (demo_repo False ap lc) =
     [rule_payload (demo_repo False ap lc) (mk_rule ''r1'' ''Not null'' None None ''id > 0'' ''validity'' False ''user-admin'' [])]"
  by (simp add: list_rule_payloads_def listed_def sort_desc_def Let_def demo_repo_def details_of_def dict_get_def
      no_details_def)

lemma build_record_sel:
  assumes "strip (w_id w0) \<noteq> []"
  obtains w where "build_rule_record_entity w0 = Some w" and "w_id w = strip (w_id w0)"
    and "w_active w = w_active w0" "w_removed w = w_removed w0"
      "w_lifecycle_status w = (let s = strip (w_lifecycle_status w0) in if s = [] then ''active'' else s)"
      "w_last_approval_status w = clean (w_last_approval_status w0)"
      "w_removed_at w = clean (w_removed_at w0)" "w_deleted_on w = clean (w_deleted_on w0)"
  using assms by (simp add: build_rule_record_entity_def Let_def)

lemma rule_payload_sel:
  "w_id (rule_payload r e) = re_id e" "w_active (rule_payload r e) = re_active e"
  "w_lifecycle_status (rule_payload r e) = details_lifecycle_status (details_of r (re_id e))"
  "w_last_approval_status (rule_payload r e) =
     (case d_last_approval_status (details_of r (re_id e)) of
        None \<Rightarrow> (if re_active e then Some ''approved'' else None) | Some x \<Rightarrow> Some x)"
  "w_removed (rule_payload r e) = truthy (d_removed_at (details_of r (re_id e)))"
  "w_removed_at (rule_payload r e) = d_removed_at (details_of r (re_id e))"
  "w_deleted_on (rule_payload r e) = d_removed_at (details_of r (re_id e))"
  by (simp_all add: rule_payload_def Let_def)

lemma demo_records:
  obtains w where "list_rule_records None del (Some False) None (demo_repo False ap ''active'') = [w]" "w_id w = ''r1''"
     "row_columns w = \<lparr>sc_active = False, sc_lifecycle_status = Some ''active'', sc_last_approval_status = clean (Some ap),
         sc_removed = False, sc_removed_at = None, sc_deleted_on = None\<rparr>"
proof -
  let ?w = "rule_payload (demo_repo False ap ''active'') (mk_rule ''r1'' ''Not null'' None None ''id > 0'' ''validity'' False ''user-admin'' [])"
  have id: "strip (w_id ?w) = ''r1''" by (simp add: rule_payload_sel text_eval)
  obtain w where "build_rule_record_entity ?w = Some w" "w_id w = strip (w_id ?w)"
    "w_active w = w_active ?w" "w_removed w = w_removed ?w"
      "w_lifecycle_status w = (let s = strip (w_lifecycle_status ?w) in if s = [] then ''active'' else s)"
      "w_last_approval_status w = clean (w_last_approval_status ?w)"
      "w_removed_at w = clean (w_removed_at ?w)" "w_deleted_on w = clean (w_deleted_on ?w)"
    by (rule build_record_sel [of ?w]) (simp_all add: id)
  then show ?thesis
    by (intro that [of w])
       (simp_all add: list_rule_records_def demo_rows map_filter_simps id row_columns_def rule_payload_sel demo_sel
          details_lifecycle_status_def clean_def or_none_def text_eval)
qed

lemma updated_row_single:
  "r_rules r = [(k, e)] \<Longrightarrow> re_id e = k \<Longrightarrow> \<not> truthy (d_removed_at (details_of r k)) \<or> del \<Longrightarrow>
   updated_row (Some ''default'') del r k = Some (rule_payload r e)"
  by (auto simp: updated_row_def list_rule_payloads_def listed_def sort_desc_def Let_def rule_payload_sel)

lemma demo_rules: "r_rules (demo_repo active ap lc) =
    [(''r1'', mk_rule ''r1'' ''Not null'' None None ''id > 0'' ''validity'' active ''user-admin'' [])]"
  by (simp add: demo_repo_def)

lemma default_canon_literals:
  "canon ''rule_lifecycle'' ''active'' = ''active''" "canon ''rule_lifecycle'' ''deprecated'' = ''deprecated''"
  "canon ''rule'' ''deactivated'' = ''deactivated''" "canon ''rule'' ''removed'' = ''removed''"
  by (simp_all add: canonicalize_status_value_def normalize_status_value_def text_eval)

lemma lifecycle_transition_is_authorised_witness:
  "\<exists>w \<in> set (list_rule_records None False (Some False) None (demo_repo False ''approved'' ''active'')).
     w_id w = ''r1'' \<and>
     (let target = canonicalize_status ''rule_lifecycle'' (Some ''deprecated'');
          current = derive_rule_lifecycle_status_from_row (row_columns w)
      in target \<in> {''active'', ''deprecated'', ''superseded'', ''retired''}
         \<and> (current = target \<or> is_transition_allowed any_scope [] ''rule_lifecycle'' current target
               (clean_scopes (Some [''dq:rules:write'']))))"
proof -
  let ?r = "demo_repo False ''approved'' ''active''"
  let ?cmd = "\<lparr>tc_rule_id = ''r1'', tc_lifecycle_status = ''deprecated'', tc_granted_scopes = Some [''dq:rules:write''],
      tc_changed_by = None, tc_reason = None\<rparr>"
  obtain w where w: "list_rule_records None False (Some False) None ?r = [w]" "w_id w = ''r1''"
      "row_columns w = \<lparr>sc_active = False, sc_lifecycle_status = Some ''active'', sc_last_approval_status = Some ''approved'',
         sc_removed = False, sc_removed_at = None, sc_deleted_on = None\<rparr>"
    by (rule demo_records [of False "''approved''"]) (auto simp: clean_def or_none_def text_eval)
  have d: "derive_rule_lifecycle_status_from_row (row_columns w) = ''active''"
    by (simp add: w derive_rule_lifecycle_status_from_row_def canonicalize_status_def default_canon_literals)
  have a: "is_transition_allowed any_scope [] ''rule_lifecycle'' ''active'' ''deprecated'' [''dq:rules:write'']"
    by (simp add: is_transition_allowed_def default_definitions rule_lifecycle_status_transitions_def
        matches_transition_def default_canon_literals has_required_scope_def any_scope_def)
  have n: "normalize_rule_lifecycle_status (Some ''deprecated'') = ''deprecated''"
    by (simp add: normalize_rule_lifecycle_status_def canonicalize_status_def default_canon_literals)
  have g: "ensure_rule_lifecycle_transition_allowed [] (Some ''active'') ''deprecated'' = None"
    by (simp add: ensure_rule_lifecycle_transition_allowed_def normalize_rule_lifecycle_status_def
        canonicalize_status_def default_canon_literals default_step_edges default_table_defs)
  have l: "details_lifecycle_status (details_of ?r ''r1'') = ''active''"
    by (simp add: demo_sel details_lifecycle_status_def text_eval)
  let ?res = "set_rule_lifecycle_status [] demo_env ''r1'' (Some ''deprecated'') None None ?r"
  have "\<exists>w0. fst ?res = Inr (Some w0) \<and> w_id w0 = ''r1''"
    using n g l unfolding set_rule_lifecycle_status_def
    by (simp add: demo_sel Let_def demo_rules updated_row_single rule_payload_sel split del: if_split)
       (simp add: demo_rules updated_row_single rule_payload_sel)
  then obtain w0 r' where s: "?res = (Inr (Some w0), r')" and w0: "strip (w_id w0) = ''r1''"
    by (cases ?res) (auto simp: text_eval)
  obtain w1 where "build_rule_record_entity w0 = Some w1"
    by (rule build_record_sel [of w0]) (simp_all add: w0)
  then have "transition_rule_lifecycle any_scope [] demo_env ?cmd ?r = (Inr w1, r')"
    using w s d a
    by (simp add: transition_rule_lifecycle_def Let_def canonicalize_status_def default_canon_literals
        default_definitions rule_lifecycle_status_values_def clean_scopes_def text_eval)
  from lifecycle_transition_is_authorised [OF this] show ?thesis by simp
qed

lemma removal_is_authorised_and_effective_witness:
  "current_rule_status (snd (remove_rule any_scope [] demo_env
      \<lparr>rc_rule_id = ''r1'', rc_granted_scopes = Some [''dq:rules:delete''], rc_removed_by = None\<rparr>
      (demo_repo False ''deactivated'' ''active''))) ''r1'' = ''removed''"
proof -
  let ?r = "demo_repo False ''deactivated'' ''active''"
  let ?cmd = "\<lparr>rc_rule_id = ''r1'', rc_granted_scopes = Some [''dq:rules:delete''], rc_removed_by = None\<rparr>"
  obtain w where w: "list_rule_records None True (Some False) None ?r = [w]" "w_id w = ''r1''"
      "row_columns w = \<lparr>sc_active = False, sc_lifecycle_status = Some ''active'', sc_last_approval_status = Some ''deactivated'',
         sc_removed = False, sc_removed_at = None, sc_deleted_on = None\<rparr>"
    by (rule demo_records [of True "''deactivated''"]) (auto simp: clean_def or_none_def text_eval)
  have d: "derive_rule_status_from_row (row_columns w) = ''deactivated''"
    by (simp add: w derive_rule_status_from_row_def canonicalize_status_def default_canon_literals)
  have a: "is_transition_allowed any_scope [] ''rule'' ''deactivated'' ''removed'' [''dq:rules:delete'']"
    by (simp add: is_transition_allowed_def default_definitions rule_status_transitions_def
        matches_transition_def canonicalize_status_value_def normalize_status_value_def text_eval
        has_required_scope_def any_scope_def)
  have s0: "current_rule_status (put_details ''r1'' (details_of ?r ''r1'') ?r) ''r1'' = ''deactivated''"
    by (simp add: current_rule_status_def demo_sel)
  have g: "ensure_rule_transition_allowed [] (Some ''deactivated'') ''removed'' = None"
    using guard_remove [of "put_details ''r1'' (details_of ?r ''r1'') ?r" "''r1''"] s0 by simp
  let ?res = "soft_delete_rule_payload [] demo_env ''r1'' ''user-admin'' ?r"
  have "\<exists>w0. fst ?res = Inr (Some (RowOk w0)) \<and> w_id w0 = ''r1''"
    using g s0 unfolding soft_delete_rule_payload_def
    by (simp add: demo_sel Let_def demo_rules updated_row_single rule_payload_sel text_eval)
  then obtain w0 r' where s: "?res = (Inr (Some (RowOk w0)), r')" and w0: "strip (w_id w0) = ''r1''"
    by (cases ?res) (auto simp: text_eval)
  obtain w1 where "build_rule_record_entity w0 = Some w1"
    by (rule build_record_sel [of w0]) (simp_all add: w0)
  then have "remove_rule any_scope [] demo_env ?cmd ?r = (Inr (Row w1), r')"
    using w s d a
    by (simp add: remove_rule_def Let_def soft_delete_rule_record_def record_of_reply_def clean_scopes_def text_eval)
  with removal_is_authorised_and_effective [OF this demo_sel(4)] show ?thesis by simp
qed

lemma created_rule_is_returned_witness:
  "\<exists>w. fst (create_rule_record demo_env demo_input ''default'' ''u'' False False None None
      (demo_repo False ''approved'' ''active'')) = Inr w \<and> w_id w = ''rule-0000000001'' \<and> w_name w = ''Not null''"
proof -
  have "keys_match (demo_repo False ''approved'' ''active'')"
    using demo_inv [of "''approved''" "''active''"] by (simp add: repo_inv_def)
  moreover have "new_rule_id demo_env = ''rule-0000000001''" by (simp add: demo_env_def)
  moreover have "strip ''rule-0000000001'' = ''rule-0000000001''" "strip (i_name demo_input) = ''Not null''"
    by (simp_all add: demo_input_def text_eval)
  ultimately show ?thesis
    using created_rule_is_returned [of "demo_repo False ''approved'' ''active''" "''Admin''" demo_env demo_input "''u''" False False None None]
    by (auto simp: demo_sel demo_rules)
qed

end
