(* ===== verification/Rule_Versions.thy ===== *)
theory Rule_Versions
  imports Rule_Repository "HOL-Library.Multiset"
begin

text \<open>
  The version operations of the rule repository (\<open>_in_memory_rule_versions.py\<close>): listing,
  comparison and statistics of versions, rollback, tags, rollback marks and validation results.
  State and conventions are those of \<open>Rule_Repository\<close>; the head of a version list is the
  current version.
\<close>

section \<open>Reading versions\<close>

record page_info =
  pg_limit :: nat
  pg_offset :: nat
  pg_total :: nat
  pg_hasMore :: bool

definition page_info_of :: "int \<Rightarrow> int \<Rightarrow> 'a list \<Rightarrow> page_info" where
  "page_info_of limit offset rows = \<lparr>pg_limit = safe_limit limit, pg_offset = safe_offset offset,
     pg_total = length rows, pg_hasMore = safe_offset offset + safe_limit limit < length rows\<rparr>"

record version_summary =
  vs_id :: string
  vs_versionNumber :: nat
  vs_createdAt :: string
  vs_createdBy :: version_author
  vs_changeType :: string
  vs_changeDescription :: string
  vs_markedForRollback :: bool
  vs_tags :: "string list"
  vs_isCurrentVersion :: bool
  vs_validationStatus :: "string option"
  vs_validatedAt :: "string option"
  vs_validatedBy :: "string option"
  vs_validatedByUserId :: "string option"

definition version_summary_of :: "nat \<Rightarrow> rule_version \<Rightarrow> version_summary" where
  "version_summary_of idx v = \<lparr>vs_id = v_id v, vs_versionNumber = v_versionNumber v,
     vs_createdAt = v_createdAt v, vs_createdBy = v_createdBy v, vs_changeType = v_changeType v,
     vs_changeDescription = v_changeDescription v, vs_markedForRollback = v_markedForRollback v,
     vs_tags = v_tags v, vs_isCurrentVersion = (idx = 0), vs_validationStatus = v_validationStatus v,
     vs_validatedAt = v_validatedAt v,
     vs_validatedBy = (case v_validatedBy v of None \<Rightarrow> Some [] | Some x \<Rightarrow> x),
     vs_validatedByUserId = v_validatedByUserId v\<rparr>"

record version_page =
  vp_ruleId :: string
  vp_ruleName :: string
  vp_currentVersion :: nat
  vp_totalVersions :: nat
  vp_pagination :: page_info
  vp_versions :: "version_summary list"

abbreviation versions_of :: "rule_repo \<Rightarrow> string \<Rightarrow> rule_version list" where
  "versions_of r rid \<equiv> dict_get (r_rule_versions r) rid []"

definition list_rule_versions :: "rule_repo \<Rightarrow> string \<Rightarrow> int \<Rightarrow> int \<Rightarrow> version_page option" where
  "list_rule_versions r rid limit offset =
     (case map_of (r_rules r) rid of
        None \<Rightarrow> None
      | Some e \<Rightarrow>
          (let rows = versions_of r rid; window = page_window limit offset rows
           in Some \<lparr>vp_ruleId = rid, vp_ruleName = re_name e,
                vp_currentVersion = (case rows of [] \<Rightarrow> 0 | v # _ \<Rightarrow> v_versionNumber v),
                vp_totalVersions = length rows, vp_pagination = page_info_of limit offset rows,
                vp_versions = map (\<lambda>(idx, v). version_summary_of idx v) (List.enumerate 0 window)\<rparr>))"

text \<open>\<open>get_rule_version\<close> also writes the defaults of the missing validation keys into the row.\<close>

definition put_versions :: "string \<Rightarrow> rule_version list \<Rightarrow> rule_repo \<Rightarrow> rule_repo" where
  "put_versions rid vs r = r\<lparr>r_rule_versions := AList.update rid vs (r_rule_versions r)\<rparr>"

definition default_validation :: "rule_version \<Rightarrow> rule_version" where
  "default_validation v = (case v_validatedBy v of None \<Rightarrow> v\<lparr>v_validatedBy := Some (Some [])\<rparr> | Some _ \<Rightarrow> v)"

definition get_rule_version :: "string \<Rightarrow> string \<Rightarrow> rule_repo \<Rightarrow> rule_version option \<times> rule_repo" where
  "get_rule_version rid version_id' r =
     (let rows = versions_of r rid
      in case find (\<lambda>v. v_id v = version_id') rows of
           None \<Rightarrow> (None, r)
         | Some v \<Rightarrow> (Some (default_validation v),
                      put_versions rid (update_first (\<lambda>v. v_id v = version_id') default_validation rows) r))"

record rollback_page =
  rp_ruleId :: string
  rp_rollbacks :: "rollback_row list"
  rp_pagination :: page_info

definition get_rule_rollback_history :: "rule_repo \<Rightarrow> string \<Rightarrow> int \<Rightarrow> int \<Rightarrow> rollback_page option" where
  "get_rule_rollback_history r rid limit offset =
     (if map_of (r_rules r) rid = None then None
      else (let rows = dict_get (r_rollback_history r) rid []
            in Some \<lparr>rp_ruleId = rid, rp_rollbacks = page_window limit offset rows,
                     rp_pagination = page_info_of limit offset rows\<rparr>))"


section \<open>Comparing versions\<close>

record field_change =
  fc_field :: string
  fc_oldValue :: json
  fc_newValue :: json
  fc_changeType :: string

record version_ref =
  vr_id :: string
  vr_versionNumber :: nat
  vr_createdAt :: string
  vr_createdBy :: string

record version_diff =
  vd_fromVersion :: version_ref
  vd_toVersion :: version_ref
  vd_fieldsChanged :: nat
  vd_totalChanges :: nat
  vd_details :: "field_change list"

definition opt_text :: "string option \<Rightarrow> json" where
  "opt_text v = (case v of None \<Rightarrow> PNone | Some s \<Rightarrow> PStr s)"

definition compared_fields :: "rule_snapshot \<Rightarrow> (string \<times> json) list" where
  "compared_fields s = [(''name'', PStr (sn_name s)), (''description'', opt_text (sn_description s)),
     (''expression'', PStr (sn_expression s)), (''dimension'', PStr (sn_dimension s)),
     (''active'', PBool (sn_active s))]"

definition field_changes :: "(string \<times> json) list \<Rightarrow> (string \<times> json) list \<Rightarrow> field_change list" where
  "field_changes old new =
     map (\<lambda>((f, a), (_, b)). \<lparr>fc_field = f, fc_oldValue = a, fc_newValue = b, fc_changeType = ''modified''\<rparr>)
       (filter (\<lambda>((f, a), (_, b)). a \<noteq> b) (zip old new))"

definition version_changes :: "rule_version \<Rightarrow> rule_version \<Rightarrow> field_change list" where
  "version_changes first second =
     (let old_tags = sort (v_tags first); new_tags = sort (v_tags second)
      in field_changes (compared_fields (v_rule first)) (compared_fields (v_rule second))
         @ (if old_tags \<noteq> new_tags
            then [\<lparr>fc_field = ''tags'', fc_oldValue = PList (map PStr old_tags),
                   fc_newValue = PList (map PStr new_tags), fc_changeType = ''modified''\<rparr>]
            else []))"

definition version_ref_of :: "rule_version \<Rightarrow> version_ref" where
  "version_ref_of v = \<lparr>vr_id = v_id v, vr_versionNumber = v_versionNumber v, vr_createdAt = v_createdAt v,
     vr_createdBy = au_name (v_createdBy v)\<rparr>"

definition compare_rule_versions :: "rule_repo \<Rightarrow> string \<Rightarrow> string \<Rightarrow> string \<Rightarrow> version_diff option" where
  "compare_rule_versions r rid version_1 version_2 =
     (if map_of (r_rules r) rid = None then None
      else (let rows = versions_of r rid
            in case (find (\<lambda>v. v_id v = version_1) rows, find (\<lambda>v. v_id v = version_2) rows) of
                 (Some first, Some second) \<Rightarrow>
                   (let details = version_changes first second
                    in Some \<lparr>vd_fromVersion = version_ref_of first, vd_toVersion = version_ref_of second,
                         vd_fieldsChanged = length details, vd_totalChanges = length details, vd_details = details\<rparr>)
               | _ \<Rightarrow> None))"


section \<open>Statistics\<close>

definition dict_count :: "'k \<Rightarrow> ('k, nat) dict \<Rightarrow> ('k, nat) dict" where
  "dict_count k d = AList.update k (dict_get d k 0 + 1) d"

record version_statistics =
  st_total :: nat
  st_active :: nat
  st_markedForRollback :: nat
  st_changeTypes :: "(string, nat) dict"
  st_testing :: "(string \<times> nat) list"
  st_rollbacks :: nat
  st_rollbackTargets :: "(string, nat) dict"

text \<open>The testing rows carry the version and constant zero counts; the model keeps the version.\<close>

definition get_rule_version_statistics :: "rule_repo \<Rightarrow> string \<Rightarrow> version_statistics option" where
  "get_rule_version_statistics r rid =
     (if map_of (r_rules r) rid = None then None
      else (let rows = versions_of r rid; rollbacks = dict_get (r_rollback_history r) rid []
            in Some \<lparr>st_total = length rows, st_active = length (filter (\<lambda>v. sn_active (v_rule v)) rows),
                 st_markedForRollback = 0,
                 st_changeTypes = foldl (\<lambda>d v. dict_count (v_changeType v) d) [] rows,
                 st_testing = map (\<lambda>v. (v_id v, v_versionNumber v)) rows,
                 st_rollbacks = length rollbacks,
                 st_rollbackTargets = foldl (\<lambda>d b. dict_count (show_nat (rb_toVersionNumber b)) d) [] rollbacks\<rparr>))"


section \<open>Rollback\<close>

record rollback_reply =
  rr_id :: string
  rr_status :: string
  rr_fromVersion :: "string \<times> nat"
  rr_toVersion :: "string \<times> nat"
  rr_newVersion :: "string \<times> nat"
  rr_newVersionStatus :: string
  rr_rolledBackBy :: string
  rr_rolledBackAt :: string
  rr_estimatedCompletionTime :: string
  rr_checkStatus :: string
  rr_viewNewVersion :: string

text \<open>\<open>eta\<close> is the clock reading plus thirty seconds, as text.\<close>

definition rollback_version ::
  "env \<Rightarrow> string \<Rightarrow> version_author \<Rightarrow> string \<Rightarrow> string list option \<Rightarrow> nat \<Rightarrow> rule_version \<Rightarrow> rule_version" where
  "rollback_version en rid author reason tags n target =
     (mk_version n rid (env_stamp en) author ''rollback'' reason
        (case tags of Some (t # ts) \<Rightarrow> t # ts | _ \<Rightarrow> [''rollback'']) (v_rule target))\<lparr>v_validatedBy := None\<rparr>"

text \<open>The writes of a rollback: the new head version, its log row, the rule and its details.\<close>

definition apply_rollback ::
  "env \<Rightarrow> string \<Rightarrow> rule_entity \<Rightarrow> version_author \<Rightarrow> string \<Rightarrow> string list option \<Rightarrow> nat \<Rightarrow> rule_version \<Rightarrow> rule_version
   \<Rightarrow> rule_repo \<Rightarrow> rule_repo" where
  "apply_rollback en rid rule author reason tags n current target r =
     (let target_rule = v_rule target;
          r1 = put_versions rid (rollback_version en rid author reason tags n target # versions_of r rid) r;
          b = \<lparr>rb_id = ''rb-'' @ pad3 n, rb_ruleId = rid, rb_rolledBackAt = env_stamp en,
               rb_rolledBackBy = au_name author, rb_reason = reason,
               rb_fromVersionNumber = v_versionNumber current,
               rb_toVersionNumber = v_versionNumber target, rb_newVersionNumber = n\<rparr>;
          r2 = r1\<lparr>r_rollback_history :=
                    AList.update rid (b # dict_get (r_rollback_history r1) rid []) (r_rollback_history r1)\<rparr>;
          r3 = put_rule (mk_rule rid (sn_name target_rule) (sn_description target_rule) None
                 (sn_expression target_rule) (sn_dimension target_rule) (sn_active target_rule)
                 (au_id author) (re_tag_ids rule)) r2;
          details = details_of r3 rid
      in put_details rid (details\<lparr>d_dsl := only_dict (sn_dsl target_rule),
           d_taxonomy := only_dict (sn_taxonomy target_rule),
           d_check_type := sn_checkType target_rule,
           d_check_type_params := sn_checkTypeParams target_rule\<rparr>) r3)"

definition execute_rule_rollback ::
  "env \<Rightarrow> string \<Rightarrow> string \<Rightarrow> string \<Rightarrow> string \<Rightarrow> string option \<Rightarrow> bool \<Rightarrow> string list option \<Rightarrow> rule_repo
   \<Rightarrow> (repo_error + rollback_reply option) \<times> rule_repo" where
  "execute_rule_rollback en eta rid to_version_id reason requested_by_user_id skip_approval tags r =
     (case map_of (r_rules r) rid of
        None \<Rightarrow> (Inr None, r)
      | Some rule \<Rightarrow>
          (case versions_of r rid of
             [] \<Rightarrow> (Inl (NoVersionsFound rid), r)
           | current # rest \<Rightarrow>
               if v_id current = to_version_id then (Inl RollbackToCurrentVersion, r)
               else case find (\<lambda>v. v_id v = to_version_id) (current # rest) of
                 None \<Rightarrow> (Inl (VersionNotFound to_version_id rid), r)
               | Some target \<Rightarrow>
                   (let n = max_version (current # rest) + 1;
                        requested_by = (if truthy requested_by_user_id then text_of requested_by_user_id else ''system'');
                        actor_id = (if map_of (r_users r) requested_by \<noteq> None then requested_by else ''user-admin'')
                    in case map_of (r_users r) actor_id of
                         None \<Rightarrow> (Inl (PyKeyError actor_id), r)
                       | Some actor \<Rightarrow>
                           (let author = \<lparr>au_id = actor_id, au_name = actor, au_email = ''admin@example.com''\<rparr>
                            in (Inr (Some \<lparr>rr_id = ''rb-'' @ pad3 n, rr_status = ''processing'',
                                  rr_fromVersion = (v_id current, v_versionNumber current),
                                  rr_toVersion = (v_id target, v_versionNumber target),
                                  rr_newVersion = (version_id n, n),
                                  rr_newVersionStatus = (if skip_approval then ''activated'' else ''pending_approval''),
                                  rr_rolledBackBy = actor, rr_rolledBackAt = env_stamp en,
                                  rr_estimatedCompletionTime = eta,
                                  rr_checkStatus = ''/rulebuilder/v1/rules/'' @ rid @ ''/rollbacks/rb-'' @ pad3 n,
                                  rr_viewNewVersion = ''/rulebuilder/v1/rules/'' @ rid @ ''/versions/'' @ version_id n\<rparr>),
                                apply_rollback en rid rule author reason tags n current target r)))))"


section \<open>Tags, marks and validation results\<close>

definition update_rule_version_tags ::
  "env \<Rightarrow> string \<Rightarrow> string \<Rightarrow> string list \<Rightarrow> string option \<Rightarrow> rule_repo
   \<Rightarrow> (repo_error + rule_version option) \<times> rule_repo" where
  "update_rule_version_tags en rid version_id' tags updated_by r =
     (if map_of (r_rules r) rid = None then (Inr None, r)
      else (let rows = versions_of r rid; is_it = (\<lambda>v. v_id v = version_id')
            in case find is_it rows of
                 None \<Rightarrow> (Inr None, r)
               | Some row \<Rightarrow>
                   (let actor_id = (case updated_by of
                                      Some u \<Rightarrow> (if map_of (r_users r) u \<noteq> None then u else ''user-admin'')
                                    | None \<Rightarrow> ''user-admin'');
                        tagged = (\<lambda>v. v\<lparr>v_tags := tags, v_updatedAt := Some (env_stamp en)\<rparr>)
                    in case map_of (r_users r) actor_id of
                         None \<Rightarrow> (Inl (PyKeyError actor_id), put_versions rid (update_first is_it tagged rows) r)
                       | Some actor \<Rightarrow>
                           (let f = (\<lambda>v. (tagged v)\<lparr>v_updatedBy := Some (actor_id, actor)\<rparr>)
                            in (Inr (Some (f row)), put_versions rid (update_first is_it f rows) r)))))"

definition mark_rule_version_for_rollback ::
  "string \<Rightarrow> string \<Rightarrow> bool \<Rightarrow> rule_repo \<Rightarrow> (string \<times> bool) option \<times> rule_repo" where
  "mark_rule_version_for_rollback rid version_id' marked r =
     (if map_of (r_rules r) rid = None then (None, r)
      else (let rows = versions_of r rid; is_it = (\<lambda>v. v_id v = version_id')
            in case find is_it rows of
                 None \<Rightarrow> (None, r)
               | Some row \<Rightarrow> (Some (v_id row, marked),
                   put_versions rid (update_first is_it (\<lambda>v. v\<lparr>v_markedForRollback := marked\<rparr>) rows) r)))"

definition set_current_rule_version_validation ::
  "env \<Rightarrow> string \<Rightarrow> string option \<Rightarrow> string option \<Rightarrow> rule_repo \<Rightarrow> rule_version option \<times> rule_repo" where
  "set_current_rule_version_validation en rid validation_status validated_by r =
     (case versions_of r rid of
        [] \<Rightarrow> (None, r)
      | current # rest \<Rightarrow>
          (let validator_id = clean validated_by;
               validator_name = (case validator_id of None \<Rightarrow> [] | Some u \<Rightarrow> dict_get (r_users r) u u);
               current' = current\<lparr>v_validationStatus := clean validation_status,
                                  v_validatedAt := Some (env_stamp en),
                                  v_validatedBy := Some (Some validator_name),
                                  v_validatedByUserId := validator_id\<rparr>
           in (Some current', put_versions rid (current' # rest) r)))"



section \<open>Frame and effect lemmas\<close>

lemma put_versions_frame [simp, repo_simps]:
  "r_rules (put_versions k vs r) = r_rules r" "r_users (put_versions k vs r) = r_users r"
  "r_status_history (put_versions k vs r) = r_status_history r"
  "r_rollback_history (put_versions k vs r) = r_rollback_history r"
  "details_of (put_versions k vs r) x = details_of r x"
  "versions_of (put_versions k vs r) x = (if x = k then vs else versions_of r x)"
  by (simp_all add: put_versions_def details_of_def dict_get_def)

lemma versions_ok_keys:
  "versions_ok vs \<longleftrightarrow> sorted_wrt (>) (map snd (map (\<lambda>v. (v_id v, v_versionNumber v)) vs)) \<and>
     (\<forall>(i, n) \<in> set (map (\<lambda>v. (v_id v, v_versionNumber v)) vs). i = version_id n \<and> 0 < n)"
  by (auto simp: versions_ok_def comp_def)

lemma versions_ok_cong:
  "map (\<lambda>v. (v_id v, v_versionNumber v)) vs = map (\<lambda>v. (v_id v, v_versionNumber v)) ws \<Longrightarrow>
   versions_ok vs = versions_ok ws"
  by (simp add: versions_ok_keys)

lemma versions_ok_update_first:
  "(\<And>v. v_id (f v) = v_id v \<and> v_versionNumber (f v) = v_versionNumber v) \<Longrightarrow>
   versions_ok (update_first P f vs) = versions_ok vs"
  by (rule versions_ok_cong) (simp add: map_update_first)

lemma repo_inv_put_versions: "repo_inv r \<Longrightarrow> versions_ok vs \<Longrightarrow> repo_inv (put_versions rid vs r)"
  by (simp add: put_versions_def repo_inv_versions)

text \<open>What a successful rollback leaves behind.\<close>

lemma rollback_version_sel [simp]:
  "v_versionNumber (rollback_version en rid au re tags n t) = n"
  "v_id (rollback_version en rid au re tags n t) = version_id n"
  "v_rule (rollback_version en rid au re tags n t) = v_rule t"
  "v_changeType (rollback_version en rid au re tags n t) = ''rollback''"
  by (simp_all add: rollback_version_def mk_version_def)

lemma details_of_rollback_history [simp]: "details_of (r\<lparr>r_rollback_history := x\<rparr>) k = details_of r k"
  by (simp add: details_of_def)

lemma apply_rollback_frame [simp, repo_simps]:
  "versions_of (apply_rollback en rid e au re tags n c t r) x =
     (if x = rid then rollback_version en rid au re tags n t # versions_of r rid else versions_of r x)"
  "map_of (r_rules (apply_rollback en rid e au re tags n c t r)) x =
     (if x = rid then Some (mk_rule rid (sn_name (v_rule t)) (sn_description (v_rule t)) None
        (sn_expression (v_rule t)) (sn_dimension (v_rule t)) (sn_active (v_rule t)) (au_id au) (re_tag_ids e))
      else map_of (r_rules r) x)"
  "d_removed_at (details_of (apply_rollback en rid e au re tags n c t r) x) = d_removed_at (details_of r x)"
  "d_last_approval_status (details_of (apply_rollback en rid e au re tags n c t r) x)
     = d_last_approval_status (details_of r x)"
  "r_status_history (apply_rollback en rid e au re tags n c t r) = r_status_history r"
  by (simp_all add: apply_rollback_def Let_def)

lemma rollback_effect:
  assumes "execute_rule_rollback en eta rid tv reason u skip tags r = (Inr (Some rep), r')"
  obtains e current rest target au where
    "map_of (r_rules r) rid = Some e" "versions_of r rid = current # rest" "v_id current \<noteq> tv"
    "find (\<lambda>v. v_id v = tv) rest = Some target"
    "r' = apply_rollback en rid e au reason tags (max_version (current # rest) + 1) current target r"
    "rr_newVersionStatus rep = (if skip then ''activated'' else ''pending_approval'')"
    "rr_newVersion rep = (version_id (max_version (current # rest) + 1), max_version (current # rest) + 1)"
  using assms
  by (auto simp: execute_rule_rollback_def Let_def split del: if_split split: option.splits list.splits)
     (auto simp: Let_def split: if_splits option.splits)

lemma find_skip_head: "find P xs = Some x \<Longrightarrow> \<not> P y \<Longrightarrow> find P (y # xs) = Some x"
  by simp

lemma rollback_inv:
  assumes "execute_rule_rollback en eta rid tv reason u skip tags r = (Inr (Some rep), r')" and "repo_inv r"
  obtains e current rest target where "find (\<lambda>v. v_id v = tv) rest = Some target"
    "versions_of r rid = current # rest" "map_of (r_rules r) rid = Some e"
    "keys_match r'" "history_sorted r'" "versions_sound r'"
    "removed_inactive r' \<longleftrightarrow> \<not> (truthy (d_removed_at (details_of r rid)) \<and> sn_active (v_rule target))"
proof -
  from rollback_effect [OF assms(1)] obtain e current rest target au where
    ef: "map_of (r_rules r) rid = Some e" "versions_of r rid = current # rest"
      "find (\<lambda>v. v_id v = tv) rest = Some target"
      "r' = apply_rollback en rid e au reason tags (max_version (current # rest) + 1) current target r"
    by metis
  have inv: "keys_match r" "history_sorted r" "versions_sound r" "removed_inactive r"
    using assms(2) by (simp_all add: repo_inv_def)
  have "versions_ok (current # rest)" using inv(3) ef(2) by (metis versions_sound_def)
  then have new: "versions_ok (rollback_version en rid au reason tags (max_version (current # rest) + 1) target # current # rest)"
    by (rule versions_ok_Cons) simp_all
  show ?thesis
  proof (rule that [OF ef(3) ef(2) ef(1)])
    show "keys_match r'" "history_sorted r'" using inv(1,2) ef(4) by (simp_all add: keys_match_def history_sorted_def)
    show "versions_sound r'" using inv(3) new ef(2,4) by (simp add: versions_sound_def)
    show "removed_inactive r' \<longleftrightarrow> \<not> (truthy (d_removed_at (details_of r rid)) \<and> sn_active (v_rule target))"
      using inv(4) ef(4) by (auto simp: removed_inactive_def)
  qed
qed


section \<open>Runs that change versions\<close>

text \<open>The version operations other than rollback; each of them keeps the repository invariant.\<close>

inductive version_step :: "rule_repo \<Rightarrow> rule_repo \<Rightarrow> bool" where
  read: "version_step r (snd (get_rule_version rid vid r))"
| tags: "version_step r (snd (update_rule_version_tags en rid vid ts ub r))"
| mark: "version_step r (snd (mark_rule_version_for_rollback rid vid b r))"
| validate: "version_step r (snd (set_current_rule_version_validation en rid vs vb r))"

lemma versions_of_update_first:
  assumes "repo_inv r" and "\<And>v. v_id (f v) = v_id v \<and> v_versionNumber (f v) = v_versionNumber v"
  shows "repo_inv (put_versions rid (update_first P f (versions_of r rid)) r)"
  using assms by (intro repo_inv_put_versions) (simp_all add: versions_ok_update_first repo_inv_versions_ok)

lemma default_validation_keys [simp]:
  "v_id (default_validation v) = v_id v" "v_versionNumber (default_validation v) = v_versionNumber v"
  by (simp_all add: default_validation_def split: option.split)

lemma validate_inv:
  assumes "repo_inv r"
  shows "repo_inv (snd (set_current_rule_version_validation en rid vs vb r))"
proof (cases "versions_of r rid")
  case Nil
  then show ?thesis using assms by (simp add: set_current_rule_version_validation_def)
next
  case (Cons current rest)
  then have "versions_ok (current # rest)" using assms repo_inv_versions_ok by metis
  then have "versions_ok (c # rest)" if "v_id c = v_id current" "v_versionNumber c = v_versionNumber current" for c
    using that by (simp add: versions_ok_def)
  then show ?thesis using Cons assms
    by (simp add: set_current_rule_version_validation_def Let_def repo_inv_put_versions)
qed

lemma version_step_inv: "version_step r r' \<Longrightarrow> repo_inv r \<Longrightarrow> repo_inv r'"
proof (induction rule: version_step.induct)
  case (read r rid vid)
  then show ?case
    by (auto simp: get_rule_version_def Let_def versions_of_update_first split: option.split)
next
  case (tags r en rid vid ts ub)
  then show ?case
    by (auto simp: update_rule_version_tags_def Let_def versions_of_update_first split: option.split)
next
  case (mark r rid vid b)
  then show ?case
    by (auto simp: mark_rule_version_for_rollback_def Let_def versions_of_update_first split: option.split)
next
  case (validate r en rid vs vb)
  then show ?case by (rule validate_inv)
qed

text \<open>A step of either kind.\<close>

definition system_step :: "rule_repo \<Rightarrow> rule_repo \<Rightarrow> bool" where
  "system_step r r' \<longleftrightarrow> repo_step [] r r' \<or> version_step r r'"

interpretation system: preserved system_step repo_inv
  by unfold_locales (auto simp: system_step_def dest: default_repo.keep version_step_inv)


section \<open>Properties\<close>

text \<open>
  C28: A successful rollback puts a copy of the target version on top of the version list under the next
  number, keeps every earlier version below it, gives the rule the expression, name, dimension and
  activity of the target, logs the rollback, and leaves the versions of all other rules alone.\<close>

theorem rollback_restores_target:
  assumes "execute_rule_rollback en eta rid tv reason u skip tags r = (Inr (Some rep), r')"
  shows "\<exists>v target e b. versions_of r' rid = v # versions_of r rid
    \<and> target \<in> set (versions_of r rid) \<and> v_id target = tv \<and> v_rule v = v_rule target
    \<and> v_versionNumber v = max_version (versions_of r rid) + 1 \<and> rr_newVersion rep = (v_id v, v_versionNumber v)
    \<and> map_of (r_rules r') rid = Some e \<and> re_name e = sn_name (v_rule target)
    \<and> re_expression e = sn_expression (v_rule target) \<and> re_dimension e = sn_dimension (v_rule target)
    \<and> re_active e = sn_active (v_rule target)
    \<and> d_dsl (details_of r' rid) = only_dict (sn_dsl (v_rule target))
    \<and> dict_get (r_rollback_history r') rid [] = b # dict_get (r_rollback_history r) rid []
    \<and> rb_toVersionNumber b = v_versionNumber target \<and> rb_newVersionNumber b = v_versionNumber v
    \<and> (\<forall>x. x \<noteq> rid \<longrightarrow> versions_of r' x = versions_of r x)"
proof -
  from rollback_effect [OF assms] obtain e current rest target au where
    ef: "versions_of r rid = current # rest" "find (\<lambda>v. v_id v = tv) rest = Some target"
      "r' = apply_rollback en rid e au reason tags (max_version (current # rest) + 1) current target r"
      "rr_newVersion rep = (version_id (max_version (current # rest) + 1), max_version (current # rest) + 1)"
    by metis
  from find_first [OF ef(2)] have t: "target \<in> set (current # rest)" "v_id target = tv" by simp_all
  show ?thesis
    by (rule exI [where x = "rollback_version en rid au reason tags (max_version (current # rest) + 1) target"],
        rule exI [where x = target])
       (use ef t in \<open>simp add: mk_rule_def\<close>, simp add: apply_rollback_def Let_def mk_rule_def dict_get_def)
qed

text \<open>
  A rollback keeps the repository invariant exactly when it does not bring an active snapshot back
  to a removed rule: in that one case the rule is active again while it still counts as removed.\<close>

theorem rollback_keeps_invariant_iff:
  assumes "execute_rule_rollback en eta rid tv reason u skip tags r = (Inr (Some rep), r')" and "repo_inv r"
  shows "\<exists>target \<in> set (versions_of r rid). v_id target = tv \<and>
    (repo_inv r' \<longleftrightarrow> \<not> (truthy (d_removed_at (details_of r rid)) \<and> sn_active (v_rule target)))"
proof -
  from rollback_inv [OF assms] obtain e current rest target where
    i: "find (\<lambda>v. v_id v = tv) rest = Some target" "versions_of r rid = current # rest"
      "map_of (r_rules r) rid = Some e" "keys_match r'" "history_sorted r'" "versions_sound r'"
      "removed_inactive r' \<longleftrightarrow> \<not> (truthy (d_removed_at (details_of r rid)) \<and> sn_active (v_rule target))"
    by metis
  from i(2) find_first [OF i(1)] have "target \<in> set (versions_of r rid)" "v_id target = tv" by simp_all
  then show ?thesis using i(4-7) by (auto simp: repo_inv_def)
qed

text \<open>
  A rollback to an active version makes the rule active whatever its status was, so that a rule that
  is not removed ends in status activated even from deactivated or draft, from where the transition
  table has no step to activated; the answer nevertheless says pending\_approval unless approval is skipped.\<close>

theorem rollback_activates_without_approval:
  assumes "execute_rule_rollback en eta rid tv reason u skip tags r = (Inr (Some rep), r')"
    and "\<forall>v \<in> set (versions_of r rid). v_id v = tv \<longrightarrow> sn_active (v_rule v)"
  shows "(\<exists>e. map_of (r_rules r') rid = Some e \<and> re_active e)
    \<and> current_rule_status r' rid = (if truthy (d_removed_at (details_of r rid)) then ''removed'' else ''activated'')
    \<and> r_status_history r' = r_status_history r
    \<and> rr_newVersionStatus rep = (if skip then ''activated'' else ''pending_approval'')"
proof -
  from rollback_effect [OF assms(1)] obtain e current rest target au where
    ef: "versions_of r rid = current # rest" "find (\<lambda>v. v_id v = tv) rest = Some target"
      "r' = apply_rollback en rid e au reason tags (max_version (current # rest) + 1) current target r"
      "rr_newVersionStatus rep = (if skip then ''activated'' else ''pending_approval'')"
    by metis
  then have "sn_active (v_rule target)" using assms(2) find_first [OF ef(2)] by simp
  then show ?thesis using ef(3,4) by (simp add: current_rule_status_def)
qed

text \<open>
  Along every run of rule and version operations (rollback apart) removed rules stay inactive, histories
  stay ordered, and the versions of a rule have distinct identifiers and strictly falling numbers.\<close>

theorem version_runs_keep_invariants:
  assumes "system_step\<^sup>*\<^sup>* r r'" and "repo_inv r"
  shows "removed_inactive r' \<and> history_sorted r' \<and> distinct (map v_id (versions_of r' rid))
    \<and> sorted_wrt (>) (map v_versionNumber (versions_of r' rid))"
  using system.run [OF assms] versions_ok_distinct_ids [OF repo_inv_versions_ok]
  by (auto simp: repo_inv_def versions_sound_def versions_ok_def)

text \<open>
  Every page of the version list that is not empty flags its first row as the current version, so that
  a page after the first flags a version which is not the current one the same answer names.\<close>

theorem later_page_flags_wrong_version:
  assumes "repo_inv r" and "0 < offset" and "list_rule_versions r rid limit offset = Some page"
    and "vp_versions page = s # ss"
  shows "vs_isCurrentVersion s \<and> vs_versionNumber s < vp_currentVersion page"
proof -
  let ?rows = "versions_of r rid"
  from assms(3) have page: "vp_versions page = map (\<lambda>(idx, v). version_summary_of idx v)
      (List.enumerate 0 (page_window limit offset ?rows))"
    "vp_currentVersion page = (case ?rows of [] \<Rightarrow> 0 | v # _ \<Rightarrow> v_versionNumber v)"
    by (auto simp: list_rule_versions_def Let_def split: option.splits)
  from page(1) assms(4) obtain w ws where w: "page_window limit offset ?rows = w # ws" "s = version_summary_of 0 w"
    by (cases "page_window limit offset ?rows") auto
  have "w \<in> set (drop (safe_offset offset) ?rows)"
    using w(1) by (metis page_window_def in_set_takeD list.set_intros(1))
  moreover obtain v vs where vs: "?rows = v # vs"
    using w(1) by (cases ?rows) (simp_all add: page_window_def)
  moreover have "0 < safe_offset offset" using assms(2) by (simp add: safe_offset_def)
  ultimately have "w \<in> set vs" by (cases "safe_offset offset") (auto dest: in_set_dropD)
  moreover have "versions_ok (v # vs)" using repo_inv_versions_ok [OF assms(1), of rid] vs by simp
  ultimately show ?thesis using w(2) page(2) vs by (auto simp: version_summary_of_def versions_ok_def)
qed

text \<open>
  Comparing two versions reports no change exactly when name, description, expression, dimension and
  activity agree and the tags are the same up to their order.\<close>

theorem compare_reports_no_change_iff:
  assumes "compare_rule_versions r rid v1 v2 = Some d"
    and "find (\<lambda>v. v_id v = v1) (versions_of r rid) = Some a" and "find (\<lambda>v. v_id v = v2) (versions_of r rid) = Some b"
  shows "vd_totalChanges d = length (vd_details d) \<and>
    (vd_totalChanges d = 0 \<longleftrightarrow>
       sn_name (v_rule a) = sn_name (v_rule b) \<and> sn_description (v_rule a) = sn_description (v_rule b)
       \<and> sn_expression (v_rule a) = sn_expression (v_rule b) \<and> sn_dimension (v_rule a) = sn_dimension (v_rule b)
       \<and> sn_active (v_rule a) = sn_active (v_rule b) \<and> mset (v_tags a) = mset (v_tags b))"
proof -
  have "sort (v_tags a) = sort (v_tags b) \<longleftrightarrow> mset (v_tags a) = mset (v_tags b)"
    by (metis mset_sort sorted_sort properties_for_sort)
  moreover have "opt_text x = opt_text y \<longleftrightarrow> x = y" for x y by (simp add: opt_text_def split: option.split)
  ultimately show ?thesis using assms
    by (auto simp: compare_rule_versions_def version_changes_def field_changes_def compared_fields_def Let_def
        split: if_splits)
qed

lemma dict_get_count: "dict_get (dict_count k d) x 0 = dict_get d x 0 + (if x = k then 1 else 0)"
  by (simp add: dict_count_def dict_get_def)

lemma show_nat_inject: "show_nat a = show_nat b \<longleftrightarrow> a = b"
  by (metis read_digits_show_nat)

lemma dict_get_Nil: "dict_get [] x d = d"
  by (simp add: dict_get_def)

lemma dict_count_fold:
  "dict_get (foldl (\<lambda>d v. dict_count (f v) d) d vs) x 0 = dict_get d x 0 + length (filter (\<lambda>v. f v = x) vs)"
  by (induction vs arbitrary: d) (simp_all add: dict_get_count)

text \<open>
  The statistics count every version once under its change type and every rollback once under the
  number it went back to.\<close>

theorem statistics_count_versions:
  assumes "get_rule_version_statistics r rid = Some st"
  shows "st_total st = length (versions_of r rid)
    \<and> dict_get (st_changeTypes st) ct 0 = length (filter (\<lambda>v. v_changeType v = ct) (versions_of r rid))
    \<and> dict_get (st_rollbackTargets st) (show_nat n) 0
        = length (filter (\<lambda>b. rb_toVersionNumber b = n) (dict_get (r_rollback_history r) rid []))"
  using assms by (auto simp: get_rule_version_statistics_def Let_def dict_count_fold dict_get_Nil show_nat_inject split: if_splits)


section \<open>Witnesses\<close>

text \<open>A rule with two versions, the older one active; \<open>removed\<close> is its removal stamp.\<close>

definition demo_snapshot :: "string \<Rightarrow> bool \<Rightarrow> rule_snapshot" where
  "demo_snapshot ex act = \<lparr>sn_name = ''Not null'', sn_description = None, sn_comments = None, sn_expression = ex,
     sn_dimension = ''validity'', sn_active = act, sn_dsl = PNone, sn_taxonomy = PNone, sn_checkType = None,
     sn_checkTypeParams = PNone, sn_lifecycleStatus = None\<rparr>"

definition demo_version :: "nat \<Rightarrow> string \<Rightarrow> bool \<Rightarrow> rule_version" where
  "demo_version n ex act = mk_version n ''r1'' ''2026-01-01T00:00:00Z''
     \<lparr>au_id = ''user-admin'', au_name = ''Admin'', au_email = ''a@b''\<rparr> ''modified'' [] [] (demo_snapshot ex act)"

definition version_repo :: "string option \<Rightarrow> rule_repo" where
  "version_repo removed =
     \<lparr>r_rules = [(''r1'', mk_rule ''r1'' ''Not null'' None None ''id > 1'' ''validity'' False ''user-admin'' [])],
      r_users = [(''user-admin'', ''Admin'')],
      r_rule_versions = [(''r1'', [demo_version 2 ''id > 1'' False, demo_version 1 ''id > 0'' True])],
      r_rollback_history = [], r_status_history = [],
      r_rule_details = [(''r1'', no_details\<lparr>d_removed_at := removed\<rparr>)]\<rparr>"

definition version_env :: env where
  "version_env = \<lparr>env_now = [], env_stamp = ''2026-05-01T10:00:00Z'', env_uuid_row = [], env_uuid_rule = []\<rparr>"

abbreviation demo_rollback :: "string option \<Rightarrow> (repo_error + rollback_reply option) \<times> rule_repo" where
  "demo_rollback removed \<equiv> execute_rule_rollback version_env [] ''r1'' (version_id 1) ''undo'' None False None (version_repo removed)"

lemma demo_version_sel [simp]:
  "v_id (demo_version n ex act) = version_id n" "v_versionNumber (demo_version n ex act) = n"
  "v_rule (demo_version n ex act) = demo_snapshot ex act" "v_changeType (demo_version n ex act) = ''modified''"
  "v_tags (demo_version n ex act) = []"
  by (simp_all add: demo_version_def mk_version_def)

lemma demo_snapshot_sel [simp]:
  "sn_active (demo_snapshot ex act) = act" "sn_expression (demo_snapshot ex act) = ex"
  by (simp_all add: demo_snapshot_def)

lemma version_repo_sel [simp]:
  "versions_of (version_repo removed) ''r1'' = [demo_version 2 ''id > 1'' False, demo_version 1 ''id > 0'' True]"
  "d_removed_at (details_of (version_repo removed) ''r1'') = removed"
  "map_of (r_rules (version_repo removed)) ''r1''
     = Some (mk_rule ''r1'' ''Not null'' None None ''id > 1'' ''validity'' False ''user-admin'' [])"
  "r_rollback_history (version_repo removed) = []"
  by (simp_all add: version_repo_def dict_get_def details_of_def)

lemma version_repo_inv: "repo_inv (version_repo removed)"
  by (auto simp: repo_inv_def removed_inactive_def keys_match_def history_sorted_def versions_sound_def
      versions_ok_def version_repo_def dict_get_def details_of_def mk_rule_def split: if_splits)

lemma version_id_inject: "version_id a = version_id b \<longleftrightarrow> a = b"
  by (simp add: version_id_def)

lemma version_repo_rollback:
  obtains rep where "demo_rollback removed = (Inr (Some rep), snd (demo_rollback removed))"
  by (simp add: execute_rule_rollback_def Let_def version_id_inject del: One_nat_def)
     (simp add: version_repo_def)

lemma rollback_restores_target_witness:
  "\<exists>e. map_of (r_rules (snd (demo_rollback None))) ''r1'' = Some e \<and> re_expression e = ''id > 0'' \<and> re_active e"
proof -
  obtain rep where "demo_rollback None = (Inr (Some rep), snd (demo_rollback None))"
    by (rule version_repo_rollback)
  from rollback_restores_target [OF this] show ?thesis by (auto simp: version_id_inject)
qed

lemma rollback_keeps_invariant_iff_witness: "\<not> repo_inv (snd (demo_rollback (Some ''2026'')))"
proof -
  obtain rep where "demo_rollback (Some ''2026'') = (Inr (Some rep), snd (demo_rollback (Some ''2026'')))"
    by (rule version_repo_rollback)
  from rollback_keeps_invariant_iff [OF this version_repo_inv] show ?thesis
    by (auto simp: version_id_inject truthy_def)
qed

lemma rollback_activates_without_approval_witness:
  "current_rule_status (version_repo None) ''r1'' = ''draft'' \<and>
   current_rule_status (snd (demo_rollback None)) ''r1'' = ''activated''"
proof -
  obtain rep where "demo_rollback None = (Inr (Some rep), snd (demo_rollback None))"
    by (rule version_repo_rollback)
  moreover have "d_last_approval_status (details_of (version_repo None) ''r1'') = None"
    by (simp add: version_repo_def details_of_def dict_get_def)
  ultimately show ?thesis using rollback_activates_without_approval [of version_env "[]" "''r1''" "version_id 1"]
    by (simp add: version_id_inject truthy_def current_rule_status_def mk_rule_def)
qed

lemma version_runs_keep_invariants_witness:
  "distinct (map v_id (versions_of (snd (mark_rule_version_for_rollback ''r1'' (version_id 1) True (version_repo None))) ''r1''))"
  using version_runs_keep_invariants [of "version_repo None" "snd (mark_rule_version_for_rollback ''r1'' (version_id 1) True (version_repo None))" "''r1''"]
    version_step.mark [of "version_repo None" "''r1''" "version_id 1" True] version_repo_inv [of None]
  by (simp add: system_step_def r_into_rtranclp)

lemma later_page_flags_wrong_version_witness:
  "\<exists>page s. list_rule_versions (version_repo None) ''r1'' 1 1 = Some page \<and> vp_versions page = [s]
     \<and> vs_isCurrentVersion s \<and> vs_versionNumber s < vp_currentVersion page"
proof -
  have "\<exists>page s. list_rule_versions (version_repo None) ''r1'' 1 1 = Some page \<and> vp_versions page = [s]"
    by (simp add: list_rule_versions_def page_window_def safe_limit_def safe_offset_def)
  then obtain page s where "list_rule_versions (version_repo None) ''r1'' 1 1 = Some page" "vp_versions page = [s]"
    by blast
  with later_page_flags_wrong_version [OF version_repo_inv _ this] show ?thesis by simp
qed

lemma compare_reports_no_change_iff_witness:
  "map_option (\<lambda>d. vd_totalChanges d = 0)
     (compare_rule_versions (version_repo None) ''r1'' (version_id 2) (version_id 1)) = Some False"
proof -
  obtain d where d: "compare_rule_versions (version_repo None) ''r1'' (version_id 2) (version_id 1) = Some d"
    by (simp add: compare_rule_versions_def Let_def version_id_inject)
  from compare_reports_no_change_iff [OF d, of "demo_version 2 ''id > 1'' False" "demo_version 1 ''id > 0'' True"] d
  show ?thesis by (auto simp: version_id_inject)
qed

lemma statistics_count_versions_witness:
  "map_option (\<lambda>st. dict_get (st_changeTypes st) ''modified'' 0)
     (get_rule_version_statistics (version_repo None) ''r1'') = Some 2"
proof -
  obtain st where st: "get_rule_version_statistics (version_repo None) ''r1'' = Some st"
    by (simp add: get_rule_version_statistics_def Let_def)
  from statistics_count_versions [OF st, of "''modified''"] st show ?thesis by simp
qed

end
