(* ===== verification/Run_Plans.thy ===== *)
theory Run_Plans
  imports DQ_Prelude
begin

text \<open>
  Governance of execution run plans: the version states of
  \<open>app/domain/entities/gx_run_plan_governance.py\<close> and the repository
  \<open>app/infrastructure/repositories/in_memory_gx_run_plan_repository.py\<close>.

  The three dictionaries of the repository object are the record \<open>plan_repo\<close>. An operation takes
  the clock and \<open>uuid4\<close> readings it makes (\<open>plan_env\<close>), its arguments and the repository, and
  returns its answer or exception with the repository it leaves behind. Suite selections,
  snapshots, contracts and schedules are JSON values the repository only stores; the entity
  built from a stored plan keeps them as they are.
\<close>

section \<open>Governance states\<close>

definition run_plan_version_pending_states :: "string list" where
  "run_plan_version_pending_states = [''draft'', ''pending_validation'', ''validation_failed'', ''pending_review'',
     ''approved_pending_activation'', ''activation-requested'', ''deactivation-requested'']"

definition run_plan_version_allowed_transitions :: "(string, string list) dict" where
  "run_plan_version_allowed_transitions = [
     (''draft'', [''pending_validation'', ''activation-requested'']),
     (''validation_failed'', [''pending_validation'', ''cancelled'']),
     (''pending_validation'', [''validation_failed'', ''pending_review'', ''approved_pending_activation'']),
     (''pending_review'', [''approved_pending_activation'', ''cancelled'']),
     (''approved_pending_activation'', [''cancelled'']),
     (''inactive'', [''activation-requested'']),
     (''active'', [''deactivation-requested'']),
     (''activation-requested'', [''approved_pending_activation'', ''inactive'']),
     (''deactivation-requested'', [''deactivated'', ''active''])]"

definition is_run_plan_version_pending_state :: "string \<Rightarrow> bool" where
  "is_run_plan_version_pending_state state \<longleftrightarrow> strip state \<in> set run_plan_version_pending_states"

definition is_valid_run_plan_version_transition :: "string \<Rightarrow> string \<Rightarrow> bool" where
  "is_valid_run_plan_version_transition current_state target_state \<longleftrightarrow>
     strip target_state \<in> set (dict_get run_plan_version_allowed_transitions (strip current_state) [])"


section \<open>State\<close>

record plan_version =
  pv_id :: string
  pv_runPlanId :: string
  pv_governanceState :: string
  pv_gxSuiteSelection :: json
  pv_suiteId :: "string option"
  pv_suiteVersion :: "int option"
  pv_suiteSnapshot :: json
  pv_executionContractSnapshot :: json
  pv_scheduleDefinition :: json
  pv_validationStatus :: string
  pv_reviewStatus :: "string option"
  pv_effectiveFrom :: "string option"
  pv_supersedesVersionId :: "string option"
  pv_createdBy :: "string option"
  pv_createdAt :: string

record run_plan =
  pl_runPlanId :: string
  pl_businessKey :: string
  pl_workspaceId :: string
  pl_scopeSelector :: json
  pl_planningMode :: string
  pl_currentActiveVersionId :: "string option"
  pl_status :: string
  pl_createdBy :: "string option"
  pl_createdAt :: string
  pl_updatedAt :: string
  pl_activatedBy :: "string option"
  pl_activatedAt :: "string option"
  pl_lastDispatchedRunId :: "string option"

record plan_event =
  pe_id :: string
  pe_runPlanId :: string
  pe_runPlanVersionId :: string
  pe_action :: string
  pe_fromState :: "string option"
  pe_toState :: string
  pe_actorId :: "string option"
  pe_correlationId :: "string option"
  pe_effectiveFrom :: "string option"
  pe_details :: "(string \<times> json) list"
  pe_occurredAt :: string

record plan_repo =
  p_plans :: "(string, run_plan) dict"
  p_versions_by_plan :: "(string, plan_version list) dict"
  p_transition_events_by_plan :: "(string, plan_event list) dict"

text \<open>Readings of the clock and of \<open>uuid4\<close>: one for the operation, two for its events.\<close>

record plan_env =
  now_iso :: string
  event_now :: string
  event_uuid :: string
  superseded_now :: string
  superseded_uuid :: string

datatype plan_error =
    PlanAlreadyExists string
  | PlanNotFound string
  | PlanVersionNotFound string
  | MissingGovernanceState string
  | InvalidPlanTransition string string
  | NotApprovedForActivation string
  | NotPendingDeactivation string
  | PlanVersionNotActive string
  | PlanNotPersisted string

text \<open>What the stored version needs besides its identifiers and state.\<close>

record version_content =
  vc_gxSuiteSelection :: json
  vc_suiteId :: "string option"
  vc_suiteVersion :: "int option"
  vc_suiteSnapshot :: json
  vc_executionContractSnapshot :: json
  vc_scheduleDefinition :: json
  vc_effectiveFrom :: "string option"
  vc_validationStatus :: "string option"
  vc_reviewStatus :: "string option"
  vc_supersedesVersionId :: "string option"

definition opt_json :: "string option \<Rightarrow> json" where
  "opt_json v = (case v of None \<Rightarrow> PNone | Some s \<Rightarrow> PStr s)"

abbreviation plan_versions :: "plan_repo \<Rightarrow> string \<Rightarrow> plan_version list" where
  "plan_versions r plan_id \<equiv> dict_get (p_versions_by_plan r) plan_id []"

abbreviation plan_events :: "plan_repo \<Rightarrow> string \<Rightarrow> plan_event list" where
  "plan_events r plan_id \<equiv> dict_get (p_transition_events_by_plan r) plan_id []"

definition put_plan :: "string \<Rightarrow> run_plan \<Rightarrow> plan_repo \<Rightarrow> plan_repo" where
  "put_plan plan_id p r = r\<lparr>p_plans := AList.update plan_id p (p_plans r)\<rparr>"

definition put_plan_versions :: "string \<Rightarrow> plan_version list \<Rightarrow> plan_repo \<Rightarrow> plan_repo" where
  "put_plan_versions plan_id vs r = r\<lparr>p_versions_by_plan := AList.update plan_id vs (p_versions_by_plan r)\<rparr>"

definition append_transition_event ::
  "string \<Rightarrow> string \<Rightarrow> string \<Rightarrow> string \<Rightarrow> string \<Rightarrow> string option \<Rightarrow> string \<Rightarrow> string option \<Rightarrow> string option
   \<Rightarrow> string option \<Rightarrow> (string \<times> json) list \<Rightarrow> plan_repo \<Rightarrow> plan_repo" where
  "append_transition_event now uuid plan_id version_id action from_state to_state actor_id correlation_id
     effective_from details r =
     r\<lparr>p_transition_events_by_plan := AList.update plan_id (plan_events r plan_id @
         [\<lparr>pe_id = ''gx-run-plan-transition-'' @ uuid, pe_runPlanId = plan_id, pe_runPlanVersionId = version_id,
           pe_action = action, pe_fromState = from_state, pe_toState = to_state, pe_actorId = actor_id,
           pe_correlationId = correlation_id, pe_effectiveFrom = effective_from, pe_details = details,
           pe_occurredAt = now\<rparr>]) (p_transition_events_by_plan r)\<rparr>"


section \<open>Reading plans\<close>

record plan_entity = run_plan +
  pl_pendingVersionId :: "string option"
  pl_pendingVersionGovernanceState :: "string option"
  pl_versions :: "plan_version list"
  pl_transitionEvents :: "plan_event list"

definition select_pending_version :: "plan_version list \<Rightarrow> plan_version option" where
  "select_pending_version versions = find (\<lambda>v. is_run_plan_version_pending_state (pv_governanceState v)) (rev versions)"

definition plan_entity_of :: "plan_repo \<Rightarrow> string \<Rightarrow> run_plan \<Rightarrow> plan_entity" where
  "plan_entity_of r plan_id plan =
     (let versions = plan_versions r plan_id; pending_version = select_pending_version versions
      in run_plan.extend plan
           \<lparr>pl_pendingVersionId = map_option pv_id pending_version,
            pl_pendingVersionGovernanceState = map_option pv_governanceState pending_version,
            pl_versions = versions, pl_transitionEvents = plan_events r plan_id\<rparr>)"

definition get_plan :: "plan_repo \<Rightarrow> string \<Rightarrow> plan_entity option" where
  "get_plan r plan_id = map_option (plan_entity_of r plan_id) (map_of (p_plans r) plan_id)"

text \<open>The tail shared by all writing operations: read the plan back or fail.\<close>

definition persisted :: "string \<Rightarrow> plan_repo \<Rightarrow> (plan_error + plan_entity) \<times> plan_repo" where
  "persisted plan_id r =
     ((case get_plan r plan_id of None \<Rightarrow> Inl (PlanNotPersisted plan_id) | Some e \<Rightarrow> Inr e), r)"

text \<open>\<open>wanted is not None and wanted != actual\<close>\<close>

definition differs :: "string option \<Rightarrow> string \<Rightarrow> bool" where
  "differs wanted actual = (case wanted of None \<Rightarrow> False | Some w \<Rightarrow> actual \<noteq> w)"

definition plan_listed ::
  "string option \<Rightarrow> string option \<Rightarrow> string option \<Rightarrow> string option \<Rightarrow> plan_repo \<Rightarrow> string \<times> run_plan \<Rightarrow> bool" where
  "plan_listed workspace_id business_key status suite_id r entry =
     (case entry of (plan_id, plan) \<Rightarrow>
        \<not> differs workspace_id (pl_workspaceId plan) \<and> \<not> differs business_key (pl_businessKey plan)
        \<and> \<not> differs status (pl_status plan)
        \<and> (case suite_id of
             None \<Rightarrow> True
           | Some s \<Rightarrow> list_ex (\<lambda>v. text_of (pv_suiteId v) = s) (plan_versions r plan_id)))"

definition list_plans ::
  "string option \<Rightarrow> string option \<Rightarrow> string option \<Rightarrow> string option \<Rightarrow> plan_repo \<Rightarrow> plan_entity list" where
  "list_plans workspace_id business_key status suite_id r =
     sort_desc (\<lambda>e. if pl_updatedAt e \<noteq> [] then pl_updatedAt e else pl_createdAt e)
       (map (\<lambda>(plan_id, plan). plan_entity_of r plan_id plan)
          (filter (plan_listed workspace_id business_key status suite_id r) (p_plans r)))"


section \<open>Creating plans and versions\<close>

definition mk_plan_version ::
  "string \<Rightarrow> string \<Rightarrow> string \<Rightarrow> version_content \<Rightarrow> string option \<Rightarrow> string \<Rightarrow> plan_version" where
  "mk_plan_version version_id plan_id state c created_by now =
     \<lparr>pv_id = version_id, pv_runPlanId = plan_id, pv_governanceState = state,
      pv_gxSuiteSelection = vc_gxSuiteSelection c, pv_suiteId = vc_suiteId c, pv_suiteVersion = vc_suiteVersion c,
      pv_suiteSnapshot = vc_suiteSnapshot c, pv_executionContractSnapshot = vc_executionContractSnapshot c,
      pv_scheduleDefinition = vc_scheduleDefinition c,
      pv_validationStatus = (if truthy (vc_validationStatus c) then text_of (vc_validationStatus c) else ''not_requested''),
      pv_reviewStatus = vc_reviewStatus c, pv_effectiveFrom = vc_effectiveFrom c,
      pv_supersedesVersionId = vc_supersedesVersionId c, pv_createdBy = created_by, pv_createdAt = now\<rparr>"

definition create_plan ::
  "plan_env \<Rightarrow> string \<Rightarrow> string \<Rightarrow> string \<Rightarrow> json \<Rightarrow> string \<Rightarrow> string \<Rightarrow> string option \<Rightarrow> version_content \<Rightarrow> string option
   \<Rightarrow> plan_repo \<Rightarrow> (plan_error + plan_entity) \<times> plan_repo" where
  "create_plan en plan_id version_id workspace_id scope_selector planning_mode status created_by c correlation_id r =
     (if map_of (p_plans r) plan_id \<noteq> None then (Inl (PlanAlreadyExists plan_id), r)
      else
        (let now = now_iso en;
             r1 = put_plan plan_id
                    \<lparr>pl_runPlanId = plan_id, pl_businessKey = plan_id, pl_workspaceId = workspace_id,
                     pl_scopeSelector = scope_selector, pl_planningMode = planning_mode,
                     pl_currentActiveVersionId = None, pl_status = status, pl_createdBy = created_by,
                     pl_createdAt = now, pl_updatedAt = now, pl_activatedBy = None, pl_activatedAt = None,
                     pl_lastDispatchedRunId = None\<rparr> r;
             r2 = put_plan_versions plan_id [mk_plan_version version_id plan_id status c created_by now] r1;
             r3 = append_transition_event (event_now en) (event_uuid en) plan_id version_id ''created'' None status
                    created_by correlation_id (vc_effectiveFrom c)
                    [(''planning_mode'', PStr planning_mode), (''workspace_id'', PStr workspace_id),
                     (''supersedes_version_id'', opt_json (vc_supersedesVersionId c))] r2
         in persisted plan_id r3))"

definition create_plan_version ::
  "plan_env \<Rightarrow> string \<Rightarrow> string \<Rightarrow> version_content \<Rightarrow> string option \<Rightarrow> string option
   \<Rightarrow> plan_repo \<Rightarrow> (plan_error + plan_entity) \<times> plan_repo" where
  "create_plan_version en plan_id version_id c created_by correlation_id r =
     (case map_of (p_plans r) plan_id of
        None \<Rightarrow> (Inl (PlanNotFound plan_id), r)
      | Some plan \<Rightarrow>
          (let now = now_iso en;
               r1 = put_plan_versions plan_id
                      (plan_versions r plan_id @ [mk_plan_version version_id plan_id ''draft'' c created_by now]) r;
               plan1 = (if pl_currentActiveVersionId plan = None then plan\<lparr>pl_status := ''draft''\<rparr> else plan);
               r2 = put_plan plan_id (plan1\<lparr>pl_updatedAt := now\<rparr>) r1;
               r3 = append_transition_event (event_now en) (event_uuid en) plan_id version_id ''version_created'' None
                      ''draft'' created_by correlation_id (vc_effectiveFrom c)
                      [(''supersedes_version_id'', opt_json (vc_supersedesVersionId c))] r2
           in persisted plan_id r3))"


section \<open>Governance operations\<close>

text \<open>The status columns a transition writes; a target with blanks around it writes none of them.\<close>

definition transition_columns :: "string \<Rightarrow> string option \<Rightarrow> plan_version \<Rightarrow> plan_version" where
  "transition_columns target_state effective_from v =
     (if target_state = ''pending_validation'' then v\<lparr>pv_validationStatus := ''pending'', pv_reviewStatus := None\<rparr>
      else if target_state = ''validation_failed'' then v\<lparr>pv_validationStatus := ''failed'', pv_reviewStatus := None\<rparr>
      else if target_state = ''pending_review''
      then v\<lparr>pv_validationStatus := ''passed'', pv_reviewStatus := Some ''pending''\<rparr>
      else if target_state = ''approved_pending_activation''
      then (let v1 = v\<lparr>pv_validationStatus := ''passed'', pv_reviewStatus := Some ''approved''\<rparr>
            in if effective_from \<noteq> None then v1\<lparr>pv_effectiveFrom := effective_from\<rparr> else v1)
      else if target_state = ''cancelled'' then v\<lparr>pv_reviewStatus := Some ''cancelled''\<rparr>
      else v)"

definition transition_plan_version ::
  "plan_env \<Rightarrow> string \<Rightarrow> string \<Rightarrow> string \<Rightarrow> string option \<Rightarrow> string option \<Rightarrow> string option
   \<Rightarrow> plan_repo \<Rightarrow> (plan_error + plan_entity) \<times> plan_repo" where
  "transition_plan_version en plan_id version_id target_state updated_by effective_from correlation_id r =
     (case map_of (p_plans r) plan_id of
        None \<Rightarrow> (Inl (PlanNotFound plan_id), r)
      | Some plan \<Rightarrow>
          (let versions = plan_versions r plan_id
           in case find (\<lambda>v. pv_id v = version_id) versions of
                None \<Rightarrow> (Inl (PlanVersionNotFound version_id), r)
              | Some version \<Rightarrow>
                  (let current_state = strip (pv_governanceState version)
                   in if current_state = [] then (Inl (MissingGovernanceState version_id), r)
                      else if \<not> is_valid_run_plan_version_transition current_state target_state
                      then (Inl (InvalidPlanTransition current_state target_state), r)
                      else
                        (let write = (\<lambda>v. (transition_columns target_state effective_from v)
                                            \<lparr>pv_governanceState := target_state\<rparr>);
                             r1 = put_plan_versions plan_id (update_first (\<lambda>v. pv_id v = version_id) write versions) r;
                             r2 = put_plan plan_id (plan\<lparr>pl_status :=
                                      (if pl_currentActiveVersionId plan \<noteq> None then ''active'' else target_state),
                                    pl_updatedAt := now_iso en\<rparr>) r1;
                             r3 = append_transition_event (event_now en) (event_uuid en) plan_id version_id ''transitioned''
                                    (Some current_state) target_state updated_by correlation_id effective_from
                                    [(''target_state'', PStr target_state)] r2
                         in persisted plan_id r3))))"

text \<open>Supersede the previously active version, when there is one and it is another one.\<close>

definition supersede_previous ::
  "plan_env \<Rightarrow> string \<Rightarrow> string \<Rightarrow> string option \<Rightarrow> string option \<Rightarrow> run_plan \<Rightarrow> plan_repo \<Rightarrow> plan_repo" where
  "supersede_previous en plan_id version_id activated_by correlation_id plan r =
     (let previous = text_of (pl_currentActiveVersionId plan)
      in if previous = [] \<or> previous = version_id
            \<or> find (\<lambda>v. pv_id v = previous) (plan_versions r plan_id) = None then r
         else append_transition_event (superseded_now en) (superseded_uuid en) plan_id previous ''superseded''
                (Some ''active'') ''superseded'' activated_by correlation_id None
                [(''superseded_by'', PStr version_id)]
                (put_plan_versions plan_id
                   (update_first (\<lambda>v. pv_id v = previous)
                      (\<lambda>v. v\<lparr>pv_governanceState := ''superseded'', pv_reviewStatus := Some ''superseded''\<rparr>)
                      (plan_versions r plan_id)) r))"

definition activate_plan ::
  "plan_env \<Rightarrow> string \<Rightarrow> string \<Rightarrow> string option \<Rightarrow> string option \<Rightarrow> string option
   \<Rightarrow> plan_repo \<Rightarrow> (plan_error + plan_entity) \<times> plan_repo" where
  "activate_plan en plan_id version_id activated_by dispatched_run_id correlation_id r =
     (case map_of (p_plans r) plan_id of
        None \<Rightarrow> (Inl (PlanNotFound plan_id), r)
      | Some plan \<Rightarrow>
          (case find (\<lambda>v. pv_id v = version_id) (plan_versions r plan_id) of
             None \<Rightarrow> (Inl (PlanVersionNotFound version_id), r)
           | Some target \<Rightarrow>
               (let current_state = strip (pv_governanceState target); now = now_iso en
                in if current_state \<noteq> ''approved_pending_activation'' then (Inl (NotApprovedForActivation version_id), r)
                   else
                     (let r1 = supersede_previous en plan_id version_id activated_by correlation_id plan r;
                          r2 = put_plan_versions plan_id
                                 (update_first (\<lambda>v. pv_id v = version_id) (\<lambda>v. v\<lparr>pv_governanceState := ''active''\<rparr>)
                                    (plan_versions r1 plan_id)) r1;
                          r3 = put_plan plan_id (plan\<lparr>pl_status := ''active'', pl_currentActiveVersionId := Some version_id,
                                 pl_updatedAt := now, pl_activatedBy := activated_by, pl_activatedAt := Some now,
                                 pl_lastDispatchedRunId := dispatched_run_id\<rparr>) r2;
                          r4 = append_transition_event (event_now en) (event_uuid en) plan_id version_id ''activated''
                                 (Some current_state) ''active'' activated_by correlation_id None
                                 [(''dispatched_run_id'', opt_json dispatched_run_id)] r3
                      in persisted plan_id r4))))"

definition deactivate_plan ::
  "plan_env \<Rightarrow> string \<Rightarrow> string \<Rightarrow> string option \<Rightarrow> string option \<Rightarrow> plan_repo \<Rightarrow> (plan_error + plan_entity) \<times> plan_repo" where
  "deactivate_plan en plan_id version_id deactivated_by correlation_id r =
     (case map_of (p_plans r) plan_id of
        None \<Rightarrow> (Inl (PlanNotFound plan_id), r)
      | Some plan \<Rightarrow>
          (case find (\<lambda>v. pv_id v = version_id) (plan_versions r plan_id) of
             None \<Rightarrow> (Inl (PlanVersionNotFound version_id), r)
           | Some target \<Rightarrow>
               (let current_state = strip (pv_governanceState target)
                in if current_state \<noteq> ''deactivation-requested'' then (Inl (NotPendingDeactivation version_id), r)
                   else
                     (let r1 = put_plan_versions plan_id
                                 (update_first (\<lambda>v. pv_id v = version_id) (\<lambda>v. v\<lparr>pv_governanceState := ''deactivated''\<rparr>)
                                    (plan_versions r plan_id)) r;
                          plan1 = plan\<lparr>pl_status := ''deactivated''\<rparr>;
                          plan2 = (if text_of (pl_currentActiveVersionId plan1) = version_id
                                   then plan1\<lparr>pl_currentActiveVersionId := None\<rparr> else plan1);
                          r2 = put_plan plan_id (plan2\<lparr>pl_updatedAt := now_iso en\<rparr>) r1;
                          r3 = append_transition_event (event_now en) (event_uuid en) plan_id version_id ''deactivated''
                                 (Some current_state) ''deactivated'' deactivated_by correlation_id None [] r2
                      in persisted plan_id r3))))"

definition record_plan_dispatch ::
  "plan_env \<Rightarrow> string \<Rightarrow> string \<Rightarrow> string \<Rightarrow> string option \<Rightarrow> string option \<Rightarrow> (string \<times> json) list
   \<Rightarrow> plan_repo \<Rightarrow> (plan_error + plan_entity) \<times> plan_repo" where
  "record_plan_dispatch en plan_id version_id dispatched_run_id dispatched_by correlation_id details r =
     (case map_of (p_plans r) plan_id of
        None \<Rightarrow> (Inl (PlanNotFound plan_id), r)
      | Some plan \<Rightarrow>
          (case find (\<lambda>v. pv_id v = version_id) (plan_versions r plan_id) of
             None \<Rightarrow> (Inl (PlanVersionNotFound version_id), r)
           | Some target \<Rightarrow>
               (let current_state = strip (pv_governanceState target)
                in if current_state \<noteq> ''active'' \<or> text_of (pl_currentActiveVersionId plan) \<noteq> version_id
                   then (Inl (PlanVersionNotActive version_id), r)
                   else
                     (let r1 = put_plan plan_id (plan\<lparr>pl_lastDispatchedRunId := Some dispatched_run_id,
                                 pl_updatedAt := now_iso en\<rparr>) r;
                          r2 = append_transition_event (event_now en) (event_uuid en) plan_id version_id ''dispatched''
                                 (Some ''active'') ''active'' dispatched_by correlation_id None
                                 (foldl (\<lambda>d (k, v). AList.update k v d) [(''dispatched_run_id'', PStr dispatched_run_id)] details) r1
                      in persisted plan_id r2))))"


section \<open>Frame lemmas\<close>

lemma valid_nonempty: "is_valid_run_plan_version_transition c t \<Longrightarrow> strip c \<noteq> []"
  by (auto simp: is_valid_run_plan_version_transition_def run_plan_version_allowed_transitions_def dict_get_def)

lemma put_plan_frame [simp]:
  "map_of (p_plans (put_plan k p r)) x = (if x = k then Some p else map_of (p_plans r) x)"
  "p_versions_by_plan (put_plan k p r) = p_versions_by_plan r"
  "p_transition_events_by_plan (put_plan k p r) = p_transition_events_by_plan r"
  by (simp_all add: put_plan_def)

lemma put_plan_versions_frame [simp]:
  "p_plans (put_plan_versions k vs r) = p_plans r"
  "plan_versions (put_plan_versions k vs r) x = (if x = k then vs else plan_versions r x)"
  "p_transition_events_by_plan (put_plan_versions k vs r) = p_transition_events_by_plan r"
  by (simp_all add: put_plan_versions_def)

lemma append_event_frame [simp]:
  "p_plans (append_transition_event nw uu k v a f t ac co ef d r) = p_plans r"
  "p_versions_by_plan (append_transition_event nw uu k v a f t ac co ef d r) = p_versions_by_plan r"
  by (simp_all add: append_transition_event_def)

lemma persisted_snd [simp]: "snd (persisted k r) = r"
  by (simp add: persisted_def)

lemma persisted_fst: "map_of (p_plans r) k = Some p \<Longrightarrow> fst (persisted k r) = Inr (plan_entity_of r k p)"
  by (simp add: persisted_def get_plan_def)

lemma supersede_frame [simp]:
  "p_plans (supersede_previous en k v ab co plan r) = p_plans r"
  "x \<noteq> k \<Longrightarrow> plan_versions (supersede_previous en k v ab co plan r) x = plan_versions r x"
  by (simp_all add: supersede_previous_def Let_def)

lemma transition_columns_sel [simp]:
  "pv_id (transition_columns t ef v) = pv_id v"
  by (simp add: transition_columns_def Let_def)


section \<open>Invariants\<close>

text \<open>
  Version identifiers of a plan are distinct and not empty, and a version that is allowed to run (active, or
  active until a requested deactivation is approved) is the current active version of its plan.
\<close>

definition runnable_states :: "string set" where
  "runnable_states = {''active'', ''deactivation-requested''}"

definition versions_inv :: "string option \<Rightarrow> plan_version list \<Rightarrow> bool" where
  "versions_inv current vs \<longleftrightarrow> distinct (map pv_id vs) \<and> [] \<notin> set (map pv_id vs) \<and>
     (\<forall>v \<in> set vs. strip (pv_governanceState v) \<in> runnable_states \<longrightarrow> current = Some (pv_id v))"

text \<open>Versions that reached approval, or the states behind it, have an approval in the event log.\<close>

definition approved_states :: "string set" where
  "approved_states = {''approved_pending_activation'', ''active'', ''deactivation-requested'', ''deactivated'', ''superseded''}"

definition approved_in_log :: "plan_event list \<Rightarrow> string \<Rightarrow> bool" where
  "approved_in_log evs version_id \<longleftrightarrow>
     (\<exists>e \<in> set evs. pe_runPlanVersionId e = version_id \<and> strip (pe_toState e) = ''approved_pending_activation'')"

definition log_inv :: "string option \<Rightarrow> plan_version list \<Rightarrow> plan_event list \<Rightarrow> bool" where
  "log_inv current vs evs \<longleftrightarrow> (\<forall>i. current = Some i \<longrightarrow> approved_in_log evs i) \<and>
     (\<forall>v \<in> set vs. strip (pv_governanceState v) \<in> approved_states \<longrightarrow> approved_in_log evs (pv_id v))"

definition plan_inv :: "plan_repo \<Rightarrow> bool" where
  "plan_inv r \<longleftrightarrow> (\<forall>k p. map_of (p_plans r) k = Some p \<longrightarrow>
     versions_inv (pl_currentActiveVersionId p) (plan_versions r k) \<and>
     log_inv (pl_currentActiveVersionId p) (plan_versions r k) (plan_events r k))"

lemma approved_in_log_mono: "approved_in_log evs i \<Longrightarrow> set evs \<subseteq> set evs' \<Longrightarrow> approved_in_log evs' i"
  by (auto simp: approved_in_log_def)

lemma approved_in_log_append [simp]:
  "approved_in_log (plan_events (append_transition_event nw uu k v a f t ac co ef d r) x) i \<longleftrightarrow>
     approved_in_log (plan_events r x) i \<or> (x = k \<and> i = v \<and> strip t = ''approved_pending_activation'')"
  by (auto simp: approved_in_log_def append_transition_event_def)

lemma versions_inv_write:
  assumes "versions_inv current vs" and "find (\<lambda>v. pv_id v = i) vs = Some v"
    and "\<And>v. pv_id (f v) = pv_id v" and "strip (pv_governanceState (f v)) \<in> runnable_states \<longrightarrow> current = Some i"
  shows "versions_inv current (update_first (\<lambda>v. pv_id v = i) f vs)"
proof -
  have d: "distinct (map pv_id vs)" using assms(1) by (simp add: versions_inv_def)
  have m: "map pv_id (update_first (\<lambda>v. pv_id v = i) f vs) = map pv_id vs"
    by (rule map_update_first) (rule assms(3))
  have s: "set (update_first (\<lambda>v. pv_id v = i) f vs) = insert (f v) {y \<in> set vs. pv_id y \<noteq> i}"
    by (rule set_update_first [OF d assms(2)])
  have "pv_id v = i" using find_first [OF assms(2)] by simp
  then show ?thesis
    using assms(1,3,4) unfolding versions_inv_def s m by auto
qed

lemma log_inv_write:
  assumes "log_inv current vs evs" and "versions_inv current' vs" and "find (\<lambda>v. pv_id v = i) vs = Some v"
    and "\<And>v. pv_id (f v) = pv_id v" and "\<And>j. approved_in_log evs j \<Longrightarrow> approved_in_log evs' j"
    and "strip (pv_governanceState (f v)) \<in> approved_states \<longrightarrow> approved_in_log evs' i"
    and "current'' = current \<or> current'' = None \<or> (current'' = Some i \<and> approved_in_log evs' i)"
  shows "log_inv current'' (update_first (\<lambda>v. pv_id v = i) f vs) evs'"
proof -
  have d: "distinct (map pv_id vs)" using assms(2) by (simp add: versions_inv_def)
  have s: "set (update_first (\<lambda>v. pv_id v = i) f vs) = insert (f v) {y \<in> set vs. pv_id y \<noteq> i}"
    by (rule set_update_first [OF d assms(3)])
  have "pv_id v = i" using find_first [OF assms(3)] by simp
  then show ?thesis using assms(1,4-7) unfolding log_inv_def s by auto
qed

lemma plan_invD:
  "plan_inv r \<Longrightarrow> map_of (p_plans r) k = Some p \<Longrightarrow>
   versions_inv (pl_currentActiveVersionId p) (plan_versions r k) \<and>
   log_inv (pl_currentActiveVersionId p) (plan_versions r k) (plan_events r k)"
  by (simp add: plan_inv_def)

text \<open>A write to one plan keeps the invariant when the plan, its versions and its log agree again.\<close>

lemma plan_inv_write:
  assumes "plan_inv r"
    and "\<And>x. x \<noteq> k \<Longrightarrow> map_of (p_plans r') x = map_of (p_plans r) x"
    and "\<And>x. x \<noteq> k \<Longrightarrow> plan_versions r' x = plan_versions r x"
    and "\<And>x. x \<noteq> k \<Longrightarrow> plan_events r' x = plan_events r x"
    and "\<And>p. map_of (p_plans r') k = Some p \<Longrightarrow> versions_inv (pl_currentActiveVersionId p) (plan_versions r' k) \<and>
           log_inv (pl_currentActiveVersionId p) (plan_versions r' k) (plan_events r' k)"
  shows "plan_inv r'"
  unfolding plan_inv_def
proof (intro allI impI)
  fix x q
  assume "map_of (p_plans r') x = Some q"
  with assms show "versions_inv (pl_currentActiveVersionId q) (plan_versions r' x) \<and>
      log_inv (pl_currentActiveVersionId q) (plan_versions r' x) (plan_events r' x)"
    by (cases "x = k") (simp_all add: plan_invD)
qed

lemma append_event_other [simp]:
  "x \<noteq> k \<Longrightarrow> plan_events (append_transition_event nw uu k v a f t ac co ef d r) x = plan_events r x"
  by (simp add: append_transition_event_def)

lemma mk_plan_version_sel [simp]:
  "pv_id (mk_plan_version v k s c by n) = v" "pv_governanceState (mk_plan_version v k s c by n) = s"
  by (simp_all add: mk_plan_version_def)

lemma strip_states [simp]:
  "strip ''draft'' = ''draft''" "strip ''active'' = ''active''" "strip ''deactivated'' = ''deactivated''"
  "strip ''superseded'' = ''superseded''" "strip ''approved_pending_activation'' = ''approved_pending_activation''"
  "strip ''activation-requested'' = ''activation-requested''" "strip ''deactivation-requested'' = ''deactivation-requested''"
  by (simp_all add: text_eval)

lemma create_plan_inv:
  assumes "plan_inv r" and "vid \<noteq> []"
  shows "plan_inv (snd (create_plan en k vid ws sel mode ''draft'' cb c co r))"
proof (cases "map_of (p_plans r) k")
  case None
  show ?thesis
    by (rule plan_inv_write [OF assms(1), of k])
       (use None assms(2) in \<open>auto simp: create_plan_def Let_def versions_inv_def log_inv_def
          runnable_states_def approved_states_def\<close>)
qed (use assms(1) in \<open>simp add: create_plan_def\<close>)

lemma create_version_inv:
  assumes "plan_inv r" and "vid \<noteq> []" and "vid \<notin> pv_id ` set (plan_versions r k)"
  shows "plan_inv (snd (create_plan_version en k vid c cb co r))"
proof (cases "map_of (p_plans r) k")
  case (Some p)
  show ?thesis
    by (rule plan_inv_write [OF assms(1), of k])
       (use Some assms(2,3) plan_invD [OF assms(1) Some] in
          \<open>auto simp: create_plan_version_def Let_def versions_inv_def log_inv_def
             runnable_states_def approved_states_def split: if_splits\<close>)
qed (use assms(1) in \<open>simp add: create_plan_version_def\<close>)

text \<open>What a valid transition says about the states that matter for the invariant.\<close>

lemma valid_transition_runnable:
  "is_valid_run_plan_version_transition c t \<Longrightarrow> strip t \<in> runnable_states \<Longrightarrow> strip c \<in> runnable_states"
  by (auto simp: is_valid_run_plan_version_transition_def run_plan_version_allowed_transitions_def runnable_states_def
      dict_get_def split: if_splits)

lemma valid_transition_approved:
  "is_valid_run_plan_version_transition c t \<Longrightarrow> strip t \<in> approved_states \<Longrightarrow>
   strip t = ''approved_pending_activation'' \<or> strip c \<in> approved_states"
  by (auto simp: is_valid_run_plan_version_transition_def run_plan_version_allowed_transitions_def approved_states_def
      dict_get_def split: if_splits)

lemma transition_inv:
  assumes "plan_inv r"
  shows "plan_inv (snd (transition_plan_version en k vid t ub ef co r))"
proof (cases "map_of (p_plans r) k")
  case (Some p)
  note inv = plan_invD [OF assms Some]
  show ?thesis
  proof (cases "find (\<lambda>v. pv_id v = vid) (plan_versions r k)")
    case (Some v)
    note find = this
    let ?c = "strip (pv_governanceState v)"
    let ?upd = "\<lambda>v. (transition_columns t ef v)\<lparr>pv_governanceState := t\<rparr>"
    have v: "v \<in> set (plan_versions r k)" "pv_id v = vid" using find_first [OF Some] by simp_all
    show ?thesis
    proof (cases "?c \<noteq> [] \<and> is_valid_run_plan_version_transition ?c t")
      case True
      let ?r' = "snd (transition_plan_version en k vid t ub ef co r)"
      have run: "strip t \<in> runnable_states \<longrightarrow> pl_currentActiveVersionId p = Some vid"
        using True valid_transition_runnable [of ?c t] inv v by (auto simp: versions_inv_def)
      have log: "strip t \<in> approved_states \<longrightarrow> strip t = ''approved_pending_activation'' \<or> approved_in_log (plan_events r k) vid"
        using True valid_transition_approved [of ?c t] inv v by (auto simp: log_inv_def)
      have r': "map_of (p_plans ?r') x = (if x = k then Some (p\<lparr>pl_status :=
            (if pl_currentActiveVersionId p \<noteq> None then ''active'' else t), pl_updatedAt := now_iso en\<rparr>)
            else map_of (p_plans r) x)"
          "plan_versions ?r' x = (if x = k then update_first (\<lambda>v. pv_id v = vid) ?upd (plan_versions r k) else plan_versions r x)"
          "approved_in_log (plan_events ?r' k) i \<longleftrightarrow> approved_in_log (plan_events r k) i \<or> i = vid \<and> strip t = ''approved_pending_activation''"
          "x \<noteq> k \<Longrightarrow> plan_events ?r' x = plan_events r x" for x i
        using True \<open>map_of (p_plans r) k = Some p\<close> Some
        by (simp_all add: transition_plan_version_def Let_def)
      show ?thesis
        using inv run log
        by (intro plan_inv_write [OF assms, of k])
           (auto simp: r' intro!: versions_inv_write [OF _ find] log_inv_write [OF _ _ find])
    qed (use assms Some \<open>map_of (p_plans r) k = Some p\<close> in \<open>auto simp: transition_plan_version_def Let_def\<close>)
  qed (use assms Some in \<open>simp add: transition_plan_version_def Let_def\<close>)
qed (use assms in \<open>simp add: transition_plan_version_def\<close>)

lemma find_update_other:
  "i \<noteq> j \<Longrightarrow> (\<And>v. pv_id (f v) = pv_id v) \<Longrightarrow>
   find (\<lambda>v. pv_id v = i) (update_first (\<lambda>v. pv_id v = j) f vs) = find (\<lambda>v. pv_id v = i) vs"
  by (rule find_update_first_other) auto

lemma supersede_effect:
  fixes en ab co
  assumes "versions_inv (pl_currentActiveVersionId p) (plan_versions r k)"
    and "log_inv (pl_currentActiveVersionId p) (plan_versions r k) (plan_events r k)"
    and "find (\<lambda>v. pv_id v = vid) (plan_versions r k) = Some v"
  defines "r1 \<equiv> supersede_previous en k vid ab co p r"
  shows "versions_inv (Some vid) (plan_versions r1 k)"
    and "log_inv (pl_currentActiveVersionId p) (plan_versions r1 k) (plan_events r1 k)"
    and "find (\<lambda>v. pv_id v = vid) (plan_versions r1 k) = Some v"
    and "x \<noteq> k \<Longrightarrow> plan_events r1 x = plan_events r x"
proof -
  let ?prev = "text_of (pl_currentActiveVersionId p)"
  let ?w = "\<lambda>v. v\<lparr>pv_governanceState := ''superseded'', pv_reviewStatus := Some ''superseded''\<rparr>"
  show "x \<noteq> k \<Longrightarrow> plan_events r1 x = plan_events r x"
    by (simp add: r1_def supersede_previous_def Let_def)
  consider (skip) "?prev = [] \<or> ?prev = vid \<or> find (\<lambda>v. pv_id v = ?prev) (plan_versions r k) = None"
    | (other) w where "?prev \<noteq> []" "?prev \<noteq> vid" "find (\<lambda>v. pv_id v = ?prev) (plan_versions r k) = Some w"
    by (cases "find (\<lambda>v. pv_id v = ?prev) (plan_versions r k)") auto
  then have "versions_inv (Some vid) (plan_versions r1 k)
    \<and> log_inv (pl_currentActiveVersionId p) (plan_versions r1 k) (plan_events r1 k)
    \<and> find (\<lambda>v. pv_id v = vid) (plan_versions r1 k) = Some v"
  proof cases
    case skip
    then have "r1 = r" by (auto simp: r1_def supersede_previous_def Let_def)
    moreover have "pv_id u = vid" if "u \<in> set (plan_versions r k)" "strip (pv_governanceState u) \<in> runnable_states" for u
    proof -
      have "?prev = pv_id u" using assms(1) that by (simp add: versions_inv_def)
      moreover have "pv_id u \<noteq> []" using assms(1) that by (force simp: versions_inv_def)
      ultimately show ?thesis using skip that find_noneE [of "\<lambda>v. pv_id v = ?prev" "plan_versions r k" u] by auto
    qed
    ultimately show ?thesis using assms(1-3) by (auto simp: versions_inv_def)
  next
    case other
    then have cur: "pl_currentActiveVersionId p = Some ?prev" by (cases "pl_currentActiveVersionId p") auto
    have vs: "plan_versions r1 k = update_first (\<lambda>v. pv_id v = ?prev) ?w (plan_versions r k)"
      and log: "approved_in_log (plan_events r1 k) i \<longleftrightarrow> approved_in_log (plan_events r k) i" for i
      using other by (auto simp: r1_def supersede_previous_def Let_def text_eval)
    have d: "distinct (map pv_id (plan_versions r k))" using assms(1) by (simp add: versions_inv_def)
    have s: "set (plan_versions r1 k) = insert (?w w) {y \<in> set (plan_versions r k). pv_id y \<noteq> ?prev}"
      unfolding vs by (rule set_update_first [OF d other(3)])
    have "map pv_id (plan_versions r1 k) = map pv_id (plan_versions r k)"
      unfolding vs by (rule map_update_first) simp
    moreover have "strip (pv_governanceState u) \<notin> runnable_states" if "u \<in> set (plan_versions r1 k)" for u
      using that assms(1) unfolding s by (auto simp: versions_inv_def runnable_states_def)
    ultimately have "versions_inv (Some vid) (plan_versions r1 k)"
      using assms(1) by (simp only: versions_inv_def) blast
    moreover have "log_inv (pl_currentActiveVersionId p) (plan_versions r1 k) (plan_events r1 k)"
      unfolding vs
      by (rule log_inv_write [OF assms(2,1) other(3)]) (use cur assms(2) in \<open>auto simp: log log_inv_def\<close>)
    moreover have "find (\<lambda>v. pv_id v = vid) (plan_versions r1 k) = Some v"
      unfolding vs using other(2) assms(3) by (subst find_update_other) auto
    ultimately show ?thesis by blast
  qed
  then show "versions_inv (Some vid) (plan_versions r1 k)"
    "log_inv (pl_currentActiveVersionId p) (plan_versions r1 k) (plan_events r1 k)"
    "find (\<lambda>v. pv_id v = vid) (plan_versions r1 k) = Some v"
    by simp_all
qed

lemma activate_plan_inv:
  assumes "plan_inv r"
  shows "plan_inv (snd (activate_plan en k vid ab dr co r))"
proof (cases "\<exists>p v. map_of (p_plans r) k = Some p \<and> find (\<lambda>v. pv_id v = vid) (plan_versions r k) = Some v
    \<and> strip (pv_governanceState v) = ''approved_pending_activation''")
  case True
  then obtain p v where p: "map_of (p_plans r) k = Some p" and v: "find (\<lambda>v. pv_id v = vid) (plan_versions r k) = Some v"
    and st: "strip (pv_governanceState v) = ''approved_pending_activation''" by blast
  define r1 where "r1 = supersede_previous en k vid ab co p r"
  note inv = plan_invD [OF assms p]
  note eff = supersede_effect [where en = en and ab = ab and co = co, OF conjunct1 [OF inv] conjunct2 [OF inv] v, folded r1_def]
  let ?r' = "snd (activate_plan en k vid ab dr co r)"
  have "v \<in> set (plan_versions r1 k)" "pv_id v = vid" using find_first [OF eff(3)] by simp_all
  then have app: "approved_in_log (plan_events r1 k) vid"
    using eff(2) st by (auto simp: log_inv_def approved_states_def)
  have r': "map_of (p_plans ?r') x = (if x = k then Some (p\<lparr>pl_status := ''active'', pl_currentActiveVersionId := Some vid,
        pl_updatedAt := now_iso en, pl_activatedBy := ab, pl_activatedAt := Some (now_iso en),
        pl_lastDispatchedRunId := dr\<rparr>) else map_of (p_plans r) x)"
      "plan_versions ?r' k = update_first (\<lambda>v. pv_id v = vid) (\<lambda>v. v\<lparr>pv_governanceState := ''active''\<rparr>) (plan_versions r1 k)"
      "x \<noteq> k \<Longrightarrow> plan_versions ?r' x = plan_versions r x"
      "approved_in_log (plan_events ?r' k) i \<longleftrightarrow> approved_in_log (plan_events r1 k) i"
      "x \<noteq> k \<Longrightarrow> plan_events ?r' x = plan_events r x" for x i
    using p v st eff(4) by (simp_all add: activate_plan_def Let_def r1_def supersede_frame)
  show ?thesis
    by (intro plan_inv_write [OF assms, of k])
       (auto simp: r' intro!: versions_inv_write [OF eff(1,3)] log_inv_write [OF eff(2,1,3)] app)
qed (use assms in \<open>auto simp: activate_plan_def Let_def split: option.splits\<close>)

lemma deactivate_plan_inv:
  assumes "plan_inv r"
  shows "plan_inv (snd (deactivate_plan en k vid db co r))"
proof (cases "\<exists>p v. map_of (p_plans r) k = Some p \<and> find (\<lambda>v. pv_id v = vid) (plan_versions r k) = Some v
    \<and> strip (pv_governanceState v) = ''deactivation-requested''")
  case True
  then obtain p v where p: "map_of (p_plans r) k = Some p" and v: "find (\<lambda>v. pv_id v = vid) (plan_versions r k) = Some v"
    and st: "strip (pv_governanceState v) = ''deactivation-requested''" by blast
  note inv = plan_invD [OF assms p]
  have m: "v \<in> set (plan_versions r k)" "pv_id v = vid" using find_first [OF v] by simp_all
  have cur: "pl_currentActiveVersionId p = Some vid"
    using inv m st by (auto simp: versions_inv_def runnable_states_def)
  let ?upd = "\<lambda>v. v\<lparr>pv_governanceState := ''deactivated''\<rparr>"
  let ?r' = "snd (deactivate_plan en k vid db co r)"
  have app: "approved_in_log (plan_events r k) vid" using inv cur by (simp add: log_inv_def)
  have r': "map_of (p_plans ?r') x = (if x = k then Some (p\<lparr>pl_status := ''deactivated'', pl_currentActiveVersionId := None,
        pl_updatedAt := now_iso en\<rparr>) else map_of (p_plans r) x)"
      "plan_versions ?r' x = (if x = k then update_first (\<lambda>v. pv_id v = vid) ?upd (plan_versions r k) else plan_versions r x)"
      "approved_in_log (plan_events ?r' k) i \<longleftrightarrow> approved_in_log (plan_events r k) i"
      "x \<noteq> k \<Longrightarrow> plan_events ?r' x = plan_events r x" for x i
    using p v st cur by (simp_all add: deactivate_plan_def Let_def)
  have d: "distinct (map pv_id (plan_versions r k))" using inv by (simp add: versions_inv_def)
  have "strip (pv_governanceState u) \<notin> runnable_states"
    if "u \<in> set (update_first (\<lambda>v. pv_id v = vid) ?upd (plan_versions r k))" for u
    using that inv cur unfolding set_update_first [OF d v] by (auto simp: versions_inv_def runnable_states_def)
  moreover have "map pv_id (update_first (\<lambda>v. pv_id v = vid) ?upd (plan_versions r k)) = map pv_id (plan_versions r k)"
    by (rule map_update_first) simp
  ultimately have "versions_inv None (update_first (\<lambda>v. pv_id v = vid) ?upd (plan_versions r k))"
    using inv by (simp only: versions_inv_def) blast
  then show ?thesis
    using inv app by (intro plan_inv_write [OF assms, of k]) (auto simp: r' intro!: log_inv_write [OF _ _ v])
qed (use assms in \<open>auto simp: deactivate_plan_def Let_def split: option.splits\<close>)

lemma dispatch_inv:
  assumes "plan_inv r"
  shows "plan_inv (snd (record_plan_dispatch en k vid run db co d r))"
  using assms plan_invD [OF assms]
  by (auto simp: record_plan_dispatch_def Let_def log_inv_def split: option.split intro!: plan_inv_write [OF assms, of k])


section \<open>Runs\<close>

text \<open>
  One call of the repository. Plans are created as drafts, and the identifier of a new version is a
  fresh non-empty text, as the use cases of \<open>app/application/use_cases/gx_run_plans.py\<close> call it.
\<close>

definition no_plans :: plan_repo where
  "no_plans = \<lparr>p_plans = [], p_versions_by_plan = [], p_transition_events_by_plan = []\<rparr>"

inductive plan_step :: "plan_repo \<Rightarrow> plan_repo \<Rightarrow> bool" where
  create: "vid \<noteq> [] \<Longrightarrow> plan_step r (snd (create_plan en k vid ws sel mode ''draft'' cb c co r))"
| new_version: "vid \<noteq> [] \<Longrightarrow> vid \<notin> pv_id ` set (plan_versions r k) \<Longrightarrow>
    plan_step r (snd (create_plan_version en k vid c cb co r))"
| transition: "plan_step r (snd (transition_plan_version en k vid t ub ef co r))"
| activate: "plan_step r (snd (activate_plan en k vid ab dr co r))"
| deactivate: "plan_step r (snd (deactivate_plan en k vid db co r))"
| dispatch: "plan_step r (snd (record_plan_dispatch en k vid run db co d r))"

lemma plan_step_inv: "plan_step r r' \<Longrightarrow> plan_inv r \<Longrightarrow> plan_inv r'"
  by (induction rule: plan_step.induct)
     (simp_all add: create_plan_inv create_version_inv transition_inv activate_plan_inv deactivate_plan_inv dispatch_inv)

interpretation plans: preserved plan_step plan_inv
  by unfold_locales (rule plan_step_inv)

lemma no_plans_inv: "plan_inv no_plans"
  by (simp add: plan_inv_def no_plans_def)


section \<open>Properties\<close>

text \<open>
  C2: In every run that starts without plans, a plan has at most one version that is allowed to run (active or
  waiting for its deactivation), and that version is the current active version of the plan.\<close>

theorem at_most_one_runnable_version:
  assumes "plan_step\<^sup>*\<^sup>* no_plans r" and "map_of (p_plans r) k = Some p"
    and "v \<in> set (plan_versions r k)" and "strip (pv_governanceState v) \<in> {''active'', ''deactivation-requested''}"
  shows "pl_currentActiveVersionId p = Some (pv_id v)
    \<and> (\<forall>w \<in> set (plan_versions r k). strip (pv_governanceState w) \<in> {''active'', ''deactivation-requested''} \<longrightarrow> w = v)"
proof -
  have "versions_inv (pl_currentActiveVersionId p) (plan_versions r k)"
    using plan_invD [OF plans.run [OF assms(1) no_plans_inv] assms(2)] by simp
  then have d: "distinct (map pv_id (plan_versions r k))"
    and cur: "\<And>w. w \<in> set (plan_versions r k) \<Longrightarrow> strip (pv_governanceState w) \<in> {''active'', ''deactivation-requested''} \<Longrightarrow>
      pl_currentActiveVersionId p = Some (pv_id w)"
    by (auto simp: versions_inv_def runnable_states_def)
  show ?thesis
    using cur [OF assms(3,4)] cur assms(3) d by (fastforce simp: distinct_map inj_on_def)
qed

text \<open>
  C27: In every run that starts without plans, a version that is approved, may run, was deactivated or was
  superseded has an event in the log of its plan that took it to approval.\<close>

theorem running_versions_were_approved:
  assumes "plan_step\<^sup>*\<^sup>* no_plans r" and "map_of (p_plans r) k = Some p"
    and "v \<in> set (plan_versions r k)" and "strip (pv_governanceState v) \<in> approved_states"
  shows "\<exists>e \<in> set (plan_events r k). pe_runPlanVersionId e = pv_id v \<and> strip (pe_toState e) = ''approved_pending_activation''"
  using plan_invD [OF plans.run [OF assms(1) no_plans_inv] assms(2)] assms(3,4)
  by (auto simp: log_inv_def approved_in_log_def)

text \<open>
  A dispatch is recorded exactly when the version is the current active version of an existing plan and
  its state is active; a refused dispatch changes nothing, a recorded one changes only the plan and its log.\<close>

theorem dispatch_only_of_active_version:
  assumes "map_of (p_plans r) k = Some p" and "find (\<lambda>v. pv_id v = vid) (plan_versions r k) = Some v"
  shows "case record_plan_dispatch en k vid run db co d r of
      (Inr ent, r') \<Rightarrow> strip (pv_governanceState v) = ''active'' \<and> text_of (pl_currentActiveVersionId p) = vid
        \<and> pl_lastDispatchedRunId ent = Some run \<and> pl_versions ent = plan_versions r k
        \<and> length (pl_transitionEvents ent) = Suc (length (plan_events r k)) \<and> get_plan r' k = Some ent
    | (Inl err, r') \<Rightarrow> \<not> (strip (pv_governanceState v) = ''active'' \<and> text_of (pl_currentActiveVersionId p) = vid)
        \<and> err = PlanVersionNotActive vid \<and> r' = r"
  using assms
  by (simp add: record_plan_dispatch_def Let_def persisted_def get_plan_def plan_entity_of_def run_plan.defs)
     (simp add: append_transition_event_def)

text \<open>
  A version waiting for deactivation can be taken to deactivated by the general transition as well as by
  the deactivation operation, but only the latter clears the plan: after the transition the plan still
  has status active and names the deactivated version as its current one.\<close>

theorem transition_to_deactivated_leaves_plan_active:
  assumes "plan_inv r" and "map_of (p_plans r) k = Some p"
    and "find (\<lambda>v. pv_id v = vid) (plan_versions r k) = Some v" and "pv_governanceState v = ''deactivation-requested''"
  shows "\<exists>ent ent'. fst (transition_plan_version en k vid ''deactivated'' ub ef co r) = Inr ent
    \<and> pl_status ent = ''active'' \<and> pl_currentActiveVersionId ent = Some vid
    \<and> map_option pv_governanceState (find (\<lambda>v. pv_id v = vid) (pl_versions ent)) = Some ''deactivated''
    \<and> fst (deactivate_plan en k vid ub co r) = Inr ent'
    \<and> pl_status ent' = ''deactivated'' \<and> pl_currentActiveVersionId ent' = None
    \<and> map_option pv_governanceState (find (\<lambda>v. pv_id v = vid) (pl_versions ent')) = Some ''deactivated''"
proof -
  have m: "v \<in> set (plan_versions r k)" "pv_id v = vid" using find_first [OF assms(3)] by simp_all
  have cur: "pl_currentActiveVersionId p = Some vid"
    using plan_invD [OF assms(1,2)] m assms(4) by (auto simp: versions_inv_def runnable_states_def)
  have ok: "is_valid_run_plan_version_transition ''deactivation-requested'' ''deactivated''"
    by (simp add: is_valid_run_plan_version_transition_def run_plan_version_allowed_transitions_def dict_get_def)
  have upd: "find (\<lambda>v. pv_id v = vid) (update_first (\<lambda>v. pv_id v = vid) f (plan_versions r k)) = Some (f v)"
    if "pv_id (f v) = vid" for f
    using find_update_first [OF assms(3), of f] that by simp
  show ?thesis
    using assms(2-4) cur ok m
    by (simp add: transition_plan_version_def deactivate_plan_def Let_def persisted_fst plan_entity_of_def
        run_plan.defs upd)
qed


section \<open>Witnesses\<close>

definition demo_plan_env :: plan_env where
  "demo_plan_env = \<lparr>now_iso = ''t'', event_now = ''t'', event_uuid = ''a'', superseded_now = ''t'', superseded_uuid = ''b''\<rparr>"

definition demo_content :: version_content where
  "demo_content = \<lparr>vc_gxSuiteSelection = PDict [], vc_suiteId = Some ''s1'', vc_suiteVersion = Some 1,
     vc_suiteSnapshot = PNone, vc_executionContractSnapshot = PNone, vc_scheduleDefinition = PDict [],
     vc_effectiveFrom = None, vc_validationStatus = None, vc_reviewStatus = None, vc_supersedesVersionId = None\<rparr>"

fun demo_transitions :: "string list \<Rightarrow> plan_repo \<Rightarrow> plan_repo" where
  "demo_transitions [] r = r"
| "demo_transitions (t # ts) r =
     demo_transitions ts (if t = ''active'' then snd (activate_plan demo_plan_env ''p1'' ''v1'' None None None r)
       else snd (transition_plan_version demo_plan_env ''p1'' ''v1'' t None None None r))"

definition demo_created :: plan_repo where
  "demo_created = snd (create_plan demo_plan_env ''p1'' ''v1'' ''default'' (PDict []) ''single_suite'' ''draft'' None demo_content None no_plans)"

definition demo_active :: plan_repo where
  "demo_active = demo_transitions [''activation-requested'', ''approved_pending_activation'', ''active''] demo_created"

definition demo_leaving :: plan_repo where
  "demo_leaving = demo_transitions [''deactivation-requested''] demo_active"

lemma demo_transitions_steps: "plan_step\<^sup>*\<^sup>* r (demo_transitions ts r)"
proof (induction ts arbitrary: r)
  case (Cons t ts)
  have "plan_step r (if t = ''active'' then snd (activate_plan demo_plan_env ''p1'' ''v1'' None None None r)
       else snd (transition_plan_version demo_plan_env ''p1'' ''v1'' t None None None r))"
    using plan_step.activate plan_step.transition by simp
  with Cons show ?case by (simp add: converse_rtranclp_into_rtranclp)
qed simp

lemma demo_reachable: "plan_step\<^sup>*\<^sup>* no_plans demo_active" "plan_step\<^sup>*\<^sup>* no_plans demo_leaving"
proof -
  have "plan_step no_plans demo_created" unfolding demo_created_def by (rule plan_step.create) simp
  then show *: "plan_step\<^sup>*\<^sup>* no_plans demo_active"
    unfolding demo_active_def by (rule converse_rtranclp_into_rtranclp) (rule demo_transitions_steps)
  then show "plan_step\<^sup>*\<^sup>* no_plans demo_leaving"
    unfolding demo_leaving_def by (rule rtranclp_trans) (rule demo_transitions_steps)
qed

lemmas plan_eval = transition_plan_version_def activate_plan_def create_plan_def append_transition_event_def
  put_plan_def put_plan_versions_def persisted_def transition_columns_def supersede_previous_def mk_plan_version_def
  is_valid_run_plan_version_transition_def run_plan_version_allowed_transitions_def dict_get_def Let_def
  no_plans_def demo_plan_env_def demo_content_def truthy_def

lemma demo_created_eval:
  "\<exists>p. map_of (p_plans demo_created) ''p1'' = Some p \<and> pl_currentActiveVersionId p = None"
  "\<exists>v. plan_versions demo_created ''p1'' = [v] \<and> pv_id v = ''v1'' \<and> pv_governanceState v = ''draft''"
  by (simp_all add: demo_created_def plan_eval)

text \<open>One transition, or the activation, of the only version of the demonstration plan.\<close>

lemma demo_transition_eval:
  assumes "\<exists>p. map_of (p_plans r) ''p1'' = Some p \<and> pl_currentActiveVersionId p = c"
    and "\<exists>v. plan_versions r ''p1'' = [v] \<and> pv_id v = ''v1'' \<and> pv_governanceState v = s"
    and "strip s \<noteq> []" and "is_valid_run_plan_version_transition (strip s) t"
  defines "r' \<equiv> snd (transition_plan_version demo_plan_env ''p1'' ''v1'' t None None None r)"
  shows "\<exists>p. map_of (p_plans r') ''p1'' = Some p \<and> pl_currentActiveVersionId p = c"
    and "\<exists>v. plan_versions r' ''p1'' = [v] \<and> pv_id v = ''v1'' \<and> pv_governanceState v = t"
  using assms(1-4) unfolding r'_def by (auto simp: transition_plan_version_def Let_def)

lemma demo_activate_eval:
  assumes "\<exists>p. map_of (p_plans r) ''p1'' = Some p \<and> pl_currentActiveVersionId p = None"
    and "\<exists>v. plan_versions r ''p1'' = [v] \<and> pv_id v = ''v1'' \<and> pv_governanceState v = ''approved_pending_activation''"
  defines "r' \<equiv> snd (activate_plan demo_plan_env ''p1'' ''v1'' None None None r)"
  shows "\<exists>p. map_of (p_plans r') ''p1'' = Some p \<and> pl_currentActiveVersionId p = Some ''v1''"
    and "\<exists>v. plan_versions r' ''p1'' = [v] \<and> pv_id v = ''v1'' \<and> pv_governanceState v = ''active''"
  using assms(1,2) unfolding r'_def by (auto simp: activate_plan_def supersede_previous_def Let_def)

lemma demo_valid:
  "is_valid_run_plan_version_transition ''draft'' ''activation-requested''"
  "is_valid_run_plan_version_transition ''activation-requested'' ''approved_pending_activation''"
  "is_valid_run_plan_version_transition ''active'' ''deactivation-requested''"
  by (simp_all add: is_valid_run_plan_version_transition_def run_plan_version_allowed_transitions_def dict_get_def)

lemma demo_active_eval:
  "\<exists>p. map_of (p_plans demo_active) ''p1'' = Some p \<and> pl_currentActiveVersionId p = Some ''v1''"
  "\<exists>v. plan_versions demo_active ''p1'' = [v] \<and> pv_id v = ''v1'' \<and> pv_governanceState v = ''active''"
proof -
  note 1 = demo_transition_eval [OF demo_created_eval, of "''activation-requested''"]
  note 2 = demo_transition_eval [OF 1, of "''approved_pending_activation''"]
  note 3 = demo_activate_eval [OF 2]
  show "\<exists>p. map_of (p_plans demo_active) ''p1'' = Some p \<and> pl_currentActiveVersionId p = Some ''v1''"
    "\<exists>v. plan_versions demo_active ''p1'' = [v] \<and> pv_id v = ''v1'' \<and> pv_governanceState v = ''active''"
    using 3 by (simp_all add: demo_active_def demo_valid)
qed

lemma demo_leaving_eval:
  "\<exists>p. map_of (p_plans demo_leaving) ''p1'' = Some p \<and> pl_currentActiveVersionId p = Some ''v1''"
  "\<exists>v. plan_versions demo_leaving ''p1'' = [v] \<and> pv_id v = ''v1'' \<and> pv_governanceState v = ''deactivation-requested''"
  using demo_transition_eval [OF demo_active_eval, of "''deactivation-requested''"]
  by (simp_all add: demo_leaving_def demo_valid)

lemma demo_activeE:
  obtains p v where "map_of (p_plans demo_active) ''p1'' = Some p" "pl_currentActiveVersionId p = Some ''v1''"
    "plan_versions demo_active ''p1'' = [v]" "pv_id v = ''v1''" "pv_governanceState v = ''active''"
  using demo_active_eval by auto

lemma at_most_one_runnable_version_witness:
  "\<exists>p v. map_of (p_plans demo_active) ''p1'' = Some p \<and> v \<in> set (plan_versions demo_active ''p1'')
     \<and> pl_currentActiveVersionId p = Some (pv_id v)"
proof -
  obtain p v where pv: "map_of (p_plans demo_active) ''p1'' = Some p" "plan_versions demo_active ''p1'' = [v]"
    "pv_governanceState v = ''active''" by (rule demo_activeE)
  then show ?thesis using at_most_one_runnable_version [OF demo_reachable(1) pv(1), of v] by simp
qed

lemma running_versions_were_approved_witness:
  "\<exists>e \<in> set (plan_events demo_active ''p1''). pe_runPlanVersionId e = ''v1'' \<and> strip (pe_toState e) = ''approved_pending_activation''"
proof -
  obtain p v where pv: "map_of (p_plans demo_active) ''p1'' = Some p" "plan_versions demo_active ''p1'' = [v]"
    "pv_id v = ''v1''" "pv_governanceState v = ''active''" by (rule demo_activeE)
  then show ?thesis using running_versions_were_approved [OF demo_reachable(1) pv(1), of v] by (simp add: approved_states_def)
qed

lemma dispatch_only_of_active_version_witness:
  "\<exists>ent r'. record_plan_dispatch demo_plan_env ''p1'' ''v1'' ''run-1'' None None [] demo_active = (Inr ent, r')
     \<and> pl_lastDispatchedRunId ent = Some ''run-1''"
proof -
  obtain p v where pv: "map_of (p_plans demo_active) ''p1'' = Some p" "pl_currentActiveVersionId p = Some ''v1''"
    "plan_versions demo_active ''p1'' = [v]" "pv_id v = ''v1''" "pv_governanceState v = ''active''" by (rule demo_activeE)
  then have f: "find (\<lambda>v. pv_id v = ''v1'') (plan_versions demo_active ''p1'') = Some v" by simp
  show ?thesis
    using dispatch_only_of_active_version [OF pv(1) f, where en = demo_plan_env and run = "''run-1''" and db = None
        and co = None and d = "[]"] pv
    by (simp split: prod.splits sum.splits)
qed

lemma transition_to_deactivated_leaves_plan_active_witness:
  "\<exists>ent. fst (transition_plan_version demo_plan_env ''p1'' ''v1'' ''deactivated'' None None None demo_leaving) = Inr ent
     \<and> pl_status ent = ''active'' \<and> pl_currentActiveVersionId ent = Some ''v1''"
proof -
  obtain p v where pv: "map_of (p_plans demo_leaving) ''p1'' = Some p" "plan_versions demo_leaving ''p1'' = [v]"
    "pv_id v = ''v1''" "pv_governanceState v = ''deactivation-requested''"
    using demo_leaving_eval by auto
  have "plan_inv demo_leaving" by (rule plans.run [OF demo_reachable(2) no_plans_inv])
  from transition_to_deactivated_leaves_plan_active [OF this pv(1), where vid = "''v1''" and v = v
    and en = demo_plan_env and ub = None and ef = None and co = None] pv
  show ?thesis by auto
qed

end
