(* ===== verification/Comment_Governance.thy ===== *)
theory Comment_Governance
  imports Status_Governance
begin

text \<open>
  Comment threads of approvals: \<open>app/domain/comment_governance.py\<close> and the thread and lock
  computations of \<open>app/domain/entities/approvals.py\<close>. A thread is not stored; it is computed from
  the audit rows of an approval, sorted by time, by folding one event after the other into the
  entry of its comment. Detail values are scalars (\<open>detail\<close>), which is all the application
  writes under the keys that are read here.
\<close>

section \<open>Detail values\<close>

datatype detail = DNone | DBool bool | DInt int | DText string

type_synonym details = "(string, detail) dict"

definition dget :: "details \<Rightarrow> string \<Rightarrow> detail" where
  "dget d k = dict_get d k DNone"

definition show_int :: "int \<Rightarrow> string" where
  "show_int i = (if i < 0 then ''-'' @ show_nat (nat (- i)) else show_nat (nat i))"

text \<open>\<open>str(value)\<close> of a value that is not null.\<close>

definition detail_str :: "detail \<Rightarrow> string" where
  "detail_str v = (case v of DNone \<Rightarrow> ''None'' | DBool b \<Rightarrow> (if b then ''True'' else ''False'')
     | DInt i \<Rightarrow> show_int i | DText s \<Rightarrow> s)"

fun first_non_empty_text :: "detail list \<Rightarrow> string option" where
  "first_non_empty_text [] = None"
| "first_non_empty_text (v # vs) =
     (if v = DNone then first_non_empty_text vs
      else let text = strip (detail_str v) in if text \<noteq> [] then Some text else first_non_empty_text vs)"

definition normalize_comment_text :: "details \<Rightarrow> string list \<Rightarrow> string option" where
  "normalize_comment_text d names = first_non_empty_text (map (dget d) names)"

definition coerce_bool :: "detail \<Rightarrow> bool" where
  "coerce_bool v = (case v of DBool b \<Rightarrow> b | DNone \<Rightarrow> False
     | _ \<Rightarrow> lower (strip (detail_str v)) \<in> {''1'', ''true'', ''yes'', ''on''})"

definition coerce_int :: "detail \<Rightarrow> int \<Rightarrow> int" where
  "coerce_int v dflt =
     (case v of DNone \<Rightarrow> dflt | DBool b \<Rightarrow> (if b then (1::int) else 0) | DInt i \<Rightarrow> i
      | DText s \<Rightarrow> (case int_of_text s of None \<Rightarrow> dflt | Some i \<Rightarrow> i))"


section \<open>Comment states and events\<close>

definition valid_comment_states :: "string list" where
  "valid_comment_states = [''new'', ''acknowledged_by_owner'', ''voted_up'', ''resolved'', ''reopened'', ''locked'']"

definition normalize_comment_state :: "detail \<Rightarrow> string" where
  "normalize_comment_state v =
     (let normalized = replace_char (CHR ''-'') (CHR ''_'')
            (lower (strip (if v = DNone \<or> v = DBool False \<or> v = DInt 0 then [] else detail_str v)))
      in if normalized \<in> set valid_comment_states then normalized else ''new'')"

definition is_comment_admin :: "scope_check \<Rightarrow> string list \<Rightarrow> bool" where
  "is_comment_admin has_any granted_scopes =
     has_required_scope has_any granted_scopes [''dq:users:manage'', ''dq:workspace:manage'', ''dq:*'']"

definition build_comment_removed_placeholder :: string where
  "build_comment_removed_placeholder = ''[removed]''"

record comment_entry =
  ce_id :: string
  ce_author_id :: "string option"
  ce_author_name :: string
  ce_content :: string
  ce_type :: string
  ce_created_at :: string
  ce_state :: string
  ce_locked :: bool
  ce_removed :: bool
  ce_removed_at :: "string option"
  ce_removed_by :: "string option"
  ce_removed_reason :: "string option"
  ce_edited :: bool
  ce_edited_at :: "string option"
  ce_edited_by :: "string option"
  ce_edit_count :: int
  ce_vote_count :: int
  ce_resolved_at :: "string option"
  ce_resolved_by :: "string option"
  ce_reopened_at :: "string option"
  ce_reopened_by :: "string option"
  ce_acknowledged_at :: "string option"
  ce_acknowledged_by :: "string option"
  ce_locked_at :: "string option"
  ce_locked_by :: "string option"

text \<open>\<open>actor_id or old\<close>.\<close>

definition actor_or :: "string option \<Rightarrow> string option \<Rightarrow> string option" where
  "actor_or actor old = (if truthy actor then actor else old)"

definition merge_comment_event ::
  "comment_entry \<Rightarrow> details \<Rightarrow> string \<Rightarrow> string \<Rightarrow> string option \<Rightarrow> comment_entry" where
  "merge_comment_event e d action timestamp actor_id =
     (if action = ''comment_updated'' then
        (let e1 = (case first_non_empty_text [dget d ''comment'', dget d ''content''] of
                     None \<Rightarrow> e | Some content \<Rightarrow> e\<lparr>ce_content := content\<rparr>)
         in e1\<lparr>ce_edited := True, ce_edited_at := Some timestamp, ce_edited_by := actor_or actor_id (ce_edited_by e),
               ce_edit_count := ce_edit_count e + 1\<rparr>)
      else if action = ''comment_deleted'' then
        (let e1 = e\<lparr>ce_removed := True, ce_removed_at := Some timestamp, ce_removed_by := actor_or actor_id (ce_removed_by e)\<rparr>;
             e2 = (case first_non_empty_text [dget d ''removed_reason'', dget d ''reason''] of
                     None \<Rightarrow> e1 | Some reason \<Rightarrow> e1\<lparr>ce_removed_reason := Some reason\<rparr>)
         in e2\<lparr>ce_content := build_comment_removed_placeholder\<rparr>)
      else if action = ''comment_resolved'' then
        e\<lparr>ce_state := ''resolved'', ce_resolved_at := Some timestamp, ce_resolved_by := actor_or actor_id (ce_resolved_by e)\<rparr>
      else if action = ''comment_reopened'' then
        e\<lparr>ce_state := ''reopened'', ce_reopened_at := Some timestamp, ce_reopened_by := actor_or actor_id (ce_reopened_by e)\<rparr>
      else if action = ''comment_acknowledged'' then
        e\<lparr>ce_state := ''acknowledged_by_owner'', ce_acknowledged_at := Some timestamp,
           ce_acknowledged_by := actor_or actor_id (ce_acknowledged_by e)\<rparr>
      else if action = ''comment_voted_up'' then
        e\<lparr>ce_state := ''voted_up'', ce_vote_count := ce_vote_count e + 1\<rparr>
      else if action = ''comment_locked'' then
        e\<lparr>ce_locked := True, ce_state := ''locked'', ce_locked_at := Some timestamp,
           ce_locked_by := actor_or actor_id (ce_locked_by e)\<rparr>
      else if action = ''comment_unlocked'' then
        (let e1 = e\<lparr>ce_locked := False, ce_locked_at := None, ce_locked_by := None\<rparr>
         in if normalize_comment_state (DText (ce_state e)) = ''locked'' then e1\<lparr>ce_state := ''reopened''\<rparr> else e1)
      else e)"


section \<open>Threads\<close>

record audit_row =
  ar_id :: string
  ar_approvalId :: string
  ar_action :: string
  ar_actorId :: "string option"
  ar_timestamp :: string
  ar_details :: details

definition comment_actions :: "string list" where
  "comment_actions = [''created'', ''approved'', ''rejected'', ''commented'', ''comment_updated'', ''comment_deleted'',
     ''comment_resolved'', ''comment_reopened'', ''comment_acknowledged'', ''comment_voted_up'',
     ''comment_locked'', ''comment_unlocked'']"

definition opt_detail :: "string option \<Rightarrow> detail" where
  "opt_detail v = (case v of None \<Rightarrow> DNone | Some s \<Rightarrow> DText s)"

definition either_key :: "details \<Rightarrow> string \<Rightarrow> string \<Rightarrow> string option" where
  "either_key d a b = first_non_empty_text [dget d a, dget d b]"

definition normalize_comment_record :: "details \<Rightarrow> audit_row \<Rightarrow> comment_entry option" where
  "normalize_comment_record d row =
     (let action = strip (ar_action row)
      in if action \<notin> set comment_actions then None
         else
           (let comment_id = first_non_empty_text [dget d ''comment_id'', dget d ''commentId'', DText (ar_id row)];
                comment_text = normalize_comment_text d [''comment'', ''comments'', ''content''];
                author_id = first_non_empty_text [dget d ''author_id'', dget d ''authorId'', opt_detail (ar_actorId row)];
                author_name = normalize_comment_text d [''author_name'', ''authorName'', ''requester_name'', ''requesterName''];
                state = (if dget d ''state'' \<noteq> DNone then normalize_comment_state (dget d ''state'') else ''new'')
            in if comment_text = None \<and> action \<notin> {''comment_deleted'', ''comment_locked'', ''comment_unlocked''} then None
               else Some
                 \<lparr>ce_id = (case comment_id of None \<Rightarrow> ar_id row | Some i \<Rightarrow> i),
                  ce_author_id = author_id,
                  ce_author_name = (case author_name of Some n \<Rightarrow> n
                                    | None \<Rightarrow> (case author_id of Some a \<Rightarrow> a | None \<Rightarrow> ''system'')),
                  ce_content = text_of comment_text,
                  ce_type = (case normalize_comment_text d [''comment_type'', ''commentType''] of
                               Some t \<Rightarrow> t
                             | None \<Rightarrow> (if action \<in> {''created'', ''approved'', ''rejected''} then ''note'' else ''general'')),
                  ce_created_at = text_of (first_non_empty_text
                                    [dget d ''created_at'', dget d ''createdAt'', DText (ar_timestamp row)]),
                  ce_state = state, ce_locked = coerce_bool (dget d ''locked''), ce_removed = coerce_bool (dget d ''removed''),
                  ce_removed_at = either_key d ''removed_at'' ''removedAt'',
                  ce_removed_by = either_key d ''removed_by'' ''removedBy'',
                  ce_removed_reason = either_key d ''removed_reason'' ''removedReason'',
                  ce_edited = coerce_bool (dget d ''edited''),
                  ce_edited_at = either_key d ''edited_at'' ''editedAt'',
                  ce_edited_by = either_key d ''edited_by'' ''editedBy'',
                  ce_edit_count = coerce_int (dget d ''edit_count'') 0,
                  ce_vote_count = coerce_int (dget d ''vote_count'') 0,
                  ce_resolved_at = either_key d ''resolved_at'' ''resolvedAt'',
                  ce_resolved_by = either_key d ''resolved_by'' ''resolvedBy'',
                  ce_reopened_at = either_key d ''reopened_at'' ''reopenedAt'',
                  ce_reopened_by = either_key d ''reopened_by'' ''reopenedBy'',
                  ce_acknowledged_at = either_key d ''acknowledged_at'' ''acknowledgedAt'',
                  ce_acknowledged_by = either_key d ''acknowledged_by'' ''acknowledgedBy'',
                  ce_locked_at = either_key d ''locked_at'' ''lockedAt'',
                  ce_locked_by = either_key d ''locked_by'' ''lockedBy''\<rparr>))"

abbreviation row_key :: "audit_row \<Rightarrow> string \<times> string" where
  "row_key row \<equiv> (ar_timestamp row, ar_id row)"

text \<open>The loop body: the entry of the comment, or the row's own entry, with the event merged in.\<close>

definition thread_step :: "(string, comment_entry) dict \<Rightarrow> audit_row \<Rightarrow> (string, comment_entry) dict" where
  "thread_step entries row =
     (let action = strip (ar_action row)
      in if action \<in> {''comments_locked'', ''comments_unlocked''} then entries
         else case normalize_comment_record (ar_details row) row of
           None \<Rightarrow> entries
         | Some normalized \<Rightarrow>
             AList.update (ce_id normalized)
               (merge_comment_event (dict_get entries (ce_id normalized) normalized) (ar_details row) action
                  (ar_timestamp row) (clean (ar_actorId row))) entries)"

definition build_approval_comment_thread :: "audit_row list \<Rightarrow> comment_entry list" where
  "build_approval_comment_thread rows =
     sort_key (\<lambda>e. (ce_created_at e, ce_id e)) (map snd (foldl thread_step [] (sort_key row_key rows)))"

definition governance_step :: "bool \<times> int \<Rightarrow> audit_row \<Rightarrow> bool \<times> int" where
  "governance_step s row =
     (let action = strip (ar_action row)
      in if action = ''comments_locked'' then (True, snd s)
         else if action = ''comments_unlocked'' then (False, snd s)
         else if action = ''comment_deleted'' \<and> coerce_bool (dget (ar_details row) ''removed'') then (fst s, snd s + 1)
         else s)"

definition build_approval_comment_governance :: "audit_row list \<Rightarrow> bool \<times> int" where
  "build_approval_comment_governance rows = foldl governance_step (False, 0) (sort_key row_key rows)"


section \<open>Facts about threads\<close>

lemma foldl_filter: "(\<And>s x. \<not> P x \<Longrightarrow> f s x = s) \<Longrightarrow> foldl f s (filter P xs) = foldl f s xs"
  by (induction xs arbitrary: s) auto

lemma thread_step_skip: "normalize_comment_record (ar_details row) row = None \<Longrightarrow> thread_step entries row = entries"
  by (simp add: thread_step_def Let_def)

lemma merge_keeps_id [simp]: "ce_id (merge_comment_event e d a t u) = ce_id e"
  by (simp add: merge_comment_event_def Let_def split: option.split)

text \<open>Every entry is stored under its own identifier.\<close>

definition entries_ok :: "(string, comment_entry) dict \<Rightarrow> bool" where
  "entries_ok es \<longleftrightarrow> dict_wf es \<and> (\<forall>k e. map_of es k = Some e \<longrightarrow> ce_id e = k)"

lemma thread_step_cases:
  obtains (skip) "thread_step es row = es"
    | (merge) n where "thread_step es row = AList.update (ce_id n)
        (merge_comment_event (dict_get es (ce_id n) n) (ar_details row) (strip (ar_action row))
           (ar_timestamp row) (clean (ar_actorId row))) es"
proof (cases "strip (ar_action row) \<in> {''comments_locked'', ''comments_unlocked''}
    \<or> normalize_comment_record (ar_details row) row = None")
  case True
  then have "thread_step es row = es" by (auto simp: thread_step_def Let_def)
  then show ?thesis by (rule skip)
next
  case False
  then obtain n where "normalize_comment_record (ar_details row) row = Some n" by blast
  with False show ?thesis by (intro merge [of n]) (simp add: thread_step_def Let_def)
qed

lemma thread_step_ok:
  assumes "entries_ok es"
  shows "entries_ok (thread_step es row)"
proof (cases rule: thread_step_cases [of es row])
  case (merge n)
  have "ce_id (dict_get es (ce_id n) n) = ce_id n"
    using assms by (cases "map_of es (ce_id n)") (simp_all only: dict_get_def option.case entries_ok_def)
  then show ?thesis using assms unfolding merge entries_ok_def
    by (simp only: map_of_update dict_wf_update simp_thms) (metis merge_keeps_id option.inject)
qed (use assms in simp)

lemma thread_foldl_ok: "entries_ok es \<Longrightarrow> entries_ok (foldl thread_step es rows)"
  by (induction rows arbitrary: es) (simp_all add: thread_step_ok)

lemma entries_values:
  assumes "entries_ok es"
  shows "e \<in> set (map snd es) \<longleftrightarrow> map_of es (ce_id e) = Some e"
proof
  assume "e \<in> set (map snd es)"
  then obtain k where "(k, e) \<in> set es" by auto
  then have "map_of es k = Some e" using assms by (auto simp: entries_ok_def)
  moreover from this have "ce_id e = k" using assms unfolding entries_ok_def by blast
  ultimately show "map_of es (ce_id e) = Some e" by simp
next
  assume "map_of es (ce_id e) = Some e"
  from map_of_SomeD [OF this] show "e \<in> set (map snd es)" by force
qed

lemma thread_set:
  "e \<in> set (build_approval_comment_thread rows) \<longleftrightarrow>
     map_of (foldl thread_step [] (sort_key row_key rows)) (ce_id e) = Some e"
proof -
  have "entries_ok (foldl thread_step [] (sort_key row_key rows))"
    by (rule thread_foldl_ok) (simp add: entries_ok_def)
  from entries_values [OF this] show ?thesis by (simp only: build_approval_comment_thread_def set_sort)
qed

text \<open>An entry that is hidden stays hidden until an edit of its comment.\<close>

definition hidden :: "comment_entry option \<Rightarrow> bool" where
  "hidden x \<longleftrightarrow> (\<exists>e. x = Some e \<and> ce_removed e \<and> ce_content e = build_comment_removed_placeholder)"

lemma merge_hidden:
  "ce_removed e \<Longrightarrow> ce_content e = build_comment_removed_placeholder \<Longrightarrow> a \<noteq> ''comment_updated'' \<Longrightarrow>
   ce_removed (merge_comment_event e d a t u) \<and> ce_content (merge_comment_event e d a t u) = build_comment_removed_placeholder"
  by (simp add: merge_comment_event_def Let_def split: option.split)

lemma merge_deleted:
  "ce_removed (merge_comment_event e d ''comment_deleted'' t u)"
  "ce_content (merge_comment_event e d ''comment_deleted'' t u) = build_comment_removed_placeholder"
  by (simp_all add: merge_comment_event_def Let_def split: option.split)

lemma hidden_step:
  assumes "hidden (map_of es k)" and "strip (ar_action row) \<noteq> ''comment_updated''"
  shows "hidden (map_of (thread_step es row) k)"
proof (cases rule: thread_step_cases [of es row])
  case (merge n)
  from assms(1) obtain e where "map_of es k = Some e" "ce_removed e" "ce_content e = build_comment_removed_placeholder"
    by (auto simp: hidden_def)
  with merge_hidden [OF this(2,3) assms(2)] show ?thesis
    unfolding merge by (auto simp: hidden_def dict_get_def)
qed (use assms in simp)

lemma hidden_foldl:
  "hidden (map_of es k) \<Longrightarrow> \<forall>row \<in> set rows. strip (ar_action row) \<noteq> ''comment_updated'' \<Longrightarrow>
   hidden (map_of (foldl thread_step es rows) k)"
  by (induction rows arbitrary: es) (simp_all add: hidden_step)

lemma normalize_deleted:
  assumes "strip (ar_action row) = ''comment_deleted''" and "dget (ar_details row) ''comment_id'' = DText cid"
    and "strip cid = cid" and "cid \<noteq> []"
  obtains n where "normalize_comment_record (ar_details row) row = Some n" and "ce_id n = cid"
  using assms by (simp add: normalize_comment_record_def comment_actions_def Let_def detail_str_def)

lemma delete_hides:
  assumes "strip (ar_action row) = ''comment_deleted''" and "dget (ar_details row) ''comment_id'' = DText cid"
    and "strip cid = cid" and "cid \<noteq> []"
  shows "hidden (map_of (thread_step es row) cid)"
proof -
  obtain n where "normalize_comment_record (ar_details row) row = Some n" "ce_id n = cid"
    by (rule normalize_deleted [OF assms])
  with assms(1) show ?thesis by (simp add: hidden_def thread_step_def Let_def merge_deleted)
qed


section \<open>Properties\<close>

text \<open>
  A removed comment shows the placeholder text and the removal mark: if a deletion of the comment is in the
  audit rows and no later row is an edit, its entry in the thread is hidden, whatever else happened before or after.\<close>

theorem deleted_comment_is_hidden:
  assumes "sort_key row_key rows = before @ row # after"
    and "strip (ar_action row) = ''comment_deleted''" and "dget (ar_details row) ''comment_id'' = DText cid"
    and "strip cid = cid" and "cid \<noteq> []"
    and "\<forall>r \<in> set after. strip (ar_action r) \<noteq> ''comment_updated''"
  shows "\<exists>e \<in> set (build_approval_comment_thread rows). ce_id e = cid \<and> ce_removed e \<and> ce_content e = ''[removed]''"
proof -
  let ?es = "foldl thread_step [] (sort_key row_key rows)"
  have "hidden (map_of ?es cid)"
    unfolding assms(1) using hidden_foldl [OF delete_hides [OF assms(2-5)] assms(6)] by simp
  then obtain e where e: "map_of ?es cid = Some e" "ce_removed e" "ce_content e = ''[removed]''"
    by (auto simp: hidden_def build_comment_removed_placeholder_def)
  moreover have "entries_ok ?es" by (rule thread_foldl_ok) (simp add: entries_ok_def)
  ultimately have "ce_id e = cid" by (simp add: entries_ok_def)
  with e show ?thesis by (auto simp: thread_set)
qed

text \<open>
  An event that resolves, reopens, acknowledges or votes for a comment and carries no comment text changes
  nothing in the thread: the thread is the same as without it. The endpoints write exactly such events.\<close>

theorem textless_events_are_ignored:
  assumes "strip (ar_action row) \<in> {''comment_resolved'', ''comment_reopened'', ''comment_acknowledged'', ''comment_voted_up''}"
    and "normalize_comment_text (ar_details row) [''comment'', ''comments'', ''content''] = None"
  shows "build_approval_comment_thread (xs @ row # ys) = build_approval_comment_thread (xs @ ys)"
proof -
  let ?P = "\<lambda>r. normalize_comment_record (ar_details r) r \<noteq> None"
  have "\<not> ?P row" using assms by (auto simp: normalize_comment_record_def Let_def)
  then have same: "filter ?P (xs @ row # ys) = filter ?P (xs @ ys)" by simp
  have drop: "foldl thread_step [] (sort_key row_key rows) = foldl thread_step [] (sort_key row_key (filter ?P rows))" for rows
    by (subst foldl_filter [of ?P, symmetric]) (simp_all add: thread_step_skip filter_sort)
  have "foldl thread_step [] (sort_key row_key (xs @ row # ys)) = foldl thread_step [] (sort_key row_key (filter ?P (xs @ row # ys)))"
    by (rule drop)
  also have "\<dots> = foldl thread_step [] (sort_key row_key (filter ?P (xs @ ys)))" by (simp only: same)
  also have "\<dots> = foldl thread_step [] (sort_key row_key (xs @ ys))" by (rule drop [symmetric])
  finally show ?thesis by (simp only: build_approval_comment_thread_def)
qed


section \<open>Witnesses\<close>

definition demo_row :: "string \<Rightarrow> string \<Rightarrow> string \<Rightarrow> details \<Rightarrow> audit_row" where
  "demo_row i action t d = \<lparr>ar_id = i, ar_approvalId = ''a1'', ar_action = action, ar_actorId = Some ''u1'',
     ar_timestamp = t, ar_details = d\<rparr>"

text \<open>The rows the endpoints append for a comment, its removal and its resolution.\<close>

definition demo_commented :: audit_row where
  "demo_commented = demo_row ''x1'' ''commented'' ''1'' [(''comment_id'', DText ''c1''), (''comment'', DText ''hello''),
     (''state'', DText ''new''), (''author_id'', DText ''u1'')]"

definition demo_deleted :: audit_row where
  "demo_deleted = demo_row ''x2'' ''comment_deleted'' ''2'' [(''comment_id'', DText ''c1''), (''removed'', DBool True),
     (''removed_reason'', DText ''removed by author'')]"

definition demo_resolved :: audit_row where
  "demo_resolved = demo_row ''x3'' ''comment_resolved'' ''3'' [(''comment_id'', DText ''c1''), (''resolved_at'', DText ''3''),
     (''resolved_by'', DText ''u1''), (''author_id'', DText ''u1''), (''author_name'', DText ''u1''), (''comment_type'', DText ''general'')]"

lemma deleted_comment_is_hidden_witness:
  "\<exists>e \<in> set (build_approval_comment_thread [demo_deleted, demo_commented]). ce_id e = ''c1'' \<and> ce_content e = ''[removed]''"
proof -
  have "sort_key row_key [demo_deleted, demo_commented] = [demo_commented] @ demo_deleted # []"
    by (simp add: demo_deleted_def demo_commented_def demo_row_def text_eval less_char_def less_eq_char_def)
  from deleted_comment_is_hidden [OF this, of "''c1''"] show ?thesis
    by (auto simp: demo_deleted_def demo_row_def dget_def dict_get_def text_eval)
qed

lemma textless_events_are_ignored_witness:
  "build_approval_comment_thread [demo_commented, demo_resolved] = build_approval_comment_thread [demo_commented]"
  using textless_events_are_ignored [of demo_resolved "[demo_commented]" "[]"]
  by (simp add: demo_resolved_def demo_row_def normalize_comment_text_def dget_def dict_get_def text_eval)

end
