(* ===== verification/Approvals.thy ===== *)
theory Approvals
  imports Comment_Governance
begin

text \<open>
  The approvals repository in its in-memory form,
  \<open>app/infrastructure/repositories/in_memory_approvals_repository.py\<close>: the list of approvals and
  the audit log (\<open>approvals_repo\<close>), with listing, creation, review, cancellation and the
  audit events. Payload values are optional texts; the \<open>suite_repair\<close> value that creation copies
  into its audit details is not read anywhere and is left out. The approval identifier (clock and
  random number) and the time stamp are readings of the environment.
\<close>

section \<open>State\<close>

record approval =
  ap_id :: string
  ap_businessKey :: string
  ap_ruleId :: string
  ap_gxRunPlanId :: "string option"
  ap_gxRunPlanVersionId :: "string option"
  ap_status :: string
  ap_requesterId :: "string option"
  ap_workspaceId :: string
  ap_requestType :: string
  ap_effectiveStatus :: "string option"
  ap_effectiveAt :: "string option"
  ap_comments :: "string option"
  ap_requestedAt :: string
  ap_reviewedBy :: "string option"
  ap_reviewedAt :: "string option"

record approvals_repo =
  a_approvals :: "approval list"
  a_audit :: "audit_row list"

record approval_env =
  ae_id :: string
  ae_now :: string

datatype approval_error =
    CamelCaseKeys "string list"
  | RunPlanVersionRequired
  | SelfReview
  | OnlyRequesterCanCancel

type_synonym payload = "(string, string option) dict"

definition payload_text :: "payload \<Rightarrow> string \<Rightarrow> string option" where
  "payload_text p k = dict_get p k None"

text \<open>\<open>str(value or fallback)\<close>, and \<open>.strip() or fallback\<close>.\<close>

definition or_text :: "string option \<Rightarrow> string \<Rightarrow> string" where
  "or_text v fallback = (if truthy v then text_of v else fallback)"

definition or_stripped :: "string \<Rightarrow> string \<Rightarrow> string" where
  "or_stripped s fallback = (if strip s = [] then fallback else strip s)"

definition normalize_request_type :: "string option \<Rightarrow> string" where
  "normalize_request_type v =
     (let normalized = replace_char (CHR ''-'') (CHR ''_'') (lower (strip (or_text v ''activation'')))
      in if normalized = [] then ''activation'' else normalized)"

definition camel_case_keys :: "string list" where
  "camel_case_keys = [''ruleId'', ''effectiveStatus'', ''gxRunPlanId'', ''gxRunPlanVersionId'', ''workspaceId'',
     ''requestType'', ''requesterId'', ''effectiveAt'']"

definition reject_camel_case_approval_keys :: "payload \<Rightarrow> approval_error option" where
  "reject_camel_case_approval_keys p =
     (let unexpected = sort (filter (\<lambda>k. k \<in> set camel_case_keys) (map fst p))
      in if unexpected = [] then None else Some (CamelCaseKeys unexpected))"

definition derive_effective_status :: "string \<Rightarrow> string option" where
  "derive_effective_status request_type =
     (if request_type = ''activation'' then Some ''activated''
      else if request_type = ''deactivation'' then Some ''deactivated'' else None)"

definition normalize_approval_status :: "string option \<Rightarrow> string option" where
  "normalize_approval_status v = or_none (lower (strip (text_of v)))"


section \<open>Listing\<close>

record approval_filter =
  af_workspace_id :: "string option"
  af_business_key :: "string option"
  af_request_type :: "string option"
  af_status :: "string option"
  af_requester_id :: "string option"
  af_exclude_requester_id :: "string option"
  af_query :: "string option"

definition no_filter :: approval_filter where
  "no_filter = \<lparr>af_workspace_id = None, af_business_key = None, af_request_type = None, af_status = None,
     af_requester_id = None, af_exclude_requester_id = None, af_query = None\<rparr>"

definition approval_matches_filters :: "approval \<Rightarrow> approval_filter \<Rightarrow> bool" where
  "approval_matches_filters a f =
     (let current_request_type = normalize_request_type (Some (ap_requestType a));
          current_status = normalize_approval_status (Some (ap_status a));
          current_requester_id = strip (text_of (ap_requesterId a));
          requester = strip (text_of (af_requester_id f));
          excluded = strip (text_of (af_exclude_requester_id f));
          query = lower (strip (text_of (af_query f)))
      in if af_request_type f \<noteq> None \<and> current_request_type \<noteq> normalize_request_type (af_request_type f) then False
         else if normalize_approval_status (af_status f) \<noteq> None
              \<and> current_status \<noteq> normalize_approval_status (af_status f) then False
         else if requester \<noteq> [] \<and> current_requester_id \<noteq> requester then False
         else if excluded \<noteq> [] \<and> current_requester_id = excluded then False
         else if query = [] then True
         else list_ex (\<lambda>v. contains query (lower (strip v)))
                [ap_id a, ap_businessKey a, ap_ruleId a, text_of current_status, current_request_type,
                 current_requester_id, text_of (ap_reviewedBy a), text_of (ap_effectiveStatus a), text_of (ap_comments a)])"

text \<open>The audit rows of each listed approval that has any, and what is computed from them.\<close>

definition audit_rows_of :: "audit_row list \<Rightarrow> string \<Rightarrow> audit_row list" where
  "audit_rows_of audit approval_id = filter (\<lambda>row. strip (ar_approvalId row) = approval_id) audit"

definition load_comment_threads :: "audit_row list \<Rightarrow> string list \<Rightarrow> (string, comment_entry list) dict" where
  "load_comment_threads audit approval_ids =
     map (\<lambda>i. (i, build_approval_comment_thread (audit_rows_of audit i)))
       (filter (\<lambda>i. audit_rows_of audit i \<noteq> []) (remdups approval_ids))"

definition load_comment_governance :: "audit_row list \<Rightarrow> string list \<Rightarrow> (string, bool \<times> int) dict" where
  "load_comment_governance audit approval_ids =
     map (\<lambda>i. (i, build_approval_comment_governance (audit_rows_of audit i)))
       (filter (\<lambda>i. audit_rows_of audit i \<noteq> []) (remdups approval_ids))"

record approval_view = approval +
  apv_commentThread :: "comment_entry list"
  apv_commentsLocked :: bool
  apv_removedCommentCount :: int

definition view_of :: "approval \<Rightarrow> comment_entry list \<Rightarrow> bool \<times> int \<Rightarrow> approval_view" where
  "view_of a thread gov = approval.extend a
     \<lparr>apv_commentThread = thread, apv_commentsLocked = fst gov, apv_removedCommentCount = snd gov\<rparr>"

definition list_approvals :: "approval_filter \<Rightarrow> approvals_repo \<Rightarrow> approval_view list" where
  "list_approvals f r =
     (let rows0 = a_approvals r;
          rows1 = (case af_workspace_id f of
                     None \<Rightarrow> rows0
                   | Some w \<Rightarrow> filter (\<lambda>a. lower (strip (ap_workspaceId a)) = lower (strip w)) rows0);
          rows2 = (case af_business_key f of
                     None \<Rightarrow> rows1 | Some k \<Rightarrow> filter (\<lambda>a. strip (ap_businessKey a) = k) rows1);
          rows = filter (\<lambda>a. approval_matches_filters a f) rows2;
          approval_ids = filter (\<lambda>i. i \<noteq> []) (map (\<lambda>a. strip (ap_id a)) rows);
          threads = load_comment_threads (a_audit r) approval_ids;
          governance = load_comment_governance (a_audit r) approval_ids
      in map (\<lambda>a. view_of a (dict_get threads (ap_id a) []) (dict_get governance (ap_id a) (False, 0))) rows)"


section \<open>Operations\<close>

definition create_approval ::
  "approval_env \<Rightarrow> payload \<Rightarrow> string option \<Rightarrow> approvals_repo \<Rightarrow> (approval_error + approval) \<times> approvals_repo" where
  "create_approval en p actor_id r =
     (case reject_camel_case_approval_keys p of
        Some e \<Rightarrow> (Inl e, r)
      | None \<Rightarrow>
          (let approval_id = ae_id en;
               requester_id = clean (if truthy actor_id then actor_id else payload_text p ''requester_id'');
               workspace_id = or_stripped (or_text (payload_text p ''workspace_id'') ''default'') ''default'';
               rule_id = strip (text_of (payload_text p ''rule_id''));
               plan_id = clean (payload_text p ''gx_run_plan_id'');
               plan_version_id = clean (payload_text p ''gx_run_plan_version_id'')
           in if plan_id \<noteq> None \<and> plan_version_id = None then (Inl RunPlanVersionRequired, r)
              else
                (let status = or_stripped (or_text (payload_text p ''status'') ''pending'') ''pending'';
                     request_type = normalize_request_type (payload_text p ''request_type'');
                     effective_status = derive_effective_status request_type;
                     comments = clean (payload_text p ''comments'');
                     effective_at = clean (payload_text p ''effective_at'');
                     created = \<lparr>ap_id = approval_id, ap_businessKey = approval_id, ap_ruleId = rule_id,
                       ap_gxRunPlanId = plan_id, ap_gxRunPlanVersionId = plan_version_id, ap_status = status,
                       ap_requesterId = requester_id, ap_workspaceId = workspace_id, ap_requestType = request_type,
                       ap_effectiveStatus = effective_status, ap_effectiveAt = effective_at, ap_comments = comments,
                       ap_requestedAt = ae_now en, ap_reviewedBy = None, ap_reviewedAt = None\<rparr>;
                     row = \<lparr>ar_id = approval_id @ ''-a'', ar_approvalId = approval_id, ar_action = ''created'',
                       ar_actorId = requester_id, ar_timestamp = ae_now en,
                       ar_details = [(''requester_id'', opt_detail requester_id), (''request_type'', DText request_type),
                         (''effective_status'', opt_detail effective_status), (''effective_at'', opt_detail effective_at),
                         (''comments'', opt_detail comments), (''gx_run_plan_id'', opt_detail plan_id),
                         (''gx_run_plan_version_id'', opt_detail plan_version_id)]\<rparr>
                 in (Inr created, r\<lparr>a_approvals := a_approvals r @ [created], a_audit := a_audit r @ [row]\<rparr>))))"

definition update_approval ::
  "approval_env \<Rightarrow> string \<Rightarrow> payload \<Rightarrow> string option \<Rightarrow> approvals_repo
   \<Rightarrow> (approval_error + approval option) \<times> approvals_repo" where
  "update_approval en approval_id p actor_id r =
     (case find (\<lambda>a. ap_id a = approval_id) (a_approvals r) of
        None \<Rightarrow> (Inr None, r)
      | Some existing \<Rightarrow>
          (let requester = strip (text_of (ap_requesterId existing)); actor = strip (text_of actor_id)
           in if requester \<noteq> [] \<and> actor \<noteq> [] \<and> requester = actor then (Inl SelfReview, r)
              else
                (let status = or_stripped (or_text (payload_text p ''status'') (or_text (Some (ap_status existing)) ''pending'')) ''pending'';
                     comments = clean (if truthy (payload_text p ''comments'') then payload_text p ''comments'' else ap_comments existing);
                     write = (\<lambda>a. a\<lparr>ap_status := status, ap_comments := comments, ap_reviewedBy := actor_id,
                                    ap_reviewedAt := Some (ae_now en)\<rparr>);
                     row = \<lparr>ar_id = approval_id @ ''-u-'' @ show_nat (length (a_audit r) + 1), ar_approvalId = approval_id,
                       ar_action = (if status = ''approved'' then ''approved'' else ''rejected''), ar_actorId = actor_id,
                       ar_timestamp = ae_now en,
                       ar_details = [(''status'', DText status),
                         (''request_type'', DText (or_text (Some (ap_requestType existing)) ''activation'')),
                         (''effective_status'', opt_detail (if truthy (ap_effectiveStatus existing) then ap_effectiveStatus existing
                            else derive_effective_status (normalize_request_type (Some (ap_requestType existing))))),
                         (''comments'', opt_detail comments)]\<rparr>
                 in (Inr (Some (write existing)),
                     r\<lparr>a_approvals := update_first (\<lambda>a. ap_id a = approval_id) write (a_approvals r),
                       a_audit := a_audit r @ [row]\<rparr>))))"

text \<open>\<open>del self._approvals[index]\<close> for the first match.\<close>

fun remove_first :: "('a \<Rightarrow> bool) \<Rightarrow> 'a list \<Rightarrow> 'a list" where
  "remove_first P [] = []"
| "remove_first P (x # xs) = (if P x then xs else x # remove_first P xs)"

definition delete_approval ::
  "string \<Rightarrow> string option \<Rightarrow> approvals_repo \<Rightarrow> (approval_error + approval option) \<times> approvals_repo" where
  "delete_approval approval_id actor_id r =
     (case find (\<lambda>a. ap_id a = approval_id) (a_approvals r) of
        None \<Rightarrow> (Inr None, r)
      | Some item \<Rightarrow>
          (let requester = strip (text_of (ap_requesterId item)); actor = strip (text_of actor_id)
           in if requester \<noteq> [] \<and> actor \<noteq> [] \<and> requester \<noteq> actor then (Inl OnlyRequesterCanCancel, r)
              else (Inr (Some item),
                    r\<lparr>a_approvals := remove_first (\<lambda>a. ap_id a = approval_id) (a_approvals r),
                      a_audit := a_audit r @
                        [\<lparr>ar_id = approval_id @ ''-d-'' @ show_nat (length (a_audit r) + 1), ar_approvalId = approval_id,
                          ar_action = ''cancelled'', ar_actorId = actor_id, ar_timestamp = ''2026-03-14T00:00:00Z'',
                          ar_details = []\<rparr>]\<rparr>)))"

definition list_approval_audit :: "approvals_repo \<Rightarrow> audit_row list" where
  "list_approval_audit r = a_audit r"

definition append_audit_event ::
  "approval_env \<Rightarrow> string \<Rightarrow> string \<Rightarrow> string option \<Rightarrow> details \<Rightarrow> approvals_repo \<Rightarrow> audit_row \<times> approvals_repo" where
  "append_audit_event en approval_id action actor_id d r =
     (let item = \<lparr>ar_id = approval_id @ ''-x-'' @ show_nat (length (a_audit r) + 1), ar_approvalId = approval_id,
                  ar_action = action, ar_actorId = actor_id, ar_timestamp = ae_now en, ar_details = d\<rparr>
      in (item, r\<lparr>a_audit := a_audit r @ [item]\<rparr>))"


section \<open>Runs\<close>

text \<open>
  Nobody reviews a request of their own: a reviewed approval has a requester or a reviewer that is blank, or the two
  differ; and the review is in the audit log, with its time and reviewer.
\<close>

definition independent_review :: "approval \<Rightarrow> bool" where
  "independent_review a \<longleftrightarrow>
     (ap_reviewedAt a \<noteq> None \<longrightarrow>
        (let requester = strip (text_of (ap_requesterId a)); reviewer = strip (text_of (ap_reviewedBy a))
         in requester = [] \<or> reviewer = [] \<or> requester \<noteq> reviewer))"

definition audited :: "audit_row list \<Rightarrow> approval \<Rightarrow> bool" where
  "audited audit a \<longleftrightarrow>
     (\<exists>row \<in> set audit. ar_approvalId row = ap_id a \<and> ar_action row = ''created'' \<and> ar_timestamp row = ap_requestedAt a)
     \<and> (\<forall>t. ap_reviewedAt a = Some t \<longrightarrow>
          (\<exists>row \<in> set audit. ar_approvalId row = ap_id a \<and> ar_actorId row = ap_reviewedBy a \<and> ar_timestamp row = t
             \<and> ar_action row = (if ap_status a = ''approved'' then ''approved'' else ''rejected'')))"

definition approvals_inv :: "approvals_repo \<Rightarrow> bool" where
  "approvals_inv r \<longleftrightarrow> (\<forall>a \<in> set (a_approvals r). independent_review a \<and> audited (a_audit r) a)"

inductive approvals_step :: "approvals_repo \<Rightarrow> approvals_repo \<Rightarrow> bool" where
  create: "approvals_step r (snd (create_approval en p u r))"
| review: "approvals_step r (snd (update_approval en i p u r))"
| cancel: "approvals_step r (snd (delete_approval i u r))"
| event: "approvals_step r (snd (append_audit_event en i act u d r))"

lemma audited_mono: "audited audit a \<Longrightarrow> audited (audit @ rows) a"
  by (simp add: audited_def bex_Un)

lemma in_update_first: "y \<in> set (update_first P f xs) \<Longrightarrow> y \<in> set xs \<or> (\<exists>x. find P xs = Some x \<and> y = f x)"
  by (induction xs) (auto split: if_splits)

lemma set_remove_first: "set (remove_first P xs) \<subseteq> set xs"
  by (induction xs) auto

lemma create_approval_inv:
  assumes "approvals_inv r"
  shows "approvals_inv (snd (create_approval en p u r))"
  using assms audited_mono [of "a_audit r"]
  by (auto simp: create_approval_def Let_def approvals_inv_def independent_review_def split: option.split)
     (auto simp: audited_def)

lemma update_approval_inv:
  assumes "approvals_inv r"
  shows "approvals_inv (snd (update_approval en i p u r))"
proof (cases "find (\<lambda>a. ap_id a = i) (a_approvals r)")
  case (Some existing)
  have m: "existing \<in> set (a_approvals r)" "ap_id existing = i" using find_first [OF Some] by simp_all
  show ?thesis
  proof (cases "strip (text_of (ap_requesterId existing)) \<noteq> [] \<and> strip (text_of u) \<noteq> []
      \<and> strip (text_of (ap_requesterId existing)) = strip (text_of u)")
    case False
    have "\<exists>row \<in> set (a_audit r). ar_approvalId row = i \<and> ar_action row = ''created'' \<and> ar_timestamp row = ap_requestedAt existing"
      using assms m by (auto simp: approvals_inv_def audited_def)
    then show ?thesis using assms False Some m(2) audited_mono [of "a_audit r"]
      by (auto simp: update_approval_def Let_def approvals_inv_def dest!: in_update_first split del: if_split)
         (auto simp: independent_review_def audited_def Let_def)
  qed (use assms Some in \<open>simp add: update_approval_def Let_def\<close>)
qed (use assms in \<open>simp add: update_approval_def\<close>)

lemma delete_approval_inv: "approvals_inv r \<Longrightarrow> approvals_inv (snd (delete_approval i u r))"
  using set_remove_first [of "\<lambda>a. ap_id a = i" "a_approvals r"] audited_mono [of "a_audit r"]
  by (auto simp: delete_approval_def Let_def approvals_inv_def split: option.split)

lemma append_event_inv: "approvals_inv r \<Longrightarrow> approvals_inv (snd (append_audit_event en i a u d r))"
  by (auto simp: append_audit_event_def Let_def approvals_inv_def audited_mono)

lemma approvals_step_inv: "approvals_step r r' \<Longrightarrow> approvals_inv r \<Longrightarrow> approvals_inv r'"
  by (induction rule: approvals_step.induct)
     (simp_all add: create_approval_inv update_approval_inv delete_approval_inv append_event_inv)

interpretation approvals: preserved approvals_step approvals_inv
  by unfold_locales (rule approvals_step_inv)

lemma approvals_step_audit: "approvals_step r r' \<Longrightarrow> \<exists>rows. a_audit r' = a_audit r @ rows"
  by (induction rule: approvals_step.induct)
     (auto simp: create_approval_def update_approval_def delete_approval_def append_audit_event_def Let_def split: option.split)

text \<open>Without a filter every approval is listed, with its own columns.\<close>

lemma truncate_view: "approval.truncate (view_of a thread gov) = a"
  by (simp add: view_of_def approval.defs)

lemma list_all_approvals: "map approval.truncate (list_approvals no_filter r) = a_approvals r"
proof -
  have "approval_matches_filters a no_filter" for a
    by (simp add: approval_matches_filters_def no_filter_def Let_def normalize_approval_status_def or_none_def text_eval)
  then show ?thesis by (simp add: list_approvals_def no_filter_def [symmetric] Let_def comp_def truncate_view)
      (simp add: no_filter_def)
qed

definition no_approvals :: approvals_repo where
  "no_approvals = \<lparr>a_approvals = [], a_audit = []\<rparr>"


section \<open>Properties\<close>

text \<open>
  C26: In every run that starts without approvals no approval is reviewed by its own requester, and every stored
  approval has its creation and, once reviewed, its latest review in the audit log.\<close>

theorem approvals_are_reviewed_by_others:
  assumes "approvals_step\<^sup>*\<^sup>* no_approvals r" and "a \<in> set (a_approvals r)"
  shows "independent_review a \<and> audited (a_audit r) a"
  using approvals.run [OF assms(1)] assms(2) by (simp add: approvals_inv_def no_approvals_def)

text \<open>
  The audit log only grows: along every run the earlier log is a prefix of the later one.\<close>

theorem audit_log_only_grows:
  assumes "approvals_step\<^sup>*\<^sup>* r r'"
  shows "\<exists>rows. list_approval_audit r' = list_approval_audit r @ rows"
  using assms
proof (induction rule: rtranclp_induct)
  case (step y z)
  then show ?case using approvals_step_audit [of y z] by (fastforce simp: list_approval_audit_def)
qed simp

text \<open>
  Only the requester of a request, or an actor or request without identity, can cancel it; a cancelled request is
  no longer listed when its identifier is unique, and the refused cancellation changes nothing.\<close>

theorem cancellation_is_by_requester:
  assumes "find (\<lambda>a. ap_id a = i) (a_approvals r) = Some a" and "distinct (map ap_id (a_approvals r))"
  shows "case delete_approval i u r of
      (Inr x, r') \<Rightarrow> x = Some a \<and> i \<notin> ap_id ` set (list_approvals no_filter r')
        \<and> (strip (text_of u) = strip (text_of (ap_requesterId a)) \<or> strip (text_of u) = [] \<or> strip (text_of (ap_requesterId a)) = [])
    | (Inl e, r') \<Rightarrow> e = OnlyRequesterCanCancel \<and> r' = r \<and> strip (text_of u) \<noteq> strip (text_of (ap_requesterId a))"
proof -
  have rm: "i \<notin> ap_id ` set (remove_first (\<lambda>a. ap_id a = i) xs)" if "distinct (map ap_id xs)" for xs :: "approval list"
    using that by (induction xs) (auto simp: image_iff)
  have ids: "ap_id ` set (list_approvals no_filter q) = ap_id ` set (a_approvals q)" for q
    by (force simp: list_approvals_def no_filter_def approval_matches_filters_def view_of_def approval.defs Let_def
        normalize_approval_status_def or_none_def text_eval)
  show ?thesis using assms rm [OF assms(2)] by (auto simp: delete_approval_def Let_def ids)
qed


section \<open>Witnesses\<close>

definition demo_approval_env :: approval_env where
  "demo_approval_env = \<lparr>ae_id = ''a1'', ae_now = ''2026''\<rparr>"

definition demo_requested :: approvals_repo where
  "demo_requested = snd (create_approval demo_approval_env [(''rule_id'', Some ''r1'')] (Some ''alice'') no_approvals)"

definition demo_reviewed :: approvals_repo where
  "demo_reviewed = snd (update_approval demo_approval_env ''a1'' [(''status'', Some ''approved'')] (Some ''bob'') demo_requested)"

lemma demo_requested_eval:
  "\<exists>a. a_approvals demo_requested = [a] \<and> ap_id a = ''a1'' \<and> ap_requesterId a = Some ''alice''"
  by (simp add: demo_requested_def create_approval_def reject_camel_case_approval_keys_def camel_case_keys_def
      payload_text_def dict_get_def demo_approval_env_def no_approvals_def clean_def or_none_def truthy_def Let_def text_eval)

lemma demo_requested_step: "approvals_step no_approvals demo_requested"
  unfolding demo_requested_def by (rule approvals_step.create)

lemma demo_reviewed_eval: "\<exists>a. a_approvals demo_reviewed = [a] \<and> ap_reviewedBy a = Some ''bob''"
  using demo_requested_eval
  by (auto simp: demo_reviewed_def update_approval_def Let_def text_eval)

lemma approvals_are_reviewed_by_others_witness:
  "\<exists>a. a_approvals demo_reviewed = [a] \<and> ap_reviewedBy a = Some ''bob'' \<and> independent_review a"
proof -
  have "approvals_step demo_requested demo_reviewed" unfolding demo_reviewed_def by (rule approvals_step.review)
  then have "approvals_step\<^sup>*\<^sup>* no_approvals demo_reviewed" using demo_requested_step by auto
  then show ?thesis using approvals_are_reviewed_by_others demo_reviewed_eval by fastforce
qed

lemma audit_log_only_grows_witness:
  "\<exists>rows. list_approval_audit demo_requested = list_approval_audit no_approvals @ rows"
  by (intro audit_log_only_grows r_into_rtranclp demo_requested_step)

lemma cancellation_is_by_requester_witness:
  "fst (delete_approval ''a1'' (Some ''bob'') demo_requested) = Inl OnlyRequesterCanCancel"
proof -
  obtain a where a: "a_approvals demo_requested = [a]" "ap_id a = ''a1''" "ap_requesterId a = Some ''alice''"
    using demo_requested_eval by auto
  show ?thesis
    using cancellation_is_by_requester [of "''a1''" demo_requested a "Some ''bob''"] a
    by (auto simp: text_eval split: prod.splits sum.splits)
qed

end
