(* ===== verification/Run_Plan_Requests.thy ===== *)
theory Run_Plan_Requests
  imports Run_Plans Approvals
begin

text \<open>
  Requests to activate or deactivate a run plan version, the use case
  \<open>transition_gx_run_plan_version_governance_state\<close> of \<open>app/application/use_cases/gx_run_plans.py\<close>.
  It relies on two repositories: the run plan repository of \<open>Run_Plans\<close> and an implementation of the
  \<open>ApprovalsRepository\<close> interface, which is the locale \<open>approval_store\<close> below; the in-memory
  implementation of \<open>Approvals\<close> interprets it. The conversion between GX and validation run plans
  that surrounds the repository calls renames columns and is the identity on those read here.
\<close>

section \<open>The use case\<close>

record transition_plan_command =
  tp_run_plan_id :: string
  tp_run_plan_version_id :: string
  tp_target_state :: string
  tp_updated_by :: "string option"
  tp_effective_from :: "string option"
  tp_correlation_id :: "string option"

text \<open>
  The HTTP errors of the use case with their status codes, the failed approval request (500), and an
  error of the run plan repository that the use case lets through.
\<close>

datatype request_error =
    PlanNotFound404 string
  | PlanVersionNotFound404 string
  | InvalidRunPlanTransition409 string string
  | PendingRequestExists409 string
  | ApprovalRequestFailed500
  | UncaughtPlanError plan_error

definition list_pending_gx_run_plan_approvals ::
  "('a \<Rightarrow> approval list) \<Rightarrow> 'a \<Rightarrow> string \<Rightarrow> string \<Rightarrow> string \<Rightarrow> approval list" where
  "list_pending_gx_run_plan_approvals list_ap a run_plan_id version_id request_type =
     filter (\<lambda>x. strip (text_of (ap_gxRunPlanId x)) = run_plan_id
                \<and> strip (text_of (ap_gxRunPlanVersionId x)) = version_id
                \<and> strip (ap_status x) = ''pending'' \<and> strip (ap_requestType x) = request_type)
       (list_ap a)"

definition request_type_of :: "string \<Rightarrow> string option" where
  "request_type_of target_state =
     (if target_state = ''activation-requested'' then Some ''activation''
      else if target_state = ''deactivation-requested'' then Some ''deactivation'' else None)"

definition request_payload :: "transition_plan_command \<Rightarrow> string \<Rightarrow> string \<Rightarrow> payload" where
  "request_payload cmd request_type workspace_id =
     [(''rule_id'', Some []), (''gx_run_plan_id'', Some (tp_run_plan_id cmd)),
      (''gx_run_plan_version_id'', Some (tp_run_plan_version_id cmd)), (''request_type'', Some request_type),
      (''workspace_id'', Some (if workspace_id = [] then ''default'' else workspace_id)),
      (''comments'', Some (''GX run plan version '' @ tp_run_plan_version_id cmd @ '' requested '' @ request_type)),
      (''status'', Some ''pending''), (''effective_at'', tp_effective_from cmd)]"

definition transition_gx_run_plan_version_governance_state ::
  "('a \<Rightarrow> approval list) \<Rightarrow> (payload \<Rightarrow> string option \<Rightarrow> 'a \<Rightarrow> ('e + approval) \<times> 'a) \<Rightarrow> plan_env \<Rightarrow> plan_env
   \<Rightarrow> transition_plan_command \<Rightarrow> plan_repo \<times> 'a \<Rightarrow> (request_error + plan_entity) \<times> plan_repo \<times> 'a" where
  "transition_gx_run_plan_version_governance_state list_ap create_ap en en' cmd s =
     (let (r, a) = s; pid = tp_run_plan_id cmd; vid = tp_run_plan_version_id cmd; target = tp_target_state cmd
      in case get_plan r pid of
           None \<Rightarrow> (Inl (PlanNotFound404 pid), r, a)
         | Some plan \<Rightarrow>
             (case find (\<lambda>v. pv_id v = vid) (pl_versions plan) of
                None \<Rightarrow> (Inl (PlanVersionNotFound404 vid), r, a)
              | Some version_row \<Rightarrow>
                  (let current_state = pv_governanceState version_row
                   in if \<not> is_valid_run_plan_version_transition current_state target
                      then (Inl (InvalidRunPlanTransition409 current_state target), r, a)
                      else if (case request_type_of target of
                                 None \<Rightarrow> False
                               | Some t \<Rightarrow> list_pending_gx_run_plan_approvals list_ap a pid vid t \<noteq> [])
                      then (Inl (PendingRequestExists409 (text_of (request_type_of target))), r, a)
                      else case transition_plan_version en pid vid target (tp_updated_by cmd) (tp_effective_from cmd)
                                  (tp_correlation_id cmd) r of
                          (Inl e, r1) \<Rightarrow> (Inl (UncaughtPlanError e), r1, a)
                        | (Inr row, r1) \<Rightarrow>
                            (case request_type_of target of
                               None \<Rightarrow> (Inr row, r1, a)
                             | Some t \<Rightarrow>
                                 (case create_ap (request_payload cmd t (pl_workspaceId plan)) (tp_updated_by cmd) a of
                                    (Inr _, a1) \<Rightarrow> (Inr row, r1, a1)
                                  | (Inl _, a1) \<Rightarrow>
                                      (case transition_plan_version en' pid vid current_state (tp_updated_by cmd) None
                                              (tp_correlation_id cmd) r1 of
                                         (Inl e, r2) \<Rightarrow> (Inl (UncaughtPlanError e), r2, a1)
                                       | (Inr _, r2) \<Rightarrow> (Inl ApprovalRequestFailed500, r2, a1)))))))"


lemma request_payload_columns [simp]:
  "payload_text (request_payload cmd t ws) ''gx_run_plan_id'' = Some (tp_run_plan_id cmd)"
  "payload_text (request_payload cmd t ws) ''gx_run_plan_version_id'' = Some (tp_run_plan_version_id cmd)"
  "payload_text (request_payload cmd t ws) ''status'' = Some ''pending''"
  "payload_text (request_payload cmd t ws) ''request_type'' = Some t"
  by (simp_all add: request_payload_def payload_text_def dict_get_def)

lemma strip_clean_text: "strip (text_of (clean v)) = strip (text_of v)"
  by (simp add: clean_def or_none_def)

lemma request_type_literals:
  "normalize_request_type (Some ''activation'') = ''activation''" "normalize_request_type (Some ''deactivation'') = ''deactivation''"
  "or_stripped (or_text (Some ''pending'') ''pending'') ''pending'' = ''pending''"
  "strip ''activation'' = ''activation''" "strip ''deactivation'' = ''deactivation''" "strip ''pending'' = ''pending''"
  by (simp_all add: normalize_request_type_def or_text_def or_stripped_def truthy_def Let_def text_eval)


section \<open>The approvals interface\<close>

text \<open>
  What the use case relies on: a created approval is listed and carries the plan, version, status and
  request type of the payload; a failed creation leaves the listing as it was.
\<close>

locale approval_store =
  fixes list_ap :: "'a \<Rightarrow> approval list"
    and create_ap :: "payload \<Rightarrow> string option \<Rightarrow> 'a \<Rightarrow> ('e + approval) \<times> 'a"
  assumes created_listed: "create_ap p u a = (Inr x, a') \<Longrightarrow> set (list_ap a') = insert x (set (list_ap a))"
    and created_columns: "create_ap p u a = (Inr x, a') \<Longrightarrow>
      ap_gxRunPlanId x = clean (payload_text p ''gx_run_plan_id'') \<and>
      ap_gxRunPlanVersionId x = clean (payload_text p ''gx_run_plan_version_id'') \<and>
      ap_status x = or_stripped (or_text (payload_text p ''status'') ''pending'') ''pending'' \<and>
      ap_requestType x = normalize_request_type (payload_text p ''request_type'')"
    and failed_unchanged: "create_ap p u a = (Inl e, a') \<Longrightarrow> list_ap a' = list_ap a"
begin

lemma created_request_is_pending:
  assumes "create_ap (request_payload cmd t ws) u a = (Inr x, a')" and "t \<in> {''activation'', ''deactivation''}"
    and "strip (tp_run_plan_id cmd) = tp_run_plan_id cmd" and "strip (tp_run_plan_version_id cmd) = tp_run_plan_version_id cmd"
  shows "x \<in> set (list_pending_gx_run_plan_approvals list_ap a' (tp_run_plan_id cmd) (tp_run_plan_version_id cmd) t)"
  using created_listed [OF assms(1)] created_columns [OF assms(1)] assms(2-4)
  by (auto simp: list_pending_gx_run_plan_approvals_def strip_clean_text request_type_literals)

end

text \<open>The in-memory approvals repository provides the interface.\<close>

definition memory_list :: "approvals_repo \<Rightarrow> approval list" where
  "memory_list r = map approval.truncate (list_approvals no_filter r)"

interpretation memory_approvals: approval_store memory_list "create_approval en"
  unfolding memory_list_def list_all_approvals
proof unfold_locales
  fix p u a x a'
  assume "create_approval en p u a = (Inr x, a')"
  then show "set (a_approvals a') = insert x (set (a_approvals a))"
    and "ap_gxRunPlanId x = clean (payload_text p ''gx_run_plan_id'') \<and>
      ap_gxRunPlanVersionId x = clean (payload_text p ''gx_run_plan_version_id'') \<and>
      ap_status x = or_stripped (or_text (payload_text p ''status'') ''pending'') ''pending'' \<and>
      ap_requestType x = normalize_request_type (payload_text p ''request_type'')"
    by (auto simp: create_approval_def Let_def split: option.splits if_splits)
next
  fix p u a e a'
  assume "create_approval en p u a = (Inl e, a')"
  then show "a_approvals a' = a_approvals a"
    by (auto simp: create_approval_def Let_def split: option.splits if_splits)
qed


section \<open>Facts about transitions\<close>

lemma valid_strip [simp]: "is_valid_run_plan_version_transition (strip c) t = is_valid_run_plan_version_transition c t"
  by (simp add: is_valid_run_plan_version_transition_def)

text \<open>A plan version found in a repository, and its state.\<close>

definition version_state :: "plan_repo \<Rightarrow> string \<Rightarrow> string \<Rightarrow> string option" where
  "version_state r pid vid =
     (if map_of (p_plans r) pid = None then None
      else map_option pv_governanceState (find (\<lambda>v. pv_id v = vid) (plan_versions r pid)))"

lemma version_stateE:
  assumes "version_state r pid vid = Some c"
  obtains p v where "map_of (p_plans r) pid = Some p" "find (\<lambda>v. pv_id v = vid) (plan_versions r pid) = Some v"
    "pv_governanceState v = c"
  using assms by (auto simp: version_state_def split: if_splits)

lemma transition_accepted:
  assumes "version_state r pid vid = Some c" and "is_valid_run_plan_version_transition c t"
  obtains ent r' where "transition_plan_version en pid vid t ub ef co r = (Inr ent, r')" "version_state r' pid vid = Some t"
proof -
  obtain p v where p: "map_of (p_plans r) pid = Some p" "find (\<lambda>v. pv_id v = vid) (plan_versions r pid) = Some v"
    "pv_governanceState v = c" by (rule version_stateE [OF assms(1)])
  have "find (\<lambda>v. pv_id v = vid) (update_first (\<lambda>v. pv_id v = vid) f (plan_versions r pid)) = Some (f v)"
    if "\<And>v. pv_id (f v) = pv_id v" for f
    using find_update_first [OF p(2), of f] that find_first [OF p(2)] by simp
  then show ?thesis using that p assms(2) valid_nonempty [OF assms(2)]
    by (simp add: transition_plan_version_def Let_def persisted_def get_plan_def version_state_def)
qed

lemma transition_refused:
  assumes "version_state r pid vid = Some c" and "\<not> is_valid_run_plan_version_transition c t" and "strip c \<noteq> []"
  shows "transition_plan_version en pid vid t ub ef co r = (Inl (InvalidPlanTransition (strip c) t), r)"
  using assms by (auto simp: transition_plan_version_def Let_def elim!: version_stateE)

text \<open>The parts of the use case that look at the plan, in terms of \<^const>\<open>version_state\<close>.\<close>

lemma get_plan_version:
  "version_state r pid vid = Some c \<Longrightarrow>
   \<exists>plan v. get_plan r pid = Some plan \<and> find (\<lambda>v. pv_id v = vid) (pl_versions plan) = Some v \<and> pv_governanceState v = c"
  by (auto simp: get_plan_def plan_entity_of_def run_plan.defs Let_def elim!: version_stateE)


text \<open>The three transitions that need an approval request.\<close>

lemma requested_edges_table:
  "list_all (\<lambda>(c, t). is_valid_run_plan_version_transition c t \<and>
     (is_valid_run_plan_version_transition t c \<longleftrightarrow> c \<noteq> ''draft'') \<and>
     request_type_of t \<noteq> None \<and> strip t = t \<and> t \<noteq> [])
   [(''draft'', ''activation-requested''), (''inactive'', ''activation-requested''), (''active'', ''deactivation-requested'')]"
  by code_simp

lemma requested_edge:
  assumes "(c, t) \<in> {(''draft'', ''activation-requested''), (''inactive'', ''activation-requested''),
    (''active'', ''deactivation-requested'')}"
  shows "is_valid_run_plan_version_transition c t" "is_valid_run_plan_version_transition t c \<longleftrightarrow> c \<noteq> ''draft''"
    "request_type_of t \<noteq> None" "strip t = t" "t \<noteq> []"
proof -
  have "(c, t) \<in> set [(''draft'', ''activation-requested''), (''inactive'', ''activation-requested''),
    (''active'', ''deactivation-requested'')]" using assms by simp
  from bspec [OF requested_edges_table [unfolded list_all_iff] this]
  show "is_valid_run_plan_version_transition c t" "is_valid_run_plan_version_transition t c \<longleftrightarrow> c \<noteq> ''draft''"
    "request_type_of t \<noteq> None" "strip t = t" "t \<noteq> []"
    unfolding prod.case by blast+
qed

section \<open>Properties\<close>

text \<open>
  When the approval request of a transition cannot be created, the use case undoes the transition for
  versions that were inactive or active; for a draft the undo is itself an invalid transition, so that the
  repository error escapes and the version stays in activation-requested without any approval request.\<close>

theorem failed_request_leaves_draft_requested:
  assumes "version_state r (tp_run_plan_id cmd) (tp_run_plan_version_id cmd) = Some c"
    and "(c, tp_target_state cmd) \<in> {(''draft'', ''activation-requested''), (''inactive'', ''activation-requested''),
           (''active'', ''deactivation-requested'')}"
    and "list_ap a = []" and "\<And>p u. \<exists>e. create_ap p u a = (Inl e, a)"
  shows "\<exists>r'. version_state r' (tp_run_plan_id cmd) (tp_run_plan_version_id cmd)
              = Some (if c = ''draft'' then ''activation-requested'' else c)
    \<and> transition_gx_run_plan_version_governance_state list_ap create_ap en en' cmd (r, a)
      = (Inl (if c = ''draft'' then UncaughtPlanError (InvalidPlanTransition ''activation-requested'' ''draft'')
              else ApprovalRequestFailed500), r', a)"
proof -
  let ?pid = "tp_run_plan_id cmd" and ?vid = "tp_run_plan_version_id cmd" and ?t = "tp_target_state cmd"
  note edges = requested_edge [OF assms(2)]
  obtain ent r1 where 1: "transition_plan_version en ?pid ?vid ?t (tp_updated_by cmd) (tp_effective_from cmd) (tp_correlation_id cmd) r = (Inr ent, r1)"
    "version_state r1 ?pid ?vid = Some ?t" by (rule transition_accepted [OF assms(1) edges(1)])
  obtain plan v where g: "get_plan r ?pid = Some plan" "find (\<lambda>v. pv_id v = ?vid) (pl_versions plan) = Some v"
    "pv_governanceState v = c" using get_plan_version [OF assms(1)] by blast
  obtain t where t: "request_type_of ?t = Some t" using edges(3) by blast
  obtain e where e: "create_ap (request_payload cmd t (pl_workspaceId plan)) (tp_updated_by cmd) a = (Inl e, a)"
    using assms(4) by blast
  note use = transition_gx_run_plan_version_governance_state_def Let_def g edges(1) t 1(1) e
    list_pending_gx_run_plan_approvals_def assms(3)
  show ?thesis
  proof (cases "c = ''draft''")
    case True
    then have t': "?t = ''activation-requested''" using assms(2) by auto
    have "transition_plan_version en' ?pid ?vid c (tp_updated_by cmd) None (tp_correlation_id cmd) r1
        = (Inl (InvalidPlanTransition ?t c), r1)"
      using True edges(2,4,5) transition_refused [OF 1(2), of c] by simp
    then have "transition_gx_run_plan_version_governance_state list_ap create_ap en en' cmd (r, a)
        = (Inl (UncaughtPlanError (InvalidPlanTransition ?t c)), r1, a)"
      by (simp add: use)
    then show ?thesis using True t' 1(2) by auto
  next
    case False
    then have "is_valid_run_plan_version_transition ?t c" using edges(2) by simp
    then obtain ent2 r2 where "transition_plan_version en' ?pid ?vid c (tp_updated_by cmd) None (tp_correlation_id cmd) r1 = (Inr ent2, r2)"
      "version_state r2 ?pid ?vid = Some c" by (rule transition_accepted [OF 1(2)])
    then show ?thesis using False by (intro exI [of _ r2]) (simp add: use)
  qed
qed

text \<open>
  C30: With the in-memory approvals repository, a successful activation or deactivation request leaves the version
  in the requested state with a pending approval for exactly this version and request, and asking again is refused
  without any change.\<close>

theorem request_registers_one_pending_approval:
  assumes "transition_gx_run_plan_version_governance_state memory_list (create_approval ae) en en' cmd (r, a) = (Inr row, r', a')"
    and "request_type_of (tp_target_state cmd) = Some t"
    and "strip (tp_run_plan_id cmd) = tp_run_plan_id cmd" and "strip (tp_run_plan_version_id cmd) = tp_run_plan_version_id cmd"
  shows "version_state r' (tp_run_plan_id cmd) (tp_run_plan_version_id cmd) = Some (tp_target_state cmd)
    \<and> list_pending_gx_run_plan_approvals memory_list a' (tp_run_plan_id cmd) (tp_run_plan_version_id cmd) t \<noteq> []
    \<and> (\<exists>err. transition_gx_run_plan_version_governance_state memory_list (create_approval ae2) en2 en2' cmd (r', a') = (Inl err, r', a'))"
proof -
  let ?pid = "tp_run_plan_id cmd" and ?vid = "tp_run_plan_version_id cmd" and ?t = "tp_target_state cmd"
  obtain plan v where g: "get_plan r ?pid = Some plan" "find (\<lambda>v. pv_id v = ?vid) (pl_versions plan) = Some v"
    and ok: "is_valid_run_plan_version_transition (pv_governanceState v) ?t"
    using assms(1) by (auto simp: transition_gx_run_plan_version_governance_state_def Let_def split: option.splits if_splits)
  then have "version_state r ?pid ?vid = Some (pv_governanceState v)"
    by (auto simp: version_state_def get_plan_def plan_entity_of_def run_plan.defs Let_def)
  then obtain ent r1 where 1: "transition_plan_version en ?pid ?vid ?t (tp_updated_by cmd) (tp_effective_from cmd) (tp_correlation_id cmd) r = (Inr ent, r1)"
    "version_state r1 ?pid ?vid = Some ?t" by (rule transition_accepted [OF _ ok])
  obtain x where x: "create_approval ae (request_payload cmd t (pl_workspaceId plan)) (tp_updated_by cmd) a = (Inr x, a')" and r': "r' = r1"
    using assms(1) g ok 1(1)
    by (auto simp: transition_gx_run_plan_version_governance_state_def Let_def assms(2) split: sum.splits prod.splits if_splits)
  have "t \<in> {''activation'', ''deactivation''}" using assms(2) by (auto simp: request_type_of_def split: if_splits)
  from memory_approvals.created_request_is_pending [OF x this assms(3,4)]
  have pending: "list_pending_gx_run_plan_approvals memory_list a' ?pid ?vid t \<noteq> []" by auto
  obtain plan' v' where g': "get_plan r' ?pid = Some plan'" "find (\<lambda>v. pv_id v = ?vid) (pl_versions plan') = Some v'"
    using get_plan_version [OF 1(2)] r' by blast
  have "\<exists>err. transition_gx_run_plan_version_governance_state memory_list (create_approval ae2) en2 en2' cmd (r', a') = (Inl err, r', a')"
    by (simp add: transition_gx_run_plan_version_governance_state_def Let_def g' assms(2) pending)
  with pending 1(2) r' show ?thesis by simp
qed


section \<open>Witnesses\<close>

definition demo_command :: transition_plan_command where
  "demo_command = \<lparr>tp_run_plan_id = ''p1'', tp_run_plan_version_id = ''v1'', tp_target_state = ''activation-requested'',
     tp_updated_by = Some ''alice'', tp_effective_from = None, tp_correlation_id = None\<rparr>"

lemma demo_command_sel [simp]:
  "tp_run_plan_id demo_command = ''p1''" "tp_run_plan_version_id demo_command = ''v1''"
  "tp_target_state demo_command = ''activation-requested''"
  by (simp_all add: demo_command_def)

lemma demo_draft: "version_state demo_created ''p1'' ''v1'' = Some ''draft''"
  using demo_created_eval by (auto simp: version_state_def)

lemma failed_request_leaves_draft_requested_witness:
  "\<exists>r'. version_state r' ''p1'' ''v1'' = Some ''activation-requested'' \<and>
     transition_gx_run_plan_version_governance_state (\<lambda>_. []) (\<lambda>p u a. (Inl (), a)) demo_plan_env demo_plan_env demo_command (demo_created, ())
       = (Inl (UncaughtPlanError (InvalidPlanTransition ''activation-requested'' ''draft'')), r', ())"
  using failed_request_leaves_draft_requested [of demo_created demo_command "''draft''" "\<lambda>_. []" "()" "\<lambda>p u a. (Inl (), a)"] demo_draft
  by simp

lemma demo_request_accepted:
  obtains row r' a' where "transition_gx_run_plan_version_governance_state memory_list (create_approval demo_approval_env)
    demo_plan_env demo_plan_env demo_command (demo_created, no_approvals) = (Inr row, r', a')"
proof -
  obtain plan v where g: "get_plan demo_created ''p1'' = Some plan" "find (\<lambda>v. pv_id v = ''v1'') (pl_versions plan) = Some v"
    "pv_governanceState v = ''draft''" using get_plan_version [OF demo_draft] by blast
  obtain row r1 where tr: "transition_plan_version demo_plan_env ''p1'' ''v1'' ''activation-requested'' (tp_updated_by demo_command)
      (tp_effective_from demo_command) (tp_correlation_id demo_command) demo_created = (Inr row, r1)"
    by (rule transition_accepted [OF demo_draft demo_valid(1)])
  have keys: "reject_camel_case_approval_keys (request_payload demo_command t ws) = None" for t ws
    by (simp add: reject_camel_case_approval_keys_def request_payload_def camel_case_keys_def)
  have "clean (Some ''v1'') \<noteq> None" by (simp add: clean_def or_none_def text_eval)
  then obtain x a1 where cr: "create_approval demo_approval_env (request_payload demo_command ''activation'' (pl_workspaceId plan))
      (tp_updated_by demo_command) no_approvals = (Inr x, a1)"
    by (simp add: create_approval_def keys Let_def)
  have "memory_list no_approvals = []" by (simp add: memory_list_def list_all_approvals) (simp add: no_approvals_def)
  with g tr cr demo_valid(1) show ?thesis
    by (intro that [of row r1 a1])
       (simp add: transition_gx_run_plan_version_governance_state_def Let_def request_type_of_def
          list_pending_gx_run_plan_approvals_def)
qed

lemma request_registers_one_pending_approval_witness:
  "\<exists>r' a' err. version_state r' ''p1'' ''v1'' = Some ''activation-requested''
     \<and> list_pending_gx_run_plan_approvals memory_list a' ''p1'' ''v1'' ''activation'' \<noteq> []
     \<and> transition_gx_run_plan_version_governance_state memory_list (create_approval demo_approval_env)
         demo_plan_env demo_plan_env demo_command (r', a') = (Inl err, r', a')"
proof -
  obtain row r' a' where "transition_gx_run_plan_version_governance_state memory_list (create_approval demo_approval_env)
    demo_plan_env demo_plan_env demo_command (demo_created, no_approvals) = (Inr row, r', a')"
    by (rule demo_request_accepted)
  from request_registers_one_pending_approval [OF this, of "''activation''" demo_approval_env demo_plan_env demo_plan_env]
  show ?thesis by (auto simp: request_type_of_def text_eval)
qed

end
