(* ===== verification/Exception_Facts.thy ===== *)
theory Exception_Facts
  imports DQ_Prelude
begin

text \<open>
  The store of exception facts (records that failed a rule) and their retention:
  \<^verbatim>\<open>in_memory_gx_execution_violation_repository.py\<close> and
  \<^verbatim>\<open>exception_retention.py\<close>.

  Reading and printing of time stamps and SHA-256 are arguments of the operations. The
  results hold for all such functions; what a result needs of them is a hypothesis.

  The purge loop has no bound in the source. It is a \<^theory_text>\<open>partial_function\<close>, so that not
  returning is the value \<^const>\<open>None\<close>, and the interface \<open>fact_store\<close> states what a repository
  must promise for the loop to return with every expired fact removed.
\<close>


section \<open>Data\<close>

record violation =
  vid :: string
  dataObjectVersionId :: string
  executionRunId :: string
  violationRuleId :: string
  dataPrimaryKey :: string
  violationReason :: string
  opsMetadata :: "(string \<times> json) list"
  detectedAt :: string
  violationCreatedAt :: string
  violationUpdatedAt :: string

record violation_create =
  c_id :: "string option"
  c_dataObjectVersionId :: string
  c_executionRunId :: string
  c_ruleId :: string
  c_dataPrimaryKey :: string
  c_violationReason :: string
  c_opsMetadata :: "(string \<times> json) list"
  c_detectedAt :: "string option"

type_synonym fact_repo = "(string \<times> string, violation) dict"

datatype fact_error =
    InvalidTimestamp string
  | DetectedBeforeRequired
  | LimitNotPositive
  | ReasonMetadataMissing
  | DateOutOfRange
  | VersionIdRequired
  | NotPersisted
  | InvalidPolicy string


section \<open>Time\<close>

definition parse_iso_datetime :: "iso_reader \<Rightarrow> string option \<Rightarrow> fact_error + int option" where
  "parse_iso_datetime fromiso value =
     (case value of
        None \<Rightarrow> Inr None
      | Some v \<Rightarrow>
          (let payload = strip v
           in if payload = [] then Inr None
              else (case fromiso (replace_Z payload) of
                      None \<Rightarrow> Inl (InvalidTimestamp payload)
                    | Some st \<Rightarrow> Inr (Some (normalize_utc st)))))"

section \<open>Storing and reading\<close>

fun save_violations ::
  "(nat \<Rightarrow> string) \<Rightarrow> (nat \<Rightarrow> string) \<Rightarrow> nat \<Rightarrow> violation_create list \<Rightarrow> fact_repo \<Rightarrow> violation list \<times> fact_repo" where
  "save_violations uuid now i [] r = ([], r)"
| "save_violations uuid now i (c # cs) r =
     (let violation_id = (if truthy (c_id c) then text_of (c_id c) else ''gx-violation-'' @ uuid i);
          timestamp = (if truthy (c_detectedAt c) then text_of (c_detectedAt c) else now i);
          row =
            \<lparr>vid = violation_id, dataObjectVersionId = c_dataObjectVersionId c,
             executionRunId = c_executionRunId c, violationRuleId = c_ruleId c,
             dataPrimaryKey = c_dataPrimaryKey c, violationReason = c_violationReason c,
             opsMetadata = c_opsMetadata c, detectedAt = timestamp,
             violationCreatedAt = timestamp, violationUpdatedAt = timestamp\<rparr>;
          (saved, r') = save_violations uuid now (Suc i) cs
                          (AList.update (c_dataObjectVersionId c, violation_id) row r)
      in (row # saved, r'))"

definition save_violation ::
  "(nat \<Rightarrow> string) \<Rightarrow> (nat \<Rightarrow> string) \<Rightarrow> violation_create \<Rightarrow> fact_repo \<Rightarrow> (fact_error + violation) \<times> fact_repo" where
  "save_violation uuid now c r =
     (let (saved, r') = save_violations uuid now 0 [c] r
      in case saved of [] \<Rightarrow> (Inl NotPersisted, r') | v # _ \<Rightarrow> (Inr v, r'))"

definition get_violation :: "string \<Rightarrow> string \<Rightarrow> fact_repo \<Rightarrow> violation option" where
  "get_violation scope violation_id r = map_of r (scope, violation_id)"

text \<open>\<open>int(digest[:16], 16)\<close> of a lower-case hexadecimal digest.\<close>

definition hex_digit :: "char \<Rightarrow> nat" where
  "hex_digit c = (let n = of_char c in if n < 58 then n - 48 else n - 87)"

definition hash_stripe_of :: "(string \<Rightarrow> string) \<Rightarrow> string \<Rightarrow> int \<Rightarrow> int" where
  "hash_stripe_of sha256 value stripe_count =
     int (foldl (\<lambda>acc c. 16 * acc + hex_digit c) 0 (take 16 (sha256 value))) mod max stripe_count 1"

record violation_query =
  q_execution_run_id :: "string option"
  q_rule_id :: "string option"
  q_reason_codes :: "string list"
  q_failure_class :: "string option"
  q_record_identifier_type :: "string option"
  q_record_identifier_value_contains :: "string option"
  q_search :: "string option"
  q_detected_after :: "string option"
  q_detected_before :: "string option"
  q_hash_stripe :: "int option"
  q_hash_stripe_count :: "int option"
  q_limit :: int
  q_offset :: int

abbreviation ops_text :: "violation \<Rightarrow> string \<Rightarrow> string" where
  "ops_text v key \<equiv> json_text (pget (opsMetadata v) key)"

definition normalized_codes :: "string list \<Rightarrow> string list" where
  "normalized_codes codes = filter (\<lambda>c. c \<noteq> []) (map strip codes)"

definition lower_clean :: "string option \<Rightarrow> string option" where
  "lower_clean v = or_none (lower (strip (text_of v)))"

definition in_window :: "int option \<Rightarrow> int option \<Rightarrow> int option \<Rightarrow> bool" where
  "in_window lo hi detected \<longleftrightarrow>
     (case lo of None \<Rightarrow> True | Some a \<Rightarrow> (case detected of None \<Rightarrow> False | Some d \<Rightarrow> a \<le> d)) \<and>
     (case hi of None \<Rightarrow> True | Some b \<Rightarrow> (case detected of None \<Rightarrow> False | Some d \<Rightarrow> d \<le> b))"

text \<open>The conditions of the listing on one record, the ones on the time and the stripe apart.\<close>

definition haystack :: "violation \<Rightarrow> string" where
  "haystack v =
     lower (join_text '' ''
       [violationReason v, ops_text v ''reason_code'',
        (let t = pget (opsMetadata v) ''reason_text'' in if py_true t then py_str t else []),
        ops_text v ''record_identifier_value''])"

definition matches_query :: "violation_query \<Rightarrow> violation \<Rightarrow> bool" where
  "matches_query q v \<longleftrightarrow>
     (let codes = normalized_codes (q_reason_codes q)
      in (codes = [] \<or> ops_text v ''reason_code'' \<in> set codes)) \<and>
     (clean (q_failure_class q) \<noteq> None \<longrightarrow>
        or_none (ops_text v ''failure_class'') = clean (q_failure_class q)) \<and>
     (clean (q_record_identifier_type q) \<noteq> None \<longrightarrow>
        or_none (ops_text v ''record_identifier_type'') = clean (q_record_identifier_type q)) \<and>
     (case lower_clean (q_record_identifier_value_contains q) of
        None \<Rightarrow> True
      | Some needle \<Rightarrow> contains needle (lower (ops_text v ''record_identifier_value''))) \<and>
     (case lower_clean (q_search q) of None \<Rightarrow> True | Some needle \<Rightarrow> contains needle (haystack v))"

definition in_stripe :: "(string \<Rightarrow> string) \<Rightarrow> violation_query \<Rightarrow> violation \<Rightarrow> bool" where
  "in_stripe sha256 q v \<longleftrightarrow>
     (case q_hash_stripe q of
        None \<Rightarrow> True
      | Some stripe \<Rightarrow>
          (let count = max (case q_hash_stripe_count q of None \<Rightarrow> 0 | Some n \<Rightarrow> n) 1;
               identifier = (let t = ops_text v ''record_identifier_value'' in if t = [] then vid v else t)
           in hash_stripe_of sha256 identifier count = stripe))"

fun filter_rows ::
  "iso_reader \<Rightarrow> (string \<Rightarrow> string) \<Rightarrow> violation_query \<Rightarrow> int option \<Rightarrow> int option \<Rightarrow>
   violation list \<Rightarrow> fact_error + violation list" where
  "filter_rows fromiso sha256 q lo hi [] = Inr []"
| "filter_rows fromiso sha256 q lo hi (v # vs) =
     (case parse_iso_datetime fromiso (Some (detectedAt v)) of
        Inl e \<Rightarrow> Inl e
      | Inr detected \<Rightarrow>
          (case filter_rows fromiso sha256 q lo hi vs of
             Inl e \<Rightarrow> Inl e
           | Inr rows \<Rightarrow>
               Inr (if matches_query q v \<and> in_window lo hi detected \<and> in_stripe sha256 q v
                    then v # rows else rows)))"

definition rows_in_scope :: "string \<Rightarrow> violation_query \<Rightarrow> fact_repo \<Rightarrow> violation list" where
  "rows_in_scope scope q r =
     map snd (filter (\<lambda>((s, _), v).
       s = scope \<and>
       (q_execution_run_id q = None \<or> q_execution_run_id q = Some (executionRunId v)) \<and>
       (q_rule_id q = None \<or> q_rule_id q = Some (violationRuleId v))) r)"

definition list_violations ::
  "iso_reader \<Rightarrow> (string \<Rightarrow> string) \<Rightarrow> string \<Rightarrow> violation_query \<Rightarrow> fact_repo \<Rightarrow>
   fact_error + violation list \<times> nat" where
  "list_violations fromiso sha256 scope q r =
     (case parse_iso_datetime fromiso (q_detected_after q) of
        Inl e \<Rightarrow> Inl e
      | Inr lo \<Rightarrow>
          (case parse_iso_datetime fromiso (q_detected_before q) of
             Inl e \<Rightarrow> Inl e
           | Inr hi \<Rightarrow>
               (case filter_rows fromiso sha256 q lo hi (rows_in_scope scope q r) of
                  Inl e \<Rightarrow> Inl e
                | Inr rows \<Rightarrow>
                    (let sorted_rows = sort_key detectedAt rows
                     in Inr (py_slice (q_offset q) (q_offset q + q_limit q) sorted_rows, length sorted_rows)))))"

section \<open>Summaries\<close>

record fact_totals =
  t_rules :: "(string, nat) dict"
  t_objects :: "(string, nat) dict"
  t_trend :: "(string, nat) dict"
  t_runs :: "string list"
  t_reasons :: "(string \<times> string, nat) dict"
  t_reason_trend :: "(string \<times> string \<times> string, nat) dict"

record fact_summary =
  total_failed_records :: nat
  runs_with_failures :: nat
  trend_totals :: "(string \<times> nat) list"
  rule_totals :: "(string \<times> nat) list"
  data_object_totals :: "(string \<times> nat) list"
  reason_totals :: "((string \<times> string) \<times> nat) list"
  reason_trend_totals :: "((string \<times> string \<times> string) \<times> nat) list"

definition no_totals :: fact_totals where
  "no_totals = \<lparr>t_rules = [], t_objects = [], t_trend = [], t_runs = [], t_reasons = [], t_reason_trend = []\<rparr>"

definition empty_summary :: fact_summary where
  "empty_summary =
     \<lparr>total_failed_records = 0, runs_with_failures = 0, trend_totals = [], rule_totals = [],
      data_object_totals = [], reason_totals = [], reason_trend_totals = []\<rparr>"

text \<open>\<open>d[k] = d.get(k, 0) + 1\<close>.\<close>

definition bump :: "'k \<Rightarrow> ('k, nat) dict \<Rightarrow> ('k, nat) dict" where
  "bump k d = AList.update k (dict_get d k 0 + 1) d"

text \<open>
  The buckets of a trend: their origin, size in seconds and number. The index is clamped to
  the first and the last bucket. The source divides floating-point seconds, which is exact
  floor division for times within 130 years of the origin.
\<close>

type_synonym buckets = "(int \<times> int \<times> int) option"

definition bucket_index :: "int \<Rightarrow> int \<Rightarrow> int \<Rightarrow> int \<Rightarrow> int" where
  "bucket_index origin width count detected =
     max 0 (min (count - 1) ((detected - origin) div (width * 1000000)))"

definition requested_buckets :: "int option \<Rightarrow> int option \<Rightarrow> int option \<Rightarrow> buckets" where
  "requested_buckets origin width count =
     (case (origin, width, count) of
        (Some b, Some s, Some n) \<Rightarrow> if s > 0 \<and> n > 0 then Some (b, s, n) else None
      | _ \<Rightarrow> None)"

definition count_fact :: "violation \<Rightarrow> fact_totals \<Rightarrow> fact_totals" where
  "count_fact v t =
     (let rule_id = strip (violationRuleId v);
          object_id = strip (dataObjectVersionId v);
          run_id = strip (executionRunId v)
      in t\<lparr>t_runs := (if run_id = [] then t_runs t else List.insert run_id (t_runs t)),
           t_rules := (if rule_id = [] then t_rules t else bump rule_id (t_rules t)),
           t_objects := (if object_id = [] then t_objects t else bump object_id (t_objects t)),
           t_reasons := bump (ops_text v ''reason_code'', ops_text v ''reason_text'') (t_reasons t)\<rparr>)"

definition count_trend :: "(int \<Rightarrow> string) \<Rightarrow> buckets \<Rightarrow> int option \<Rightarrow> violation \<Rightarrow> fact_totals \<Rightarrow> fact_totals" where
  "count_trend isoformat buckets detected v t =
     (case (buckets, detected) of
        (Some (origin, width, count), Some d) \<Rightarrow>
          (let key = isoformat (origin + bucket_index origin width count d * width * 1000000)
           in t\<lparr>t_trend := bump key (t_trend t),
                t_reason_trend :=
                  bump (key, ops_text v ''reason_code'', ops_text v ''reason_text'') (t_reason_trend t)\<rparr>)
      | _ \<Rightarrow> t)"

fun count_facts ::
  "iso_reader \<Rightarrow> (int \<Rightarrow> string) \<Rightarrow> buckets \<Rightarrow> string list \<Rightarrow> violation list \<Rightarrow> fact_totals \<Rightarrow>
   fact_error + fact_totals" where
  "count_facts fromiso isoformat buckets codes [] t = Inr t"
| "count_facts fromiso isoformat buckets codes (v # vs) t =
     (if ops_text v ''reason_code'' = [] \<or> ops_text v ''reason_text'' = [] then Inl ReasonMetadataMissing
      else if codes \<noteq> [] \<and> ops_text v ''reason_code'' \<notin> set codes
        then count_facts fromiso isoformat buckets codes vs t
      else (case (if buckets = None then Inr None else parse_iso_datetime fromiso (Some (detectedAt v))) of
              Inl e \<Rightarrow> Inl e
            | Inr detected \<Rightarrow>
                count_facts fromiso isoformat buckets codes vs
                  (count_trend isoformat buckets detected v (count_fact v t))))"

fun rows_in_window ::
  "iso_reader \<Rightarrow> string list \<Rightarrow> string list \<Rightarrow> int option \<Rightarrow> int option \<Rightarrow> fact_repo \<Rightarrow> fact_error + violation list" where
  "rows_in_window fromiso scopes runs lo hi [] = Inr []"
| "rows_in_window fromiso scopes runs lo hi (((scope, i), v) # rest) =
     (if scope \<notin> set scopes \<or> strip (executionRunId v) \<notin> set runs
      then rows_in_window fromiso scopes runs lo hi rest
      else (case parse_iso_datetime fromiso (Some (detectedAt v)) of
              Inl e \<Rightarrow> Inl e
            | Inr detected \<Rightarrow>
                (case rows_in_window fromiso scopes runs lo hi rest of
                   Inl e \<Rightarrow> Inl e
                 | Inr rows \<Rightarrow> Inr (if in_window lo hi detected then v # rows else rows))))"

definition top_five :: "('k::linorder, nat) dict \<Rightarrow> ('k \<times> nat) list" where
  "top_five d = take 5 (sort_key (\<lambda>(k, n). (- int n, k)) d)"

definition summary_of :: "fact_totals \<Rightarrow> fact_summary" where
  "summary_of t =
     \<lparr>total_failed_records = sum_list (map snd (t_reasons t)),
      runs_with_failures = length (t_runs t),
      trend_totals = sort_key (\<lambda>x. x) (t_trend t),
      rule_totals = top_five (t_rules t),
      data_object_totals = top_five (t_objects t),
      reason_totals = top_five (t_reasons t),
      reason_trend_totals = sort_key (\<lambda>((b, c, x), n). (b, - int n, c, x)) (t_reason_trend t)\<rparr>"

record summary_query =
  s_scopes :: "string list"
  s_runs :: "string list"
  s_codes :: "string list"
  s_detected_after :: "string option"
  s_detected_before :: "string option"
  s_bucket_origin :: "string option"
  s_bucket_size :: "int option"
  s_bucket_count :: "int option"

definition summarize_violations ::
  "iso_reader \<Rightarrow> (int \<Rightarrow> string) \<Rightarrow> summary_query \<Rightarrow> fact_repo \<Rightarrow> fact_error + fact_summary" where
  "summarize_violations fromiso isoformat q r =
     (let scopes = normalized_codes (s_scopes q); runs = normalized_codes (s_runs q)
      in if scopes = [] \<or> runs = [] then Inr empty_summary
         else (case parse_iso_datetime fromiso (s_detected_after q) of
                 Inl e \<Rightarrow> Inl e
               | Inr lo \<Rightarrow>
          (case parse_iso_datetime fromiso (s_detected_before q) of
             Inl e \<Rightarrow> Inl e
           | Inr hi \<Rightarrow>
          (case parse_iso_datetime fromiso (s_bucket_origin q) of
             Inl e \<Rightarrow> Inl e
           | Inr origin \<Rightarrow>
          (case rows_in_window fromiso scopes runs lo hi r of
             Inl e \<Rightarrow> Inl e
           | Inr rows \<Rightarrow>
          (case count_facts fromiso isoformat
                  (requested_buckets origin (s_bucket_size q) (s_bucket_count q))
                  (normalized_codes (s_codes q)) rows no_totals of
             Inl e \<Rightarrow> Inl e
           | Inr t \<Rightarrow> Inr (summary_of t)))))))"


section \<open>Deletion\<close>

definition fact_order :: "(string \<times> string) \<times> violation \<Rightarrow> string \<times> string \<times> string" where
  "fact_order item = (detectedAt (snd item), fst (fst item), snd (fst item))"

definition in_purge_scope :: "string option \<Rightarrow> violation \<Rightarrow> bool" where
  "in_purge_scope scope v \<longleftrightarrow> scope = None \<or> Some (strip (dataObjectVersionId v)) = scope"

fun eligible_keys ::
  "iso_reader \<Rightarrow> int \<Rightarrow> string option \<Rightarrow> fact_repo \<Rightarrow> fact_error + (string \<times> string) list" where
  "eligible_keys fromiso cutoff scope [] = Inr []"
| "eligible_keys fromiso cutoff scope ((key, v) # rest) =
     (case parse_iso_datetime fromiso (Some (detectedAt v)) of
        Inl e \<Rightarrow> Inl e
      | Inr detected \<Rightarrow>
          (case eligible_keys fromiso cutoff scope rest of
             Inl e \<Rightarrow> Inl e
           | Inr keys \<Rightarrow>
               Inr (if (case detected of None \<Rightarrow> False | Some d \<Rightarrow> d < cutoff) \<and> in_purge_scope scope v
                    then key # keys else keys)))"

definition delete_violations_detected_before ::
  "iso_reader \<Rightarrow> string \<Rightarrow> int \<Rightarrow> string option \<Rightarrow> fact_repo \<Rightarrow> (fact_error + nat) \<times> fact_repo" where
  "delete_violations_detected_before fromiso detected_before limit scope r =
     (case parse_iso_datetime fromiso (Some detected_before) of
        Inl e \<Rightarrow> (Inl e, r)
      | Inr None \<Rightarrow> (Inl DetectedBeforeRequired, r)
      | Inr (Some cutoff) \<Rightarrow>
          if limit \<le> 0 then (Inl LimitNotPositive, r)
          else (case eligible_keys fromiso cutoff (clean scope) (sort_key fact_order r) of
                  Inl e \<Rightarrow> (Inl e, r)
                | Inr keys \<Rightarrow>
                    (let doomed = take (nat limit) keys
                     in (Inr (length doomed), foldl (\<lambda>d k. AList.delete k d) r doomed))))"


section \<open>Retention\<close>

record retention_policy =
  fact_retention_days :: int
  archive_retention_days :: int
  analytics_projection_retention_days :: int
  purge_batch_size :: int

definition day_us :: int where
  "day_us = 86400000000"

text \<open>\<open>datetime - timedelta\<close> raises \<open>OverflowError\<close> before year 1.\<close>

definition minus_days :: "int \<Rightarrow> int \<Rightarrow> fact_error + int" where
  "minus_days t days = (if t - days * day_us < 0 then Inl DateOutOfRange else Inr (t - days * day_us))"

definition fact_cutoff :: "retention_policy \<Rightarrow> stamp \<Rightarrow> fact_error + int" where
  "fact_cutoff p now = minus_days (normalize_utc now) (fact_retention_days p)"

definition archive_cutoff :: "retention_policy \<Rightarrow> stamp \<Rightarrow> fact_error + int" where
  "archive_cutoff p now = minus_days (normalize_utc now) (archive_retention_days p)"

definition build_exception_retention_policy :: "int \<Rightarrow> int \<Rightarrow> int \<Rightarrow> int \<Rightarrow> fact_error + retention_policy" where
  "build_exception_retention_policy days archive analytics batch =
     (if days < 1 then Inl (InvalidPolicy ''exceptionFactRetentionDays must be at least 1'')
      else if archive < days
        then Inl (InvalidPolicy ''exceptionFactArchiveRetentionDays must be greater than or equal to exceptionFactRetentionDays'')
      else if analytics < 1
        then Inl (InvalidPolicy ''exceptionAnalyticsProjectionRetentionDays must be at least 1'')
      else if batch < 1 then Inl (InvalidPolicy ''exceptionFactPurgeBatchSize must be at least 1'')
      else Inr \<lparr>fact_retention_days = days, archive_retention_days = archive,
                analytics_projection_retention_days = analytics, purge_batch_size = batch\<rparr>)"

record retention_config =
  exceptionFactRetentionDays :: int
  exceptionFactArchiveRetentionDays :: int
  exceptionAnalyticsProjectionRetentionDays :: int
  exceptionFactPurgeBatchSize :: int

definition resolve_exception_retention_policy :: "retention_config \<Rightarrow> fact_error + retention_policy" where
  "resolve_exception_retention_policy c =
     build_exception_retention_policy (exceptionFactRetentionDays c)
       (exceptionFactArchiveRetentionDays c) (exceptionAnalyticsProjectionRetentionDays c)
       (exceptionFactPurgeBatchSize c)"

definition policy_key :: "string \<Rightarrow> string" where
  "policy_key key = ''data_object_versions.storage_options_json.retention_policy.'' @ key"

definition require_positive_int :: "(string \<times> json) list \<Rightarrow> string \<Rightarrow> string \<Rightarrow> fact_error + int" where
  "require_positive_int payload key version_id =
     (let suffix = '' for data object version '' @ quoted version_id
      in case map_of payload key of
           None \<Rightarrow> Inl (InvalidPolicy (policy_key key @ '' is required'' @ suffix))
         | Some value \<Rightarrow>
             (case (case value of PBool _ \<Rightarrow> None | _ \<Rightarrow> json_int value) of
                None \<Rightarrow> Inl (InvalidPolicy (policy_key key @ '' must be a positive integer'' @ suffix))
              | Some normalized \<Rightarrow>
                  if normalized < 1 then Inl (InvalidPolicy (policy_key key @ '' must be at least 1'' @ suffix))
                  else Inr normalized))"

definition resolve_data_object_retention_policy :: "string \<Rightarrow> json \<Rightarrow> fact_error + retention_policy" where
  "resolve_data_object_retention_policy version_id storage_options =
     (let missing = Inl (InvalidPolicy
            (''data_object_versions.storage_options_json.retention_policy is required for data object version '' @
             quoted version_id))
      in case storage_options of
           PDict options \<Rightarrow>
             (case pget options ''retention_policy'' of
                PDict p \<Rightarrow>
                  (case require_positive_int p ''exception_fact_retention_days'' version_id of
                     Inl e \<Rightarrow> Inl e
                   | Inr days \<Rightarrow>
                  (case require_positive_int p ''exception_fact_archive_retention_days'' version_id of
                     Inl e \<Rightarrow> Inl e
                   | Inr archive \<Rightarrow>
                  (case require_positive_int p ''exception_analytics_projection_retention_days'' version_id of
                     Inl e \<Rightarrow> Inl e
                   | Inr analytics \<Rightarrow>
                  (case require_positive_int p ''exception_fact_purge_batch_size'' version_id of
                     Inl e \<Rightarrow> Inl e
                   | Inr batch \<Rightarrow> build_exception_retention_policy days archive analytics batch))))
              | _ \<Rightarrow> missing)
         | _ \<Rightarrow> missing)"

text \<open>
  The loop calls the repository until a call removes fewer facts than the batch size. An
  error leaves the facts removed by the earlier calls removed.
\<close>

partial_function (option) purge_loop ::
  "('s \<Rightarrow> ('e + nat) \<times> 's) \<Rightarrow> nat \<Rightarrow> nat \<Rightarrow> 's \<Rightarrow> (('e + nat) \<times> 's) option" where
  "purge_loop delete batch acc s =
     (case delete s of
        (Inl e, s') \<Rightarrow> Some (Inl e, s')
      | (Inr deleted, s') \<Rightarrow>
          if deleted < batch then Some (Inr (acc + deleted), s')
          else purge_loop delete batch (acc + deleted) s')"

declare purge_loop.simps [code]

definition purge_facts ::
  "(string \<Rightarrow> int \<Rightarrow> string option \<Rightarrow> 's \<Rightarrow> (fact_error + nat) \<times> 's) \<Rightarrow> (int \<Rightarrow> string) \<Rightarrow>
   retention_policy \<Rightarrow> stamp \<Rightarrow> string option \<Rightarrow> 's \<Rightarrow> ((fact_error + nat) \<times> 's) option" where
  "purge_facts delete isoformat policy now scope s =
     (case fact_cutoff policy now of
        Inl e \<Rightarrow> Some (Inl e, s)
      | Inr cutoff \<Rightarrow>
          purge_loop (delete (isoformat cutoff) (purge_batch_size policy) scope)
            (nat (purge_batch_size policy)) 0 s)"

definition purge_repository_exception_facts ::
  "(string \<Rightarrow> int \<Rightarrow> string option \<Rightarrow> 's \<Rightarrow> (fact_error + nat) \<times> 's) \<Rightarrow> (int \<Rightarrow> string) \<Rightarrow>
   retention_policy \<Rightarrow> stamp \<Rightarrow> 's \<Rightarrow> ((fact_error + nat) \<times> 's) option" where
  "purge_repository_exception_facts delete isoformat policy now s =
     purge_facts delete isoformat policy now None s"

definition purge_repository_exception_facts_for_data_object_version ::
  "(string \<Rightarrow> int \<Rightarrow> string option \<Rightarrow> 's \<Rightarrow> (fact_error + nat) \<times> 's) \<Rightarrow> (int \<Rightarrow> string) \<Rightarrow>
   string option \<Rightarrow> retention_policy \<Rightarrow> stamp \<Rightarrow> 's \<Rightarrow> ((fact_error + nat) \<times> 's) option" where
  "purge_repository_exception_facts_for_data_object_version delete isoformat version_id policy now s =
     (case clean version_id of
        None \<Rightarrow> Some (Inl VersionIdRequired, s)
      | Some i \<Rightarrow> purge_facts delete isoformat policy now (Some i) s)"

section \<open>The interface of the purge\<close>

text \<open>
  What the loop relies on. A query \<open>q\<close> fixes the cutoff and the scope; \<open>expired\<close> counts the
  facts it selects and \<open>kept\<close> is what it leaves alone. A call removes as many selected facts
  as the limit allows and nothing else.
\<close>

locale fact_store =
  fixes delete :: "'q \<Rightarrow> nat \<Rightarrow> 's \<Rightarrow> ('e + nat) \<times> 's"
    and ok :: "'q \<Rightarrow> 's \<Rightarrow> bool"
    and expired :: "'q \<Rightarrow> 's \<Rightarrow> nat"
    and kept :: "'q \<Rightarrow> 's \<Rightarrow> 'k"
  assumes delete_batch:
    "ok q s \<Longrightarrow> 0 < n \<Longrightarrow>
       \<exists>s'. delete q n s = (Inr (min n (expired q s)), s') \<and> ok q s' \<and>
            expired q s' = expired q s - min n (expired q s) \<and> kept q s' = kept q s"
begin

lemma purge:
  assumes "ok q s" and "0 < n"
  shows "\<exists>s'. purge_loop (delete q n) n acc s = Some (Inr (acc + expired q s), s') \<and>
              expired q s' = 0 \<and> kept q s' = kept q s"
  using assms(1)
proof (induction "expired q s" arbitrary: s acc rule: less_induct)
  case less
  from delete_batch [OF less.prems assms(2)] obtain s' where s':
    "delete q n s = (Inr (min n (expired q s)), s')" "ok q s'"
    "expired q s' = expired q s - min n (expired q s)" "kept q s' = kept q s"
    by blast
  show ?case
  proof (cases "expired q s < n")
    case True
    with s' show ?thesis by (simp add: purge_loop.simps [of _ _ _ s])
  next
    case False
    with s' assms(2) have "expired q s' < expired q s" by simp
    from less.hyps [OF this s'(2), of "acc + n"] s' False show ?thesis
      by (auto simp: purge_loop.simps [of _ _ _ s])
  qed
qed

end


section \<open>The repository implements the interface\<close>

definition stamp_ok :: "iso_reader \<Rightarrow> string \<Rightarrow> bool" where
  "stamp_ok fromiso s \<longleftrightarrow> \<not> isl (parse_iso_datetime fromiso (Some s))"

definition is_expired :: "iso_reader \<Rightarrow> int \<Rightarrow> string option \<Rightarrow> violation \<Rightarrow> bool" where
  "is_expired fromiso cutoff scope v \<longleftrightarrow>
     (case parse_iso_datetime fromiso (Some (detectedAt v)) of
        Inr (Some d) \<Rightarrow> d < cutoff
      | _ \<Rightarrow> False) \<and> in_purge_scope scope v"

definition repo_ok :: "iso_reader \<Rightarrow> fact_repo \<Rightarrow> bool" where
  "repo_ok fromiso r \<longleftrightarrow> dict_wf r \<and> list_all (\<lambda>x. stamp_ok fromiso (detectedAt (snd x))) r"

lemma eligible_keys_ok:
  assumes "list_all (\<lambda>x. stamp_ok fromiso (detectedAt (snd x))) r"
  shows "eligible_keys fromiso cutoff scope r =
         Inr (map fst (filter (\<lambda>x. is_expired fromiso cutoff scope (snd x)) r))"
  using assms
  by (induction r rule: eligible_keys.induct [of _ fromiso cutoff scope])
    (auto simp: stamp_ok_def is_expired_def split: sum.splits option.splits)

lemma eligible_keys_sub: "eligible_keys fromiso cutoff scope r = Inr ks \<Longrightarrow> set ks \<subseteq> fst ` set r"
proof (induction r arbitrary: ks)
  case Nil
  then show ?case by simp
next
  case (Cons x r)
  then show ?case by (cases x) (force split: sum.splits if_splits)
qed

definition parsed_cutoff :: "iso_reader \<Rightarrow> string \<Rightarrow> int \<Rightarrow> bool" where
  "parsed_cutoff fromiso text cutoff \<longleftrightarrow> parse_iso_datetime fromiso (Some text) = Inr (Some cutoff)"

lemma delete_ok:
  assumes "parsed_cutoff fromiso text cutoff" and "repo_ok fromiso r" and "0 < n"
  shows "\<exists>r'. delete_violations_detected_before fromiso text (int n) scope r =
      (Inr (min n (length (filter (\<lambda>x. is_expired fromiso cutoff (clean scope) (snd x)) r))), r') \<and>
    repo_ok fromiso r' \<and>
    length (filter (\<lambda>x. is_expired fromiso cutoff (clean scope) (snd x)) r') =
      length (filter (\<lambda>x. is_expired fromiso cutoff (clean scope) (snd x)) r) -
      min n (length (filter (\<lambda>x. is_expired fromiso cutoff (clean scope) (snd x)) r)) \<and>
    filter (\<lambda>x. \<not> is_expired fromiso cutoff (clean scope) (snd x)) r' =
      filter (\<lambda>x. \<not> is_expired fromiso cutoff (clean scope) (snd x)) r"
proof -
  let ?E = "\<lambda>x :: (string \<times> string) \<times> violation. is_expired fromiso cutoff (clean scope) (snd x)"
  let ?s = "sort_key fact_order r"
  let ?ks = "take n (map fst (filter ?E ?s))"
  let ?r' = "filter (\<lambda>x. fst x \<notin> set ?ks) r"
  have wf: "dict_wf r" and stamps: "list_all (\<lambda>x. stamp_ok fromiso (detectedAt (snd x))) r"
    using assms(2) by (simp_all add: repo_ok_def)
  have "length (filter ?E ?s) = length (filter ?E r)"
    by (metis filter_sort length_sort)
  moreover have "eligible_keys fromiso cutoff (clean scope) ?s = Inr (map fst (filter ?E ?s))"
    using stamps by (intro eligible_keys_ok) (simp add: list_all_iff)
  ultimately have del: "delete_violations_detected_before fromiso text (int n) scope r =
      (Inr (min n (length (filter ?E r))), ?r')"
    using assms(1,3) by (simp add: delete_violations_detected_before_def parsed_cutoff_def foldl_delete
      Let_def min.commute)
  have "distinct (map fst ?s)"
    using wf by (metis distinct_map distinct_sort set_sort)
  then have dist: "distinct ?ks"
    by (simp add: distinct_map_filter distinct_take)
  have sub: "set ?ks \<subseteq> fst ` set (filter ?E r)"
    using set_take_subset [of n "map fst (filter ?E ?s)"] by simp
  have "filter ?E ?r' = filter (\<lambda>x. fst x \<notin> set ?ks) (filter ?E r)"
    by (simp add: filter_filter conj_commute)
  then have count: "length (filter ?E ?r') = length (filter ?E r) - min n (length (filter ?E r))"
    using filter_keys_length [OF _ dist sub] wf \<open>length (filter ?E ?s) = length (filter ?E r)\<close>
    by (simp add: distinct_map_filter min.commute)
  have "fst x \<notin> set ?ks" if "x \<in> set r" "\<not> ?E x" for x
  proof
    assume "fst x \<in> set ?ks"
    then obtain y where "y \<in> set r" "?E y" "fst y = fst x" using sub by auto
    with that wf show False by (metis eq_key_imp_eq_value prod.collapse)
  qed
  then have kept: "filter (\<lambda>x. \<not> ?E x) ?r' = filter (\<lambda>x. \<not> ?E x) r"
    by (auto simp: filter_filter intro!: filter_cong)
  have "repo_ok fromiso ?r'"
    using assms(2) by (auto simp: repo_ok_def list_all_iff distinct_map_filter)
  with del count kept show ?thesis by blast
qed

interpretation memory_facts: fact_store
  "\<lambda>(fromiso, text, cutoff, scope) n. delete_violations_detected_before fromiso text (int n) scope"
  "\<lambda>(fromiso, text, cutoff, scope) r. parsed_cutoff fromiso text cutoff \<and> repo_ok fromiso r"
  "\<lambda>(fromiso, text, cutoff, scope) r.
     length (filter (\<lambda>x. is_expired fromiso cutoff (clean scope) (snd x)) r)"
  "\<lambda>(fromiso, text, cutoff, scope) r.
     filter (\<lambda>x. \<not> is_expired fromiso cutoff (clean scope) (snd x)) r"
proof (unfold_locales, goal_cases)
  case (1 q s n)
  obtain fromiso cut cutoff scope where q: "q = (fromiso, cut, cutoff, scope)"
    by (cases q)
  with 1 show ?case
    using delete_ok [of fromiso cut cutoff s n scope] by simp
qed

section \<open>Properties of the retention\<close>

text \<open>A successful call that removes something shortens the store, whatever the stamps are.\<close>

lemma delete_shrinks:
  assumes "delete_violations_detected_before fromiso bound n scope r = (Inr d, r')" and "0 < d"
  shows "length r' < length r"
proof -
  obtain cutoff keys where keys: "eligible_keys fromiso cutoff (clean scope) (sort_key fact_order r) = Inr keys"
    and d: "d = length (take (nat n) keys)" and r': "r' = filter (\<lambda>x. fst x \<notin> set (take (nat n) keys)) r"
    using assms(1)
    by (auto simp: delete_violations_detected_before_def Let_def foldl_delete
        split: sum.splits option.splits if_splits)
  from d assms(2) obtain k where k: "k \<in> set (take (nat n) keys)"
    by (metis length_0_conv list.set_intros(1) neq_Nil_conv not_gr_zero)
  then have "k \<in> fst ` set r"
    using eligible_keys_sub [OF keys] set_take_subset [of "nat n" keys] by auto
  then obtain x where "x \<in> set r" "fst x = k" by auto
  with k r' show ?thesis
    using length_filter_less [of x r "\<lambda>x. fst x \<notin> set (take (nat n) keys)"] by simp
qed

lemma purge_loop_returns:
  assumes "\<And>s d s'. delete s = (Inr d, s') \<Longrightarrow> 0 < d \<Longrightarrow> (m s' :: nat) < m s" and "0 < batch"
  shows "\<exists>out. purge_loop delete batch acc s = Some out"
proof (induction "m s" arbitrary: s acc rule: less_induct)
  case less
  obtain out s' where s': "delete s = (out, s')" by (cases "delete s")
  show ?case
  proof (cases out)
    case (Inl e)
    with s' show ?thesis by (simp add: purge_loop.simps [of _ _ _ s])
  next
    case (Inr d)
    show ?thesis
    proof (cases "d < batch")
      case True
      with Inr s' show ?thesis by (simp add: purge_loop.simps [of _ _ _ s])
    next
      case False
      with Inr s' assms(2) have "m s' < m s" by (auto intro: assms(1))
      from less [OF this, of "acc + d"] Inr s' False show ?thesis
        by (simp add: purge_loop.simps [of _ _ _ s])
    qed
  qed
qed

lemma purge_facts_returns:
  assumes "1 \<le> purge_batch_size p"
  shows "\<exists>out. purge_facts (delete_violations_detected_before fromiso) isoformat p now scope r = Some out"
proof (cases "fact_cutoff p now")
  case (Inr cutoff)
  have "\<exists>out. purge_loop (delete_violations_detected_before fromiso (isoformat cutoff) (purge_batch_size p) scope)
      (nat (purge_batch_size p)) 0 r = Some out"
    using assms by (intro purge_loop_returns [where m = length]) (auto elim: delete_shrinks)
  with Inr show ?thesis by (simp add: purge_facts_def)
qed (simp add: purge_facts_def)

lemma built_policy_bounds:
  "build_exception_retention_policy f a n b = Inr p \<Longrightarrow>
     1 \<le> fact_retention_days p \<and> fact_retention_days p \<le> archive_retention_days p \<and>
     1 \<le> analytics_projection_retention_days p \<and> 1 \<le> purge_batch_size p"
  by (auto simp: build_exception_retention_policy_def split: if_splits)

lemma resolved_policy_bounds:
  assumes "resolve_exception_retention_policy c = Inr p \<or> resolve_data_object_retention_policy i opts = Inr p"
  shows "1 \<le> fact_retention_days p \<and> fact_retention_days p \<le> archive_retention_days p \<and>
     1 \<le> analytics_projection_retention_days p \<and> 1 \<le> purge_batch_size p"
  using assms
proof
  assume "resolve_data_object_retention_policy i opts = Inr p"
  then show ?thesis
    by (auto simp: resolve_data_object_retention_policy_def Let_def
        split: pyval.splits sum.splits dest: built_policy_bounds)
qed (auto simp: resolve_exception_retention_policy_def dest: built_policy_bounds)

lemma purge_facts_expired:
  assumes "1 \<le> purge_batch_size p" and "fact_cutoff p now = Inr cutoff"
    and "parsed_cutoff fromiso (isoformat cutoff) cutoff" and "repo_ok fromiso r"
  shows "purge_facts (delete_violations_detected_before fromiso) isoformat p now scope r =
    Some (Inr (length (filter (\<lambda>x. is_expired fromiso cutoff (clean scope) (snd x)) r)),
          filter (\<lambda>x. \<not> is_expired fromiso cutoff (clean scope) (snd x)) r)"
proof -
  let ?E = "\<lambda>x :: (string \<times> string) \<times> violation. is_expired fromiso cutoff (clean scope) (snd x)"
  from memory_facts.purge [of "(fromiso, isoformat cutoff, cutoff, scope)" r "nat (purge_batch_size p)" 0] assms
  obtain r' where r': "purge_loop
        (delete_violations_detected_before fromiso (isoformat cutoff) (purge_batch_size p) scope)
        (nat (purge_batch_size p)) 0 r = Some (Inr (length (filter ?E r)), r')"
    "filter ?E r' = []" "filter (\<lambda>x. \<not> ?E x) r' = filter (\<lambda>x. \<not> ?E x) r"
    by auto
  from r'(2,3) have "r' = filter (\<lambda>x. \<not> ?E x) r"
    using filter_compl_eq [of ?E r'] by simp
  with r'(1) assms(2) show ?thesis by (simp add: purge_facts_def)
qed

text \<open>
  C32: the purge of exception facts always returns. For every resolved retention policy, every
  store, every reader of time stamps and every clock value, the loop that calls
  \<open>delete_violations_detected_before\<close> until a call removes fewer facts than the batch size ends,
  for the whole store and for one data object version alike.
\<close>

theorem purge_always_returns:
  assumes "resolve_exception_retention_policy c = Inr p \<or> resolve_data_object_retention_policy i opts = Inr p"
  shows "(\<exists>out. purge_repository_exception_facts
            (delete_violations_detected_before fromiso) isoformat p now r = Some out) \<and>
         (\<exists>out. purge_repository_exception_facts_for_data_object_version
            (delete_violations_detected_before fromiso) isoformat version_id p now r = Some out)"
proof -
  have "1 \<le> purge_batch_size p" using resolved_policy_bounds [OF assms] by simp
  note returns = purge_facts_returns [OF this, of fromiso isoformat now _ r]
  have "\<exists>out. purge_facts (delete_violations_detected_before fromiso) isoformat p now None r = Some out"
    by (rule returns)
  moreover have "\<exists>out. purge_repository_exception_facts_for_data_object_version
      (delete_violations_detected_before fromiso) isoformat version_id p now r = Some out"
  proof (cases "clean version_id")
    case (Some v)
    with returns [of "Some v"] show ?thesis
      by (simp add: purge_repository_exception_facts_for_data_object_version_def)
  qed (simp add: purge_repository_exception_facts_for_data_object_version_def)
  ultimately show ?thesis by (simp add: purge_repository_exception_facts_def)
qed

definition demo_fact :: "string \<Rightarrow> string \<Rightarrow> string \<Rightarrow> (string \<times> string) \<times> violation" where
  "demo_fact scope i w =
     ((scope, i),
      \<lparr>vid = i, dataObjectVersionId = scope, executionRunId = ''run-1'', violationRuleId = ''r1'',
       dataPrimaryKey = ''1'', violationReason = ''null'',
       opsMetadata = [(''reason_code'', PStr ''NULL''), (''reason_text'', PStr ''missing'')],
       detectedAt = w, violationCreatedAt = w, violationUpdatedAt = w\<rparr>)"

definition demo_facts :: fact_repo where
  "demo_facts = [demo_fact ''d1'' ''v1'' ''old'', demo_fact ''d2'' ''v2'' ''older'',
                 demo_fact ''d1'' ''v3'' ''new'', demo_fact ''d1'' ''v4'' ''old'']"

text \<open>A reader that knows the four stamps of the example.\<close>

definition demo_fromiso :: iso_reader where
  "demo_fromiso s =
     (if s = ''older'' then Some (Naive 10) else if s = ''old'' then Some (Aware 120 100)
      else if s = ''cutoff'' then Some (Aware day_us 0)
      else if s = ''new'' then Some (Naive (2 * day_us)) else None)"

definition demo_isoformat :: "int \<Rightarrow> string" where
  "demo_isoformat t = ''cutoff''"

definition demo_config :: retention_config where
  "demo_config = \<lparr>exceptionFactRetentionDays = 1, exceptionFactArchiveRetentionDays = 2,
     exceptionAnalyticsProjectionRetentionDays = 1, exceptionFactPurgeBatchSize = 2\<rparr>"

definition demo_policy :: retention_policy where
  "demo_policy = \<lparr>fact_retention_days = 1, archive_retention_days = 2,
     analytics_projection_retention_days = 1, purge_batch_size = 2\<rparr>"

lemma demo_policy_resolved: "resolve_exception_retention_policy demo_config = Inr demo_policy"
  by (simp add: resolve_exception_retention_policy_def build_exception_retention_policy_def
      demo_config_def demo_policy_def)

theorem purge_always_returns_witness:
  "\<exists>out. purge_repository_exception_facts (delete_violations_detected_before demo_fromiso)
     demo_isoformat demo_policy (Naive (2 * day_us)) demo_facts = Some out"
  using purge_always_returns [OF disjI1 [OF demo_policy_resolved]] by blast

text \<open>
  C24: the purge removes exactly the expired facts. When every stored stamp can be read and
  the printed cutoff reads back as itself, the purge returns the number of facts detected
  before the cutoff, and the store holds the other facts, in their order, whatever the batch
  size of the policy is.
\<close>

theorem purge_removes_exactly_the_expired:
  assumes "resolve_exception_retention_policy c = Inr p" and "fact_cutoff p now = Inr cutoff"
    and "parsed_cutoff fromiso (isoformat cutoff) cutoff" and "repo_ok fromiso r"
  shows "purge_repository_exception_facts (delete_violations_detected_before fromiso) isoformat p now r =
    Some (Inr (length (filter (\<lambda>x. is_expired fromiso cutoff None (snd x)) r)),
          filter (\<lambda>x. \<not> is_expired fromiso cutoff None (snd x)) r)"
proof -
  have "1 \<le> purge_batch_size p" using resolved_policy_bounds [OF disjI1 [OF assms(1)]] by simp
  from purge_facts_expired [where isoformat = isoformat and scope = None, OF this assms(2-4)] show ?thesis
    by (simp add: purge_repository_exception_facts_def clean_def or_none_def)
qed

lemma demo_parse:
  "parse_iso_datetime demo_fromiso (Some ''old'') = Inr (Some 20)"
  "parse_iso_datetime demo_fromiso (Some ''older'') = Inr (Some 10)"
  "parse_iso_datetime demo_fromiso (Some ''new'') = Inr (Some (2 * day_us))"
  "parse_iso_datetime demo_fromiso (Some ''cutoff'') = Inr (Some day_us)"
  by (simp_all add: parse_iso_datetime_def demo_fromiso_def replace_Z_def normalize_utc_def text_eval)

theorem purge_removes_exactly_the_expired_witness:
  "purge_repository_exception_facts (delete_violations_detected_before demo_fromiso) demo_isoformat
     demo_policy (Naive (2 * day_us)) demo_facts = Some (Inr 3, [demo_fact ''d1'' ''v3'' ''new''])"
proof -
  have "fact_cutoff demo_policy (Naive (2 * day_us)) = Inr day_us"
    by (simp add: fact_cutoff_def demo_policy_def minus_days_def normalize_utc_def day_us_def)
  moreover have "parsed_cutoff demo_fromiso (demo_isoformat day_us) day_us"
    by (simp add: parsed_cutoff_def demo_isoformat_def demo_parse)
  moreover have "repo_ok demo_fromiso demo_facts"
    by (simp add: repo_ok_def demo_facts_def demo_fact_def stamp_ok_def demo_parse)
  ultimately show ?thesis
    using purge_removes_exactly_the_expired [where isoformat = demo_isoformat, OF demo_policy_resolved]
    by (simp add: demo_facts_def demo_fact_def is_expired_def demo_parse in_purge_scope_def day_us_def)
qed

text \<open>
  Bounds of a resolved retention policy. Both resolvers accept only policies that keep
  facts at least one day, archives at least as long as facts, projections at least one day
  and purge at least one fact per call; the archive cutoff is never later than the fact
  cutoff, which is at least a day before now.
\<close>

theorem retention_policy_bounds:
  assumes "resolve_exception_retention_policy c = Inr p \<or> resolve_data_object_retention_policy i opts = Inr p"
  shows "1 \<le> fact_retention_days p \<and> fact_retention_days p \<le> archive_retention_days p \<and>
    1 \<le> analytics_projection_retention_days p \<and> 1 \<le> purge_batch_size p \<and>
    (archive_cutoff p now = Inr a \<longrightarrow>
      (\<exists>f. fact_cutoff p now = Inr f \<and> 0 \<le> a \<and> a \<le> f \<and> f + day_us \<le> normalize_utc now))"
proof -
  note bounds = resolved_policy_bounds [OF assms]
  then have "day_us \<le> fact_retention_days p * day_us"
    and "fact_retention_days p * day_us \<le> archive_retention_days p * day_us"
    by (simp_all add: day_us_def)
  with bounds show ?thesis
    by (auto simp: archive_cutoff_def fact_cutoff_def minus_days_def split: if_splits)
qed

theorem retention_policy_bounds_witness:
  "resolve_data_object_retention_policy ''v''
     (PDict [(''retention_policy'',
        PDict [(''exception_fact_retention_days'', PInt 1), (''exception_fact_archive_retention_days'', PStr ''2''),
               (''exception_analytics_projection_retention_days'', PInt 1),
               (''exception_fact_purge_batch_size'', PInt 2)])]) = Inr demo_policy \<and>
   (\<exists>f. fact_cutoff demo_policy (Naive (2 * day_us)) = Inr f \<and> 0 \<le> f)"
proof
  show res: "resolve_data_object_retention_policy ''v''
     (PDict [(''retention_policy'',
        PDict [(''exception_fact_retention_days'', PInt 1), (''exception_fact_archive_retention_days'', PStr ''2''),
               (''exception_analytics_projection_retention_days'', PInt 1),
               (''exception_fact_purge_batch_size'', PInt 2)])]) = Inr demo_policy"
    by (simp add: resolve_data_object_retention_policy_def pget_def dict_get_def require_positive_int_def
        json_int_def int_of_text_def unsigned_int_def is_digit_def read_digits_def text_eval
        build_exception_retention_policy_def demo_policy_def)
  have "archive_cutoff demo_policy (Naive (2 * day_us)) = Inr 0"
    by (simp add: archive_cutoff_def demo_policy_def minus_days_def normalize_utc_def)
  with retention_policy_bounds [OF disjI2 [OF res], of "Naive (2 * day_us)" 0]
  show "\<exists>f. fact_cutoff demo_policy (Naive (2 * day_us)) = Inr f \<and> 0 \<le> f"
    by auto
qed

section \<open>Properties of the summaries\<close>

lemma bump_sum: "sum_list (map snd (bump k d)) = Suc (sum_list (map snd d))"
  unfolding bump_def by (induction d) (auto simp: dict_get_def)

lemma bump_get: "dict_get (bump k d) k' 0 = dict_get d k' 0 + (if k = k' then 1 else 0)"
  by (auto simp: bump_def)

lemma bump_wf: "dict_wf d \<Longrightarrow> dict_wf (bump k d)"
  by (simp add: bump_def)

lemma dict_get_member: "dict_wf d \<Longrightarrow> (k, n) \<in> set d \<Longrightarrow> dict_get d k 0 = n"
  by (simp add: dict_get_def)

definition selected :: "string list \<Rightarrow> violation \<Rightarrow> bool" where
  "selected codes v \<longleftrightarrow> codes = [] \<or> ops_text v ''reason_code'' \<in> set codes"

definition dated :: "iso_reader \<Rightarrow> violation \<Rightarrow> bool" where
  "dated fromiso v \<longleftrightarrow>
     (case parse_iso_datetime fromiso (Some (detectedAt v)) of Inr (Some _) \<Rightarrow> True | _ \<Rightarrow> False)"

abbreviation "how_many P xs \<equiv> length (filter P xs)"

lemma count_trend_frame [simp]:
  "t_reasons (count_trend isof b d v t) = t_reasons t" "t_rules (count_trend isof b d v t) = t_rules t"
  by (simp_all add: count_trend_def Let_def split: option.split)

lemma count_fact_frame [simp]:
  "t_reasons (count_fact v t) = bump (ops_text v ''reason_code'', ops_text v ''reason_text'') (t_reasons t)"
  "t_rules (count_fact v t) =
     (if strip (violationRuleId v) = [] then t_rules t else bump (strip (violationRuleId v)) (t_rules t))"
  "t_trend (count_fact v t) = t_trend t"
  by (simp_all add: count_fact_def Let_def)

lemma count_trend_sum:
  "sum_list (map snd (t_trend (count_trend isof (Some b) d v t))) =
     sum_list (map snd (t_trend t)) + (if d = None then 0 else 1)"
  by (cases b) (simp add: count_trend_def Let_def bump_sum split: option.split)

lemma count_facts_totals:
  assumes "count_facts fromiso isof b codes rows t = Inr t'"
  shows "sum_list (map snd (t_reasons t')) = sum_list (map snd (t_reasons t)) + how_many (selected codes) rows"
    and "rule \<noteq> [] \<Longrightarrow> dict_get (t_rules t') rule 0 = dict_get (t_rules t) rule 0 +
           how_many (\<lambda>v. selected codes v \<and> strip (violationRuleId v) = rule) rows"
    and "dict_wf (t_rules t) \<Longrightarrow> dict_wf (t_rules t')"
    and "[] \<notin> fst ` set (t_rules t) \<Longrightarrow> [] \<notin> fst ` set (t_rules t')"
  using assms
proof (induction fromiso isof b codes rows t rule: count_facts.induct)
  case (2 fromiso isof b codes v vs t)
  {
    case 1
    with 2 show ?case by (auto simp: selected_def bump_sum split: if_splits sum.splits)
  next
    case 2
    with "2.IH" show ?case by (auto simp: selected_def bump_get split: if_splits sum.splits)
  next
    case 3
    with "2.IH" show ?case by (auto simp: bump_wf split: if_splits sum.splits)
  next
    case 4
    with "2.IH" show ?case by (auto simp: bump_def split: if_splits sum.splits)
  }
qed auto

lemma count_facts_trend:
  assumes "count_facts fromiso isof (Some b) codes rows t = Inr t'"
  shows "sum_list (map snd (t_trend t')) =
    sum_list (map snd (t_trend t)) + how_many (\<lambda>v. selected codes v \<and> dated fromiso v) rows"
  using assms
proof (induction fromiso isof "Some b" codes rows t rule: count_facts.induct)
  case (2 fromiso isof codes v vs t)
  then show ?case
    by (auto simp: selected_def dated_def count_trend_sum split: if_splits sum.splits option.splits)
qed simp

text \<open>The rows of the two readers, for stores whose stamps can be read.\<close>

definition read_time :: "iso_reader \<Rightarrow> violation \<Rightarrow> int option" where
  "read_time fromiso v = (case parse_iso_datetime fromiso (Some (detectedAt v)) of Inr d \<Rightarrow> d | Inl _ \<Rightarrow> None)"

lemma read_time_Inr: "parse_iso_datetime fromiso (Some (detectedAt v)) = Inr d \<Longrightarrow> read_time fromiso v = d"
  by (simp add: read_time_def)

definition window_rows ::
  "iso_reader \<Rightarrow> string list \<Rightarrow> string list \<Rightarrow> int option \<Rightarrow> int option \<Rightarrow> fact_repo \<Rightarrow> violation list" where
  "window_rows fromiso scopes runs lo hi r =
     map snd (filter (\<lambda>((scope, _), v). scope \<in> set scopes \<and> strip (executionRunId v) \<in> set runs \<and>
       in_window lo hi (read_time fromiso v)) r)"

lemma rows_in_window_eq:
  "rows_in_window fromiso scopes runs lo hi r = Inr rows \<Longrightarrow> rows = window_rows fromiso scopes runs lo hi r"
  by (induction fromiso scopes runs lo hi r arbitrary: rows rule: rows_in_window.induct)
    (auto simp: window_rows_def read_time_Inr split: if_splits sum.splits)

lemma filter_rows_eq:
  "filter_rows fromiso sha q lo hi rs = Inr rows \<Longrightarrow>
     rows = filter (\<lambda>v. matches_query q v \<and> in_window lo hi (read_time fromiso v) \<and> in_stripe sha q v) rs"
  by (induction rs arbitrary: rows) (auto simp: read_time_Inr split: if_splits sum.splits)

lemma filter_rows_defined:
  "isl (filter_rows fromiso sha q lo hi rs) \<longleftrightarrow> list_ex (\<lambda>v. \<not> stamp_ok fromiso (detectedAt v)) rs"
  by (induction rs) (auto simp: stamp_ok_def split: sum.splits)

lemma set_top_five: "set (top_five d) \<subseteq> set d"
  unfolding top_five_def using set_take_subset by fastforce

lemma sum_list_insort: "sum_list (map f (insort_key k x xs)) = f x + (sum_list (map f xs) :: nat)"
  by (induction xs) simp_all

lemma sum_list_sort_key: "sum_list (map f (sort_key k xs)) = (sum_list (map f xs) :: nat)"
  by (induction xs) (simp_all add: sum_list_insort)

text \<open>
  A summary counts every fact. Over the facts of the chosen versions and runs in the
  time window, the total is the number of facts with a selected reason, each of the at most
  five listed rules carries its exact number of facts, and, when buckets are requested, the
  trend totals add up to the number of those facts that carry a time.
\<close>

theorem summary_counts_every_fact:
  fixes q r defines "codes \<equiv> normalized_codes (s_codes q)"
  assumes "summarize_violations fromiso isof q r = Inr s"
    and "normalized_codes (s_scopes q) \<noteq> []" and "normalized_codes (s_runs q) \<noteq> []"
    and "parse_iso_datetime fromiso (s_detected_after q) = Inr lo"
    and "parse_iso_datetime fromiso (s_detected_before q) = Inr hi"
    and "parse_iso_datetime fromiso (s_bucket_origin q) = Inr origin"
    and "rows = window_rows fromiso (normalized_codes (s_scopes q)) (normalized_codes (s_runs q)) lo hi r"
  shows "total_failed_records s = how_many (selected codes) rows \<and>
    length (rule_totals s) \<le> 5 \<and>
    ((rule, n) \<in> set (rule_totals s) \<longrightarrow>
       n = how_many (\<lambda>v. selected codes v \<and> strip (violationRuleId v) = rule) rows) \<and>
    (requested_buckets origin (s_bucket_size q) (s_bucket_count q) \<noteq> None \<longrightarrow>
       sum_list (map snd (trend_totals s)) = how_many (\<lambda>v. selected codes v \<and> dated fromiso v) rows)"
proof -
  obtain t where t: "count_facts fromiso isof (requested_buckets origin (s_bucket_size q) (s_bucket_count q))
      codes rows no_totals = Inr t" and s: "s = summary_of t"
    using assms by (auto simp: summarize_violations_def Let_def split: sum.splits dest!: rows_in_window_eq)
  note counts = count_facts_totals [OF t]
  have wf: "dict_wf (t_rules t)" and nonempty: "[] \<notin> fst ` set (t_rules t)"
    using counts(3,4) by (simp_all add: no_totals_def)
  have "n = how_many (\<lambda>v. selected codes v \<and> strip (violationRuleId v) = rule) rows"
    if "(rule, n) \<in> set (rule_totals s)"
  proof -
    have mem: "(rule, n) \<in> set (t_rules t)"
      using that set_top_five by (auto simp: s summary_of_def)
    then have "rule \<noteq> []" using nonempty by force
    with counts(2) dict_get_member [OF wf mem] show ?thesis
      by (simp add: no_totals_def dict_get_def)
  qed
  moreover have "sum_list (map snd (trend_totals s)) = how_many (\<lambda>v. selected codes v \<and> dated fromiso v) rows"
    if "requested_buckets origin (s_bucket_size q) (s_bucket_count q) \<noteq> None"
  proof -
    from that obtain b where "requested_buckets origin (s_bucket_size q) (s_bucket_count q) = Some b" by blast
    with t count_facts_trend [of fromiso isof b codes rows no_totals t] show ?thesis
      by (simp add: s summary_of_def sum_list_sort_key no_totals_def)
  qed
  ultimately show ?thesis
    using counts(1) by (auto simp: s summary_of_def top_five_def no_totals_def)
qed

definition demo_summary_query :: summary_query where
  "demo_summary_query = \<lparr>s_scopes = [''d1''], s_runs = ['' run-1 ''], s_codes = [], s_detected_after = None,
     s_detected_before = Some ''cutoff'', s_bucket_origin = Some ''older'', s_bucket_size = Some 60,
     s_bucket_count = Some 3\<rparr>"

theorem summary_counts_every_fact_witness:
  "\<exists>s. summarize_violations demo_fromiso demo_isoformat demo_summary_query demo_facts = Inr s \<and>
       total_failed_records s = 2 \<and> sum_list (map snd (trend_totals s)) = 2"
proof -
  note eval = demo_summary_query_def normalized_codes_def demo_facts_def demo_fact_def demo_parse
    pget_def dict_get_def text_eval
  obtain s where s: "summarize_violations demo_fromiso demo_isoformat demo_summary_query demo_facts = Inr s"
    by (simp add: summarize_violations_def requested_buckets_def in_window_def eval day_us_def
        parse_iso_datetime_def [of _ None])
  moreover have "parse_iso_datetime demo_fromiso (s_detected_after demo_summary_query) = Inr None"
    "parse_iso_datetime demo_fromiso (s_detected_before demo_summary_query) = Inr (Some day_us)"
    "parse_iso_datetime demo_fromiso (s_bucket_origin demo_summary_query) = Inr (Some 10)"
    by (simp_all add: demo_summary_query_def demo_parse parse_iso_datetime_def [of _ None])
  moreover have "normalized_codes (s_scopes demo_summary_query) \<noteq> []"
    "normalized_codes (s_runs demo_summary_query) \<noteq> []"
    by (simp_all add: eval)
  ultimately show ?thesis
    using summary_counts_every_fact [of demo_fromiso demo_isoformat demo_summary_query demo_facts s
        None "Some day_us" "Some 10" _ "[]" 0]
    by (auto simp: window_rows_def read_time_def in_window_def day_us_def selected_def dated_def
        requested_buckets_def eval)
qed

section \<open>Stripes\<close>

text \<open>The number of facts a listing finds for one stripe out of \<open>n\<close>.\<close>

definition stripe_total ::
  "iso_reader \<Rightarrow> (string \<Rightarrow> string) \<Rightarrow> string \<Rightarrow> violation_query \<Rightarrow> fact_repo \<Rightarrow> int \<Rightarrow> int \<Rightarrow> nat" where
  "stripe_total fromiso sha256 scope q r n i =
     (case list_violations fromiso sha256 scope (q\<lparr>q_hash_stripe := Some i, q_hash_stripe_count := Some n\<rparr>) r of
        Inr (_, total_rows) \<Rightarrow> total_rows
      | Inl _ \<Rightarrow> 0)"

definition stripe_of :: "(string \<Rightarrow> string) \<Rightarrow> int \<Rightarrow> violation \<Rightarrow> int" where
  "stripe_of sha256 n v =
     hash_stripe_of sha256
       (let t = ops_text v ''record_identifier_value'' in if t = [] then vid v else t) (max n 1)"

lemma stripe_of_bounds: "0 < n \<Longrightarrow> stripe_of sha n v \<in> {0..<n}"
  by (simp add: stripe_of_def hash_stripe_of_def)

lemma in_stripe_simps:
  "in_stripe sha (q\<lparr>q_hash_stripe := Some i, q_hash_stripe_count := Some n\<rparr>) v \<longleftrightarrow> stripe_of sha n v = i"
  "in_stripe sha (q\<lparr>q_hash_stripe := None\<rparr>) v"
  by (simp_all add: in_stripe_def stripe_of_def Let_def)

lemma query_frame:
  "matches_query (q\<lparr>q_hash_stripe := a, q_hash_stripe_count := b\<rparr>) = matches_query q"
  "matches_query (q\<lparr>q_hash_stripe := a\<rparr>) = matches_query q"
  "rows_in_scope scope (q\<lparr>q_hash_stripe := a, q_hash_stripe_count := b\<rparr>) r = rows_in_scope scope q r"
  "rows_in_scope scope (q\<lparr>q_hash_stripe := a\<rparr>) r = rows_in_scope scope q r"
  by (simp_all add: matches_query_def rows_in_scope_def fun_eq_iff)

lemma sum_over_classes:
  assumes "finite S" and "\<And>x. x \<in> set xs \<Longrightarrow> f x \<in> S"
  shows "(\<Sum>i\<in>S. length (filter (\<lambda>x. f x = i) xs)) = length xs"
  using assms(2)
proof (induction xs)
  case (Cons x xs)
  have "(\<Sum>i\<in>S. length (filter (\<lambda>y. f y = i) (x # xs))) =
      (\<Sum>i\<in>S. (if f x = i then 1 else 0) + length (filter (\<lambda>y. f y = i) xs))"
    by (intro sum.cong) auto
  also have "\<dots> = 1 + length xs"
    using Cons assms(1) by (simp add: sum.distrib sum.delta)
  finally show ?case by simp
qed simp

lemma stripe_total_eq:
  assumes "list_violations fromiso sha scope (q\<lparr>q_hash_stripe := None\<rparr>) r = Inr (rows, total_rows)"
  shows "\<exists>found. length found = total_rows \<and>
    (\<forall>i. stripe_total fromiso sha scope q r n i = length (filter (\<lambda>v. stripe_of sha n v = i) found))"
proof -
  obtain lo hi where lo: "parse_iso_datetime fromiso (q_detected_after q) = Inr lo"
    and hi: "parse_iso_datetime fromiso (q_detected_before q) = Inr hi"
    using assms by (auto simp: list_violations_def split: sum.splits)
  let ?rs = "rows_in_scope scope q r"
  let ?found = "filter (\<lambda>v. matches_query q v \<and> in_window lo hi (read_time fromiso v)) ?rs"
  obtain fs where fs: "filter_rows fromiso sha (q\<lparr>q_hash_stripe := None\<rparr>) lo hi ?rs = Inr fs"
    and len: "total_rows = length fs"
    using assms lo hi by (auto simp: list_violations_def Let_def query_frame split: sum.splits)
  from filter_rows_eq [OF fs] len have "length ?found = total_rows"
    by (simp add: query_frame in_stripe_simps)
  moreover have "stripe_total fromiso sha scope q r n i = length (filter (\<lambda>v. stripe_of sha n v = i) ?found)" for i
  proof -
    let ?q = "q\<lparr>q_hash_stripe := Some i, q_hash_stripe_count := Some n\<rparr>"
    have "\<not> isl (filter_rows fromiso sha ?q lo hi ?rs)"
      using fs by (metis filter_rows_defined sum.disc(2))
    then obtain gs where gs: "filter_rows fromiso sha ?q lo hi ?rs = Inr gs"
      by (cases "filter_rows fromiso sha ?q lo hi ?rs") auto
    have "gs = filter (\<lambda>v. stripe_of sha n v = i) ?found"
      using filter_rows_eq [OF gs] by (simp add: query_frame in_stripe_simps conj_ac)
    with gs lo hi show ?thesis
      by (simp add: stripe_total_def list_violations_def query_frame Let_def)
  qed
  ultimately show ?thesis by blast
qed

text \<open>
  The hash stripes partition a listing. For every digest function and every positive
  number of stripes, listing each stripe of a query finds every fact of the query exactly
  once: the totals of the stripes \<open>0\<close> to \<open>n - 1\<close> add up to the total of the query.
\<close>

theorem stripes_partition_the_listing:
  assumes "list_violations fromiso sha256 scope (q\<lparr>q_hash_stripe := None\<rparr>) r = Inr (rows, total_rows)"
    and "0 < n"
  shows "(\<Sum>i\<in>{0..<n}. stripe_total fromiso sha256 scope q r n i) = total_rows"
proof -
  from stripe_total_eq [OF assms(1), of n] obtain found where found: "length found = total_rows"
    "\<And>i. stripe_total fromiso sha256 scope q r n i = length (filter (\<lambda>v. stripe_of sha256 n v = i) found)"
    by blast
  have "(\<Sum>i\<in>{0..<n}. length (filter (\<lambda>v. stripe_of sha256 n v = i) found)) = length found"
    using stripe_of_bounds [OF assms(2)] by (intro sum_over_classes) auto
  with found show ?thesis by simp
qed

definition demo_query :: violation_query where
  "demo_query = \<lparr>q_execution_run_id = None, q_rule_id = None, q_reason_codes = [], q_failure_class = None,
     q_record_identifier_type = None, q_record_identifier_value_contains = None, q_search = None,
     q_detected_after = None, q_detected_before = Some ''cutoff'', q_hash_stripe = None,
     q_hash_stripe_count = None, q_limit = 10, q_offset = 0\<rparr>"

theorem stripes_partition_the_listing_witness:
  "(\<Sum>i\<in>{0..<7}. stripe_total demo_fromiso (\<lambda>s. s) ''d1'' demo_query demo_facts 7 i) = 2"
proof -
  have "demo_query\<lparr>q_hash_stripe := None\<rparr> = demo_query" by (simp add: demo_query_def)
  moreover have "\<exists>rows. list_violations demo_fromiso (\<lambda>s. s) ''d1'' demo_query demo_facts = Inr (rows, 2)"
    by (simp add: list_violations_def rows_in_scope_def demo_query_def demo_facts_def demo_fact_def demo_parse
        parse_iso_datetime_def [of _ None] matches_query_def normalized_codes_def clean_def lower_clean_def
        or_none_def in_window_def in_stripe_def day_us_def)
  ultimately show ?thesis
    using stripes_partition_the_listing [of demo_fromiso "\<lambda>s. s" "''d1''" demo_query demo_facts _ 2 7] by auto
qed

end
