(* ===== verification/Rule_Expressions.thy ===== *)
theory Rule_Expressions
  imports DQ_Prelude
begin

text \<open>
  Checks on the expressions of a rule (\<^verbatim>\<open>application/services/rule_expression.py\<close>):
  the filter expression scanner and the normalisation of join definitions.

  Filter expressions are Latin-1 text. Upper case is only compared with the letters of
  \<open>AND\<close> and \<open>OR\<close>, so the two Latin-1 letters whose upper case lies outside Latin-1 stay as
  they are; like their upper case they are word characters. \<open>json.loads\<close> and \<open>json.dumps\<close>
  are arguments of the normalisation.
\<close>


section \<open>Filter expressions\<close>

datatype filter_problem =
    ExpressionRequired
  | Semicolon
  | CommentMarker
  | ClosingWithoutOpening
  | UnclosedSingleQuote
  | UnclosedDoubleQuote
  | UnbalancedParentheses
  | StartsWithOperator
  | EndsWithOperator
  | ConsecutiveOperators

abbreviation single_quote :: char where
  "single_quote \<equiv> CHR 0x27"

abbreviation double_quote :: char where
  "double_quote \<equiv> CHR 0x22"

text \<open>The next character is the given one.\<close>

definition next_is :: "char \<Rightarrow> string \<Rightarrow> bool" where
  "next_is q cs \<longleftrightarrow> (case cs of [] \<Rightarrow> False | c # _ \<Rightarrow> c = q)"

text \<open>
  The loop over the characters with its three variables \<open>paren_depth\<close>, \<open>in_single_quote\<close>
  and \<open>in_double_quote\<close>, and the checks on them after the loop.
\<close>

fun scan_filter :: "nat \<Rightarrow> bool \<Rightarrow> bool \<Rightarrow> string \<Rightarrow> filter_problem option" where
  "scan_filter depth in_single in_double [] =
     (if in_single then Some UnclosedSingleQuote
      else if in_double then Some UnclosedDoubleQuote
      else if depth \<noteq> 0 then Some UnbalancedParentheses
      else None)"
| "scan_filter depth in_single in_double (c # cs) =
     (if in_single then
        (if c = single_quote \<and> next_is single_quote cs then scan_filter depth True in_double cs
         else if c = single_quote then scan_filter depth False in_double cs
         else scan_filter depth True in_double cs)
      else if in_double then
        (if c = double_quote \<and> next_is double_quote cs then scan_filter depth False True cs
         else if c = double_quote then scan_filter depth False False cs
         else scan_filter depth False True cs)
      else if c = single_quote then scan_filter depth True False cs
      else if c = double_quote then scan_filter depth False True cs
      else if c = CHR ''('' then scan_filter (Suc depth) False False cs
      else if c = CHR '')'' then
        (if depth = 0 then Some ClosingWithoutOpening else scan_filter (depth - 1) False False cs)
      else scan_filter depth False False cs)"

definition starts_with_word :: "string \<Rightarrow> string \<Rightarrow> bool" where
  "starts_with_word w s \<longleftrightarrow>
     starts_with w s \<and> (case drop (length w) s of [] \<Rightarrow> True | c # _ \<Rightarrow> \<not> word_char c)"

definition ends_with_word :: "string \<Rightarrow> string \<Rightarrow> bool" where
  "ends_with_word w s \<longleftrightarrow> starts_with_word (rev w) (rev s)"

definition validate_filter_expression :: "string option \<Rightarrow> filter_problem option" where
  "validate_filter_expression raw =
     (let expression = strip (text_of raw)
      in if expression = [] then Some ExpressionRequired
         else if CHR '';'' \<in> set expression then Some Semicolon
         else if contains ''--'' expression \<or> contains ''/*'' expression \<or> contains ''*/'' expression
           then Some CommentMarker
         else (case scan_filter 0 False False expression of
                 Some p \<Rightarrow> Some p
               | None \<Rightarrow>
                   (let u = upper expression
                    in if starts_with_word ''AND'' u \<or> starts_with_word ''OR'' u then Some StartsWithOperator
                       else if ends_with_word ''AND'' u \<or> ends_with_word ''OR'' u then Some EndsWithOperator
                       else if contains ''AND AND'' u \<or> contains ''AND OR'' u then Some ConsecutiveOperators
                       else if contains ''OR OR'' u \<or> contains ''OR AND'' u then Some ConsecutiveOperators
                       else None)))"


section \<open>What the scanner accepts\<close>

text \<open>
  The reference: an expression is read as code and quoted runs, a run ending at the first
  quote that is not followed by another one; what remains must be a word of the bracket
  grammar once everything but parentheses is dropped.
\<close>

inductive balanced :: "string \<Rightarrow> bool" where
  balanced_Nil: "balanced []"
| balanced_nest: "balanced u \<Longrightarrow> balanced v \<Longrightarrow> balanced (CHR ''('' # u @ CHR '')'' # v)"

fun skip_run :: "char \<Rightarrow> string \<Rightarrow> string option" where
  "skip_run q [] = None"
| "skip_run q (c # cs) = (if c = q \<and> \<not> next_is q cs then Some cs else skip_run q cs)"

lemma skip_run_length: "skip_run q cs = Some rest \<Longrightarrow> length rest < length cs"
  by (induction cs) (auto split: if_splits)

function brackets_outside :: "string \<Rightarrow> string option" where
  "brackets_outside [] = Some []"
| "brackets_outside (c # cs) =
     (if c = single_quote \<or> c = double_quote
      then (case skip_run c cs of None \<Rightarrow> None | Some rest \<Rightarrow> brackets_outside rest)
      else if c = CHR ''('' \<or> c = CHR '')'' then map_option (Cons c) (brackets_outside cs)
      else brackets_outside cs)"
  by pat_completeness auto
termination
  by (relation "measure length") (auto dest: skip_run_length)

text \<open>Counting depth along a bracket word.\<close>

fun closes :: "nat \<Rightarrow> string \<Rightarrow> bool" where
  "closes d [] = (d = 0)"
| "closes d (c # cs) =
     (if c = CHR ''('' then closes (Suc d) cs
      else if c = CHR '')'' then d \<noteq> 0 \<and> closes (d - 1) cs
      else False)"

lemma closes_append: "closes d u \<Longrightarrow> closes e v \<Longrightarrow> closes (d + e) (u @ v)"
  by (induction d u rule: closes.induct) (auto split: if_splits)

lemma balanced_closes: "balanced w \<Longrightarrow> closes 0 w"
proof (induction rule: balanced.induct)
  case (balanced_nest u v)
  from closes_append [OF balanced_nest.IH(1), of 1 "CHR '')'' # v"] balanced_nest.IH(2) show ?case
    by simp
qed simp

text \<open>A word that closes depth \<open>d\<close> is \<open>d + 1\<close> balanced words, one bracket between two.\<close>

lemma closes_split:
  assumes "closes d w" and "0 < d"
  shows "\<exists>u v. w = u @ CHR '')'' # v \<and> closes 0 u \<and> closes (d - 1) v"
  using assms
proof (induction "length w" arbitrary: d w rule: less_induct)
  case less
  then obtain c cs where w: "w = c # cs" by (cases w) auto
  show ?case
  proof (cases "c = CHR ''(''")
    case True
    with less.prems w have "closes (Suc d) cs" by simp
    with less.hyps [of cs "Suc d"] w obtain u v where uv: "cs = u @ CHR '')'' # v" "closes 0 u" "closes d v"
      by auto
    with less.hyps [of v d] less.prems(2) w obtain u' v' where
      uv': "v = u' @ CHR '')'' # v'" "closes 0 u'" "closes (d - 1) v'"
      by auto
    have "closes 0 (CHR ''('' # u @ CHR '')'' # u')"
      using closes_append [OF uv(2), of 1 "CHR '')'' # u'"] uv'(2) by simp
    with uv uv' w True show ?thesis
      by (intro exI [of _ "CHR ''('' # u @ CHR '')'' # u'"] exI [of _ v']) simp
  next
    case False
    with less.prems w show ?thesis
      by (intro exI [of _ "[]"] exI [of _ cs]) (auto split: if_splits)
  qed
qed

lemma closes_balanced: "closes 0 w \<Longrightarrow> balanced w"
proof (induction "length w" arbitrary: w rule: less_induct)
  case less
  show ?case
  proof (cases w)
    case Nil
    then show ?thesis by (simp add: balanced_Nil)
  next
    case (Cons c cs)
    with less.prems have c: "c = CHR ''(''" and "closes 1 cs" by (auto split: if_splits)
    then obtain u v where uv: "cs = u @ CHR '')'' # v" "closes 0 u" "closes 0 v"
      using closes_split [of 1 cs] by auto
    with less.hyps Cons have "balanced u" "balanced v" by simp_all
    with Cons c uv show ?thesis by (simp add: balanced_nest)
  qed
qed

lemma balanced_iff_closes: "balanced w \<longleftrightarrow> closes 0 w"
  using balanced_closes closes_balanced by blast

text \<open>The scanner inside a quoted run goes on after the run.\<close>

lemma scan_single_run:
  "scan_filter d True False cs =
     (case skip_run single_quote cs of None \<Rightarrow> Some UnclosedSingleQuote | Some rest \<Rightarrow> scan_filter d False False rest)"
  by (induction cs) auto

lemma scan_double_run:
  "scan_filter d False True cs =
     (case skip_run double_quote cs of None \<Rightarrow> Some UnclosedDoubleQuote | Some rest \<Rightarrow> scan_filter d False False rest)"
  by (induction cs) auto

lemma scan_accepts_iff:
  "scan_filter d False False cs = None \<longleftrightarrow> (\<exists>w. brackets_outside cs = Some w \<and> closes d w)"
proof (induction cs arbitrary: d rule: brackets_outside.induct)
  case (2 c cs)
  then show ?case
    by (auto simp: scan_single_run scan_double_run split: option.splits)
qed simp

text \<open>
  C33: the quote and parenthesis scan of a filter expression accepts exactly the expressions
  whose quoted runs are all closed and whose parentheses outside of them form a word of the
  bracket grammar. The single pass with a depth counter decides the grammar.
\<close>

theorem filter_scan_decides_brackets:
  "scan_filter 0 False False e = None \<longleftrightarrow> (\<exists>w. brackets_outside e = Some w \<and> balanced w)"
  by (simp add: scan_accepts_iff balanced_iff_closes)


section \<open>Escaped quotes\<close>

text \<open>
  Inside a literal the loop skips the first quote of a doubled quote and then meets the
  second one, which it takes for the end of the literal.
\<close>

lemma skip_run_clean: "q \<notin> set u \<Longrightarrow> skip_run q (u @ rest) = skip_run q rest"
  by (induction u) auto

lemma skip_run_doubled:
  "q \<notin> set u \<Longrightarrow> v \<noteq> [] \<Longrightarrow> hd v \<noteq> q \<Longrightarrow> skip_run q (u @ q # q # v) = Some v"
  by (cases v) (auto simp: skip_run_clean next_is_def)

lemma skip_run_none: "q \<notin> set u \<Longrightarrow> skip_run q u = None"
  by (induction u) auto

lemma scan_open_single:
  assumes "single_quote \<notin> set u" and "single_quote \<notin> set v" and "v \<noteq> []" and "single_quote \<notin> set w"
    and "double_quote \<notin> set v"
  shows "scan_filter d False False (single_quote # u @ single_quote # single_quote # v @ single_quote # w) \<noteq> None"
proof -
  have scan_plain: "scan_filter d False False (v' @ single_quote # w) \<noteq> None"
    if "single_quote \<notin> set v'" "double_quote \<notin> set v'" for d v'
    using that
  proof (induction v' arbitrary: d)
    case Nil
    then show ?case using assms(4) by (simp add: scan_single_run skip_run_none)
  qed auto
  have "skip_run single_quote (u @ single_quote # single_quote # v @ single_quote # w) = Some (v @ single_quote # w)"
    using assms by (intro skip_run_doubled) (auto simp: hd_append dest: hd_in_set)
  then show ?thesis
    using scan_plain [OF assms(2,5)] by (simp add: scan_single_run)
qed

lemma dropWhile_until: "\<not> P x \<Longrightarrow> dropWhile P (a @ x # t) = dropWhile P a @ x # t"
  by (induction a) auto

lemma strip_around:
  assumes "\<not> is_space x" and "\<not> is_space y"
  shows "strip (a @ x # m @ y # b) = dropWhile is_space a @ x # m @ y # rev (dropWhile is_space (rev b))"
proof -
  have "rev (dropWhile is_space a @ x # m @ y # b) = rev b @ y # rev m @ x # rev (dropWhile is_space a)"
    by simp
  then show ?thesis
    using assms by (simp add: strip_def dropWhile_until)
qed

lemma scan_prefix:
  assumes "\<And>d. scan_filter d False False t \<noteq> None" and "single_quote \<notin> set a" and "double_quote \<notin> set a"
  shows "scan_filter d False False (a @ t) \<noteq> None"
  using assms(2,3) by (induction a arbitrary: d) (auto simp: assms(1) simp del: not_None_eq)

text \<open>
  Every filter expression with one escaped quote in its only string literal is rejected.
  The expression \<open>name = 'it''s'\<close>, an escaped quote in SQL, has the shape \<open>pre ' u '' v ' post\<close>; the
  scan reports an unclosed quote, or an earlier problem, whatever the parts are.
\<close>

theorem escaped_quote_is_rejected:
  assumes "list_all (\<lambda>s. single_quote \<notin> set s \<and> double_quote \<notin> set s) [pre, u, v, post]" and "v \<noteq> []"
  shows "validate_filter_expression
    (Some (pre @ single_quote # u @ single_quote # single_quote # v @ single_quote # post)) \<noteq> None"
proof -
  let ?a = "dropWhile is_space pre" and ?w = "rev (dropWhile is_space (rev post))"
  have space: "\<not> is_space single_quote" by (simp add: is_space_def)
  have sub: "set ?a \<subseteq> set pre" "set ?w \<subseteq> set post"
    by (auto dest: set_dropWhileD)
  have strip: "strip (pre @ single_quote # u @ single_quote # single_quote # v @ single_quote # post) =
      ?a @ single_quote # u @ single_quote # single_quote # v @ single_quote # ?w"
    using strip_around [OF space space, of pre "u @ single_quote # single_quote # v" post] by simp
  have "scan_filter 0 False False (?a @ single_quote # u @ single_quote # single_quote # v @ single_quote # ?w) \<noteq> None"
    by (rule scan_prefix, rule scan_open_single) (use assms sub in auto)
  then show ?thesis
    by (auto simp: validate_filter_expression_def Let_def strip split: option.splits simp del: not_None_eq)
qed

theorem escaped_quote_is_rejected_witness:
  "validate_filter_expression (Some (''name = '' @ quoted (''it'' @ quoted [] @ ''s''))) \<noteq> None"
  using escaped_quote_is_rejected [of "''name = ''" "''it''" "''s''" "[]"] by (simp add: quoted_def text_eval)

text \<open>
  The check for consecutive operators looks for the texts \<open>AND AND\<close>, \<open>AND OR\<close>, \<open>OR OR\<close>
  and \<open>OR AND\<close> anywhere. A comparison with the literal \<open>'Grand Order'\<close> is rejected for
  consecutive operators, and two operators with two blanks between them pass all checks.
\<close>

theorem consecutive_operator_check_is_textual:
  "validate_filter_expression (Some (''name = '' @ quoted ''Grand Order'')) = Some ConsecutiveOperators \<and>
   validate_filter_expression (Some ''a = 1 AND  OR b = 2'') = None"
  by (simp add: validate_filter_expression_def quoted_def next_is_def starts_with_def upper_def upper_char_def
      starts_with_word_def ends_with_word_def word_char_def text_eval)


section \<open>Join definitions\<close>

datatype join_problem =
    JoinRequired
  | JoinInvalidJson
  | JoinNoCondition
  | JoinNotObjectOrArray
  | JoinEntryNotObject
  | JoinConditionNotObject
  | JoinFieldRequired string
  | JoinOperatorUnknown

definition join_operators :: "string list" where
  "join_operators = [''='', ''!='', ''>'', ''>='', ''<'', ''<='']"

definition join_required_keys :: "string list" where
  "join_required_keys = [''leftDataObjectId'', ''leftAttributeId'', ''rightDataObjectId'', ''rightAttributeId'']"

definition check_join_condition :: "json \<Rightarrow> join_problem option" where
  "check_join_condition condition =
     (case condition of
        PDict c \<Rightarrow>
          (case find (\<lambda>key. json_text (pget c key) = []) join_required_keys of
             Some key \<Rightarrow> Some (JoinFieldRequired key)
           | None \<Rightarrow>
               if json_text (pget c ''operator'') \<in> set join_operators then None else Some JoinOperatorUnknown)
      | _ \<Rightarrow> Some JoinConditionNotObject)"

text \<open>The first problem of a list of checks.\<close>

fun first_problem :: "('a \<Rightarrow> 'p option) \<Rightarrow> 'a list \<Rightarrow> 'p option" where
  "first_problem check [] = None"
| "first_problem check (x # xs) = (case check x of Some p \<Rightarrow> Some p | None \<Rightarrow> first_problem check xs)"

definition check_join_entry :: "json \<Rightarrow> join_problem option" where
  "check_join_entry definition_value =
     (case definition_value of
        PDict d \<Rightarrow>
          (case pget d ''conditions'' of
             PList conditions \<Rightarrow>
               if conditions = [] then Some JoinNoCondition else first_problem check_join_condition conditions
           | _ \<Rightarrow> Some JoinNoCondition)
      | _ \<Rightarrow> Some JoinEntryNotObject)"

text \<open>The argument is \<open>None\<close>, a text or an already parsed value.\<close>

definition normalize_join_definition ::
  "(string \<Rightarrow> json option) \<Rightarrow> (json \<Rightarrow> string) \<Rightarrow> json \<Rightarrow> join_problem + string" where
  "normalize_join_definition loads dumps join_definition =
     (case (case join_definition of
              PNone \<Rightarrow> Inl JoinRequired
            | PStr s \<Rightarrow>
                (if strip s = [] then Inl JoinRequired
                 else case loads (strip s) of None \<Rightarrow> Inl JoinInvalidJson | Some p \<Rightarrow> Inr p)
            | p \<Rightarrow> Inr p) of
        Inl e \<Rightarrow> Inl e
      | Inr parsed \<Rightarrow>
          (case (case parsed of
                   PList ds \<Rightarrow> if ds = [] then Inl JoinNoCondition else Inr ds
                 | PDict d \<Rightarrow> Inr [parsed]
                 | _ \<Rightarrow> Inl JoinNotObjectOrArray) of
             Inl e \<Rightarrow> Inl e
           | Inr definitions \<Rightarrow>
               (case first_problem check_join_entry definitions of
                  Some p \<Rightarrow> Inl p
                | None \<Rightarrow> Inr (dumps parsed))))"

lemma first_problem_None: "first_problem check xs = None \<longleftrightarrow> list_all (\<lambda>x. check x = None) xs"
  by (induction xs) (auto split: option.splits)

text \<open>The contract of an accepted definition, on the parsed value.\<close>

definition join_condition_ok :: "json \<Rightarrow> bool" where
  "join_condition_ok condition =
     (case condition of
        PDict c \<Rightarrow>
          list_all (\<lambda>key. json_text (pget c key) \<noteq> []) join_required_keys \<and>
          json_text (pget c ''operator'') \<in> set join_operators
      | _ \<Rightarrow> False)"

definition join_entry_ok :: "json \<Rightarrow> bool" where
  "join_entry_ok entry =
     (case entry of
        PDict d \<Rightarrow>
          (case pget d ''conditions'' of
             PList conditions \<Rightarrow> conditions \<noteq> [] \<and> list_all join_condition_ok conditions
           | _ \<Rightarrow> False)
      | _ \<Rightarrow> False)"

fun join_ok :: "json \<Rightarrow> bool" where
  "join_ok (PList entries) = (entries \<noteq> [] \<and> list_all join_entry_ok entries)"
| "join_ok (PDict d) = join_entry_ok (PDict d)"
| "join_ok _ = False"

lemma check_join_condition_iff: "check_join_condition c = None \<longleftrightarrow> join_condition_ok c"
  by (cases c) (auto simp: check_join_condition_def join_condition_ok_def list_all_iff find_None_iff
      split: option.splits dest: find_first)

lemma check_join_entry_iff: "check_join_entry e = None \<longleftrightarrow> join_entry_ok e"
  by (auto simp: check_join_entry_def join_entry_ok_def first_problem_None check_join_condition_iff
      split: pyval.splits)

lemma first_join_problem:
  "first_problem check_join_entry es = Some q \<Longrightarrow> \<not> list_all join_entry_ok es"
  "check_join_entry e = Some q \<Longrightarrow> \<not> join_entry_ok e"
proof -
  have none: "list_all join_entry_ok es \<longleftrightarrow> first_problem check_join_entry es = None"
    by (simp add: first_problem_None check_join_entry_iff)
  show "first_problem check_join_entry es = Some q \<Longrightarrow> \<not> list_all join_entry_ok es"
    by (simp add: none)
  show "check_join_entry e = Some q \<Longrightarrow> \<not> join_entry_ok e"
    by (simp flip: check_join_entry_iff)
qed

lemma normalize_parsed_iff:
  "\<not> (\<exists>s. p = PStr s) \<Longrightarrow> normalize_join_definition loads dumps p = Inr t \<longleftrightarrow> join_ok p \<and> t = dumps p"
  by (cases p) (auto simp: normalize_join_definition_def first_problem_None check_join_entry_iff
      split: option.splits dest: first_join_problem)

text \<open>
  Normalised join definitions are valid and stable. For a JSON reader that reads printed
  values back, a definition given as an object or an array is accepted exactly when it
  meets the contract (at least one condition, the four fields of each condition filled,
  a known operator); the stored text is then its printed form, and normalising the stored
  text gives the same text again.
\<close>

theorem join_normalisation_is_stable:
  assumes "loads (strip (dumps p)) = Some p" and "strip (dumps p) \<noteq> []" and "\<not> (\<exists>s. p = PStr s)"
  shows "(normalize_join_definition loads dumps p = Inr t \<longleftrightarrow> join_ok p \<and> t = dumps p) \<and>
    (normalize_join_definition loads dumps p = Inr t \<longrightarrow>
       normalize_join_definition loads dumps (PStr t) = Inr t)"
proof (intro conjI impI)
  show iff: "normalize_join_definition loads dumps p = Inr t \<longleftrightarrow> join_ok p \<and> t = dumps p"
    by (rule normalize_parsed_iff [OF assms(3)])
  assume ok: "normalize_join_definition loads dumps p = Inr t"
  then have "p \<noteq> PNone" and t: "t = dumps p" using iff by auto
  with assms have "normalize_join_definition loads dumps (PStr t) = normalize_join_definition loads dumps p"
    by (cases p) (auto simp: normalize_join_definition_def)
  with ok show "normalize_join_definition loads dumps (PStr t) = Inr t" by simp
qed

definition demo_join :: json where
  "demo_join = PDict [(''conditions'', PList [PDict
     [(''leftDataObjectId'', PStr ''orders''), (''leftAttributeId'', PStr ''customer''),
      (''rightDataObjectId'', PStr ''customers''), (''rightAttributeId'', PInt 7), (''operator'', PStr ''='')]])]"

theorem join_normalisation_is_stable_witness:
  "normalize_join_definition (\<lambda>s. if s = ''j'' then Some demo_join else None) (\<lambda>_. ''j'') (PStr ''j'') = Inr ''j''"
proof -
  have "join_ok demo_join"
    by (simp add: demo_join_def join_entry_ok_def join_condition_ok_def join_required_keys_def join_operators_def
        pget_def dict_get_def json_text_def py_str_def show_int_def show_nat.simps digit_char_def text_eval)
  moreover have "strip ''j'' = ''j''" by (simp add: text_eval)
  ultimately show ?thesis
    using join_normalisation_is_stable [of "\<lambda>s. if s = ''j'' then Some demo_join else None" "\<lambda>_. ''j''" demo_join "''j''"]
    by (simp add: demo_join_def)
qed

end
