(* ===== verification/Grouped_Execution.thy ===== *)
theory Grouped_Execution
  imports DQ_Prelude
begin

text \<open>
  The planner that groups the suites of a run by the data object version they check
  (\<^verbatim>\<open>grouped_execution_planner.py\<close>) and the capabilities of the execution engines
  it asks for (\<^verbatim>\<open>execution_engine_capabilities.py\<close>).

  A suite is the part of the artifact envelope the planner reads. Reading an envelope from a
  mapping is schema validation and an argument, \<open>coerce\<close>, of the planner. Metrics of the
  planner are not part of its answer and are left out.
\<close>


section \<open>Engine capabilities\<close>

record capability =
  engine_type :: string
  supported_execution_shapes :: "string list"
  row_level_exception_facts_supported :: bool
  record_identifier_resolution_supported :: bool
  normalized_reason_codes_supported :: bool
  supported_record_identifier_types :: "string list"
  sql_pushdown_supported :: bool

datatype capability_error =
    MissingEngineType
  | UnsupportedEngineType string
  | RowLevelFactsUnsupported string
  | RecordIdentifiersUnsupported string
  | ReasonCodesUnsupported string
  | SqlPushdownUnsupported string

definition capabilities :: "(string, capability) dict" where
  "capabilities =
     [(''gx'', \<lparr>engine_type = ''gx'',
         supported_execution_shapes = [''single_object'', ''join_pair'', ''streaming'', ''micro_batch''],
         row_level_exception_facts_supported = True, record_identifier_resolution_supported = True,
         normalized_reason_codes_supported = True,
         supported_record_identifier_types = [''primary_key'', ''business_key''],
         sql_pushdown_supported = False\<rparr>),
      (''soda'', \<lparr>engine_type = ''soda'', supported_execution_shapes = [''single_object''],
         row_level_exception_facts_supported = False, record_identifier_resolution_supported = False,
         normalized_reason_codes_supported = True, supported_record_identifier_types = [],
         sql_pushdown_supported = False\<rparr>),
      (''pyspark_native'', \<lparr>engine_type = ''pyspark_native'',
         supported_execution_shapes = [''single_object'', ''join_pair'', ''streaming'', ''micro_batch''],
         row_level_exception_facts_supported = True, record_identifier_resolution_supported = True,
         normalized_reason_codes_supported = True,
         supported_record_identifier_types = [''primary_key'', ''business_key''],
         sql_pushdown_supported = True\<rparr>)]"

definition normalize_engine_type :: "string option \<Rightarrow> capability_error + string" where
  "normalize_engine_type e =
     (let normalized = lower (strip (text_of e))
      in if normalized = [] then Inl MissingEngineType else Inr normalized)"

definition get_execution_engine_capability :: "string option \<Rightarrow> capability_error + capability" where
  "get_execution_engine_capability e =
     (case normalize_engine_type e of
        Inl err \<Rightarrow> Inl err
      | Inr n \<Rightarrow> (case map_of capabilities n of None \<Rightarrow> Inl (UnsupportedEngineType n) | Some c \<Rightarrow> Inr c))"

definition require_exception_fact_capability :: "string option \<Rightarrow> capability_error + capability" where
  "require_exception_fact_capability e =
     (case get_execution_engine_capability e of
        Inl err \<Rightarrow> Inl err
      | Inr c \<Rightarrow>
          if \<not> row_level_exception_facts_supported c then Inl (RowLevelFactsUnsupported (engine_type c))
          else if \<not> record_identifier_resolution_supported c then Inl (RecordIdentifiersUnsupported (engine_type c))
          else if \<not> normalized_reason_codes_supported c then Inl (ReasonCodesUnsupported (engine_type c))
          else Inr c)"

definition require_sql_pushdown_capability :: "string option \<Rightarrow> capability_error + capability" where
  "require_sql_pushdown_capability e =
     (case get_execution_engine_capability e of
        Inl err \<Rightarrow> Inl err
      | Inr c \<Rightarrow> if \<not> sql_pushdown_supported c then Inl (SqlPushdownUnsupported (engine_type c)) else Inr c)"


section \<open>Suites\<close>

record selection =
  selectionMode :: "string option"
  selectedDataObjectVersionIds :: "string list"

record hints =
  recommendedEngine :: "string option"
  emitGeneratedSql :: bool
  incrementalSelection :: "selection option"

record suite =
  suiteId :: string
  suiteVersion :: int
  scopeDataObjectVersionIds :: "string list"
  contractEngine :: "(string option \<times> string option) option"
  executionHints :: "hints option"

type_synonym envelope = "(string \<times> json) list"

datatype plan_error =
    SuiteInvalid
  | SuiteWithoutTargets
  | NamedSuiteWithoutTargets string
  | UnsupportedSelectionMode string string
  | SelectionWithoutIds string
  | SelectionOutsideScope string
  | SelectionWithoutTargets string
  | ConflictingSelection string string

definition suite_engine_type :: "suite \<Rightarrow> string option" where
  "suite_engine_type s =
     (let named = (\<lambda>v. if strip (text_of v) = [] then None else Some (lower (strip (text_of v))));
          of_contract = case_option None named (map_option fst (contractEngine s));
          of_hints = case_option None named (map_option recommendedEngine (executionHints s));
          of_target = case_option None named (map_option snd (contractEngine s))
      in case of_contract of Some e \<Rightarrow> Some e
         | None \<Rightarrow> (case of_hints of Some e \<Rightarrow> Some e | None \<Rightarrow> of_target))"

definition suite_has_sql_pushdown_hint :: "suite \<Rightarrow> bool" where
  "suite_has_sql_pushdown_hint s = (case executionHints s of None \<Rightarrow> False | Some h \<Rightarrow> emitGeneratedSql h)"

definition suite_supports_sql_pushdown :: "suite \<Rightarrow> bool" where
  "suite_supports_sql_pushdown s =
     (case suite_engine_type s of
        None \<Rightarrow> False
      | Some e \<Rightarrow>
          (case get_execution_engine_capability (Some e) of
             Inl _ \<Rightarrow> False
           | Inr c \<Rightarrow> sql_pushdown_supported c \<and> suite_has_sql_pushdown_hint s))"

text \<open>A normalised selection: its mode and the chosen versions.\<close>

type_synonym chosen = "string \<times> string list"

definition extract_incremental_selection :: "suite \<Rightarrow> plan_error + chosen option" where
  "extract_incremental_selection s =
     (case (case executionHints s of None \<Rightarrow> None | Some h \<Rightarrow> incrementalSelection h) of
        None \<Rightarrow> Inr None
      | Some sel \<Rightarrow>
          (let mode = strip (text_of (selectionMode sel));
               ids = filter (\<lambda>i. i \<noteq> []) (map strip (selectedDataObjectVersionIds sel))
           in if mode \<notin> {''new_partitions'', ''changed_slices''}
                then Inl (UnsupportedSelectionMode (suiteId s) mode)
              else if ids = [] then Inl (SelectionWithoutIds (suiteId s))
              else Inr (Some (mode, ids))))"

text \<open>\<open>list(dict.fromkeys(xs))\<close>: the first occurrence of each value, in order.\<close>

fun first_occurrences :: "'a list \<Rightarrow> 'a list" where
  "first_occurrences [] = []"
| "first_occurrences (x # xs) = x # filter (\<lambda>y. y \<noteq> x) (first_occurrences xs)"

definition extract_target_ids :: "suite \<Rightarrow> plan_error + string list" where
  "extract_target_ids s =
     (if scopeDataObjectVersionIds s = [] then Inl SuiteWithoutTargets
      else
        (let ids = filter (\<lambda>i. i \<noteq> []) (map strip (scopeDataObjectVersionIds s))
         in if ids = [] then Inl (NamedSuiteWithoutTargets (suiteId s)) else Inr (first_occurrences ids)))"

definition with_target_ids :: "envelope \<Rightarrow> string list \<Rightarrow> envelope" where
  "with_target_ids payload ids =
     (let scope = (case pget payload ''resolvedExecutionScope'' of PDict d \<Rightarrow> d | _ \<Rightarrow> [])
      in AList.update ''resolvedExecutionScope''
           (PDict (AList.update ''dataObjectVersionIds'' (PList (map PStr ids)) scope)) payload)"


section \<open>Planning\<close>

record suite_entry =
  e_suiteId :: string
  e_suiteVersion :: int
  e_targets :: "string list"
  e_envelope :: envelope

text \<open>What one iteration computes of a suite before it touches the batches.\<close>

record prepared =
  p_targets :: "string list"
  p_selection :: "chosen option"
  p_entry :: suite_entry
  p_pushdown :: bool
  p_suite :: string

record open_batch =
  b_target :: string
  b_selection :: "chosen option"
  b_entries :: "suite_entry list"
  b_pushdown :: bool

record batch =
  dataObjectVersion :: string
  batchSelection :: "chosen option"
  batchSuiteCount :: nat
  suiteIds :: "string list"
  suites :: "envelope list"
  batchPlannerChoice :: string
  executionPath :: string

record plan =
  suiteCount :: nat
  batchCount :: nat
  planPath :: "string option"
  plannerChoice :: "string option"
  batches :: "batch list"

definition restrict_targets :: "suite \<Rightarrow> chosen option \<Rightarrow> string list \<Rightarrow> plan_error + string list" where
  "restrict_targets s selection target_ids =
     (case selection of
        None \<Rightarrow> Inr target_ids
      | Some (mode, selected_ids) \<Rightarrow>
          if filter (\<lambda>t. t \<notin> set target_ids) selected_ids \<noteq> [] then Inl (SelectionOutsideScope (suiteId s))
          else
            (let kept = filter (\<lambda>t. t \<in> set selected_ids) target_ids
             in if kept = [] then Inl (SelectionWithoutTargets (suiteId s)) else Inr kept))"

definition prepare :: "suite \<times> envelope \<Rightarrow> plan_error + prepared" where
  "prepare sp =
     (case sp of (s, payload) \<Rightarrow>
        (case extract_target_ids s of
           Inl e \<Rightarrow> Inl e
         | Inr all_ids \<Rightarrow>
        (case extract_incremental_selection s of
           Inl e \<Rightarrow> Inl e
         | Inr sel \<Rightarrow>
        (case restrict_targets s sel all_ids of
           Inl e \<Rightarrow> Inl e
         | Inr target_ids \<Rightarrow>
             Inr \<lparr>p_targets = target_ids, p_selection = sel,
                  p_entry = \<lparr>e_suiteId = strip (suiteId s), e_suiteVersion = suiteVersion s,
                             e_targets = target_ids, e_envelope = with_target_ids payload target_ids\<rparr>,
                  p_pushdown = suite_supports_sql_pushdown s, p_suite = suiteId s\<rparr>))))"

definition add_to_batch ::
  "prepared \<Rightarrow> string \<Rightarrow> (string, open_batch) dict \<Rightarrow> plan_error + (string, open_batch) dict" where
  "add_to_batch p target d =
     (let fresh = \<lparr>b_target = target, b_selection = p_selection p, b_entries = [], b_pushdown = p_pushdown p\<rparr>;
          d' = dict_setdefault target fresh d;
          b = dict_get d' target fresh
      in if b_selection b \<noteq> p_selection p then Inl (ConflictingSelection (p_suite p) target)
         else Inr (AList.update target
                (b\<lparr>b_pushdown := (if b_pushdown b then p_pushdown p else b_pushdown b),
                   b_entries := b_entries b @ [p_entry p]\<rparr>) d'))"

fun add_to_batches ::
  "prepared \<Rightarrow> string list \<Rightarrow> (string, open_batch) dict \<Rightarrow> plan_error + (string, open_batch) dict" where
  "add_to_batches p [] d = Inr d"
| "add_to_batches p (t # ts) d = (case add_to_batch p t d of Inl e \<Rightarrow> Inl e | Inr d' \<Rightarrow> add_to_batches p ts d')"

fun group_suites ::
  "(suite \<times> envelope) list \<Rightarrow> (string, open_batch) dict \<Rightarrow> plan_error + (string, open_batch) dict" where
  "group_suites [] d = Inr d"
| "group_suites (sp # sps) d =
     (case prepare sp of
        Inl e \<Rightarrow> Inl e
      | Inr p \<Rightarrow>
          (case add_to_batches p (p_targets p) d of
             Inl e \<Rightarrow> Inl e
           | Inr d' \<Rightarrow> group_suites sps d'))"

definition close_batch :: "open_batch \<Rightarrow> batch" where
  "close_batch b =
     (let entries = sort_key (\<lambda>e. (e_suiteId e, e_suiteVersion e)) (b_entries b)
      in \<lparr>dataObjectVersion = b_target b, batchSelection = b_selection b,
          batchSuiteCount = length entries, suiteIds = map e_suiteId entries, suites = map e_envelope entries,
          batchPlannerChoice = (if b_selection b \<noteq> None then ''incremental_scope'' else ''full_scope''),
          executionPath =
            (if b_pushdown b \<and> b_selection b = None then ''sql_pushdown_grouped_execution''
             else if b_selection b \<noteq> None then ''incremental_grouped_execution'' else ''grouped_execution'')\<rparr>)"

definition plan_of :: "nat \<Rightarrow> batch list \<Rightarrow> plan" where
  "plan_of n bs =
     (let incremental = length (filter (\<lambda>b. batchSelection b \<noteq> None) bs);
          paths = remdups (map executionPath bs)
      in \<lparr>suiteCount = n, batchCount = length bs,
          planPath = Some (case paths of [p] \<Rightarrow> p | _ \<Rightarrow> ''mixed_grouped_execution''),
          plannerChoice = Some (if incremental = 0 then ''full_scope''
                                else if incremental = length bs then ''incremental_scope'' else ''mixed_scope''),
          batches = bs\<rparr>)"

text \<open>\<open>[self._coerce_suite(item) for item in suites]\<close>: the first failure is raised.\<close>

fun traverse :: "('a \<Rightarrow> 'e + 'b) \<Rightarrow> 'a list \<Rightarrow> 'e + 'b list" where
  "traverse f [] = Inr []"
| "traverse f (x # xs) =
     (case f x of Inl e \<Rightarrow> Inl e | Inr y \<Rightarrow> (case traverse f xs of Inl e \<Rightarrow> Inl e | Inr ys \<Rightarrow> Inr (y # ys)))"

definition build_plan :: "('raw \<Rightarrow> plan_error + suite \<times> envelope) \<Rightarrow> 'raw list \<Rightarrow> plan_error + plan" where
  "build_plan coerce raw =
     (case traverse coerce raw of
        Inl e \<Rightarrow> Inl e
      | Inr normalized \<Rightarrow>
          if normalized = []
          then Inr \<lparr>suiteCount = 0, batchCount = 0, planPath = None, plannerChoice = None, batches = []\<rparr>
          else (case group_suites normalized [] of
                  Inl e \<Rightarrow> Inl e
                | Inr d \<Rightarrow>
                    Inr (plan_of (length normalized)
                      (map (\<lambda>t. close_batch (the (map_of d t))) (sort (map fst d))))))"

section \<open>The plan as a reference definition\<close>

text \<open>
  What the plan should be: for each target, in sorted order, the suites that check it. The
  planner instead fills a dictionary of open batches suite by suite.
\<close>

definition suites_of :: "prepared list \<Rightarrow> string \<Rightarrow> prepared list" where
  "suites_of ps t = filter (\<lambda>p. t \<in> set (p_targets p)) ps"

definition reference_batch :: "prepared list \<Rightarrow> string \<Rightarrow> open_batch" where
  "reference_batch ps t =
     \<lparr>b_target = t, b_selection = p_selection (hd (suites_of ps t)),
      b_entries = map p_entry (suites_of ps t), b_pushdown = list_all p_pushdown (suites_of ps t)\<rparr>"

definition targets_of :: "prepared list \<Rightarrow> string list" where
  "targets_of ps = sort (remdups (concat (map p_targets ps)))"

definition same_selection :: "prepared list \<Rightarrow> bool" where
  "same_selection ps \<longleftrightarrow>
     (\<forall>t p q. p \<in> set (suites_of ps t) \<longrightarrow> q \<in> set (suites_of ps t) \<longrightarrow> p_selection p = p_selection q)"

lemma suites_of_append [simp]:
  "suites_of (ps @ [p]) t = suites_of ps t @ (if t \<in> set (p_targets p) then [p] else [])"
  by (simp add: suites_of_def)

lemma suites_of_Nil [simp]: "suites_of [] t = []"
  by (simp add: suites_of_def)

definition extend_batch :: "prepared \<Rightarrow> string \<Rightarrow> open_batch option \<Rightarrow> open_batch" where
  "extend_batch p t old =
     (case old of
        None \<Rightarrow> \<lparr>b_target = t, b_selection = p_selection p, b_entries = [p_entry p], b_pushdown = p_pushdown p\<rparr>
      | Some b \<Rightarrow> b\<lparr>b_pushdown := (b_pushdown b \<and> p_pushdown p), b_entries := b_entries b @ [p_entry p]\<rparr>)"

definition agrees :: "prepared \<Rightarrow> open_batch option \<Rightarrow> bool" where
  "agrees p old \<longleftrightarrow> (case old of None \<Rightarrow> True | Some b \<Rightarrow> b_selection b = p_selection p)"

lemma dict_wf_setdefault: "dict_wf d \<Longrightarrow> dict_wf (dict_setdefault k v d)"
  by (auto simp: dict_setdefault_def map_of_eq_None_iff split: option.splits)

lemma add_to_batch_eq:
  "add_to_batch p t d = Inr d' \<Longrightarrow>
     agrees p (map_of d t) \<and> (dict_wf d \<longrightarrow> dict_wf d') \<and>
     (\<forall>u. map_of d' u = (if u = t then Some (extend_batch p t (map_of d t)) else map_of d u))"
  by (cases "map_of d t")
    (auto simp: add_to_batch_def Let_def agrees_def extend_batch_def dict_get_def map_of_setdefault
      dict_wf_setdefault split: if_splits)

lemma add_to_batches_eq:
  assumes "add_to_batches p ts d = Inr d'" and "distinct ts"
  shows "(dict_wf d \<longrightarrow> dict_wf d') \<and> (\<forall>t\<in>set ts. agrees p (map_of d t)) \<and>
    (\<forall>u. map_of d' u = (if u \<in> set ts then Some (extend_batch p u (map_of d u)) else map_of d u))"
  using assms
proof (induction ts arbitrary: d)
  case (Cons t ts)
  then obtain d1 where d1: "add_to_batch p t d = Inr d1" and rest: "add_to_batches p ts d1 = Inr d'"
    by (auto split: sum.splits)
  note step = add_to_batch_eq [OF d1]
  from Cons.IH [OF rest] Cons.prems(2) step show ?case
    by (auto simp: ball_Un split: if_splits)
qed simp

definition groups :: "prepared list \<Rightarrow> (string, open_batch) dict \<Rightarrow> bool" where
  "groups ps d \<longleftrightarrow>
     dict_wf d \<and> same_selection ps \<and>
     (\<forall>t. map_of d t = (if suites_of ps t = [] then None else Some (reference_batch ps t)))"

lemma groups_Nil: "groups [] []"
  by (simp add: groups_def same_selection_def)

lemma extend_reference:
  "t \<in> set (p_targets p) \<Longrightarrow>
     extend_batch p t (if suites_of ps t = [] then None else Some (reference_batch ps t)) =
     reference_batch (ps @ [p]) t"
  by (auto simp: extend_batch_def reference_batch_def)

lemma groups_step:
  assumes "groups ps d" and "add_to_batches p (p_targets p) d = Inr d'" and "distinct (p_targets p)"
  shows "groups (ps @ [p]) d'"
proof -
  note add = add_to_batches_eq [OF assms(2,3)]
  have old: "same_selection ps" using assms(1) by (simp add: groups_def)
  have look: "map_of d t = (if suites_of ps t = [] then None else Some (reference_batch ps t))" for t
    using assms(1) by (simp add: groups_def)
  have "map_of d' t = (if suites_of (ps @ [p]) t = [] then None else Some (reference_batch (ps @ [p]) t))" for t
  proof (cases "t \<in> set (p_targets p)")
    case True
    with add look [of t] extend_reference [OF True, of ps] show ?thesis by simp
  next
    case False
    with add look [of t] show ?thesis by (auto simp: reference_batch_def)
  qed
  moreover have new: "p_selection q = p_selection p" if "t \<in> set (p_targets p)" "q \<in> set (suites_of ps t)" for t q
  proof -
    from that(2) have ne: "suites_of ps t \<noteq> []" by auto
    with add that look [of t] have "p_selection (hd (suites_of ps t)) = p_selection p"
      by (auto simp: agrees_def reference_batch_def)
    moreover have "p_selection q = p_selection (hd (suites_of ps t))"
      using old that(2) list.set_sel(1) [OF ne] unfolding same_selection_def by blast
    ultimately show ?thesis by simp
  qed
  have "same_selection (ps @ [p])"
    unfolding same_selection_def
  proof (intro allI impI)
    fix t a b
    assume ab: "a \<in> set (suites_of (ps @ [p]) t)" "b \<in> set (suites_of (ps @ [p]) t)"
    show "p_selection a = p_selection b"
    proof (cases "t \<in> set (p_targets p)")
      case True
      have "p_selection x = p_selection p" if "x \<in> set (suites_of (ps @ [p]) t)" for x
        using that new [OF True] True by auto
      from this [OF ab(1)] this [OF ab(2)] show ?thesis by simp
    next
      case False
      with ab have "a \<in> set (suites_of ps t)" "b \<in> set (suites_of ps t)" by simp_all
      with old show ?thesis unfolding same_selection_def by blast
    qed
  qed
  ultimately show ?thesis
    using assms(1) add by (simp add: groups_def)
qed

text \<open>The planner accepts a suite exactly when its selection agrees with the open batches.\<close>

lemma add_to_batch_ok: "agrees p (map_of d t) \<Longrightarrow> \<exists>d'. add_to_batch p t d = Inr d'"
  by (auto simp: add_to_batch_def Let_def agrees_def dict_get_def map_of_setdefault split: option.splits)

lemma add_to_batches_ok:
  assumes "\<And>t. t \<in> set ts \<Longrightarrow> agrees p (map_of d t)" and "distinct ts"
  shows "\<exists>d'. add_to_batches p ts d = Inr d'"
  using assms
proof (induction ts arbitrary: d)
  case (Cons t ts)
  then obtain d1 where d1: "add_to_batch p t d = Inr d1" using add_to_batch_ok [of p d t] by auto
  have "agrees p (map_of d1 u)" if "u \<in> set ts" for u
    using that Cons.prems add_to_batch_eq [OF d1] by auto
  from Cons.IH [OF this] Cons.prems(2) d1 show ?case by auto
qed simp

lemma first_occurrences_set [simp]: "set (first_occurrences xs) = set xs"
  by (induction xs) auto

lemma first_occurrences_distinct [simp]: "distinct (first_occurrences xs)"
  by (induction xs) auto

lemma first_occurrences_Nil [simp]: "first_occurrences xs = [] \<longleftrightarrow> xs = []"
  by (cases xs) auto

lemma prepare_distinct: "prepare sp = Inr p \<Longrightarrow> distinct (p_targets p) \<and> p_targets p \<noteq> []"
  by (cases sp) (auto simp: prepare_def extract_target_ids_def restrict_targets_def Let_def
      filter_empty_conv split: sum.splits if_splits option.splits prod.splits)

lemma same_selection_appendD: "same_selection (ps @ qs) \<Longrightarrow> same_selection ps"
  unfolding same_selection_def suites_of_def by auto

lemma group_suites_sound:
  assumes "group_suites sps d = Inr d'" and "groups ps d"
  shows "\<exists>qs. traverse prepare sps = Inr qs \<and> groups (ps @ qs) d'"
  using assms
proof (induction sps arbitrary: d ps)
  case (Cons sp sps)
  then obtain p d1 where p: "prepare sp = Inr p" and d1: "add_to_batches p (p_targets p) d = Inr d1"
    and rest: "group_suites sps d1 = Inr d'"
    by (auto split: sum.splits)
  have "groups (ps @ [p]) d1"
    using groups_step [OF Cons.prems(2) d1] prepare_distinct [OF p] by simp
  from Cons.IH [OF rest this] p show ?case by auto
qed simp

lemma group_suites_complete:
  assumes "traverse prepare sps = Inr qs" and "groups ps d" and "same_selection (ps @ qs)"
  shows "\<exists>d'. group_suites sps d = Inr d'"
  using assms
proof (induction sps arbitrary: d ps qs)
  case (Cons sp sps)
  then obtain p rs where p: "prepare sp = Inr p" and rs: "traverse prepare sps = Inr rs" and qs: "qs = p # rs"
    by (auto split: sum.splits)
  have one: "same_selection (ps @ [p])"
    using same_selection_appendD [of "ps @ [p]" rs] Cons.prems(3) qs by simp
  have "agrees p (map_of d t)" if t: "t \<in> set (p_targets p)" for t
  proof (cases "suites_of ps t = []")
    case True
    then show ?thesis using Cons.prems(2) by (simp add: groups_def agrees_def)
  next
    case False
    then have "hd (suites_of ps t) \<in> set (suites_of (ps @ [p]) t)" by simp
    moreover have "p \<in> set (suites_of (ps @ [p]) t)" using t by simp
    ultimately have "p_selection (hd (suites_of ps t)) = p_selection p"
      using one unfolding same_selection_def by blast
    with False Cons.prems(2) show ?thesis by (simp add: groups_def agrees_def reference_batch_def)
  qed
  from add_to_batches_ok [OF this] prepare_distinct [OF p] obtain d1
    where d1: "add_to_batches p (p_targets p) d = Inr d1" by blast
  have "groups (ps @ [p]) d1"
    using groups_step [OF Cons.prems(2) d1] prepare_distinct [OF p] by simp
  from Cons.IH [OF rs this] Cons.prems(3) qs p d1 show ?case by auto
qed simp

lemma groups_targets:
  assumes "groups ps d"
  shows "sort (map fst d) = targets_of ps"
proof (rule sorted_distinct_set_unique)
  have "t \<in> fst ` set d \<longleftrightarrow> suites_of ps t \<noteq> []" for t
  proof -
    have "map_of d t = None \<longleftrightarrow> suites_of ps t = []" using assms by (simp add: groups_def)
    then show ?thesis by (auto simp: map_of_eq_None_iff)
  qed
  then show "set (sort (map fst d)) = set (targets_of ps)"
    by (auto simp: targets_of_def suites_of_def filter_empty_conv)
qed (use assms in \<open>simp_all add: groups_def targets_of_def\<close>)

lemma groups_batches:
  assumes "groups ps d"
  shows "map (\<lambda>t. close_batch (the (map_of d t))) (sort (map fst d)) =
         map (\<lambda>t. close_batch (reference_batch ps t)) (targets_of ps)"
  unfolding groups_targets [OF assms]
  using assms by (auto simp: groups_def targets_of_def suites_of_def filter_empty_conv)

lemma traverse_length: "traverse f xs = Inr ys \<Longrightarrow> length ys = length xs"
  by (induction xs arbitrary: ys) (auto split: sum.splits)

text \<open>
  C25: the grouped plan is the plan of the reference definition. Planning succeeds exactly when
  every suite can be prepared and the suites of a common target declare the same incremental
  selection; the batches are then one per target, in sorted order, each with all suites of
  its target sorted by identifier and version, and with the path that all of them support.
\<close>

theorem plan_groups_suites_by_target:
  assumes "traverse coerce raw = Inr normalized" and "raw \<noteq> []"
  shows "build_plan coerce raw = Inr plan \<longleftrightarrow>
    (\<exists>ps. traverse prepare normalized = Inr ps \<and> same_selection ps \<and>
       plan = plan_of (length raw) (map (\<lambda>t. close_batch (reference_batch ps t)) (targets_of ps)))"
    (is "?built \<longleftrightarrow> ?reference")
proof -
  have len: "length normalized = length raw" by (rule traverse_length [OF assms(1)])
  have ne: "normalized \<noteq> []" using len assms(2) by auto
  have built: "?built \<longleftrightarrow> (\<exists>d. group_suites normalized [] = Inr d \<and>
      plan = plan_of (length raw) (map (\<lambda>t. close_batch (the (map_of d t))) (sort (map fst d))))"
    using assms ne len by (auto simp: build_plan_def split: sum.splits)
  show ?thesis
  proof
    assume ?built
    then obtain d where d: "group_suites normalized [] = Inr d"
      and plan: "plan = plan_of (length raw) (map (\<lambda>t. close_batch (the (map_of d t))) (sort (map fst d)))"
      using built by blast
    from group_suites_sound [OF d groups_Nil] obtain ps where "traverse prepare normalized = Inr ps" "groups ps d"
      by auto
    with plan groups_batches [of ps d] show ?reference by (auto simp: groups_def)
  next
    assume ?reference
    then obtain ps where ps: "traverse prepare normalized = Inr ps" "same_selection ps"
      and plan: "plan = plan_of (length raw) (map (\<lambda>t. close_batch (reference_batch ps t)) (targets_of ps))"
      by blast
    from group_suites_complete [OF ps(1) groups_Nil] ps(2) obtain d where d: "group_suites normalized [] = Inr d"
      by auto
    from group_suites_sound [OF d groups_Nil] ps(1) have "groups ps d" by auto
    from groups_batches [OF this] plan d built show ?built by auto
  qed
qed

definition demo_suite :: "string \<Rightarrow> string list \<Rightarrow> suite" where
  "demo_suite i targets = \<lparr>suiteId = i, suiteVersion = 1, scopeDataObjectVersionIds = targets,
     contractEngine = None, executionHints = None\<rparr>"

definition demo_suites :: "(suite \<times> envelope) list" where
  "demo_suites = [(demo_suite ''s2'' [''b'', ''a''], []), (demo_suite ''s1'' [''b''], [])]"

theorem plan_groups_suites_by_target_witness:
  "\<exists>plan. build_plan (\<lambda>x. Inr x) demo_suites = Inr plan \<and>
     map (\<lambda>b. (dataObjectVersion b, suiteIds b)) (batches plan) = [(''a'', [''s2'']), (''b'', [''s1'', ''s2''])]"
proof -
  obtain ps where ps: "traverse prepare demo_suites = Inr ps"
    and shape: "map (\<lambda>p. (p_targets p, p_selection p, e_suiteId (p_entry p), e_suiteVersion (p_entry p))) ps =
      [([''b'', ''a''], None, ''s2'', 1), ([''b''], None, ''s1'', 1)]"
    by (simp add: demo_suites_def demo_suite_def prepare_def extract_target_ids_def
        extract_incremental_selection_def restrict_targets_def text_eval)
  then obtain p q where pq: "ps = [p, q]" "p_targets p = [''b'', ''a'']" "p_targets q = [''b'']"
    "p_selection p = None" "p_selection q = None" "e_suiteId (p_entry p) = ''s2''" "e_suiteId (p_entry q) = ''s1''"
    by auto
  have "same_selection ps" using pq by (auto simp: same_selection_def suites_of_def split: if_splits)
  moreover have "traverse (\<lambda>x. Inr x) demo_suites = Inr demo_suites" "demo_suites \<noteq> []"
    by (simp_all add: demo_suites_def)
  ultimately have "build_plan (\<lambda>x. Inr x) demo_suites =
      Inr (plan_of (length demo_suites) (map (\<lambda>t. close_batch (reference_batch ps t)) (targets_of ps)))"
    using plan_groups_suites_by_target [of "\<lambda>x. Inr x" demo_suites demo_suites] ps by blast
  moreover have "targets_of ps = [''a'', ''b'']"
    using pq by (simp add: targets_of_def less_eq_list_code less_char_def less_eq_char_def)
  ultimately show ?thesis
    using pq by (simp add: plan_of_def Let_def close_batch_def reference_batch_def suites_of_def
        less_char_def less_eq_char_def less_eq_prod_def)
qed

end
