(* ===== verification/Execution_Runs.thy ===== *)
theory Execution_Runs
  imports DQ_Prelude
begin

text \<open>
  The repository of execution runs (\<^verbatim>\<open>in_memory_gx_execution_run_repository.py\<close>): runs,
  their status changes and the status history.

  Contracts, dispatch payloads, result summaries, metrics and diagnostics are JSON values
  the repository stores unread. An answer is built by schema validation of these values,
  which is the argument \<open>readable\<close>; the check of the engine type is modelled. Both failures are a
  \<open>ValueError\<close> raised after the change is stored.
\<close>


section \<open>Data\<close>

record run_row =
  run_id :: string
  run_suiteId :: "string option"
  run_suiteVersion :: "int option"
  run_ruleId :: "string option"
  run_ruleVersionId :: "string option"
  run_correlationId :: string
  run_requestedBy :: "string option"
  run_engineType :: "string option"
  run_engineTarget :: string
  run_executionShape :: string
  run_status :: string
  run_submittedAt :: string
  run_startedAt :: "string option"
  run_completedAt :: "string option"
  run_executionProgress :: json
  run_createdAt :: string
  run_updatedAt :: string
  run_executionContract :: json
  run_handoffPayload :: json
  run_resultSummary :: json
  run_metrics :: json
  run_diagnostics :: "json list"
  run_failureCode :: "string option"
  run_failureMessage :: "string option"
  run_comments :: "string option"

record run_history_row =
  hist_id :: string
  hist_runId :: string
  hist_fromStatus :: "string option"
  hist_toStatus :: string
  hist_changedBy :: "string option"
  hist_changedAt :: string
  hist_reason :: "string option"
  hist_details :: "(string \<times> json) list"

record run_create =
  rc_runId :: string
  rc_suiteId :: "string option"
  rc_suiteVersion :: "int option"
  rc_ruleId :: "string option"
  rc_ruleVersionId :: "string option"
  rc_correlationId :: string
  rc_requestedBy :: "string option"
  rc_engineType :: "string option"
  rc_engineTarget :: string
  rc_executionShape :: string
  rc_status :: string
  rc_submittedAt :: string
  rc_executionContract :: json
  rc_handoffPayload :: json
  rc_executionProgress :: json
  rc_startedAt :: "string option"
  rc_completedAt :: "string option"
  rc_resultSummary :: json
  rc_metrics :: json
  rc_performanceSummary :: json
  rc_diagnostics :: "json list"
  rc_failureCode :: "string option"
  rc_failureMessage :: "string option"
  rc_comments :: "string option"
  rc_statusReason :: "string option"
  rc_statusDetails :: "(string \<times> json) list"

record run_transition =
  rt_runId :: string
  rt_newStatus :: string
  rt_changedBy :: "string option"
  rt_reason :: "string option"
  rt_details :: "(string \<times> json) list"
  rt_executionProgress :: json
  rt_startedAt :: "string option"
  rt_completedAt :: "string option"
  rt_resultSummary :: json
  rt_metrics :: json
  rt_performanceSummary :: json
  rt_diagnostics :: "json list option"
  rt_failureCode :: "string option"
  rt_failureMessage :: "string option"

record run_query =
  rq_submittedAfter :: "stamp option"
  rq_submittedBefore :: "stamp option"
  rq_suiteId :: "string option"
  rq_ruleId :: "string option"
  rq_status :: "string option"

record run_repo =
  runs :: "(string, run_row) dict"
  run_history :: "run_history_row list"

datatype run_error =
    RunExists string
  | RunNotFound string
  | EngineTypeRequired string
  | EntityInvalid
  | RunNotPersisted string
  | InvalidRunTimestamp string
  | MixedTimestamps

definition empty_runs :: run_repo where
  "empty_runs = \<lparr>runs = [], run_history = []\<rparr>"


section \<open>Operations\<close>

definition list_run_status_history :: "run_repo \<Rightarrow> string \<Rightarrow> run_history_row list" where
  "list_run_status_history r i = sort_key hist_changedAt (filter (\<lambda>h. hist_runId h = i) (run_history r))"

text \<open>The entity of a row: the engine type is required and stripped.\<close>

definition build_run_entity :: "(run_row \<Rightarrow> bool) \<Rightarrow> run_row \<Rightarrow> run_error + run_row" where
  "build_run_entity readable row =
     (case or_none (strip (text_of (run_engineType row))) of
        None \<Rightarrow> Inl (EngineTypeRequired (run_id row))
      | Some e \<Rightarrow> if readable row then Inr (row\<lparr>run_engineType := Some e\<rparr>) else Inl EntityInvalid)"

definition get_run ::
  "(run_row \<Rightarrow> bool) \<Rightarrow> run_repo \<Rightarrow> string \<Rightarrow> run_error + (run_row \<times> run_history_row list) option" where
  "get_run readable r i =
     (case map_of (runs r) i of
        None \<Rightarrow> Inr None
      | Some row \<Rightarrow>
          (case build_run_entity readable row of
             Inl e \<Rightarrow> Inl e
           | Inr entity \<Rightarrow> Inr (Some (entity, list_run_status_history r i))))"

text \<open>The answer of an operation that reads the run back.\<close>

definition read_back ::
  "(run_row \<Rightarrow> bool) \<Rightarrow> string \<Rightarrow> run_repo \<Rightarrow> (run_error + run_row \<times> run_history_row list) \<times> run_repo" where
  "read_back readable i r =
     (case get_run readable r i of
        Inl e \<Rightarrow> (Inl e, r)
      | Inr None \<Rightarrow> (Inl (RunNotPersisted i), r)
      | Inr (Some view) \<Rightarrow> (Inr view, r))"

definition json_or :: "json \<Rightarrow> json \<Rightarrow> json" where
  "json_or a b = (if py_true a then a else b)"

definition row_of_create :: "string \<Rightarrow> run_create \<Rightarrow> run_row" where
  "row_of_create now c =
     \<lparr>run_id = rc_runId c, run_suiteId = rc_suiteId c, run_suiteVersion = rc_suiteVersion c,
      run_ruleId = rc_ruleId c, run_ruleVersionId = rc_ruleVersionId c,
      run_correlationId = rc_correlationId c, run_requestedBy = rc_requestedBy c,
      run_engineType = rc_engineType c, run_engineTarget = rc_engineTarget c,
      run_executionShape = rc_executionShape c, run_status = rc_status c,
      run_submittedAt = rc_submittedAt c, run_startedAt = rc_startedAt c,
      run_completedAt = rc_completedAt c, run_executionProgress = rc_executionProgress c,
      run_createdAt = now, run_updatedAt = now, run_executionContract = rc_executionContract c,
      run_handoffPayload = rc_handoffPayload c,
      run_resultSummary = (if rc_resultSummary c = PNone then PDict [] else rc_resultSummary c),
      run_metrics = json_or (json_or (rc_metrics c) (rc_performanceSummary c)) PNone,
      run_diagnostics = rc_diagnostics c, run_failureCode = rc_failureCode c,
      run_failureMessage = rc_failureMessage c, run_comments = rc_comments c\<rparr>"

definition create_run ::
  "(run_row \<Rightarrow> bool) \<Rightarrow> string \<Rightarrow> string \<Rightarrow> run_create \<Rightarrow> run_repo \<Rightarrow>
   (run_error + run_row \<times> run_history_row list) \<times> run_repo" where
  "create_run readable uuid now c r =
     (if map_of (runs r) (rc_runId c) \<noteq> None then (Inl (RunExists (rc_runId c)), r)
      else
        (let h = \<lparr>hist_id = ''gx-run-hist-'' @ uuid, hist_runId = rc_runId c, hist_fromStatus = None,
                  hist_toStatus = rc_status c, hist_changedBy = rc_requestedBy c, hist_changedAt = now,
                  hist_reason = rc_statusReason c, hist_details = rc_statusDetails c\<rparr>
         in read_back readable (rc_runId c)
              (r\<lparr>runs := AList.update (rc_runId c) (row_of_create now c) (runs r),
                 run_history := run_history r @ [h]\<rparr>)))"

definition terminal_run_statuses :: "string list" where
  "terminal_run_statuses = [''succeeded'', ''failed'', ''cancelled'']"

definition or_old :: "'a option \<Rightarrow> 'a option \<Rightarrow> 'a option" where
  "or_old new old = (case new of None \<Rightarrow> old | Some _ \<Rightarrow> new)"

definition json_or_old :: "json \<Rightarrow> json \<Rightarrow> json" where
  "json_or_old new old = (if new = PNone then old else new)"

text \<open>\<open>transition.startedAt or now_iso\<close>.\<close>

definition or_now :: "string option \<Rightarrow> string \<Rightarrow> string" where
  "or_now v now = (if truthy v then text_of v else now)"

definition changed_row :: "string \<Rightarrow> run_transition \<Rightarrow> run_row \<Rightarrow> run_row" where
  "changed_row now t row =
     (let started = or_old (rt_startedAt t) (run_startedAt row);
          completed = or_old (rt_completedAt t) (run_completedAt row)
      in row\<lparr>run_status := rt_newStatus t,
             run_startedAt :=
               (if rt_newStatus t = ''running'' \<and> \<not> truthy started
                then Some (or_now (rt_startedAt t) now) else started),
             run_completedAt :=
               (if rt_newStatus t \<in> set terminal_run_statuses \<and> \<not> truthy completed
                then Some (or_now (rt_completedAt t) now) else completed),
             run_executionProgress := json_or_old (rt_executionProgress t) (run_executionProgress row),
             run_updatedAt := now,
             run_resultSummary := json_or_old (rt_resultSummary t) (run_resultSummary row),
             run_metrics := json_or_old (rt_metrics t) (json_or_old (rt_performanceSummary t) (run_metrics row)),
             run_diagnostics := (case rt_diagnostics t of None \<Rightarrow> run_diagnostics row | Some d \<Rightarrow> d),
             run_failureCode := or_old (rt_failureCode t) (run_failureCode row),
             run_failureMessage := or_old (rt_failureMessage t) (run_failureMessage row)\<rparr>)"

definition record_run_status_transition ::
  "(run_row \<Rightarrow> bool) \<Rightarrow> string \<Rightarrow> string \<Rightarrow> run_transition \<Rightarrow> run_repo \<Rightarrow>
   (run_error + run_row \<times> run_history_row list) \<times> run_repo" where
  "record_run_status_transition readable uuid now t r =
     (case map_of (runs r) (rt_runId t) of
        None \<Rightarrow> (Inl (RunNotFound (rt_runId t)), r)
      | Some row \<Rightarrow>
          (let old_status = or_none (run_status row);
               h = \<lparr>hist_id = ''gx-run-hist-'' @ uuid, hist_runId = rt_runId t, hist_fromStatus = old_status,
                    hist_toStatus = rt_newStatus t, hist_changedBy = rt_changedBy t, hist_changedAt = now,
                    hist_reason = rt_reason t, hist_details = rt_details t\<rparr>
           in read_back readable (rt_runId t)
                (r\<lparr>runs := AList.update (rt_runId t) (changed_row now t row) (runs r),
                   run_history :=
                     (if old_status \<noteq> Some (rt_newStatus t) then run_history r @ [h] else run_history r)\<rparr>)))"

definition update_run_comments ::
  "(run_row \<Rightarrow> bool) \<Rightarrow> string \<Rightarrow> string \<Rightarrow> string option \<Rightarrow> run_repo \<Rightarrow>
   (run_error + (run_row \<times> run_history_row list) option) \<times> run_repo" where
  "update_run_comments readable now i comments r =
     (case map_of (runs r) i of
        None \<Rightarrow> (Inr None, r)
      | Some row \<Rightarrow>
          (let r' = r\<lparr>runs := AList.update i (row\<lparr>run_comments := clean comments, run_updatedAt := now\<rparr>) (runs r)\<rparr>
           in (get_run readable r' i, r')))"


section \<open>Listing\<close>

definition parse_run_datetime :: "iso_reader \<Rightarrow> string \<Rightarrow> run_error + stamp option" where
  "parse_run_datetime fromiso v =
     (let payload = strip v
      in if payload = [] then Inr None
         else (case fromiso (replace_Z payload) of
                 None \<Rightarrow> Inl (InvalidRunTimestamp payload)
               | Some st \<Rightarrow> Inr (Some st)))"

definition stamp_less :: "stamp \<Rightarrow> stamp \<Rightarrow> run_error + bool" where
  "stamp_less a b = (case earlier a b of None \<Rightarrow> Inl MixedTimestamps | Some x \<Rightarrow> Inr x)"

definition outside :: "stamp option \<Rightarrow> stamp option \<Rightarrow> stamp option \<Rightarrow> run_error + bool" where
  "outside lo hi submitted =
     (case (case (lo, submitted) of
              (None, _) \<Rightarrow> Inr False | (Some _, None) \<Rightarrow> Inr True | (Some a, Some s) \<Rightarrow> stamp_less s a) of
        Inl e \<Rightarrow> Inl e
      | Inr True \<Rightarrow> Inr True
      | Inr False \<Rightarrow>
          (case (hi, submitted) of
             (None, _) \<Rightarrow> Inr False | (Some _, None) \<Rightarrow> Inr True | (Some b, Some s) \<Rightarrow> stamp_less b s))"

definition run_matches :: "run_query \<Rightarrow> run_row \<Rightarrow> bool" where
  "run_matches q row \<longleftrightarrow>
     (rq_suiteId q = None \<or> rq_suiteId q = Some (text_of (run_suiteId row))) \<and>
     (rq_ruleId q = None \<or> rq_ruleId q = Some (text_of (run_ruleId row))) \<and>
     (rq_status q = None \<or> rq_status q = Some (run_status row))"

fun collect_runs ::
  "(run_row \<Rightarrow> bool) \<Rightarrow> iso_reader \<Rightarrow> run_query \<Rightarrow> run_row list \<Rightarrow> run_error + run_row list" where
  "collect_runs readable fromiso q [] = Inr []"
| "collect_runs readable fromiso q (row # rows) =
     (case parse_run_datetime fromiso (run_submittedAt row) of
        Inl e \<Rightarrow> Inl e
      | Inr submitted \<Rightarrow>
          (case outside (rq_submittedAfter q) (rq_submittedBefore q) submitted of
             Inl e \<Rightarrow> Inl e
           | Inr out \<Rightarrow>
               if out \<or> \<not> run_matches q row then collect_runs readable fromiso q rows
               else (case build_run_entity readable row of
                       Inl e \<Rightarrow> Inl e
                     | Inr entity \<Rightarrow>
                         (case collect_runs readable fromiso q rows of
                            Inl e \<Rightarrow> Inl e
                          | Inr entities \<Rightarrow> Inr (entity # entities)))))"

text \<open>
  The sort key of a row, with the smallest UTC time for a missing stamp. Sorting compares
  every row with some other row, so two rows of which one is naive and one is aware raise.
  Creation times are printed in UTC by the repository.
\<close>

definition sort_stamp :: "iso_reader \<Rightarrow> string \<Rightarrow> stamp" where
  "sort_stamp fromiso v =
     (case parse_run_datetime fromiso v of Inr (Some st) \<Rightarrow> st | _ \<Rightarrow> Aware 0 0)"

definition list_runs :: "(run_row \<Rightarrow> bool) \<Rightarrow> iso_reader \<Rightarrow> run_query \<Rightarrow> run_repo \<Rightarrow> run_error + run_row list" where
  "list_runs readable fromiso q r =
     (case collect_runs readable fromiso q (map snd (runs r)) of
        Inl e \<Rightarrow> Inl e
      | Inr rows \<Rightarrow>
          if list_ex (\<lambda>x. is_aware (sort_stamp fromiso (run_submittedAt x))) rows \<and>
             list_ex (\<lambda>x. \<not> is_aware (sort_stamp fromiso (run_submittedAt x))) rows
          then Inl MixedTimestamps
          else Inr (sort_desc (\<lambda>x. (normalize_utc (sort_stamp fromiso (run_submittedAt x)),
                                    normalize_utc (sort_stamp fromiso (run_createdAt x)))) rows))"

section \<open>Runs of the repository\<close>

text \<open>
  The steps of the repository with a clock that never falls behind the history; the printed
  times are in UTC, for which the order of texts is the order of times.
\<close>

inductive run_step :: "(run_row \<Rightarrow> bool) \<Rightarrow> run_repo \<Rightarrow> run_repo \<Rightarrow> bool" for readable where
  step_create: "list_all (\<lambda>h. hist_changedAt h \<le> now) (run_history r) \<Longrightarrow>
    run_step readable r (snd (create_run readable uuid now c r))"
| step_transition: "list_all (\<lambda>h. hist_changedAt h \<le> now) (run_history r) \<Longrightarrow>
    run_step readable r (snd (record_run_status_transition readable uuid now t r))"
| step_comments: "run_step readable r (snd (update_run_comments readable now i comments r))"

text \<open>The rows of a run continue one another and end at its status.\<close>

fun trail :: "string option \<Rightarrow> run_history_row list \<Rightarrow> string \<Rightarrow> bool" where
  "trail prev [] s = (prev = or_none s)"
| "trail prev (h # hs) s = (hist_fromStatus h = prev \<and> trail (or_none (hist_toStatus h)) hs s)"

definition rows_of :: "run_repo \<Rightarrow> string \<Rightarrow> run_history_row list" where
  "rows_of r i = filter (\<lambda>h. hist_runId h = i) (run_history r)"

definition run_ok :: "run_repo \<Rightarrow> string \<Rightarrow> run_row \<Rightarrow> bool" where
  "run_ok r i row \<longleftrightarrow> run_id row = i \<and> rows_of r i \<noteq> [] \<and> trail None (rows_of r i) (run_status row)"

definition runs_inv :: "run_repo \<Rightarrow> bool" where
  "runs_inv r \<longleftrightarrow>
     sorted (map hist_changedAt (run_history r)) \<and>
     (\<forall>i. map_of (runs r) i = None \<longrightarrow> rows_of r i = []) \<and>
     (\<forall>i row. map_of (runs r) i = Some row \<longrightarrow> run_ok r i row)"

lemma trail_snoc: "trail prev hs s \<Longrightarrow> hist_fromStatus h = or_none s \<Longrightarrow> trail prev (hs @ [h]) (hist_toStatus h)"
  by (induction prev hs s rule: trail.induct) auto

lemma snd_read_back [simp]: "snd (read_back readable i r) = r"
  by (simp add: read_back_def split: sum.split option.split)

lemma changed_row_simps [simp]:
  "run_status (changed_row now t row) = rt_newStatus t" "run_id (changed_row now t row) = run_id row"
  by (simp_all add: changed_row_def Let_def)

lemma rows_of_snoc:
  "rows_of (r\<lparr>runs := x, run_history := run_history r @ [h]\<rparr>) i =
     rows_of r i @ (if hist_runId h = i then [h] else [])"
  by (simp add: rows_of_def)

lemma rows_of_same: "rows_of (r\<lparr>runs := x\<rparr>) i = rows_of r i"
  by (simp add: rows_of_def)

lemma sorted_snoc:
  "sorted (map hist_changedAt hs) \<Longrightarrow> list_all (\<lambda>h. hist_changedAt h \<le> hist_changedAt h') hs \<Longrightarrow>
     sorted (map hist_changedAt (hs @ [h']))"
  by (auto simp: sorted_append list_all_iff)

lemma runs_inv_extend:
  assumes "runs_inv r" and "list_all (\<lambda>x. hist_changedAt x \<le> hist_changedAt h) (run_history r)"
    and "run_id row = hist_runId h" and "run_status row = hist_toStatus h"
    and "hist_fromStatus h = (case map_of (runs r) (hist_runId h) of None \<Rightarrow> None | Some old \<Rightarrow> or_none (run_status old))"
  shows "runs_inv (r\<lparr>runs := AList.update (hist_runId h) row (runs r), run_history := run_history r @ [h]\<rparr>)"
    (is "runs_inv ?r")
proof -
  let ?i = "hist_runId h"
  have "trail None (rows_of ?r ?i) (run_status row)"
  proof (cases "map_of (runs r) ?i")
    case None
    with assms show ?thesis by (simp add: runs_inv_def rows_of_snoc)
  next
    case (Some old)
    with assms(1) have "trail None (rows_of r ?i) (run_status old)" by (simp add: runs_inv_def run_ok_def)
    from trail_snoc [OF this, of h] Some assms(4,5) show ?thesis by (simp add: rows_of_snoc)
  qed
  moreover have "run_ok ?r j row'" if "map_of (runs r) j = Some row'" "j \<noteq> ?i" for j row'
    using assms(1) that by (auto simp: runs_inv_def run_ok_def rows_of_snoc)
  moreover have "sorted (map hist_changedAt (run_history ?r))"
    using assms(1,2) sorted_snoc [of "run_history r" h] by (simp add: runs_inv_def)
  ultimately show ?thesis
    using assms(1,3) by (auto simp: runs_inv_def run_ok_def rows_of_snoc split: if_splits)
qed

lemma runs_inv_keep_status:
  assumes "runs_inv r" and "map_of (runs r) i = Some old" and "run_id row = run_id old"
    and "run_status row = run_status old"
  shows "runs_inv (r\<lparr>runs := AList.update i row (runs r)\<rparr>)"
  using assms by (auto simp: runs_inv_def run_ok_def rows_of_same)

lemma create_run_inv:
  assumes "runs_inv r" and "list_all (\<lambda>h. hist_changedAt h \<le> now) (run_history r)"
  shows "runs_inv (snd (create_run readable uuid now c r))"
proof (cases "map_of (runs r) (rc_runId c)")
  case None
  define h where "h = \<lparr>hist_id = ''gx-run-hist-'' @ uuid, hist_runId = rc_runId c, hist_fromStatus = None,
                  hist_toStatus = rc_status c, hist_changedBy = rc_requestedBy c, hist_changedAt = now,
                  hist_reason = rc_statusReason c, hist_details = rc_statusDetails c\<rparr>"
  have "runs_inv (r\<lparr>runs := AList.update (hist_runId h) (row_of_create now c) (runs r), run_history := run_history r @ [h]\<rparr>)"
    using assms None by (intro runs_inv_extend) (simp_all add: h_def row_of_create_def)
  with None show ?thesis by (simp add: create_run_def h_def)
qed (simp add: create_run_def assms)

lemma run_transition_inv:
  assumes "runs_inv r" and "list_all (\<lambda>h. hist_changedAt h \<le> now) (run_history r)"
  shows "runs_inv (snd (record_run_status_transition readable uuid now t r))"
proof (cases "map_of (runs r) (rt_runId t)")
  case (Some row)
  then have i: "run_id row = rt_runId t" using assms(1) by (simp add: runs_inv_def run_ok_def)
  define h where "h = \<lparr>hist_id = ''gx-run-hist-'' @ uuid, hist_runId = rt_runId t,
                    hist_fromStatus = or_none (run_status row),
                    hist_toStatus = rt_newStatus t, hist_changedBy = rt_changedBy t, hist_changedAt = now,
                    hist_reason = rt_reason t, hist_details = rt_details t\<rparr>"
  show ?thesis
  proof (cases "or_none (run_status row) = Some (rt_newStatus t)")
    case True
    then have "run_status row = rt_newStatus t" by (simp add: or_none_def split: if_splits)
    with runs_inv_keep_status [OF assms(1) Some, of "changed_row now t row"] have
      "runs_inv (r\<lparr>runs := AList.update (rt_runId t) (changed_row now t row) (runs r)\<rparr>)" by simp
    with True Some show ?thesis by (simp add: record_run_status_transition_def)
  next
    case False
    have "runs_inv (r\<lparr>runs := AList.update (hist_runId h) (changed_row now t row) (runs r),
        run_history := run_history r @ [h]\<rparr>)"
      using assms Some i by (intro runs_inv_extend) (simp_all add: h_def)
    with Some False show ?thesis by (simp add: record_run_status_transition_def h_def)
  qed
qed (simp add: record_run_status_transition_def assms)

lemma comments_inv: "runs_inv r \<Longrightarrow> runs_inv (snd (update_run_comments readable now i comments r))"
  by (cases "map_of (runs r) i") (auto simp: update_run_comments_def Let_def intro: runs_inv_keep_status)

interpretation run_repository: preserved "run_step readable" runs_inv for readable
  by unfold_locales (auto elim!: run_step.cases intro: create_run_inv run_transition_inv comments_inv)

lemma history_of_inv: "runs_inv r \<Longrightarrow> list_run_status_history r i = rows_of r i"
  unfolding list_run_status_history_def rows_of_def runs_inv_def
  by (metis sorted_filter sorted_sort_id sort_key_id_if_sorted)

lemma runs_inv_empty: "runs_inv empty_runs"
  by (simp add: runs_inv_def empty_runs_def rows_of_def)

text \<open>
  C31: the status history of a run is an unbroken trail. In every run of the repository from
  the empty state, the history shown with a run starts with its creation, each row starts
  at the status the row before it ended with, and the last row ends at the status of the run.
\<close>

theorem status_history_is_a_trail:
  assumes "(run_step readable)\<^sup>*\<^sup>* empty_runs r" and "get_run readable r i = Inr (Some (row, hs))"
  shows "hs \<noteq> [] \<and> trail None hs (run_status row)"
proof -
  have inv: "runs_inv r" by (rule run_repository.run [OF assms(1) runs_inv_empty])
  obtain old where old: "map_of (runs r) i = Some old" "run_status row = run_status old"
    "hs = list_run_status_history r i"
    using assms(2) by (auto simp: get_run_def build_run_entity_def split: option.splits sum.splits if_splits)
  with inv show ?thesis by (simp add: history_of_inv runs_inv_def run_ok_def)
qed

definition demo_create :: run_create where
  "demo_create = \<lparr>rc_runId = ''r1'', rc_suiteId = None, rc_suiteVersion = None, rc_ruleId = None,
     rc_ruleVersionId = None, rc_correlationId = ''c'', rc_requestedBy = None, rc_engineType = Some ''gx'',
     rc_engineTarget = ''spark'', rc_executionShape = ''single_object'', rc_status = ''pending'',
     rc_submittedAt = ''t0'', rc_executionContract = PDict [], rc_handoffPayload = PNone,
     rc_executionProgress = PNone, rc_startedAt = None, rc_completedAt = None, rc_resultSummary = PNone,
     rc_metrics = PNone, rc_performanceSummary = PNone, rc_diagnostics = [], rc_failureCode = None,
     rc_failureMessage = None, rc_comments = None, rc_statusReason = None, rc_statusDetails = []\<rparr>"

definition demo_change :: "string \<Rightarrow> run_transition" where
  "demo_change s = \<lparr>rt_runId = ''r1'', rt_newStatus = s, rt_changedBy = None, rt_reason = None, rt_details = [],
     rt_executionProgress = PNone, rt_startedAt = None, rt_completedAt = None, rt_resultSummary = PNone,
     rt_metrics = PNone, rt_performanceSummary = PNone, rt_diagnostics = None, rt_failureCode = None,
     rt_failureMessage = None\<rparr>"

definition demo_run0 :: run_repo where
  "demo_run0 = snd (create_run (\<lambda>_. True) ''u0'' ''t0'' demo_create empty_runs)"

definition demo_run1 :: run_repo where
  "demo_run1 = snd (record_run_status_transition (\<lambda>_. True) ''u1'' ''t1'' (demo_change ''failed'') demo_run0)"

lemmas demo_run_eval = demo_run0_def demo_run1_def create_run_def record_run_status_transition_def
  demo_create_def demo_change_def empty_runs_def row_of_create_def json_or_def Let_def or_none_def

theorem status_history_is_a_trail_witness:
  "\<exists>row hs. get_run (\<lambda>_. True) demo_run1 ''r1'' = Inr (Some (row, hs)) \<and> run_status row = ''failed'' \<and>
     trail None hs ''failed''"
proof -
  have "run_step (\<lambda>_. True) empty_runs demo_run0"
    unfolding demo_run0_def by (rule step_create) (simp add: empty_runs_def)
  moreover have "run_step (\<lambda>_. True) demo_run0 demo_run1"
    unfolding demo_run1_def by (rule step_transition) (simp add: demo_run_eval less_char_def less_eq_char_def)
  ultimately have run: "(run_step (\<lambda>_. True))\<^sup>*\<^sup>* empty_runs demo_run1"
    by (meson converse_rtranclp_into_rtranclp rtranclp.rtrancl_refl)
  obtain row hs where get: "get_run (\<lambda>_. True) demo_run1 ''r1'' = Inr (Some (row, hs))"
    and status: "run_status row = ''failed''"
    by (simp add: get_run_def build_run_entity_def demo_run_eval changed_row_def or_old_def json_or_old_def text_eval)
  from status_history_is_a_trail [OF run get] get status show ?thesis by auto
qed

text \<open>The stored row after a transition that is not refused.\<close>

lemma transition_row:
  "map_of (runs r) (rt_runId t) = Some row \<Longrightarrow>
     map_of (runs (snd (record_run_status_transition readable uuid now t r))) (rt_runId t) = Some (changed_row now t row)"
  by (simp add: record_run_status_transition_def Let_def)

text \<open>
  A finished run can be reopened and keeps its first completion time. The repository
  checks no transition: a run that has succeeded, failed or been cancelled and carries a
  completion time can be set to running, and when it finishes again without an explicit time the
  completion time is still the one of the first end.
\<close>

theorem reopened_run_keeps_first_completion:
  assumes "map_of (runs r) i = Some row" and "run_completedAt row = Some done_at" and "done_at \<noteq> []"
    and "rt_runId t1 = i" and "rt_newStatus t1 = ''running''" and "rt_completedAt t1 = None"
    and "rt_runId t2 = i" and "rt_newStatus t2 \<in> set terminal_run_statuses" and "rt_completedAt t2 = None"
  shows "\<exists>reopened finished.
    map_of (runs (snd (record_run_status_transition readable u1 n1 t1 r))) i = Some reopened \<and>
    run_status reopened = ''running'' \<and> run_completedAt reopened = Some done_at \<and>
    map_of (runs (snd (record_run_status_transition readable u2 n2 t2
      (snd (record_run_status_transition readable u1 n1 t1 r))))) i = Some finished \<and>
    run_status finished = rt_newStatus t2 \<and> run_completedAt finished = Some done_at"
proof -
  let ?r1 = "snd (record_run_status_transition readable u1 n1 t1 r)"
  have one: "map_of (runs ?r1) i = Some (changed_row n1 t1 row)"
    using transition_row [of r t1 row] assms(1,4) by simp
  have two: "map_of (runs (snd (record_run_status_transition readable u2 n2 t2 ?r1))) i =
      Some (changed_row n2 t2 (changed_row n1 t1 row))"
    using transition_row [of ?r1 t2] one assms(7) by simp
  have "run_completedAt (changed_row n1 t1 row) = Some done_at"
    using assms by (simp add: changed_row_def or_old_def Let_def)
  then show ?thesis
    using one two assms by (simp add: changed_row_def [of n2] or_old_def Let_def)
qed

theorem reopened_run_keeps_first_completion_witness:
  "\<exists>finished.
     map_of (runs (snd (record_run_status_transition (\<lambda>_. True) ''u3'' ''t3'' (demo_change ''succeeded'')
       (snd (record_run_status_transition (\<lambda>_. True) ''u2'' ''t2'' (demo_change ''running'') demo_run1))))) ''r1'' =
     Some finished \<and> run_completedAt finished = Some ''t1''"
proof -
  obtain row where "map_of (runs demo_run1) ''r1'' = Some row" "run_completedAt row = Some ''t1''"
    by (simp add: demo_run_eval changed_row_def or_old_def terminal_run_statuses_def or_now_def)
  from reopened_run_keeps_first_completion [OF this, where ?t1.0 = "demo_change ''running''"
      and ?t2.0 = "demo_change ''succeeded''" and readable = "\<lambda>_. True" and ?u1.0 = "''u2''" and ?n1.0 = "''t2''"
      and ?u2.0 = "''u3''" and ?n2.0 = "''t3''"]
  show ?thesis by (auto simp: demo_change_def terminal_run_statuses_def)
qed

end
