(* ===== verification/Run_Plan_Validation.thy ===== *)
theory Run_Plan_Validation
  imports Run_Plans
begin

text \<open>
  Validation and activation of run plan versions: \<^verbatim>\<open>gx_suite_validation.py\<close>,
  \<^verbatim>\<open>gx_run_plan_validation.py\<close> and the use cases of \<^verbatim>\<open>gx_run_plans.py\<close> that create,
  validate and activate versions.

  A version stores its suite, contract and schedule as JSON. Reading them into entities is
  schema validation; the readers of contracts, suites and grouped plans are the arguments
  \<open>readers\<close>. The scopes of a suite hold lists. The seed resolver and the dispatcher are
  arguments that answer or raise.
\<close>


section \<open>Entities\<close>

record traceability =
  tr_ruleId :: "string option"
  tr_ruleVersionId :: "string option"
  tr_gxSuiteId :: "string option"
  tr_gxSuiteVersion :: "int option"

record contract =
  ec_engineType :: "string option"
  ec_engineTarget :: "string option"
  ec_executionShape :: "string option"
  ec_traceability :: "traceability option"
  ec_sourceMaterialization :: "json option"

record expectation =
  ex_type :: "string option"
  ex_kwargs :: "(string \<times> json) list option"

record suite_snapshot =
  ss_suiteId :: "string option"
  ss_suiteVersion :: "int option"
  ss_artifactVersion :: "string option"
  ss_assignmentScope :: "(string \<times> json) list"
  ss_resolvedExecutionScope :: "(string \<times> json) list"
  ss_expectations :: "expectation list option"
  ss_compiledFrom :: "(string \<times> json) list"
  ss_executionHints :: "(string \<times> json) list"
  ss_executionContract :: "contract option"

datatype version_snapshot =
    SingleSuite suite_snapshot
  | GroupedSuites "json option" "suite_snapshot list"

record validation_snapshot =
  vs_scheduledAt :: "string option"
  vs_selectionMode :: "string option"
  vs_contract :: "contract option"
  vs_snapshot :: "version_snapshot option"
  vs_groupedPlan :: "json option"
  vs_groupedEnvelopes :: "suite_snapshot list"

record readers =
  read_contract :: "json \<Rightarrow> contract option"
  read_suite :: "json \<Rightarrow> suite_snapshot option"
  read_grouped_plan :: "json \<Rightarrow> json option"

text \<open>\<open>str(v) if v is not None else None\<close>, \<open>payload.get(key)\<close> of a value that may not be a mapping.\<close>

definition opt_str :: "json \<Rightarrow> string option" where
  "opt_str v = (if v = PNone then None else Some (py_str v))"

definition jget :: "json \<Rightarrow> string \<Rightarrow> json" where
  "jget payload key = (case payload of PDict d \<Rightarrow> pget d key | _ \<Rightarrow> PNone)"

definition json_items :: "json \<Rightarrow> json list" where
  "json_items v = (case v of PList vs \<Rightarrow> vs | _ \<Rightarrow> [])"

fun somes :: "'a option list \<Rightarrow> 'a list" where
  "somes [] = []"
| "somes (x # xs) = (case x of None \<Rightarrow> somes xs | Some y \<Rightarrow> y # somes xs)"

definition build_validation_snapshot :: "readers \<Rightarrow> plan_version \<Rightarrow> validation_snapshot" where
  "build_validation_snapshot rd v =
     (let mode = opt_str (jget (pv_gxSuiteSelection v) ''selectionMode'');
          plan = read_grouped_plan rd (jget (pv_suiteSnapshot v) ''groupedExecutionPlan'');
          envelopes = somes (map (read_suite rd) (json_items (jget (pv_suiteSnapshot v) ''suiteEnvelopes'')))
      in \<lparr>vs_scheduledAt = opt_str (jget (pv_scheduleDefinition v) ''scheduledAt''),
          vs_selectionMode = mode,
          vs_contract = read_contract rd (pv_executionContractSnapshot v),
          vs_snapshot =
            (if strip (text_of mode) = ''grouped_scope''
             then (case pv_suiteSnapshot v of PDict _ \<Rightarrow> Some (GroupedSuites plan envelopes) | _ \<Rightarrow> None)
             else map_option SingleSuite (read_suite rd (pv_suiteSnapshot v))),
          vs_groupedPlan = plan,
          vs_groupedEnvelopes = envelopes\<rparr>)"


section \<open>Runnable suites\<close>

datatype suite_problem =
    MissingExecutionContract
  | MissingTargets
  | MissingGxSuite
  | EmptyExpectations
  | ExpectationWithoutType nat
  | ExpectationWithoutKwargs string


definition resolved_target_ids :: "(string \<times> json) list \<Rightarrow> string list" where
  "resolved_target_ids scope =
     filter (\<lambda>t. t \<noteq> []) (map (\<lambda>v. strip (py_str v)) (json_items (pget scope ''dataObjectVersionIds'')))"

fun check_expectations :: "nat \<Rightarrow> expectation list \<Rightarrow> suite_problem option" where
  "check_expectations i [] = None"
| "check_expectations i (e # es) =
     (let expectation_type = strip (text_of (ex_type e))
      in if expectation_type = [] then Some (ExpectationWithoutType i)
         else (case ex_kwargs e of
                 None \<Rightarrow> Some (ExpectationWithoutKwargs expectation_type)
               | Some kwargs \<Rightarrow>
                   if kwargs = [] then Some (ExpectationWithoutKwargs expectation_type)
                   else check_expectations (Suc i) es))"

definition assert_gx_suite_runnable :: "suite_snapshot \<Rightarrow> suite_problem option" where
  "assert_gx_suite_runnable s =
     (if ss_executionContract s = None then Some MissingExecutionContract
      else if resolved_target_ids (ss_resolvedExecutionScope s) = [] then Some MissingTargets
      else (case ss_expectations s of
              None \<Rightarrow> Some MissingGxSuite
            | Some es \<Rightarrow> if es = [] then Some EmptyExpectations else check_expectations 0 es))"


section \<open>Snapshot checks\<close>

type_synonym field_errors = "(string \<times> string) list"

datatype detail =
    NoDetail
  | Fields field_errors
  | NotRunnable suite_problem

record diagnostic =
  d_code :: string
  d_scope :: string
  d_detail :: detail


abbreviation blank :: "string option \<Rightarrow> bool" where
  "blank v \<equiv> strip (text_of v) = []"

abbreviation below_one :: "int option \<Rightarrow> bool" where
  "below_one v \<equiv> (case v of None \<Rightarrow> True | Some n \<Rightarrow> n < 1)"

definition error_if :: "bool \<Rightarrow> string \<Rightarrow> string \<Rightarrow> field_errors" where
  "error_if b field message = (if b then [(field, message)] else [])"


definition single_suite_snapshot_structure_errors :: "suite_snapshot \<Rightarrow> field_errors" where
  "single_suite_snapshot_structure_errors s =
     error_if (blank (ss_suiteId s)) ''suite_id'' ''suite_id is required'' @
     error_if (below_one (ss_suiteVersion s)) ''suite_version'' ''suite_version must be >= 1'' @
     error_if (blank (ss_artifactVersion s)) ''artifact_version'' ''artifact_version is required'' @
     error_if (list_all (\<lambda>k. json_text (pget (ss_assignmentScope s) k) = []) [''dataObjectId'', ''datasetId'', ''dataProductId''])
       ''assignment_scope''
       ''At least one assignment scope identifier is required: dataObjectId, datasetId, or dataProductId'' @
     error_if (filter (\<lambda>t. t \<noteq> []) (map json_text (json_items (pget (ss_resolvedExecutionScope s) ''dataObjectVersionIds''))) = [])
       ''resolved_execution_scope.data_object_version_ids'' ''at least one target is required'' @
     error_if (json_text (pget (ss_compiledFrom s) ''compilerVersion'') = []) ''compiled_from.compiler_version''
       ''compiler_version is required'' @
     error_if (json_text (pget (ss_compiledFrom s) ''generatedAt'') = []) ''compiled_from.generated_at''
       ''generated_at is required'' @
     error_if (json_text (pget (ss_executionHints s) ''recommendedEngine'') = []) ''execution_hints.recommended_engine''
       ''recommended_engine is required''"


definition missing :: "string \<Rightarrow> string \<Rightarrow> diagnostic list" where
  "missing code scope = [\<lparr>d_code = code, d_scope = scope, d_detail = NoDetail\<rparr>]"



section \<open>The activation snapshot\<close>

text \<open>The value of the first key that is present and not null.\<close>

fun first_value :: "json \<Rightarrow> string list \<Rightarrow> json" where
  "first_value payload [] = PNone"
| "first_value payload (k # ks) = (if jget payload k \<noteq> PNone then jget payload k else first_value payload ks)"

definition suite_ref_of :: "json \<Rightarrow> string option \<times> int option \<times> string option" where
  "suite_ref_of r =
     (let a = jget r ''engineType''; b = jget r ''engine_type''
      in (opt_str (first_value r [''suiteId'', ''suite_id'', ''artifactId'', ''artifact_id'',
                                  ''validationArtifactId'', ''validation_artifact_id'']),
          json_int (first_value r [''suiteVersion'', ''suite_version'', ''artifactVersion'', ''artifact_version'',
                                   ''validationArtifactVersion'', ''validation_artifact_version'']),
          (if a \<noteq> PNone \<or> b \<noteq> PNone then Some (py_str (if py_true a then a else b)) else None)))"

definition suite_refs_of :: "json \<Rightarrow> (string option \<times> int option \<times> string option) list" where
  "suite_refs_of selection =
     map suite_ref_of
       (filter (\<lambda>r. case r of PDict _ \<Rightarrow> True | _ \<Rightarrow> False) (json_items (jget selection ''suiteRefs'')))"

definition normalized_engine :: "string option \<Rightarrow> string option" where
  "normalized_engine v = or_none (lower (strip (text_of v)))"

definition single_suite_selection_engine_type :: "plan_version \<Rightarrow> string option" where
  "single_suite_selection_engine_type v =
     (let refs = suite_refs_of (pv_gxSuiteSelection v);
          matching = filter (\<lambda>(i, n, e). strip (text_of i) = strip (text_of (pv_suiteId v)) \<and> n = pv_suiteVersion v) refs
      in case matching of
           [(_, _, e)] \<Rightarrow> normalized_engine e
         | _ \<Rightarrow> (case refs of [(_, _, e)] \<Rightarrow> normalized_engine e | _ \<Rightarrow> None))"

definition resolved_single_suite_engine_type ::
  "plan_version \<Rightarrow> suite_snapshot \<Rightarrow> contract option \<Rightarrow> string option" where
  "resolved_single_suite_engine_type v s c =
     (case normalized_engine (case ss_executionContract s of None \<Rightarrow> None | Some k \<Rightarrow> ec_engineType k) of
        Some e \<Rightarrow> Some e
      | None \<Rightarrow>
          (case normalized_engine (case c of None \<Rightarrow> None | Some k \<Rightarrow> ec_engineType k) of
             Some e \<Rightarrow> Some e
           | None \<Rightarrow> single_suite_selection_engine_type v))"

definition with_single_suite_engine_type :: "suite_snapshot \<Rightarrow> string option \<Rightarrow> suite_snapshot" where
  "with_single_suite_engine_type s engine =
     (case (engine, ss_executionContract s) of
        (Some e, Some k) \<Rightarrow>
          if normalized_engine (ec_engineType k) \<noteq> None then s
          else s\<lparr>ss_executionContract := Some (k\<lparr>ec_engineType := Some e\<rparr>)\<rparr>
      | _ \<Rightarrow> s)"

datatype snapshot_error =
    MissingSuiteSnapshot
  | InvalidSuiteSnapshot field_errors
  | SuiteNotRunnable suite_problem

definition resolve_single_suite_activation_snapshot :: "readers \<Rightarrow> plan_version \<Rightarrow> snapshot_error + suite_snapshot" where
  "resolve_single_suite_activation_snapshot rd v =
     (let vs = build_validation_snapshot rd v
      in case vs_snapshot vs of
           Some (SingleSuite s) \<Rightarrow>
             (let errors = single_suite_snapshot_structure_errors s;
                  s' = with_single_suite_engine_type s (resolved_single_suite_engine_type v s (vs_contract vs))
              in if errors \<noteq> [] then Inl (InvalidSuiteSnapshot errors)
                 else (case assert_gx_suite_runnable s' of
                         Some p \<Rightarrow> Inl (SuiteNotRunnable p)
                       | None \<Rightarrow> Inr s'))
         | _ \<Rightarrow> Inl MissingSuiteSnapshot)"

section \<open>Use cases\<close>

datatype use_case_error =
    NoSuchPlan string
  | NoSuchVersion string
  | WrongState string
  | NoSchedule
  | BadSchedule string
  | SnapshotRejected snapshot_error
  | DispatchFailed string
  | RepositoryError plan_error
  | SeedUnresolved string

definition get_version_or_404 :: "plan_entity \<Rightarrow> string \<Rightarrow> plan_version option" where
  "get_version_or_404 plan version_id = find (\<lambda>v. pv_id v = version_id) (pl_versions plan)"



text \<open>
  The dispatcher gets the mode of the run, the suite of a single-suite run and the time, and
  answers with the identifier of the queued message.
\<close>

type_synonym dispatcher = "suite_snapshot option \<Rightarrow> stamp \<Rightarrow> string \<Rightarrow> string \<Rightarrow> string + string"

definition dispatch_and_activate ::
  "dispatcher \<Rightarrow> plan_env \<Rightarrow> suite_snapshot option \<Rightarrow> stamp \<Rightarrow> string \<Rightarrow> string \<Rightarrow> string option \<Rightarrow> string option \<Rightarrow>
   plan_repo \<Rightarrow> (use_case_error + plan_entity \<times> string) \<times> plan_repo" where
  "dispatch_and_activate enqueue en suite scheduled_at plan_id version_id activated_by correlation_id r =
     (case enqueue suite scheduled_at plan_id version_id of
        Inl e \<Rightarrow> (Inl (DispatchFailed e), r)
      | Inr message_id \<Rightarrow>
          (case activate_plan en plan_id version_id activated_by (Some message_id) correlation_id r of
             (Inl e, r') \<Rightarrow> (Inl (RepositoryError e), r')
           | (Inr activated, r') \<Rightarrow> (Inr (activated, message_id), r')))"

definition activate_gx_run_plan_version ::
  "readers \<Rightarrow> iso_reader \<Rightarrow> dispatcher \<Rightarrow> plan_env \<Rightarrow> string \<Rightarrow> string \<Rightarrow> string option \<Rightarrow> string option \<Rightarrow> plan_repo \<Rightarrow>
   (use_case_error + plan_entity \<times> string) \<times> plan_repo" where
  "activate_gx_run_plan_version rd fromiso enqueue en plan_id version_id activated_by correlation_id r =
     (case get_plan r plan_id of
        None \<Rightarrow> (Inl (NoSuchPlan plan_id), r)
      | Some plan \<Rightarrow>
     (case get_version_or_404 plan version_id of
        None \<Rightarrow> (Inl (NoSuchVersion version_id), r)
      | Some version \<Rightarrow>
          if pv_governanceState version \<noteq> ''approved_pending_activation''
          then (Inl (WrongState (pv_governanceState version)), r)
          else
            (let scheduled_at_raw = strip (text_of (opt_str (jget (pv_scheduleDefinition version) ''scheduledAt'')))
             in if scheduled_at_raw = [] then (Inl NoSchedule, r)
                else (case fromiso (replace_Z scheduled_at_raw) of
                        None \<Rightarrow> (Inl (BadSchedule scheduled_at_raw), r)
                      | Some scheduled_at \<Rightarrow>
                          if text_of (opt_str (jget (pv_gxSuiteSelection version) ''selectionMode'')) = ''grouped_scope''
                          then dispatch_and_activate enqueue en None scheduled_at plan_id version_id activated_by
                                 correlation_id r
                          else if pv_suiteSnapshot version = PNone
                          then (Inl (SnapshotRejected MissingSuiteSnapshot), r)
                          else (case resolve_single_suite_activation_snapshot rd version of
                                  Inl e \<Rightarrow> (Inl (SnapshotRejected e), r)
                                | Inr suite \<Rightarrow>
                                    dispatch_and_activate enqueue en (Some suite) scheduled_at plan_id version_id
                                      activated_by correlation_id r)))))"

definition select_latest_pending_run_plan_version :: "plan_version list \<Rightarrow> plan_version option" where
  "select_latest_pending_run_plan_version versions =
     find (\<lambda>v. strip (pv_governanceState v) \<in>
             {''draft'', ''pending_validation'', ''validation_failed'', ''pending_review'', ''approved_pending_activation''})
       (rev versions)"

text \<open>
  Creation of a plan and of a version. The seed carries the resolved content; the stored
  selection and snapshot are its conversions \<open>to_selection\<close> and \<open>to_snapshot\<close>.
\<close>

record seed =
  sd_scopeSelector :: json
  sd_gxSuiteSelection :: json
  sd_suiteId :: "string option"
  sd_suiteVersion :: "int option"
  sd_suiteSnapshot :: json
  sd_executionContractSnapshot :: json

definition seed_content ::
  "(json \<Rightarrow> json) \<Rightarrow> (json \<Rightarrow> json) \<Rightarrow> seed \<Rightarrow> string \<Rightarrow> string option \<Rightarrow> version_content" where
  "seed_content to_selection to_snapshot sd scheduled_at supersedes =
     \<lparr>vc_gxSuiteSelection = to_selection (sd_gxSuiteSelection sd), vc_suiteId = sd_suiteId sd,
      vc_suiteVersion = sd_suiteVersion sd, vc_suiteSnapshot = to_snapshot (sd_suiteSnapshot sd),
      vc_executionContractSnapshot = sd_executionContractSnapshot sd,
      vc_scheduleDefinition = PDict [(''scheduledAt'', PStr scheduled_at)],
      vc_effectiveFrom = None, vc_validationStatus = None, vc_reviewStatus = None,
      vc_supersedesVersionId = supersedes\<rparr>"

definition create_gx_run_plan ::
  "(json \<Rightarrow> json) \<Rightarrow> (json \<Rightarrow> json) \<Rightarrow> (unit \<Rightarrow> string + seed) \<Rightarrow> plan_env \<Rightarrow> string \<Rightarrow> string \<Rightarrow> string \<Rightarrow> string \<Rightarrow> string \<Rightarrow>
   string option \<Rightarrow> string option \<Rightarrow> plan_repo \<Rightarrow> (use_case_error + plan_entity) \<times> plan_repo" where
  "create_gx_run_plan to_selection to_snapshot resolve_seed en plan_hex version_hex workspace_id planning_mode
     scheduled_at created_by correlation_id r =
     (case resolve_seed () of
        Inl e \<Rightarrow> (Inl (SeedUnresolved e), r)
      | Inr sd \<Rightarrow>
          (case create_plan en (''run-plan-'' @ take 12 plan_hex) (''run-plan-version-'' @ take 12 version_hex)
                  workspace_id (sd_scopeSelector sd) planning_mode ''draft'' created_by
                  (seed_content to_selection to_snapshot sd scheduled_at None) correlation_id r of
             (Inl e, r') \<Rightarrow> (Inl (RepositoryError e), r')
           | (Inr plan, r') \<Rightarrow> (Inr plan, r')))"

definition create_gx_run_plan_version ::
  "(json \<Rightarrow> json) \<Rightarrow> (json \<Rightarrow> json) \<Rightarrow> (unit \<Rightarrow> string + seed) \<Rightarrow> plan_env \<Rightarrow> string \<Rightarrow> string \<Rightarrow> string \<Rightarrow>
   string option \<Rightarrow> string option \<Rightarrow> plan_repo \<Rightarrow> (use_case_error + plan_entity) \<times> plan_repo" where
  "create_gx_run_plan_version to_selection to_snapshot resolve_seed en plan_id version_hex
     scheduled_at created_by correlation_id r =
     (case get_plan r plan_id of
        None \<Rightarrow> (Inl (NoSuchPlan plan_id), r)
      | Some plan \<Rightarrow>
     (case resolve_seed () of
        Inl e \<Rightarrow> (Inl (SeedUnresolved e), r)
      | Inr sd \<Rightarrow>
          (let previous =
             (case select_latest_pending_run_plan_version (pl_versions plan) of
                Some v \<Rightarrow> Some v
              | None \<Rightarrow> find (\<lambda>v. strip (pv_governanceState v) \<in> {''active'', ''superseded''}) (rev (pl_versions plan)))
           in case create_plan_version en plan_id (''run-plan-version-'' @ take 12 version_hex)
                     (seed_content to_selection to_snapshot sd scheduled_at (map_option pv_id previous))
                     created_by correlation_id r of
                (Inl e, r') \<Rightarrow> (Inl (RepositoryError e), r')
              | (Inr plan', r') \<Rightarrow> (Inr plan', r'))))"

section \<open>What validation accepts\<close>







lemma missing_nonempty [simp]: "missing c s \<noteq> []"
  by (simp add: missing_def)




text \<open>Validation reads only the content of a version, not its state.\<close>

definition same_content :: "plan_version \<Rightarrow> plan_version \<Rightarrow> bool" where
  "same_content v w \<longleftrightarrow>
     pv_gxSuiteSelection v = pv_gxSuiteSelection w \<and> pv_suiteSnapshot v = pv_suiteSnapshot w \<and>
     pv_scheduleDefinition v = pv_scheduleDefinition w \<and>
     pv_executionContractSnapshot v = pv_executionContractSnapshot w"




section \<open>Properties\<close>

definition stored_version :: "plan_repo \<Rightarrow> string \<Rightarrow> string \<Rightarrow> plan_version option" where
  "stored_version r pid vid =
     (if map_of (p_plans r) pid = None then None else find (\<lambda>v. pv_id v = vid) (plan_versions r pid))"

lemma stored_versionE:
  assumes "stored_version r pid vid = Some v"
  obtains plan where "map_of (p_plans r) pid = Some plan" "find (\<lambda>v. pv_id v = vid) (plan_versions r pid) = Some v"
  using assms by (auto simp: stored_version_def split: if_splits)

lemma get_stored:
  "stored_version r pid vid = Some v \<Longrightarrow> \<exists>plan. get_plan r pid = Some plan \<and> get_version_or_404 plan vid = Some v"
  by (auto simp: get_plan_def plan_entity_of_def run_plan.defs Let_def get_version_or_404_def elim!: stored_versionE)

lemma transition_columns_frame [simp]:
  "pv_id (transition_columns t ef v) = pv_id v" "same_content (transition_columns t ef v) v"
  "same_content (transition_columns t ef v\<lparr>pv_governanceState := t\<rparr>) v"
  by (auto simp: transition_columns_def same_content_def Let_def)

lemma transition_stored:
  assumes "stored_version r pid vid = Some v" and "is_valid_run_plan_version_transition (pv_governanceState v) t"
  shows "\<exists>ent r'. transition_plan_version en pid vid t ub ef co r = (Inr ent, r') \<and>
    stored_version r' pid vid = Some (transition_columns t ef v\<lparr>pv_governanceState := t\<rparr>) \<and>
    get_version_or_404 ent vid = Some (transition_columns t ef v\<lparr>pv_governanceState := t\<rparr>)"
proof -
  obtain p where p: "map_of (p_plans r) pid = Some p" "find (\<lambda>v. pv_id v = vid) (plan_versions r pid) = Some v"
    by (rule stored_versionE [OF assms(1)])
  have "find (\<lambda>v. pv_id v = vid) (update_first (\<lambda>v. pv_id v = vid) f (plan_versions r pid)) = Some (f v)"
    if "\<And>v. pv_id (f v) = pv_id v" for f
    using find_update_first [OF p(2), of f] that find_first [OF p(2)] by simp
  then show ?thesis
    using p assms(2) valid_nonempty [OF assms(2)]
    by (simp add: transition_plan_version_def Let_def persisted_def get_plan_def stored_version_def
        plan_entity_of_def run_plan.defs get_version_or_404_def is_valid_run_plan_version_transition_def)
qed

lemmas state_edges = is_valid_run_plan_version_transition_def run_plan_version_allowed_transitions_def dict_get_def text_eval


lemma supersede_other:
  "find (\<lambda>v. pv_id v = vid) (plan_versions (supersede_previous en pid vid ub co plan r) pid) =
     find (\<lambda>v. pv_id v = vid) (plan_versions r pid)"
  by (auto simp: supersede_previous_def Let_def intro: find_update_first_other)

lemma activate_stored:
  assumes "stored_version r pid vid = Some v" and "pv_governanceState v = ''approved_pending_activation''"
  shows "\<exists>ent r'. activate_plan en pid vid ub run co r = (Inr ent, r') \<and>
    stored_version r' pid vid = Some (v\<lparr>pv_governanceState := ''active''\<rparr>)"
proof -
  obtain p where p: "map_of (p_plans r) pid = Some p" "find (\<lambda>v. pv_id v = vid) (plan_versions r pid) = Some v"
    by (rule stored_versionE [OF assms(1)])
  let ?r1 = "supersede_previous en pid vid ub co p r"
  have "find (\<lambda>v. pv_id v = vid) (plan_versions ?r1 pid) = Some v"
    by (simp add: supersede_other p(2))
  from find_update_first [OF this, of "\<lambda>v. v\<lparr>pv_governanceState := ''active''\<rparr>"] find_first [OF this]
  have "find (\<lambda>v. pv_id v = vid) (update_first (\<lambda>v. pv_id v = vid) (\<lambda>v. v\<lparr>pv_governanceState := ''active''\<rparr>)
      (plan_versions ?r1 pid)) = Some (v\<lparr>pv_governanceState := ''active''\<rparr>)"
    by simp
  moreover have "strip ''approved_pending_activation'' = ''approved_pending_activation''"
    by (simp add: text_eval)
  ultimately show ?thesis
    using p assms(2)
    by (simp add: activate_plan_def Let_def persisted_def get_plan_def stored_version_def)
qed



lemma dispatch_stored:
  assumes "stored_version r pid vid = Some v" and "pv_governanceState v = ''approved_pending_activation''"
    and "enqueue suite st pid vid = Inr m"
  shows "\<exists>plan r'. dispatch_and_activate enqueue en suite st pid vid ub co r = (Inr (plan, m), r') \<and>
    stored_version r' pid vid = Some (v\<lparr>pv_governanceState := ''active''\<rparr>)"
proof -
  obtain ent r' where "activate_plan en pid vid ub (Some m) co r = (Inr ent, r')"
    "stored_version r' pid vid = Some (v\<lparr>pv_governanceState := ''active''\<rparr>)"
    using activate_stored [OF assms(1,2)] by blast
  with assms(3) show ?thesis by (simp add: dispatch_and_activate_def)
qed

text \<open>The schedule of a version as the activation reads it.\<close>

definition scheduled_text :: "plan_version \<Rightarrow> string" where
  "scheduled_text v = strip (text_of (opt_str (jget (pv_scheduleDefinition v) ''scheduledAt'')))"

definition mode_text :: "plan_version \<Rightarrow> string" where
  "mode_text v = text_of (opt_str (jget (pv_gxSuiteSelection v) ''selectionMode''))"




lemma activate_grouped:
  assumes "stored_version r pid vid = Some v" and "pv_governanceState v = ''approved_pending_activation''"
    and "mode_text v = ''grouped_scope''" and "scheduled_text v \<noteq> []"
    and "fromiso (replace_Z (scheduled_text v)) = Some st"
  shows "activate_gx_run_plan_version rd fromiso enqueue en pid vid ub co r =
    dispatch_and_activate enqueue en None st pid vid ub co r"
  using get_stored [OF assms(1)] assms(2-5)
  by (auto simp: activate_gx_run_plan_version_def Let_def scheduled_text_def mode_text_def)


text \<open>
  A version can be approved and activated without validation. Any stored draft of a grouped
  run, whatever its content, passes from activation-requested to approved\_pending\_activation, where
  it is marked as passed, and is then dispatched and activated, provided that its schedule
  can be read and the dispatcher accepts the run.
\<close>

theorem unvalidated_version_becomes_active:
  assumes "stored_version r pid vid = Some v" and "pv_governanceState v = ''draft''"
    and "mode_text v = ''grouped_scope''" and "scheduled_text v \<noteq> []"
    and "fromiso (replace_Z (scheduled_text v)) = Some st" and "enqueue None st pid vid = Inr m"
  shows "\<exists>e1 r1 e2 r2 plan r3 w.
    transition_plan_version en1 pid vid ''activation-requested'' ub None co r = (Inr e1, r1) \<and>
    transition_plan_version en2 pid vid ''approved_pending_activation'' ub None co r1 = (Inr e2, r2) \<and>
    activate_gx_run_plan_version rd fromiso enqueue en3 pid vid ub co r2 = (Inr (plan, m), r3) \<and>
    stored_version r3 pid vid = Some w \<and> pv_governanceState w = ''active'' \<and> pv_validationStatus w = ''passed''"
proof -
  let ?v1 = "transition_columns ''activation-requested'' None v\<lparr>pv_governanceState := ''activation-requested''\<rparr>"
  let ?v2 = "transition_columns ''approved_pending_activation'' None ?v1\<lparr>pv_governanceState := ''approved_pending_activation''\<rparr>"
  have "is_valid_run_plan_version_transition (pv_governanceState v) ''activation-requested''"
    using assms(2) by (simp add: state_edges)
  from transition_stored [OF assms(1) this] obtain e1 r1 where 1:
    "transition_plan_version en1 pid vid ''activation-requested'' ub None co r = (Inr e1, r1)"
    "stored_version r1 pid vid = Some ?v1" by blast
  have "is_valid_run_plan_version_transition (pv_governanceState ?v1) ''approved_pending_activation''"
    by (simp add: state_edges)
  from transition_stored [OF 1(2) this] obtain e2 r2 where 2:
    "transition_plan_version en2 pid vid ''approved_pending_activation'' ub None co r1 = (Inr e2, r2)"
    "stored_version r2 pid vid = Some ?v2" by blast
  have same: "mode_text ?v2 = mode_text v" "scheduled_text ?v2 = scheduled_text v"
    by (simp_all add: mode_text_def scheduled_text_def transition_columns_def Let_def)
  have approved: "pv_governanceState ?v2 = ''approved_pending_activation''" by simp
  from dispatch_stored [where enqueue = enqueue and suite = None, OF 2(2) this assms(6)]
  obtain plan r3 where 3: "dispatch_and_activate enqueue en3 None st pid vid ub co r2 = (Inr (plan, m), r3)"
    "stored_version r3 pid vid = Some (?v2\<lparr>pv_governanceState := ''active''\<rparr>)" by blast
  have "activate_gx_run_plan_version rd fromiso enqueue en3 pid vid ub co r2 = (Inr (plan, m), r3)"
    using activate_grouped [where fromiso = fromiso, OF 2(2) approved] 3(1) assms(3-5)
    by (simp only: same) simp
  then show ?thesis
    using 1 2 3(2) by (auto simp: transition_columns_def Let_def)
qed

section \<open>Examples\<close>

definition demo_version :: "string \<Rightarrow> string \<Rightarrow> plan_version" where
  "demo_version state mode =
     \<lparr>pv_id = ''v1'', pv_runPlanId = ''p1'', pv_governanceState = state,
      pv_gxSuiteSelection = PDict [(''selectionMode'', PStr mode)], pv_suiteId = None, pv_suiteVersion = None,
      pv_suiteSnapshot = PStr ''suite'', pv_executionContractSnapshot = PStr ''contract'',
      pv_scheduleDefinition = PDict [(''scheduledAt'', PStr ''noon'')], pv_validationStatus = ''not_requested'',
      pv_reviewStatus = None, pv_effectiveFrom = None, pv_supersedesVersionId = None, pv_createdBy = None,
      pv_createdAt = ''t0''\<rparr>"

definition demo_plan_repo :: "plan_version \<Rightarrow> plan_repo" where
  "demo_plan_repo v =
     \<lparr>p_plans = [(''p1'',
        \<lparr>pl_runPlanId = ''p1'', pl_businessKey = ''p1'', pl_workspaceId = ''default'', pl_scopeSelector = PDict [],
         pl_planningMode = ''single_suite'', pl_currentActiveVersionId = None, pl_status = ''draft'',
         pl_createdBy = None, pl_createdAt = ''t0'', pl_updatedAt = ''t0'', pl_activatedBy = None,
         pl_activatedAt = None, pl_lastDispatchedRunId = None\<rparr>)],
      p_versions_by_plan = [(''p1'', [v])], p_transition_events_by_plan = []\<rparr>"

definition demo_contract :: contract where
  "demo_contract = \<lparr>ec_engineType = Some ''gx'', ec_engineTarget = Some ''spark'', ec_executionShape = Some ''streaming'',
     ec_traceability = Some \<lparr>tr_ruleId = Some ''r'', tr_ruleVersionId = Some ''rv'', tr_gxSuiteId = Some ''s'',
       tr_gxSuiteVersion = Some 1\<rparr>, ec_sourceMaterialization = None\<rparr>"

definition demo_snapshot :: suite_snapshot where
  "demo_snapshot = \<lparr>ss_suiteId = Some ''s'', ss_suiteVersion = Some 1, ss_artifactVersion = Some ''1'',
     ss_assignmentScope = [(''datasetId'', PStr ''d'')],
     ss_resolvedExecutionScope = [(''dataObjectVersionIds'', PList [PStr ''dv''])],
     ss_expectations = Some [\<lparr>ex_type = Some ''not_null'', ex_kwargs = Some [(''column'', PStr ''c'')]\<rparr>],
     ss_compiledFrom = [(''compilerVersion'', PStr ''1''), (''generatedAt'', PStr ''t0'')],
     ss_executionHints = [(''recommendedEngine'', PStr ''gx'')], ss_executionContract = Some demo_contract\<rparr>"

definition demo_readers :: readers where
  "demo_readers =
     \<lparr>read_contract = (\<lambda>j. if j = PStr ''contract'' then Some demo_contract else None),
      read_suite = (\<lambda>j. if j = PStr ''suite'' then Some demo_snapshot else None),
      read_grouped_plan = (\<lambda>j. None)\<rparr>"

definition demo_noon :: iso_reader where
  "demo_noon s = (if s = ''noon'' then Some (Naive 12) else None)"

definition demo_plan_env :: plan_env where
  "demo_plan_env = \<lparr>now_iso = ''t1'', event_now = ''t1'', event_uuid = ''u'', superseded_now = ''t1'', superseded_uuid = ''u2''\<rparr>"

lemma demo_stored: "stored_version (demo_plan_repo (demo_version s m)) ''p1'' ''v1'' = Some (demo_version s m)"
  by (simp add: stored_version_def demo_plan_repo_def demo_version_def dict_get_def)

lemmas demo_json_eval = jget_def pget_def dict_get_def opt_str_def py_str_def json_items_def text_eval

lemma demo_texts:
  "mode_text (demo_version s m) = m" "scheduled_text (demo_version s m) = ''noon''"
  "pv_governanceState (demo_version s m) = s" "replace_Z ''noon'' = ''noon''"
  by (simp_all add: mode_text_def scheduled_text_def demo_version_def replace_Z_def demo_json_eval)





theorem unvalidated_version_becomes_active_witness:
  "\<exists>e1 r1 e2 r2 plan r3 w.
    transition_plan_version demo_plan_env ''p1'' ''v1'' ''activation-requested'' None None None
      (demo_plan_repo (demo_version ''draft'' ''grouped_scope'')) = (Inr e1, r1) \<and>
    transition_plan_version demo_plan_env ''p1'' ''v1'' ''approved_pending_activation'' None None None r1 = (Inr e2, r2) \<and>
    activate_gx_run_plan_version demo_readers demo_noon (\<lambda>suite st p v. Inr ''msg'') demo_plan_env ''p1'' ''v1'' None None r2 =
      (Inr (plan, ''msg''), r3) \<and>
    stored_version r3 ''p1'' ''v1'' = Some w \<and> pv_governanceState w = ''active'' \<and> pv_validationStatus w = ''passed''"
proof (rule unvalidated_version_becomes_active)
  show "stored_version (demo_plan_repo (demo_version ''draft'' ''grouped_scope'')) ''p1'' ''v1'' =
      Some (demo_version ''draft'' ''grouped_scope'')" by (rule demo_stored)
  show "demo_noon (replace_Z (scheduled_text (demo_version ''draft'' ''grouped_scope''))) = Some (Naive 12)"
    by (simp add: demo_texts demo_noon_def)
qed (simp_all add: demo_texts)

end
