(* ===== verification/Service_Levels.thy ===== *)
theory Service_Levels
  imports DQ_Prelude
begin

text \<open>
  Service level definitions, their adherence and the events of their breaches:
  \<^verbatim>\<open>use_cases/sla_slo_management.py\<close>, \<^verbatim>\<open>in_memory_sla_slo_repository.py\<close> and
  \<^verbatim>\<open>in_memory_dq_result_event_repository.py\<close>.

  Metric values are rational numbers. The three roundings of floating-point numbers the code makes
  are arguments (\<open>float_ops\<close>), as are reading and printing of times, so that the
  results hold for every rounding. Fields of a result event that this code neither reads nor
  writes are one JSON value.
\<close>


section \<open>Data\<close>

record slo =
  slo_id :: string
  slo_workspaceId :: string
  slo_name :: string
  slo_description :: "string option"
  slo_scopeKind :: string
  slo_scopeId :: string
  slo_metricKind :: string
  slo_thresholdValue :: "rat option"
  slo_thresholdOperator :: string
  slo_lookbackAmount :: int
  slo_lookbackUnit :: string
  slo_lifecycleStatus :: string
  slo_approvalStatus :: string
  slo_requestedBy :: "string option"
  slo_requestedAt :: "string option"
  slo_reviewedBy :: "string option"
  slo_reviewedAt :: "string option"
  slo_itsmSystem :: "string option"
  slo_itsmTicketId :: "string option"
  slo_itsmTicketNumber :: "string option"
  slo_itsmTicketUrl :: "string option"
  slo_createdAt :: string
  slo_updatedAt :: string

text \<open>The keys of a creation or update payload; \<^const>\<open>None\<close> for an absent or null key.\<close>

record slo_payload =
  sp_workspace_id :: "string option"
  sp_name :: "string option"
  sp_description :: "string option"
  sp_scope_kind :: "string option"
  sp_scope_id :: "string option"
  sp_metric_kind :: "string option"
  sp_threshold_value :: "rat option"
  sp_threshold_operator :: "string option"
  sp_lookback_amount :: "int option"
  sp_lookback_unit :: "string option"
  sp_requested_by :: "string option"

record adherence =
  ad_metricValue :: "rat option"
  ad_observed :: nat
  ad_compliant :: nat
  ad_nonCompliant :: nat
  ad_complianceRate :: "rat option"
  ad_currentValue :: "rat option"
  ad_currentObservedAt :: "string option"
  ad_latestObservedAt :: "string option"
  ad_meetsTarget :: "bool option"
  ad_summary :: string

record dimension =
  dm_name :: string
  dm_value :: "rat option"
  dm_maximum :: "rat option"
  dm_normalizedValue :: "rat option"
  dm_threshold :: "rat option"
  dm_passed :: "bool option"
  dm_reason :: "string option"

record result_event =
  ev_emittedAt :: string
  ev_severity :: string
  ev_datasetId :: string
  ev_datasetName :: "string option"
  ev_workspaceId :: "string option"
  ev_dataProductId :: "string option"
  ev_dataObjectId :: "string option"
  ev_domain :: "(string \<times> string option) option"
  ev_ruleId :: string
  ev_ruleName :: "string option"
  ev_status :: string
  ev_result :: "string option"
  ev_passed :: "bool option"
  ev_totalCount :: "int option"
  ev_validCount :: "int option"
  ev_invalidCount :: "int option"
  ev_warningCount :: "int option"
  ev_errorCount :: "int option"
  ev_score :: "rat option"
  ev_scoreLabel :: "string option"
  ev_observedAt :: "string option"
  ev_message :: "string option"
  ev_dimensions :: "dimension list"
  ev_correlationId :: string
  ev_runId :: "string option"
  ev_requestId :: "string option"
  ev_sourceSystem :: "string option"
  ev_other :: json

record float_ops =
  fo_pct :: "nat \<Rightarrow> nat \<Rightarrow> rat"
  fo_complement :: "rat \<Rightarrow> rat"
  fo_scale :: "rat \<Rightarrow> rat"

datatype slo_error =
    SloInvalid
  | SloNotFound
  | EventTimeInvalid string
  | EventTimesMixed
  | LookbackOutOfRange
  | EventConflict string
  | NegativeWindow
  | ItsmSystemMissing
  | ItsmEndpointMissing
  | ItsmTokenMissing
  | ItsmUnavailable
  | ItsmRequestFailed
  | ItsmTicketMissing


section \<open>Definitions\<close>

type_synonym slo_repo = "(string, slo) dict"

text \<open>\<open>str(value or default).strip().lower() or default\<close>.\<close>

definition lower_or :: "string option \<Rightarrow> string \<Rightarrow> string" where
  "lower_or v d =
     (let t = lower (strip (if truthy v then text_of v else d)) in if t = [] then d else t)"

text \<open>The entity of a row needs a threshold.\<close>

definition build_sla_slo_definition_entity :: "slo \<Rightarrow> slo option" where
  "build_sla_slo_definition_entity row = (if slo_thresholdValue row = None then None else Some row)"

definition slo_listed ::
  "string option \<Rightarrow> string option \<Rightarrow> string option \<Rightarrow> string option \<Rightarrow> slo \<Rightarrow> bool" where
  "slo_listed workspace_id status scope_kind metric_kind row \<longleftrightarrow>
     (let norm = (\<lambda>s. lower (strip s));
          same = (\<lambda>wanted actual. case wanted of None \<Rightarrow> True | Some w \<Rightarrow> norm actual = norm w)
      in same workspace_id (slo_workspaceId row) \<and>
         (same status (slo_lifecycleStatus row) \<or> same status (slo_approvalStatus row)) \<and>
         same scope_kind (slo_scopeKind row) \<and> same metric_kind (slo_metricKind row))"

definition list_sla_slo_definitions ::
  "string option \<Rightarrow> string option \<Rightarrow> string option \<Rightarrow> string option \<Rightarrow> slo_repo \<Rightarrow> slo list" where
  "list_sla_slo_definitions workspace_id status scope_kind metric_kind r =
     List.map_filter build_sla_slo_definition_entity
       (sort_desc (\<lambda>row. (if slo_updatedAt row \<noteq> [] then slo_updatedAt row else slo_createdAt row, slo_id row))
          (filter (slo_listed workspace_id status scope_kind metric_kind) (map snd r)))"


definition int_or :: "int option \<Rightarrow> int \<Rightarrow> int" where
  "int_or v d = (case v of None \<Rightarrow> d | Some n \<Rightarrow> if n = 0 then d else n)"

definition create_sla_slo_definition ::
  "string \<Rightarrow> string \<Rightarrow> slo_payload \<Rightarrow> string option \<Rightarrow> slo_repo \<Rightarrow> (slo_error + slo) \<times> slo_repo" where
  "create_sla_slo_definition uuid now p actor_id r =
     (let row = \<lparr>slo_id = uuid, slo_workspaceId = strip (text_of (sp_workspace_id p)),
            slo_name = strip (text_of (sp_name p)), slo_description = clean (sp_description p),
            slo_scopeKind = strip (text_of (sp_scope_kind p)), slo_scopeId = strip (text_of (sp_scope_id p)),
            slo_metricKind = strip (text_of (sp_metric_kind p)), slo_thresholdValue = sp_threshold_value p,
            slo_thresholdOperator = lower_or (sp_threshold_operator p) ''gte'',
            slo_lookbackAmount = int_or (sp_lookback_amount p) 30,
            slo_lookbackUnit = lower_or (sp_lookback_unit p) ''day'',
            slo_lifecycleStatus = ''draft'', slo_approvalStatus = ''draft'',
            slo_requestedBy = clean (if truthy actor_id then actor_id else sp_requested_by p),
            slo_requestedAt = Some now, slo_reviewedBy = None, slo_reviewedAt = None, slo_itsmSystem = None,
            slo_itsmTicketId = None, slo_itsmTicketNumber = None, slo_itsmTicketUrl = None,
            slo_createdAt = now, slo_updatedAt = now\<rparr>;
          r' = AList.update uuid row r
      in case build_sla_slo_definition_entity row of None \<Rightarrow> (Inl SloInvalid, r') | Some e \<Rightarrow> (Inr e, r'))"

definition or_keep :: "'a option \<Rightarrow> 'a \<Rightarrow> 'a" where
  "or_keep new old = (case new of None \<Rightarrow> old | Some x \<Rightarrow> x)"

definition updated_slo :: "string \<Rightarrow> slo_payload \<Rightarrow> string option \<Rightarrow> slo \<Rightarrow> slo" where
  "updated_slo now p actor_id row =
     row\<lparr>slo_workspaceId := or_keep (sp_workspace_id p) (slo_workspaceId row),
         slo_name := or_keep (sp_name p) (slo_name row),
         slo_description := clean (case sp_description p of None \<Rightarrow> slo_description row | Some d \<Rightarrow> Some d),
         slo_scopeKind := or_keep (sp_scope_kind p) (slo_scopeKind row),
         slo_scopeId := or_keep (sp_scope_id p) (slo_scopeId row),
         slo_metricKind := or_keep (sp_metric_kind p) (slo_metricKind row),
         slo_thresholdValue := (case sp_threshold_value p of None \<Rightarrow> slo_thresholdValue row | Some v \<Rightarrow> Some v),
         slo_thresholdOperator := lower_or (Some (or_keep (sp_threshold_operator p) (slo_thresholdOperator row))) ''gte'',
         slo_lookbackAmount := int_or (Some (or_keep (sp_lookback_amount p) (slo_lookbackAmount row))) 30,
         slo_lookbackUnit := lower_or (Some (or_keep (sp_lookback_unit p) (slo_lookbackUnit row))) ''day'',
         slo_updatedAt := now,
         slo_requestedBy :=
           (if truthy actor_id \<and> strip (text_of actor_id) \<noteq> [] then Some (strip (text_of actor_id))
            else slo_requestedBy row)\<rparr>"

definition update_sla_slo_definition ::
  "string \<Rightarrow> string \<Rightarrow> slo_payload \<Rightarrow> string option \<Rightarrow> slo_repo \<Rightarrow> (slo_error + slo) \<times> slo_repo" where
  "update_sla_slo_definition now i p actor_id r =
     (case map_of r i of
        None \<Rightarrow> (Inl SloNotFound, r)
      | Some row \<Rightarrow>
          (let row' = updated_slo now p actor_id row; r' = AList.update i row' r
           in case build_sla_slo_definition_entity row' of None \<Rightarrow> (Inl SloNotFound, r') | Some e \<Rightarrow> (Inr e, r')))"






section \<open>Result events\<close>

type_synonym event_repo = "(string, result_event) dict"

definition event_id :: "result_event \<Rightarrow> string" where
  "event_id e = ev_correlationId e @ '':'' @ text_of (ev_runId e) @ '':'' @ ev_status e"

definition record_result_event :: "result_event \<Rightarrow> event_repo \<Rightarrow> (slo_error + result_event) \<times> event_repo" where
  "record_result_event e r =
     (case map_of r (event_id e) of
        Some existing \<Rightarrow> if existing \<noteq> e then (Inl (EventConflict (event_id e)), r) else (Inr existing, r)
      | None \<Rightarrow> (Inr e, AList.update (event_id e) e r))"

definition parse_event_datetime :: "iso_reader \<Rightarrow> string \<Rightarrow> slo_error + stamp option" where
  "parse_event_datetime fromiso v =
     (if strip v = [] then Inr None
      else (case fromiso (replace_Z (strip v)) of None \<Rightarrow> Inl (EventTimeInvalid (strip v)) | Some st \<Rightarrow> Inr (Some st)))"

record scope_filter =
  sf_rule_id :: "string option"
  sf_dataset_id :: "string option"
  sf_domain_id :: "string option"
  sf_data_product_id :: "string option"
  sf_severity :: "string option"
  sf_status :: "string option"

definition scope_matches :: "scope_filter \<Rightarrow> result_event \<Rightarrow> bool" where
  "scope_matches f e \<longleftrightarrow>
     (let wanted = (\<lambda>w actual. case w of None \<Rightarrow> True | Some x \<Rightarrow> actual = x)
      in wanted (sf_rule_id f) (ev_ruleId e) \<and> wanted (sf_dataset_id f) (ev_datasetId e) \<and>
         wanted (sf_domain_id f) (case ev_domain e of None \<Rightarrow> [] | Some (i, _) \<Rightarrow> i) \<and>
         wanted (sf_data_product_id f) (text_of (ev_dataProductId e)) \<and>
         wanted (sf_severity f) (ev_severity e) \<and> wanted (sf_status f) (ev_status e))"

text \<open>
  The time window. A bound that compares a time with an offset with one without raises; a row without a time
  is outside every bound.
\<close>

definition misses_bound :: "(stamp \<Rightarrow> stamp \<Rightarrow> bool option) \<Rightarrow> stamp option \<Rightarrow> stamp option \<Rightarrow> slo_error + bool" where
  "misses_bound misses bound emitted =
     (case bound of
        None \<Rightarrow> Inr False
      | Some a \<Rightarrow>
          (case emitted of
             None \<Rightarrow> Inr True
           | Some st \<Rightarrow> (case misses st a of None \<Rightarrow> Inl EventTimesMixed | Some b \<Rightarrow> Inr b)))"

definition outside_window :: "stamp option \<Rightarrow> stamp option \<Rightarrow> stamp option \<Rightarrow> slo_error + bool" where
  "outside_window lo hi emitted =
     (case misses_bound earlier lo emitted of
        Inl e \<Rightarrow> Inl e
      | Inr True \<Rightarrow> Inr True
      | Inr False \<Rightarrow> misses_bound (\<lambda>st a. earlier a st) hi emitted)"

fun rows_after ::
  "iso_reader \<Rightarrow> scope_filter \<Rightarrow> stamp option \<Rightarrow> stamp option \<Rightarrow> result_event list \<Rightarrow> slo_error + result_event list" where
  "rows_after fromiso f lo hi [] = Inr []"
| "rows_after fromiso f lo hi (e # es) =
     (if \<not> scope_matches f e then rows_after fromiso f lo hi es
      else (case parse_event_datetime fromiso (ev_emittedAt e) of
              Inl err \<Rightarrow> Inl err
            | Inr emitted \<Rightarrow>
                (case outside_window lo hi emitted of
                   Inl err \<Rightarrow> Inl err
                 | Inr outside \<Rightarrow>
                     (case rows_after fromiso f lo hi es of
                        Inl err \<Rightarrow> Inl err
                      | Inr rows \<Rightarrow> Inr (if outside then rows else e # rows)))))"

definition emitted_stamp :: "iso_reader \<Rightarrow> result_event \<Rightarrow> stamp" where
  "emitted_stamp fromiso e =
     (case parse_event_datetime fromiso (ev_emittedAt e) of Inr (Some st) \<Rightarrow> st | _ \<Rightarrow> Aware 0 0)"

definition list_result_events ::
  "iso_reader \<Rightarrow> scope_filter \<Rightarrow> string option \<Rightarrow> string option \<Rightarrow> int \<Rightarrow> int \<Rightarrow> event_repo \<Rightarrow> slo_error + result_event list" where
  "list_result_events fromiso f emitted_after emitted_before limit offset r =
     (if limit < 0 \<or> offset < 0 then Inl NegativeWindow
      else (case (parse_event_datetime fromiso (text_of emitted_after), parse_event_datetime fromiso (text_of emitted_before)) of
              (Inl err, _) \<Rightarrow> Inl err
            | (Inr lo, Inl err) \<Rightarrow> Inl err
            | (Inr lo, Inr hi) \<Rightarrow>
                (case rows_after fromiso f lo hi (map snd r) of
                   Inl err \<Rightarrow> Inl err
                 | Inr rows \<Rightarrow>
                     if list_ex (\<lambda>e. is_aware (emitted_stamp fromiso e)) rows \<and>
                        list_ex (\<lambda>e. \<not> is_aware (emitted_stamp fromiso e)) rows
                     then Inl EventTimesMixed
                     else Inr (py_slice offset (offset + limit)
                            (sort_desc (\<lambda>e. (normalize_utc (emitted_stamp fromiso e), text_of (ev_runId e))) rows)))))"


section \<open>Adherence\<close>

definition lookback_us :: "int \<Rightarrow> string \<Rightarrow> int" where
  "lookback_us amount unit =
     (let u = lower (strip (if unit = [] then ''day'' else unit)); n = max amount 0
      in if u \<in> {''minute'', ''minutes''} then n * 60000000
         else if u \<in> {''hour'', ''hours''} then n * 3600000000
         else if u \<in> {''week'', ''weeks''} then n * 604800000000
         else n * 86400000000)"

definition lookback_start :: "int \<Rightarrow> int \<Rightarrow> string \<Rightarrow> slo_error + int" where
  "lookback_start now amount unit =
     (if now - lookback_us amount unit < 0 then Inl LookbackOutOfRange else Inr (now - lookback_us amount unit))"

definition event_metric_name :: "string \<Rightarrow> string" where
  "event_metric_name metric_kind =
     (let n = lower (strip metric_kind)
      in if n \<in> {''freshness'', ''completeness'', ''validity''} then n @ ''_score'' else ''quality_score'')"

definition lookup_dimension_value :: "float_ops \<Rightarrow> result_event \<Rightarrow> string \<Rightarrow> rat option" where
  "lookup_dimension_value fo e metric_name =
     (case find (\<lambda>d. lower (strip (dm_name d)) = lower metric_name) (ev_dimensions e) of
        Some d \<Rightarrow> (case dm_value d of Some v \<Rightarrow> Some v | None \<Rightarrow> map_option (fo_scale fo) (dm_normalizedValue d))
      | None \<Rightarrow> ev_score e)"

text \<open>The metric of an event, with the quality score as a fallback.\<close>

definition metric_value :: "float_ops \<Rightarrow> string \<Rightarrow> result_event \<Rightarrow> rat option" where
  "metric_value fo metric_name e =
     (case lookup_dimension_value fo e metric_name of
        Some v \<Rightarrow> Some v
      | None \<Rightarrow> if metric_name \<noteq> ''quality_score'' then lookup_dimension_value fo e ''quality_score'' else None)"

definition meets_target :: "rat \<Rightarrow> string \<Rightarrow> rat \<Rightarrow> bool" where
  "meets_target v operator threshold = (if operator = ''lte'' then v \<le> threshold else threshold \<le> v)"

definition observed_text :: "result_event \<Rightarrow> string" where
  "observed_text e = (if truthy (ev_observedAt e) then text_of (ev_observedAt e) else ev_emittedAt e)"

text \<open>A time that cannot be read counts as now.\<close>

definition event_timestamp :: "iso_reader \<Rightarrow> int \<Rightarrow> result_event \<Rightarrow> stamp" where
  "event_timestamp fromiso now e =
     (if observed_text e = [] then Aware now 0
      else (case fromiso (replace_Z (observed_text e)) of Some st \<Rightarrow> st | None \<Rightarrow> Aware now 0))"

definition scope_filter_kwargs :: "slo \<Rightarrow> scope_filter" where
  "scope_filter_kwargs d =
     (let kind = lower (strip (slo_scopeKind d)); i = strip (slo_scopeId d);
          none = \<lparr>sf_rule_id = None, sf_dataset_id = None, sf_domain_id = None, sf_data_product_id = None,
            sf_severity = None, sf_status = None\<rparr>
      in if kind = ''dataset'' then none\<lparr>sf_dataset_id := Some i\<rparr>
         else if kind = ''domain'' then none\<lparr>sf_domain_id := Some i\<rparr>
         else if kind = ''data_product'' then none\<lparr>sf_data_product_id := Some i\<rparr>
         else if kind = ''rule'' then none\<lparr>sf_rule_id := Some i\<rparr>
         else none)"

definition passed_count :: "result_event list \<Rightarrow> nat" where
  "passed_count es = length (filter (\<lambda>e. ev_passed e = Some True) es)"

definition rate_adherence ::
  "float_ops \<Rightarrow> slo \<Rightarrow> bool \<Rightarrow> rat \<Rightarrow> string \<Rightarrow> result_event \<Rightarrow> result_event list \<Rightarrow> adherence" where
  "rate_adherence fo d failures threshold operator latest es =
     (let n = length es; ok = passed_count es; bad = n - ok; counted = (if failures then bad else ok);
          v = fo_pct fo counted n
      in \<lparr>ad_metricValue = Some v, ad_observed = n, ad_compliant = ok, ad_nonCompliant = bad,
          ad_complianceRate = Some (if failures then fo_complement fo v else v),
          ad_currentValue = Some v, ad_currentObservedAt = Some (observed_text latest),
          ad_latestObservedAt = Some (observed_text latest),
          ad_meetsTarget = Some (meets_target v operator threshold),
          ad_summary = show_nat counted @ '' of '' @ show_nat n @
            (if failures then '' runs failed in the lookback window.'' else '' runs passed in the lookback window.'')\<rparr>)"

definition value_adherence ::
  "float_ops \<Rightarrow> slo \<Rightarrow> rat \<Rightarrow> string \<Rightarrow> result_event \<Rightarrow> result_event list \<Rightarrow> adherence" where
  "value_adherence fo d threshold operator latest es =
     (let vs = List.map_filter (metric_value fo (event_metric_name (slo_metricKind d))) es;
          n = length vs; ok = length (filter (\<lambda>v. meets_target v operator threshold) vs)
      in if vs = []
         then \<lparr>ad_metricValue = None, ad_observed = length es, ad_compliant = 0, ad_nonCompliant = length es,
               ad_complianceRate = None, ad_currentValue = None, ad_currentObservedAt = None,
               ad_latestObservedAt = Some (observed_text latest), ad_meetsTarget = None,
               ad_summary = ''No metric values were available for '' @ slo_metricKind d @ ''.''\<rparr>
         else \<lparr>ad_metricValue = Some (last vs), ad_observed = n, ad_compliant = ok, ad_nonCompliant = n - ok,
               ad_complianceRate = Some (fo_pct fo ok n), ad_currentValue = Some (last vs),
               ad_currentObservedAt = Some (observed_text latest), ad_latestObservedAt = Some (observed_text latest),
               ad_meetsTarget = Some (meets_target (last vs) operator threshold),
               ad_summary = show_nat ok @ '' of '' @ show_nat n @ '' observed runs met the '' @ slo_metricKind d @ '' target.''\<rparr>)"

definition no_adherence :: adherence where
  "no_adherence = \<lparr>ad_metricValue = None, ad_observed = 0, ad_compliant = 0, ad_nonCompliant = 0,
     ad_complianceRate = None, ad_currentValue = None, ad_currentObservedAt = None, ad_latestObservedAt = None,
     ad_meetsTarget = None, ad_summary = ''No matching history is available yet.''\<rparr>"

definition mixed_times :: "iso_reader \<Rightarrow> int \<Rightarrow> result_event list \<Rightarrow> bool" where
  "mixed_times fromiso now es \<longleftrightarrow>
     list_ex (\<lambda>e. is_aware (event_timestamp fromiso now e)) es \<and>
     list_ex (\<lambda>e. \<not> is_aware (event_timestamp fromiso now e)) es"

definition build_adherence ::
  "float_ops \<Rightarrow> iso_reader \<Rightarrow> int \<Rightarrow> slo \<Rightarrow> result_event list \<Rightarrow> slo_error + adherence" where
  "build_adherence fo fromiso now d events =
     (if events = [] then Inr no_adherence
      else if mixed_times fromiso now events then Inl EventTimesMixed
      else
        (let kind = lower (strip (if slo_metricKind d = [] then ''quality_score'' else slo_metricKind d));
             operator = lower (strip (if slo_thresholdOperator d = [] then ''gte'' else slo_thresholdOperator d));
             threshold = (case slo_thresholdValue d of None \<Rightarrow> 0 | Some v \<Rightarrow> v);
             ordered = sort_key (\<lambda>e. normalize_utc (event_timestamp fromiso now e)) events;
             latest = last ordered
         in Inr (if kind = ''critical_rule_pass_rate'' then rate_adherence fo d False threshold operator latest ordered
                 else if kind = ''incident_rate'' then rate_adherence fo d True threshold operator latest ordered
                 else value_adherence fo d threshold operator latest ordered)))"

section \<open>Use cases\<close>

definition load_events_for_definition ::
  "iso_reader \<Rightarrow> (int \<Rightarrow> string) \<Rightarrow> int \<Rightarrow> slo \<Rightarrow> event_repo \<Rightarrow> slo_error + result_event list" where
  "load_events_for_definition fromiso isoformat now d r =
     (case lookback_start now (slo_lookbackAmount d) (slo_lookbackUnit d) of
        Inl e \<Rightarrow> Inl e
      | Inr start \<Rightarrow> list_result_events fromiso (scope_filter_kwargs d) (Some (isoformat start)) None 250 0 r)"

definition adherence_of ::
  "float_ops \<Rightarrow> iso_reader \<Rightarrow> (int \<Rightarrow> string) \<Rightarrow> int \<Rightarrow> event_repo \<Rightarrow> slo \<Rightarrow> slo_error + adherence" where
  "adherence_of fo fromiso isoformat now r d =
     (case load_events_for_definition fromiso isoformat now d r of
        Inl e \<Rightarrow> Inl e
      | Inr events \<Rightarrow> build_adherence fo fromiso now d events)"

definition breach_severity :: "slo \<Rightarrow> string" where
  "breach_severity d =
     (if lower (strip (slo_metricKind d)) \<in> {''incident_rate'', ''critical_rule_pass_rate''} then ''high'' else ''warning'')"

definition breach_time :: "adherence \<Rightarrow> string \<Rightarrow> string" where
  "breach_time a now_text =
     (let raw = (if truthy (ad_latestObservedAt a) then ad_latestObservedAt a else ad_currentObservedAt a)
      in case clean raw of None \<Rightarrow> now_text | Some s \<Rightarrow> s)"

definition build_breach_event :: "string \<Rightarrow> slo \<Rightarrow> adherence \<Rightarrow> result_event" where
  "build_breach_event now_text d a =
     (let emitted_at = breach_time a now_text;
          metric_name = (let n = strip (if slo_metricKind d = [] then ''quality_score'' else slo_metricKind d)
                         in if n = [] then ''quality_score'' else n);
          kind = lower (strip (slo_scopeKind d)); scope_id = strip (slo_scopeId d);
          summary = (if ad_summary a = [] then slo_name d @ '' missed its '' @ metric_name @ '' target.'' else ad_summary a)
      in \<lparr>ev_emittedAt = emitted_at, ev_severity = breach_severity d,
          ev_datasetId = (if scope_id = [] then slo_id d else scope_id), ev_datasetName = Some (slo_name d),
          ev_workspaceId = Some (slo_workspaceId d),
          ev_dataProductId = (if kind = ''data_product'' then Some scope_id else None),
          ev_dataObjectId = (if kind = ''dataset'' then Some scope_id else None),
          ev_domain = (if kind = ''domain'' \<and> scope_id \<noteq> [] then Some (scope_id, Some (slo_name d)) else None),
          ev_ruleId = slo_id d, ev_ruleName = Some (slo_name d),
          ev_status = ''failed'', ev_result = Some ''breach'', ev_passed = Some False,
          ev_totalCount = Some (int (ad_observed a)), ev_validCount = Some (int (ad_compliant a)),
          ev_invalidCount = Some (int (ad_nonCompliant a)), ev_warningCount = Some 0,
          ev_errorCount = Some (int (ad_nonCompliant a)), ev_score = ad_currentValue a,
          ev_scoreLabel = Some metric_name, ev_observedAt = Some emitted_at, ev_message = Some summary,
          ev_dimensions = [\<lparr>dm_name = metric_name, dm_value = ad_currentValue a, dm_maximum = Some 100,
            dm_normalizedValue = None, dm_threshold = slo_thresholdValue d, dm_passed = Some False,
            dm_reason = Some summary\<rparr>],
          ev_correlationId = ''sla-slo:'' @ slo_id d @ '':'' @ emitted_at, ev_runId = Some (slo_id d),
          ev_requestId = Some (slo_workspaceId d), ev_sourceSystem = Some ''service-levels'', ev_other = PDict []\<rparr>)"

record breach =
  br_definition :: slo
  br_adherence :: adherence
  br_event :: result_event

fun evaluate_definitions ::
  "float_ops \<Rightarrow> iso_reader \<Rightarrow> (int \<Rightarrow> string) \<Rightarrow> int \<Rightarrow> slo list \<Rightarrow> event_repo \<Rightarrow> (slo_error + breach list) \<times> event_repo" where
  "evaluate_definitions fo fromiso isoformat now [] r = (Inr [], r)"
| "evaluate_definitions fo fromiso isoformat now (d # ds) r =
     (case adherence_of fo fromiso isoformat now r d of
        Inl e \<Rightarrow> (Inl e, r)
      | Inr a \<Rightarrow>
          if ad_meetsTarget a \<noteq> Some False then evaluate_definitions fo fromiso isoformat now ds r
          else (case record_result_event (build_breach_event (isoformat now) d a) r of
                  (Inl e, r1) \<Rightarrow> (Inl e, r1)
                | (Inr ev, r1) \<Rightarrow>
                    (case evaluate_definitions fo fromiso isoformat now ds r1 of
                       (Inl e, r2) \<Rightarrow> (Inl e, r2)
                     | (Inr bs, r2) \<Rightarrow>
                         (Inr (\<lparr>br_definition = d, br_adherence = a, br_event = ev\<rparr> # bs), r2))))"

definition evaluate_sla_slo_breaches ::
  "float_ops \<Rightarrow> iso_reader \<Rightarrow> (int \<Rightarrow> string) \<Rightarrow> int \<Rightarrow> string \<Rightarrow> slo_repo \<Rightarrow> event_repo \<Rightarrow>
   (slo_error + nat \<times> breach list) \<times> event_repo" where
  "evaluate_sla_slo_breaches fo fromiso isoformat now workspace_id repo r =
     (let ds = list_sla_slo_definitions (Some workspace_id) (Some ''active'') None None repo
      in case evaluate_definitions fo fromiso isoformat now ds r of
           (Inl e, r') \<Rightarrow> (Inl e, r')
         | (Inr bs, r') \<Rightarrow> (Inr (length ds, bs), r'))"

record slo_summary =
  sm_definitions :: "(slo \<times> adherence) list"
  sm_total :: nat
  sm_active :: nat
  sm_draft :: nat
  sm_approved :: nat
  sm_deprecated :: nat
  sm_compliant :: nat
  sm_at_risk :: nat

fun enrich ::
  "float_ops \<Rightarrow> iso_reader \<Rightarrow> (int \<Rightarrow> string) \<Rightarrow> int \<Rightarrow> event_repo \<Rightarrow> slo list \<Rightarrow> slo_error + (slo \<times> adherence) list" where
  "enrich fo fromiso isoformat now r [] = Inr []"
| "enrich fo fromiso isoformat now r (d # ds) =
     (case adherence_of fo fromiso isoformat now r d of
        Inl e \<Rightarrow> Inl e
      | Inr a \<Rightarrow> (case enrich fo fromiso isoformat now r ds of Inl e \<Rightarrow> Inl e | Inr xs \<Rightarrow> Inr ((d, a) # xs)))"

definition get_sla_slo_summary ::
  "float_ops \<Rightarrow> iso_reader \<Rightarrow> (int \<Rightarrow> string) \<Rightarrow> int \<Rightarrow> string option \<Rightarrow> string option \<Rightarrow> string option \<Rightarrow> string option \<Rightarrow>
   slo_repo \<Rightarrow> event_repo \<Rightarrow> slo_error + slo_summary" where
  "get_sla_slo_summary fo fromiso isoformat now workspace_id status scope_kind metric_kind repo r =
     (case enrich fo fromiso isoformat now r (list_sla_slo_definitions workspace_id status scope_kind metric_kind repo) of
        Inl e \<Rightarrow> Inl e
      | Inr xs \<Rightarrow>
          (let number = (\<lambda>P. length (filter P xs))
           in Inr \<lparr>sm_definitions = xs, sm_total = length xs,
                  sm_active = number (\<lambda>(d, a). slo_lifecycleStatus d = ''active''),
                  sm_draft = number (\<lambda>(d, a). slo_lifecycleStatus d = ''draft''),
                  sm_approved = number (\<lambda>(d, a). slo_approvalStatus d = ''approved''),
                  sm_deprecated = number (\<lambda>(d, a). slo_lifecycleStatus d = ''deprecated''),
                  sm_compliant = number (\<lambda>(d, a). ad_meetsTarget a = Some True),
                  sm_at_risk = number (\<lambda>(d, a). slo_lifecycleStatus d = ''active'' \<and> ad_meetsTarget a = Some False)\<rparr>))"

section \<open>Counts and rates\<close>

text \<open>What a rounding of percentages keeps: the range from 0 to 100.\<close>

definition float_ops_ok :: "float_ops \<Rightarrow> bool" where
  "float_ops_ok fo \<longleftrightarrow>
     (\<forall>c n. c \<le> n \<longrightarrow> 0 < n \<longrightarrow> 0 \<le> fo_pct fo c n \<and> fo_pct fo c n \<le> 100) \<and>
     (\<forall>v. 0 \<le> v \<longrightarrow> v \<le> 100 \<longrightarrow> 0 \<le> fo_complement fo v \<and> fo_complement fo v \<le> 100)"

lemma passed_count_le: "passed_count es \<le> length es"
  by (simp add: passed_count_def)

lemma float_pct:
  "float_ops_ok fo \<Longrightarrow> c \<le> n \<Longrightarrow> 0 < n \<Longrightarrow> 0 \<le> fo_pct fo c n"
  "float_ops_ok fo \<Longrightarrow> c \<le> n \<Longrightarrow> 0 < n \<Longrightarrow> fo_pct fo c n \<le> 100"
  by (simp_all add: float_ops_ok_def)

lemma float_complement:
  "float_ops_ok fo \<Longrightarrow> 0 \<le> v \<Longrightarrow> v \<le> 100 \<Longrightarrow> 0 \<le> fo_complement fo v \<and> fo_complement fo v \<le> 100"
  by (simp add: float_ops_ok_def)

definition adherence_ok :: "nat \<Rightarrow> adherence \<Rightarrow> bool" where
  "adherence_ok n a \<longleftrightarrow>
     ad_compliant a + ad_nonCompliant a = ad_observed a \<and> ad_observed a \<le> n \<and>
     (case ad_complianceRate a of None \<Rightarrow> True | Some v \<Rightarrow> 0 \<le> v \<and> v \<le> 100)"

lemma rate_adherence_ok:
  assumes "float_ops_ok fo" and "es \<noteq> []"
  shows "adherence_ok (length es) (rate_adherence fo d failures threshold operator latest es)"
proof -
  let ?n = "length es" and ?c = "if failures then length es - passed_count es else passed_count es"
  have "?c \<le> ?n" "0 < ?n" using assms(2) passed_count_le [of es] by auto
  note pct = float_pct(1,2) [OF assms(1) this]
  have "failures \<Longrightarrow> 0 \<le> fo_complement fo (fo_pct fo ?c ?n) \<and> fo_complement fo (fo_pct fo ?c ?n) \<le> 100"
    using float_complement [OF assms(1)] pct by blast
  with pct passed_count_le [of es] show ?thesis
    by (simp add: adherence_ok_def rate_adherence_def Let_def split: if_splits)
qed

lemma map_filter_length: "length (List.map_filter f xs) \<le> length xs"
  by (induction xs) (simp_all add: List.map_filter_simps split: option.split)

lemma value_adherence_ok:
  assumes "float_ops_ok fo"
  shows "adherence_ok (length es) (value_adherence fo d threshold operator latest es)"
proof -
  let ?vs = "List.map_filter (metric_value fo (event_metric_name (slo_metricKind d))) es"
  let ?ok = "length (filter (\<lambda>v. meets_target v operator threshold) ?vs)"
  show ?thesis
  proof (cases "?vs = []")
    case True
    then show ?thesis by (simp add: adherence_ok_def value_adherence_def)
  next
    case False
    then have "?ok \<le> length ?vs" "0 < length ?vs" by simp_all
    from float_pct(1,2) [OF assms this] False this(1) map_filter_length [of _ es] show ?thesis
      by (simp add: adherence_ok_def value_adherence_def Let_def)
  qed
qed

text \<open>
  The counts of an adherence add up and its rate is a percentage. For every rounding that keeps
  percentages between 0 and 100, the compliant and the other events add up to the observed
  ones, no more events are observed than were loaded, and the compliance rate lies
  between 0 and 100.
\<close>

theorem adherence_counts_and_rate_bounds:
  assumes "float_ops_ok fo" and "build_adherence fo fromiso now d events = Inr a"
  shows "ad_compliant a + ad_nonCompliant a = ad_observed a \<and> ad_observed a \<le> length events \<and>
    (case ad_complianceRate a of None \<Rightarrow> True | Some v \<Rightarrow> 0 \<le> v \<and> v \<le> 100)"
proof (cases "events = []")
  case True
  with assms(2) show ?thesis by (auto simp: build_adherence_def no_adherence_def)
next
  case False
  let ?es = "sort_key (\<lambda>e. normalize_utc (event_timestamp fromiso now e)) events"
  have "?es \<noteq> []" using False by (metis length_0_conv length_sort)
  then have "adherence_ok (length ?es) a"
    using assms(2) False rate_adherence_ok [OF assms(1), of ?es] value_adherence_ok [OF assms(1), of ?es]
    by (auto simp: build_adherence_def Let_def split: if_splits)
  then show ?thesis by (simp add: adherence_ok_def)
qed

definition exact_ops :: float_ops where
  "exact_ops = \<lparr>fo_pct = (\<lambda>c n. of_nat c * 100 / of_nat n), fo_complement = (\<lambda>v. 100 - v), fo_scale = (\<lambda>v. v * 100)\<rparr>"

lemma exact_ops_ok: "float_ops_ok exact_ops"
  by (simp add: float_ops_ok_def exact_ops_def field_simps)

definition demo_slo :: slo where
  "demo_slo = \<lparr>slo_id = ''s'', slo_workspaceId = ''w'', slo_name = ''n'', slo_description = None,
     slo_scopeKind = ''dataset'', slo_scopeId = ''d'', slo_metricKind = ''incident_rate'', slo_thresholdValue = Some 10,
     slo_thresholdOperator = ''lte'', slo_lookbackAmount = 30, slo_lookbackUnit = ''day'',
     slo_lifecycleStatus = ''active'', slo_approvalStatus = ''approved'', slo_requestedBy = None, slo_requestedAt = None,
     slo_reviewedBy = None, slo_reviewedAt = None, slo_itsmSystem = None, slo_itsmTicketId = None,
     slo_itsmTicketNumber = None, slo_itsmTicketUrl = None, slo_createdAt = ''t'', slo_updatedAt = ''t''\<rparr>"

definition demo_event :: "bool \<Rightarrow> result_event" where
  "demo_event ok = \<lparr>ev_emittedAt = ''t'', ev_severity = ''info'', ev_datasetId = ''d'', ev_datasetName = None,
     ev_workspaceId = Some ''w'', ev_dataProductId = None, ev_dataObjectId = None, ev_domain = None, ev_ruleId = ''r'',
     ev_ruleName = None, ev_status = ''done'', ev_result = None, ev_passed = Some ok, ev_totalCount = None,
     ev_validCount = None, ev_invalidCount = None, ev_warningCount = None, ev_errorCount = None, ev_score = None,
     ev_scoreLabel = None, ev_observedAt = None, ev_message = None, ev_dimensions = [], ev_correlationId = ''c'',
     ev_runId = Some ''x'', ev_requestId = None, ev_sourceSystem = None, ev_other = PDict []\<rparr>"

definition demo_clock :: int where "demo_clock = 10000000000000"

lemmas slo_eval = demo_slo_def demo_event_def demo_clock_def text_eval truthy_def

theorem adherence_counts_and_rate_bounds_witness:
  "\<exists>a. build_adherence exact_ops (\<lambda>_. Some (Aware 5 0)) demo_clock demo_slo [demo_event True, demo_event False] = Inr a \<and>
     ad_compliant a + ad_nonCompliant a = ad_observed a \<and> ad_observed a \<le> 2 \<and>
     (case ad_complianceRate a of None \<Rightarrow> True | Some v \<Rightarrow> 0 \<le> v \<and> v \<le> 100)"
proof -
  let ?es = "[demo_event True, demo_event False]"
  obtain a where "build_adherence exact_ops (\<lambda>_. Some (Aware 5 0)) demo_clock demo_slo ?es = Inr a"
    by (simp add: build_adherence_def mixed_times_def event_timestamp_def observed_text_def slo_eval is_aware_def Let_def)
  from adherence_counts_and_rate_bounds [OF exact_ops_ok this] this show ?thesis by auto
qed


section \<open>Breach events\<close>

lemma breach_event_id:
  "event_id (build_breach_event now_text d a) =
     ''sla-slo:'' @ slo_id d @ '':'' @ breach_time a now_text @ '':'' @ slo_id d @ '':'' @ ''failed''"
  by (simp add: event_id_def build_breach_event_def Let_def text_of_def)

text \<open>
  One breach event per definition and latest observation. Once the breach of a definition is on
  record, a later evaluation that finds the definition breached with the same latest observation
  records nothing: it returns the recorded event when every count and value is as before, and
  otherwise the whole evaluation stops with a conflict on that event's id.
\<close>

theorem breach_recorded_once_per_observation:
  assumes "record_result_event (build_breach_event t0 d a0) r0 = (Inr ev, r)"
    and "adherence_of fo fromiso isoformat now r d = Inr a" and "ad_meetsTarget a = Some False"
    and "breach_time a (isoformat now) = breach_time a0 t0"
  shows "evaluate_definitions fo fromiso isoformat now [d] r =
    (if build_breach_event (isoformat now) d a = ev then Inr [\<lparr>br_definition = d, br_adherence = a, br_event = ev\<rparr>]
     else Inl (EventConflict (event_id ev)), r)"
proof -
  have ev: "ev = build_breach_event t0 d a0" and stored: "map_of r (event_id ev) = Some ev"
    using assms(1) by (auto simp: record_result_event_def update_conv' split: option.splits if_splits)
  have same: "event_id (build_breach_event (isoformat now) d a) = event_id ev"
    by (simp add: ev breach_event_id assms(4))
  show ?thesis
    using assms(2,3) stored same by (auto simp: record_result_event_def)
qed


text \<open>A repository with one failed run, and the state after the first evaluation of a definition on it.\<close>

definition demo_reader :: iso_reader where
  "demo_reader s = Some (Aware (if s = ''i'' then 0 else 5) 0)"

definition demo_events :: event_repo where
  "demo_events = [(event_id (demo_event False), demo_event False)]"

definition demo_adherence :: "result_event list \<Rightarrow> adherence" where
  "demo_adherence es = rate_adherence exact_ops demo_slo True 10 ''lte'' (last es) es"

definition demo_breach :: result_event where
  "demo_breach = build_breach_event ''i'' demo_slo (demo_adherence [demo_event False])"

lemma demo_fields [simp]:
  "ev_emittedAt (demo_event ok) = ''t''" "ev_observedAt (demo_event ok) = None" "ev_datasetId (demo_event ok) = ''d''"
  "ev_runId (demo_event ok) = Some ''x''" "ev_passed (demo_event ok) = Some ok" "event_id (demo_event ok) = ''c:x:done''"
  by (simp_all add: demo_event_def event_id_def text_of_def)

lemma demo_adherence_fields [simp]:
  "ad_observed (demo_adherence es) = length es"
  "ad_meetsTarget (demo_adherence es) = Some (of_nat (length es - passed_count es) * 100 / of_nat (length es) \<le> (10::rat))"
  by (simp_all add: demo_adherence_def rate_adherence_def Let_def exact_ops_def meets_target_def)

lemma demo_breach_time:
  assumes "observed_text (last es) = ''t''"
  shows "breach_time (demo_adherence es) ''i'' = ''t''"
  using assms
  by (simp add: breach_time_def demo_adherence_def rate_adherence_def truthy_def clean_def Let_def text_eval or_none_def)

lemma demo_observed [simp]: "observed_text (demo_event ok) = ''t''"
  by (simp add: observed_text_def truthy_def)

lemma demo_breach_fields [simp]:
  "ev_emittedAt demo_breach = ''t''" "ev_observedAt demo_breach = Some ''t''" "ev_datasetId demo_breach = ''d''"
  "ev_runId demo_breach = Some ''s''" "ev_passed demo_breach = Some False" "ev_totalCount demo_breach = Some 1"
  "event_id demo_breach = ''sla-slo:s:t:s:failed''"
  unfolding demo_breach_def breach_event_id
  by (simp_all add: build_breach_event_def Let_def demo_breach_time)
     (simp_all add: demo_slo_def text_eval)

lemma demo_breach_observed [simp]: "observed_text demo_breach = ''t''"
  by (simp add: observed_text_def truthy_def text_of_def)

text \<open>The definition's own breach event is among the events of its scope.\<close>

lemma demo_scope: "scope_matches (scope_filter_kwargs demo_slo) e \<longleftrightarrow> ev_datasetId e = ''d''"
  by (simp add: scope_matches_def scope_filter_kwargs_def demo_slo_def text_eval Let_def)

lemma demo_reads:
  "emitted_stamp demo_reader (demo_event ok) = Aware 5 0" "emitted_stamp demo_reader demo_breach = Aware 5 0"
  "event_timestamp demo_reader now (demo_event ok) = Aware 5 0" "event_timestamp demo_reader now demo_breach = Aware 5 0"
  "parse_event_datetime demo_reader ''t'' = Inr (Some (Aware 5 0))" "parse_event_datetime demo_reader ''i'' = Inr (Some (Aware 0 0))"
  "parse_event_datetime demo_reader [] = Inr None"
  by (simp_all add: emitted_stamp_def event_timestamp_def parse_event_datetime_def demo_reader_def text_eval replace_Z_def)

lemma demo_build:
  assumes "es \<noteq> []" and "\<forall>e\<in>set es. event_timestamp demo_reader now e = Aware 5 0"
  shows "build_adherence exact_ops demo_reader now demo_slo es = Inr (demo_adherence es)"
proof -
  have "map (\<lambda>e. normalize_utc (event_timestamp demo_reader now e)) es = replicate (length es) 5"
    using assms(2) by (simp add: normalize_utc_def map_replicate_const [symmetric])
  then have "sort_key (\<lambda>e. normalize_utc (event_timestamp demo_reader now e)) es = es"
    by (intro sort_key_id_if_sorted) simp
  moreover have "\<not> mixed_times demo_reader now es" using assms(2) by (auto simp: mixed_times_def list_ex_iff is_aware_def)
  ultimately show ?thesis
    using assms(1) by (simp add: build_adherence_def demo_adherence_def demo_slo_def text_eval Let_def)
qed

lemma demo_lookback: "lookback_start demo_clock (slo_lookbackAmount demo_slo) (slo_lookbackUnit demo_slo) = Inr 7408000000000"
  by (simp add: lookback_start_def lookback_us_def demo_slo_def demo_clock_def text_eval Let_def)

lemma demo_loaded:
  assumes "map snd r \<in> {[demo_event False], [demo_event False, demo_breach]}"
  shows "adherence_of exact_ops demo_reader (\<lambda>_. ''i'') demo_clock r demo_slo = Inr (demo_adherence (map snd r))"
proof -
  have rows: "rows_after demo_reader (scope_filter_kwargs demo_slo) (Some (Aware 0 0)) None (map snd r) = Inr (map snd r)"
    using assms by (auto simp: demo_scope demo_reads outside_window_def misses_bound_def earlier_def is_aware_def normalize_utc_def)
  have ordered: "sort_desc (\<lambda>e. (normalize_utc (emitted_stamp demo_reader e), text_of (ev_runId e))) (map snd r) = map snd r"
    using assms by (auto simp: demo_reads sort_desc_def text_of_def less_char_def less_eq_char_def)
  have "list_result_events demo_reader (scope_filter_kwargs demo_slo) (Some ''i'') None 250 0 r = Inr (map snd r)"
    using assms rows ordered by (auto simp: list_result_events_def demo_reads is_aware_def py_slice_def slice_bound_def)
  moreover have "build_adherence exact_ops demo_reader demo_clock demo_slo (map snd r) = Inr (demo_adherence (map snd r))"
    using assms by (intro demo_build) (auto simp: demo_reads)
  ultimately show ?thesis by (simp add: adherence_of_def load_events_for_definition_def demo_lookback)
qed

theorem breach_recorded_once_per_observation_witness:
  "evaluate_definitions exact_ops demo_reader (\<lambda>_. ''i'') demo_clock [demo_slo]
     (snd (evaluate_definitions exact_ops demo_reader (\<lambda>_. ''i'') demo_clock [demo_slo] demo_events)) =
   (Inl (EventConflict ''sla-slo:s:t:s:failed''), demo_events @ [(''sla-slo:s:t:s:failed'', demo_breach)])"
proof -
  let ?r = "demo_events @ [(''sla-slo:s:t:s:failed'', demo_breach)]" and ?a = "demo_adherence [demo_event False, demo_breach]"
  have recorded: "record_result_event (build_breach_event ''i'' demo_slo (demo_adherence [demo_event False])) demo_events =
      (Inr demo_breach, ?r)"
    unfolding demo_breach_def [symmetric] by (simp add: record_result_event_def demo_events_def)
  have first: "adherence_of exact_ops demo_reader (\<lambda>_. ''i'') demo_clock demo_events demo_slo = Inr (demo_adherence [demo_event False])"
    using demo_loaded [of demo_events] by (simp add: demo_events_def)
  have again: "adherence_of exact_ops demo_reader (\<lambda>_. ''i'') demo_clock ?r demo_slo = Inr ?a"
    using demo_loaded [of ?r] by (simp add: demo_events_def)
  have more: "build_breach_event ''i'' demo_slo ?a \<noteq> demo_breach"
  proof
    assume "build_breach_event ''i'' demo_slo ?a = demo_breach"
    then have "ev_totalCount (build_breach_event ''i'' demo_slo ?a) = Some 1" by simp
    then show False by (simp add: build_breach_event_def Let_def)
  qed
  have "evaluate_definitions exact_ops demo_reader (\<lambda>_. ''i'') demo_clock [demo_slo] ?r =
      (Inl (EventConflict ''sla-slo:s:t:s:failed''), ?r)"
    using breach_recorded_once_per_observation [OF recorded again] more
    by (simp add: demo_breach_time passed_count_def)
  moreover have "snd (evaluate_definitions exact_ops demo_reader (\<lambda>_. ''i'') demo_clock [demo_slo] demo_events) = ?r"
    by (simp add: first recorded passed_count_def)
  ultimately show ?thesis by simp
qed

text \<open>
  An update of a definition that is in force takes effect at once: the new threshold is stored with
  the old lifecycle and approval status and the reviewer of the previous one.
\<close>

theorem changed_definition_stays_approved:
  assumes "map_of r i = Some row" and "sp_threshold_value p = Some v"
  shows "\<exists>row'. update_sla_slo_definition now i p actor_id r = (Inr row', AList.update i row' r) \<and>
    slo_thresholdValue row' = Some v \<and> slo_lifecycleStatus row' = slo_lifecycleStatus row \<and>
    slo_approvalStatus row' = slo_approvalStatus row \<and> slo_reviewedBy row' = slo_reviewedBy row"
  using assms by (simp add: update_sla_slo_definition_def Let_def build_sla_slo_definition_entity_def updated_slo_def)


end
