(* ===== verification/Rule_Conflicts.thy ===== *)
theory Rule_Conflicts
  imports DQ_Prelude
begin

text \<open>
  Conflicts between rules: \<^verbatim>\<open>application/services/conflict_detection.py\<close>.

  The regular expression for numeric comparisons is a scanner: at a word boundary it reads an
  identifier, an operator and a number, each as long as possible. No shorter identifier, operator or
  number can make the whole pattern match, so the backtracking of \<open>re\<close> finds the same matches. A literal is the
  exact rational number; \<open>float(text)\<close> is the argument \<open>to_float\<close> into some linear order.
\<close>


section \<open>Scanner\<close>

definition is_ident_start :: "char \<Rightarrow> bool" where
  "is_ident_start c \<longleftrightarrow>
     (let n = (of_char c :: nat) in (65 \<le> n \<and> n \<le> 90) \<or> (97 \<le> n \<and> n \<le> 122) \<or> n = 95)"

definition is_ident_char :: "char \<Rightarrow> bool" where
  "is_ident_char c \<longleftrightarrow> is_ident_start c \<or> is_digit c"

text \<open>The class \<open>\w\<close>: letters, digits and other numeric characters, and the underscore.\<close>

definition is_word_char :: "char \<Rightarrow> bool" where
  "is_word_char c \<longleftrightarrow>
     is_ident_char c \<or>
     (let n = (of_char c :: nat)
      in n \<in> {170, 178, 179, 181, 185, 186, 188, 189, 190} \<or> (192 \<le> n \<and> n \<noteq> 215 \<and> n \<noteq> 247))"

datatype comparison = Greater | GreaterEq | Less | LessEq | Equal | Unequal

definition read_operator :: "string \<Rightarrow> (comparison \<times> string) option" where
  "read_operator s =
     (if starts_with ''>='' s then Some (GreaterEq, drop 2 s)
      else if starts_with ''<='' s then Some (LessEq, drop 2 s)
      else if starts_with ''!='' s then Some (Unequal, drop 2 s)
      else if starts_with ''<>'' s then Some (Unequal, drop 2 s)
      else if starts_with ''>'' s then Some (Greater, drop 1 s)
      else if starts_with ''<'' s then Some (Less, drop 1 s)
      else if starts_with ''='' s then Some (Equal, drop 1 s)
      else None)"

definition read_number :: "string \<Rightarrow> (rat \<times> string) option" where
  "read_number s =
     (let negative = starts_with ''-'' s; t = (if negative then drop 1 s else s);
          whole = takeWhile is_digit t; t1 = dropWhile is_digit t;
          frac = (if starts_with ''.'' t1 then takeWhile is_digit (drop 1 t1) else []);
          rest = (if frac = [] then t1 else dropWhile is_digit (drop 1 t1));
          v = of_nat (read_digits 0 whole) + of_nat (read_digits 0 frac) / 10 ^ length frac
      in if whole = [] then None else Some (if negative then - v else v, rest))"

type_synonym predicate = "string \<times> comparison \<times> rat"

definition match_comparison :: "string \<Rightarrow> (predicate \<times> string) option" where
  "match_comparison s =
     (case read_operator (dropWhile is_space (dropWhile is_ident_char s)) of
        None \<Rightarrow> None
      | Some (op, s1) \<Rightarrow>
          (case read_number (dropWhile is_space s1) of
             None \<Rightarrow> None
           | Some (v, s2) \<Rightarrow> Some ((lower (takeWhile is_ident_char s), op, v), s2)))"

lemma read_operator_shorter: "read_operator s = Some (op, t) \<Longrightarrow> length t < length s"
  by (cases s) (auto simp: read_operator_def starts_with_def split: if_splits)

lemma dropWhile_drop_length: "length (dropWhile P (drop n s)) \<le> length s"
  using length_dropWhile_le [of P "drop n s"] by simp

lemma read_number_shorter:
  assumes "read_number s = Some (v, t)"
  shows "length t \<le> length s"
proof -
  have "length (dropWhile is_digit (drop 1 u)) \<le> length u" for u
    by (rule dropWhile_drop_length)
  moreover have "length (dropWhile is_digit (if starts_with ''-'' s then drop 1 s else s)) \<le> length s"
    using dropWhile_drop_length [of is_digit 1 s] length_dropWhile_le [of is_digit s] by simp
  ultimately show ?thesis
    using assms unfolding read_number_def Let_def by (auto split: if_splits intro: order_trans)
qed

lemma match_comparison_shorter:
  assumes "match_comparison s = Some (p, t)"
  shows "length t < length s"
proof -
  let ?s1 = "dropWhile is_space (dropWhile is_ident_char s)"
  obtain op s1 v where op: "read_operator ?s1 = Some (op, s1)" and v: "read_number (dropWhile is_space s1) = Some (v, t)"
    using assms by (auto simp: match_comparison_def split: option.splits)
  have "length t \<le> length (dropWhile is_space s1)" by (rule read_number_shorter [OF v])
  also have "\<dots> \<le> length s1" by (rule length_dropWhile_le)
  also have "\<dots> < length ?s1" by (rule read_operator_shorter [OF op])
  also have "\<dots> \<le> length s" by (meson length_dropWhile_le order_trans)
  finally show ?thesis .
qed

text \<open>\<open>finditer\<close>: the matches from left to right; the flag tells whether the character before is a word character.\<close>

function scan_comparisons :: "bool \<Rightarrow> string \<Rightarrow> predicate list" where
  "scan_comparisons inside [] = []"
| "scan_comparisons inside (c # cs) =
     (if \<not> inside \<and> is_ident_start c
      then (case match_comparison (c # cs) of
              None \<Rightarrow> scan_comparisons (is_word_char c) cs
            | Some (p, rest) \<Rightarrow> p # scan_comparisons True rest)
      else scan_comparisons (is_word_char c) cs)"
  by pat_completeness auto
termination
  by (relation "measure (\<lambda>(_, s). length s)") (auto dest: match_comparison_shorter)

definition add_predicate :: "(string, (comparison \<times> rat) list) dict \<Rightarrow> predicate \<Rightarrow> (string, (comparison \<times> rat) list) dict" where
  "add_predicate d p = (case p of (f, op, v) \<Rightarrow> AList.update f (dict_get d f [] @ [(op, v)]) d)"

definition extract_scalar_predicates :: "string \<Rightarrow> (string, (comparison \<times> rat) list) dict" where
  "extract_scalar_predicates expression = foldl add_predicate [] (scan_comparisons False expression)"


section \<open>Contradictions\<close>

definition lower_bounds :: "(comparison \<times> rat) list \<Rightarrow> rat list" where
  "lower_bounds ops = map snd (filter (\<lambda>(op, _). op \<in> {Greater, GreaterEq}) ops)"

definition upper_bounds :: "(comparison \<times> rat) list \<Rightarrow> rat list" where
  "upper_bounds ops = map snd (filter (\<lambda>(op, _). op \<in> {Less, LessEq}) ops)"

definition bounds_clash :: "(rat \<Rightarrow> 'f::linorder) \<Rightarrow> (comparison \<times> rat) list \<Rightarrow> bool" where
  "bounds_clash to_float ops \<longleftrightarrow>
     (let lo = map to_float (lower_bounds ops); hi = map to_float (upper_bounds ops)
      in lo \<noteq> [] \<and> hi \<noteq> [] \<and> Min (set hi) \<le> Max (set lo))"

definition has_contradictory_predicates :: "(rat \<Rightarrow> 'f::linorder) \<Rightarrow> string \<Rightarrow> string \<Rightarrow> bool" where
  "has_contradictory_predicates to_float expr_a expr_b \<longleftrightarrow>
     (let preds_a = extract_scalar_predicates expr_a; preds_b = extract_scalar_predicates expr_b
      in list_ex (\<lambda>(f, ops_a).
           let ops_b = dict_get preds_b f []
           in ops_b \<noteq> [] \<and> bounds_clash to_float (ops_a @ ops_b)) preds_a)"


section \<open>Conflicts\<close>

record rule_summary =
  rs_ruleId :: "string option"
  rs_ruleName :: "string option"
  rs_compiledExpression :: "string option"

datatype conflict_type = DuplicateExpression | DuplicateName | ContradictoryPredicates

record conflict =
  cf_ruleId :: string
  cf_conflictsWith :: string
  cf_type :: conflict_type
  cf_message :: string

abbreviation summary_id :: "rule_summary \<Rightarrow> string" where
  "summary_id s \<equiv> text_of (rs_ruleId s)"

abbreviation summary_name :: "rule_summary \<Rightarrow> string" where
  "summary_name s \<equiv> lower (strip (text_of (rs_ruleName s)))"

abbreviation summary_expression :: "rule_summary \<Rightarrow> string" where
  "summary_expression s \<equiv> strip (text_of (rs_compiledExpression s))"

definition conflict_of :: "conflict_type \<Rightarrow> rule_summary \<Rightarrow> rule_summary \<Rightarrow> conflict" where
  "conflict_of k a b =
     (let both = ''Rule '' @ quoted (summary_id a) @ '' and rule '' @ quoted (summary_id b)
      in \<lparr>cf_ruleId = summary_id a, cf_conflictsWith = summary_id b, cf_type = k,
          cf_message =
            (case k of
               DuplicateExpression \<Rightarrow>
                 both @ '' share the same compiled expression: '' @
                 quoted (take 80 (summary_expression a) @ (if 80 < length (summary_expression a) then ''...'' else []))
             | DuplicateName \<Rightarrow>
                 both @ '' share the same name (case-insensitive): '' @ quoted (summary_name a)
             | ContradictoryPredicates \<Rightarrow>
                 both @ '' have contradictory numeric predicates on a shared field.'')\<rparr>)"

type_synonym conflict_state = "string set list \<times> conflict list"

definition compare_pair ::
  "(rat \<Rightarrow> 'f::linorder) \<Rightarrow> rule_summary \<Rightarrow> rule_summary \<Rightarrow> conflict_state \<Rightarrow> conflict_state" where
  "compare_pair to_float a b st =
     (case st of (seen, out) \<Rightarrow>
        let pair = {summary_id a, summary_id b}; ea = summary_expression a; eb = summary_expression b
        in if pair \<in> set seen then (seen, out)
           else if ea \<noteq> [] \<and> eb \<noteq> [] \<and> ea = eb then (pair # seen, out @ [conflict_of DuplicateExpression a b])
           else
             (let out1 = (if summary_name a \<noteq> [] \<and> summary_name b \<noteq> [] \<and> summary_name a = summary_name b
                          then out @ [conflict_of DuplicateName a b] else out)
              in (seen, if ea \<noteq> [] \<and> eb \<noteq> [] \<and> ea \<noteq> eb \<and> has_contradictory_predicates to_float ea eb
                        then out1 @ [conflict_of ContradictoryPredicates a b] else out1)))"

fun compare_all :: "(rat \<Rightarrow> 'f::linorder) \<Rightarrow> rule_summary list \<Rightarrow> conflict_state \<Rightarrow> conflict_state" where
  "compare_all to_float [] st = st"
| "compare_all to_float (a # rest) st = compare_all to_float rest (foldl (\<lambda>st b. compare_pair to_float a b st) st rest)"

definition detect_conflicts :: "(rat \<Rightarrow> 'f::linorder) \<Rightarrow> rule_summary list \<Rightarrow> conflict list" where
  "detect_conflicts to_float rule_summaries = snd (compare_all to_float rule_summaries ([], []))"


section \<open>What a contradiction is\<close>

text \<open>The operations on a field in an expression, in order.\<close>

definition field_ops :: "string \<Rightarrow> string \<Rightarrow> (comparison \<times> rat) list" where
  "field_ops f expression = map snd (filter (\<lambda>p. fst p = f) (scan_comparisons False expression))"


lemma add_predicates_get:
  "dict_get (foldl add_predicate d ps) f [] = dict_get d f [] @ map snd (filter (\<lambda>p. fst p = f) ps)"
  by (induction ps arbitrary: d) (auto simp: add_predicate_def split: prod.split)

lemma add_predicates_keys: "fst ` set (foldl add_predicate d ps) = fst ` set d \<union> fst ` set ps"
  by (induction ps arbitrary: d) (simp_all add: add_predicate_def split_beta insert_commute Un_insert_left)

lemma add_predicates_wf: "dict_wf d \<Longrightarrow> dict_wf (foldl add_predicate d ps)"
  by (induction ps arbitrary: d) (auto simp: add_predicate_def split: prod.split)

lemma extract_get: "dict_get (extract_scalar_predicates e) f [] = field_ops f e"
  using add_predicates_get [of "[]"] by (simp add: extract_scalar_predicates_def field_ops_def dict_get_def)

lemma extract_set:
  "(f, ops) \<in> set (extract_scalar_predicates e) \<longleftrightarrow> ops = field_ops f e \<and> ops \<noteq> []"
proof -
  have wf: "dict_wf (extract_scalar_predicates e)"
    by (simp add: extract_scalar_predicates_def add_predicates_wf)
  have keys: "f \<in> fst ` set (extract_scalar_predicates e) \<longleftrightarrow> field_ops f e \<noteq> []"
    by (auto simp: extract_scalar_predicates_def add_predicates_keys field_ops_def filter_empty_conv)
  show ?thesis
  proof
    assume mem: "(f, ops) \<in> set (extract_scalar_predicates e)"
    with wf have "map_of (extract_scalar_predicates e) f = Some ops" by simp
    then have "ops = field_ops f e" using extract_get [of e f] by (simp add: dict_get_def)
    with keys mem show "ops = field_ops f e \<and> ops \<noteq> []" by force
  next
    assume ops: "ops = field_ops f e \<and> ops \<noteq> []"
    with keys obtain ops' where mem: "(f, ops') \<in> set (extract_scalar_predicates e)" by auto
    with wf have "map_of (extract_scalar_predicates e) f = Some ops'" by simp
    then have "ops' = field_ops f e" using extract_get [of e f] by (simp add: dict_get_def)
    with mem ops show "(f, ops) \<in> set (extract_scalar_predicates e)" by simp
  qed
qed

lemma contradictory_iff:
  "has_contradictory_predicates to_float a b \<longleftrightarrow>
     (\<exists>f. field_ops f a \<noteq> [] \<and> field_ops f b \<noteq> [] \<and> bounds_clash to_float (field_ops f a @ field_ops f b))"
  unfolding has_contradictory_predicates_def Let_def list_ex_iff
  by (auto simp: extract_get extract_set split: prod.splits)







lemmas scan_eval = match_comparison_def read_operator_def is_ident_start_def is_ident_char_def
  is_word_char_def is_digit_def starts_with_def is_space_def lower_def lower_char_def

lemma digit_char_is_digit: "n < 10 \<Longrightarrow> is_digit (digit_char n)"
  by (simp add: is_digit_def of_char_digit_char)

lemma show_nat_digits: "list_all is_digit (show_nat n)"
  by (induction n rule: show_nat.induct) (subst show_nat.simps, simp add: digit_char_is_digit)

lemma show_nat_nonempty: "show_nat n \<noteq> []"
  by (subst show_nat.simps) simp

lemma read_number_show_nat: "read_number (show_nat n) = Some (of_nat n, [])"
proof -
  have all: "\<forall>c\<in>set (show_nat n). is_digit c" using show_nat_digits by (simp add: list_all_iff)
  then have whole: "takeWhile is_digit (show_nat n) = show_nat n" "dropWhile is_digit (show_nat n) = []"
    by simp_all
  have "\<not> starts_with ''-'' (show_nat n)"
    using all show_nat_nonempty [of n] by (cases "show_nat n") (auto simp: starts_with_def is_digit_def)
  moreover have "\<not> starts_with ''.'' []" by (simp add: starts_with_def)
  ultimately show ?thesis
    by (simp add: read_number_def Let_def show_nat_nonempty read_digits_show_nat whole)
       (simp add: read_digits_def)
qed

lemma no_space_show_nat: "dropWhile is_space (show_nat n) = show_nat n"
proof (cases "show_nat n")
  case (Cons c cs)
  then have "is_digit c" using show_nat_digits [of n] by simp
  then have "\<not> is_space c" by (auto simp: is_digit_def is_space_def Let_def)
  with Cons show ?thesis by simp
qed simp

text \<open>
  Inclusive bounds that meet in one value count as contradictory, although that value satisfies both.
\<close>

theorem touching_bounds_are_contradictory:
  "has_contradictory_predicates to_float (''x >= '' @ show_nat n) (''x <= '' @ show_nat n)"
proof -
  have ge: "scan_comparisons False (''x >= '' @ show_nat n) = [(''x'', GreaterEq, of_nat n)]"
    using no_space_show_nat [of n] read_number_show_nat [of n] by (simp add: scan_eval)
  have le: "scan_comparisons False (''x <= '' @ show_nat n) = [(''x'', LessEq, of_nat n)]"
    using no_space_show_nat [of n] read_number_show_nat [of n] by (simp add: scan_eval)
  show ?thesis
    unfolding contradictory_iff field_ops_def ge le
    by (intro exI [of _ "''x''"]) (simp add: bounds_clash_def lower_bounds_def upper_bounds_def)
qed




section \<open>All pairs are compared\<close>

fun all_pairs :: "'a list \<Rightarrow> ('a \<times> 'a) list" where
  "all_pairs [] = []"
| "all_pairs (x # xs) = map (Pair x) xs @ all_pairs xs"

definition pair_conflicts :: "(rat \<Rightarrow> 'f::linorder) \<Rightarrow> rule_summary \<times> rule_summary \<Rightarrow> conflict list" where
  "pair_conflicts to_float p =
     (case p of (a, b) \<Rightarrow>
        let ea = summary_expression a; eb = summary_expression b
        in if ea \<noteq> [] \<and> ea = eb then [conflict_of DuplicateExpression a b]
           else (if summary_name a \<noteq> [] \<and> summary_name a = summary_name b then [conflict_of DuplicateName a b] else []) @
                (if ea \<noteq> [] \<and> eb \<noteq> [] \<and> has_contradictory_predicates to_float ea eb
                 then [conflict_of ContradictoryPredicates a b] else []))"

lemma compare_pair_effect:
  assumes "{summary_id a, summary_id b} \<notin> set seen"
  shows "\<exists>seen'. compare_pair to_float a b (seen, out) = (seen', out @ pair_conflicts to_float (a, b)) \<and>
    set seen' \<subseteq> insert {summary_id a, summary_id b} (set seen)"
  using assms by (auto simp: compare_pair_def pair_conflicts_def Let_def split del: if_split split: if_splits)


lemma compare_row_effect:
  assumes "distinct (map summary_id (a # bs))" and "\<forall>b\<in>set bs. {summary_id a, summary_id b} \<notin> set seen"
  shows "\<exists>seen'. foldl (\<lambda>st b. compare_pair to_float a b st) (seen, out) bs =
      (seen', out @ concat (map (\<lambda>b. pair_conflicts to_float (a, b)) bs)) \<and>
    set seen' \<subseteq> set seen \<union> (\<lambda>b. {summary_id a, summary_id b}) ` set bs"
  using assms
proof (induction bs arbitrary: seen out)
  case (Cons b bs)
  obtain seen1 where first: "compare_pair to_float a b (seen, out) = (seen1, out @ pair_conflicts to_float (a, b))"
    and sub1: "set seen1 \<subseteq> insert {summary_id a, summary_id b} (set seen)"
    using compare_pair_effect [of a b seen to_float out] Cons.prems(2) by auto
  have "\<forall>c\<in>set bs. {summary_id a, summary_id c} \<notin> set seen1"
  proof
    fix c assume c: "c \<in> set bs"
    then have "summary_id c \<in> summary_id ` set bs" by (rule imageI)
    with Cons.prems(1) have "summary_id c \<noteq> summary_id b" by auto
    then have "{summary_id a, summary_id c} \<noteq> {summary_id a, summary_id b}"
      using Cons.prems(1) by (auto simp: doubleton_eq_iff)
    with c Cons.prems(2) sub1 show "{summary_id a, summary_id c} \<notin> set seen1" by auto
  qed
  with Cons.IH [of seen1 "out @ pair_conflicts to_float (a, b)"] Cons.prems(1) obtain seen' where
    rest: "foldl (\<lambda>st b. compare_pair to_float a b st) (seen1, out @ pair_conflicts to_float (a, b)) bs =
      (seen', (out @ pair_conflicts to_float (a, b)) @ concat (map (\<lambda>b. pair_conflicts to_float (a, b)) bs))"
    and sub: "set seen' \<subseteq> set seen1 \<union> (\<lambda>b. {summary_id a, summary_id b}) ` set bs"
    by auto
  show ?case
    using first rest sub sub1 by (intro exI [of _ seen']) auto
qed simp

lemma compare_all_effect:
  assumes "distinct (map summary_id rs)" and "\<forall>p\<in>set seen. \<not> p \<subseteq> summary_id ` set rs"
  shows "snd (compare_all to_float rs (seen, out)) = out @ concat (map (pair_conflicts to_float) (all_pairs rs))"
  using assms
proof (induction rs arbitrary: seen out)
  case (Cons a rs)
  have "\<forall>b\<in>set rs. {summary_id a, summary_id b} \<notin> set seen"
    using Cons.prems(2) by auto
  then obtain seen' where
    row: "foldl (\<lambda>st b. compare_pair to_float a b st) (seen, out) rs =
      (seen', out @ concat (map (\<lambda>b. pair_conflicts to_float (a, b)) rs))"
    and sub: "set seen' \<subseteq> set seen \<union> (\<lambda>b. {summary_id a, summary_id b}) ` set rs"
    using compare_row_effect [OF Cons.prems(1)] by blast
  have "\<forall>p\<in>set seen'. \<not> p \<subseteq> summary_id ` set rs"
  proof
    fix p assume "p \<in> set seen'"
    with sub consider "p \<in> set seen" | b where "p = {summary_id a, summary_id b}" by auto
    then show "\<not> p \<subseteq> summary_id ` set rs"
    proof cases
      case 1
      with Cons.prems(2) have "\<not> p \<subseteq> summary_id ` set (a # rs)" by blast
      then show ?thesis by auto
    next
      case 2
      with Cons.prems(1) show ?thesis by auto
    qed
  qed
  then have "snd (compare_all to_float rs (seen', out @ concat (map (\<lambda>b. pair_conflicts to_float (a, b)) rs))) =
      (out @ concat (map (\<lambda>b. pair_conflicts to_float (a, b)) rs)) @ concat (map (pair_conflicts to_float) (all_pairs rs))"
    using Cons.IH Cons.prems(1) by auto
  then show ?case by (simp add: row comp_def)
qed simp

text \<open>
  Every pair of rules is compared once, in order. For rules with different identifiers the answer is, pair by
  pair in the order of the list, the duplicate expression alone or else the duplicate name and the contradiction,
  whichever apply; the bookkeeping of pairs already reported has no influence.
\<close>

theorem conflicts_are_those_of_the_pairs:
  assumes "distinct (map (\<lambda>s. text_of (rs_ruleId s)) rs)"
  shows "detect_conflicts to_float rs = concat (map (pair_conflicts to_float) (all_pairs rs))"
  using compare_all_effect [of rs "[]" to_float "[]"] assms by (simp add: detect_conflicts_def)

definition demo_summary :: "string \<Rightarrow> string \<Rightarrow> string \<Rightarrow> rule_summary" where
  "demo_summary i name expression = \<lparr>rs_ruleId = Some i, rs_ruleName = Some name, rs_compiledExpression = Some expression\<rparr>"

theorem conflicts_are_those_of_the_pairs_witness:
  "map cf_type (detect_conflicts id [demo_summary ''a'' ''N'' ''y'', demo_summary ''b'' ''m'' ''y'', demo_summary ''c'' ''n'' ''z'']) =
     [DuplicateExpression, DuplicateName]"
proof -
  let ?rs = "[demo_summary ''a'' ''N'' ''y'', demo_summary ''b'' ''m'' ''y'', demo_summary ''c'' ''n'' ''z'']"
  have plain: "scan_comparisons False ''y'' = []" "scan_comparisons False ''z'' = []"
    by (simp_all add: scan_eval)
  have none: "\<not> has_contradictory_predicates id ''y'' ''z''"
    unfolding contradictory_iff field_ops_def plain by simp
  have ids: "distinct (map (\<lambda>s. text_of (rs_ruleId s)) ?rs)" by (simp add: demo_summary_def)
  show ?thesis
    unfolding conflicts_are_those_of_the_pairs [OF ids]
    by (simp add: pair_conflicts_def demo_summary_def none conflict_of_def Let_def text_eval)
qed

end
