(* ===== verification/Storage_Classification.thy ===== *)
theory Storage_Classification
  imports DQ_Prelude
begin

text \<open>
  The boundary between synthetic and real storage: \<^verbatim>\<open>domain/services/classification_validation.py\<close> and
  \<^verbatim>\<open>classification_constants.py\<close>. A delivery note is reduced to the two labels that the guard reads.
\<close>


section \<open>Classification of buckets\<close>

definition synthetic_test_bucket_prefixes :: "string list" where
  "synthetic_test_bucket_prefixes = [''dq-test-data'', ''dq-landing-zone'', ''dq-preview'', ''dq-demo'']"

definition real_evidence_bucket_prefixes :: "string list" where
  "real_evidence_bucket_prefixes = [''dq-evidence'', ''dq-reporting'', ''dq-source'', ''dq-delivery'']"

definition synthetic_test_prohibited_prefix_terms :: "string list" where
  "synthetic_test_prohibited_prefix_terms =
     [''evidence'', ''reporting'', ''regulatory'', ''compliance'', ''production'', ''operational'']"

definition real_evidence_prohibited_prefix_terms :: "string list" where
  "real_evidence_prohibited_prefix_terms = [''test'', ''synthetic'', ''preview'', ''demo'', ''mock'', ''fixture'']"

definition normalize_bucket :: "string \<Rightarrow> string" where
  "normalize_bucket bucket = lower (strip bucket)"

definition classify_bucket_name :: "string \<Rightarrow> string" where
  "classify_bucket_name bucket =
     (let normalized = normalize_bucket bucket
      in if list_ex (\<lambda>p. starts_with p normalized) synthetic_test_bucket_prefixes then ''synthetic_test''
         else if list_ex (\<lambda>p. starts_with p normalized) real_evidence_bucket_prefixes then ''real_evidence''
         else ''unclassified'')"

definition split_key :: "string \<Rightarrow> string \<times> string" where
  "split_key remainder =
     (if CHR ''/'' \<in> set remainder
      then (takeWhile (\<lambda>c. c \<noteq> CHR ''/'') remainder, drop 1 (dropWhile (\<lambda>c. c \<noteq> CHR ''/'') remainder))
      else (remainder, []))"

definition parse_s3_uri :: "string \<Rightarrow> (string \<times> string) option" where
  "parse_s3_uri uri =
     (let normalized = strip uri
      in if starts_with ''s3a://'' normalized
         then (if drop 6 normalized = [] then None else Some (split_key (drop 6 normalized)))
         else if starts_with ''s3://'' normalized
         then (if drop 5 normalized = [] then None else Some (split_key (drop 5 normalized)))
         else None)"

definition classify_uri :: "string \<Rightarrow> string \<times> string option \<times> string" where
  "classify_uri uri =
     (case parse_s3_uri uri of
        None \<Rightarrow> (''unclassified'', None, [])
      | Some (bucket, key_prefix) \<Rightarrow> (classify_bucket_name bucket, Some bucket, key_prefix))"


section \<open>Naming\<close>

text \<open>\<open>re.split\<close> at everything but lower case ASCII letters and digits; empty pieces are dropped.\<close>

definition is_token_char :: "char \<Rightarrow> bool" where
  "is_token_char c \<longleftrightarrow> (let n = (of_char c :: nat) in (97 \<le> n \<and> n \<le> 122) \<or> (48 \<le> n \<and> n \<le> 57))"

function tokens :: "string \<Rightarrow> string list" where
  "tokens s =
     (case dropWhile (\<lambda>c. \<not> is_token_char c) s of
        [] \<Rightarrow> []
      | c # cs \<Rightarrow> takeWhile is_token_char (c # cs) # tokens (dropWhile is_token_char (c # cs)))"
  by pat_completeness auto
termination
proof (relation "measure length", simp, goal_cases)
  case (1 s c cs)
  have "is_token_char c" using 1 hd_dropWhile [of "\<lambda>c. \<not> is_token_char c" s] by auto
  then have "length (dropWhile is_token_char (c # cs)) < length (c # cs)"
    using length_dropWhile_le [of is_token_char cs] by simp
  also have "\<dots> \<le> length s" using length_dropWhile_le [of "\<lambda>c. \<not> is_token_char c" s] 1 by simp
  finally show ?case by simp
qed

declare tokens.simps [simp del]

definition prohibited_terms :: "string list \<Rightarrow> string \<Rightarrow> string list" where
  "prohibited_terms terms key_prefix = filter (\<lambda>t. t \<in> set (tokens (lower key_prefix))) terms"

definition validate_bucket_naming :: "string \<Rightarrow> string \<Rightarrow> string option \<Rightarrow> string option" where
  "validate_bucket_naming bucket key_prefix expected =
     (let classification = classify_bucket_name bucket; name = quoted (normalize_bucket bucket);
          report = (\<lambda>kind terms. if terms = [] then None
            else Some (kind @ '' bucket key prefix contains prohibited terms: '' @ py_str (PList (map PStr terms))))
      in if classification = ''unclassified''
         then Some (''bucket '' @ name @ '' does not match any classification naming pattern (synthetic_test or real_evidence)'')
         else if truthy expected \<and> classification \<noteq> text_of expected
         then Some (''bucket '' @ name @ '' is classified as '' @ quoted classification @ '' but expected '' @ quoted (text_of expected))
         else if classification = ''synthetic_test''
         then report ''synthetic/test'' (prohibited_terms synthetic_test_prohibited_prefix_terms key_prefix)
         else if classification = ''real_evidence''
         then report ''real/evidence'' (prohibited_terms real_evidence_prohibited_prefix_terms key_prefix)
         else None)"


section \<open>Guards\<close>

record note_labels =
  object_storage_classification :: "string option"
  evidence_classification :: "string option"

datatype classification_error =
    MixedClassificationArtifacts int "string list" "string option"
  | SyntheticInEvidenceExport int "string list" "string option"
  | StorageTargetMismatch int string string string "string option"

definition labels_of :: "note_labels list \<Rightarrow> string set" where
  "labels_of notes =
     set (List.map_filter (\<lambda>n. clean (object_storage_classification n)) notes) \<union>
     set (List.map_filter (\<lambda>n. clean (evidence_classification n)) notes)"

definition ensure_no_mixed_classification ::
  "note_labels list \<Rightarrow> string option \<Rightarrow> int \<Rightarrow> classification_error option" where
  "ensure_no_mixed_classification delivery_notes consumer_scope status_code =
     (if delivery_notes = [] then None
      else
        (let classifications = labels_of delivery_notes; found = sorted_list_of_set classifications
         in if 1 < card classifications then Some (MixedClassificationArtifacts status_code found consumer_scope)
            else if consumer_scope = Some ''real_evidence'' \<and>
              (''synthetic_test'' \<in> classifications \<or> ''synthetic_result'' \<in> classifications)
            then Some (SyntheticInEvidenceExport status_code found consumer_scope)
            else None))"

definition ensure_storage_target_matches_classification ::
  "string \<Rightarrow> string \<Rightarrow> string option \<Rightarrow> int \<Rightarrow> classification_error option" where
  "ensure_storage_target_matches_classification bucket expected context_text status_code =
     (if classify_bucket_name bucket \<noteq> expected
      then Some (StorageTargetMismatch status_code (normalize_bucket bucket) expected (classify_bucket_name bucket)
             (if truthy context_text then context_text else None))
      else None)"


section \<open>Tokens are the maximal runs\<close>

definition occurs_as_token :: "string \<Rightarrow> string \<Rightarrow> bool" where
  "occurs_as_token t s \<longleftrightarrow>
     t \<noteq> [] \<and> list_all is_token_char t \<and>
     (\<exists>u v. s = u @ t @ v \<and> (u = [] \<or> \<not> is_token_char (last u)) \<and> (v = [] \<or> \<not> is_token_char (hd v)))"

lemma occurs_in_gap: "\<forall>c\<in>set s. \<not> is_token_char c \<Longrightarrow> \<not> occurs_as_token t s"
  by (cases t) (auto simp: occurs_as_token_def)

lemma append_eq_cases:
  assumes "xs @ ys = zs @ ts"
  obtains w where "xs = zs @ w" "w @ ys = ts" | w where "zs = xs @ w" "ys = w @ ts"
  using assms by (metis append_eq_append_conv2)

lemma occurs_first_run:
  assumes p: "\<forall>c\<in>set p. \<not> is_token_char c" and r: "\<forall>c\<in>set r. is_token_char c" "r \<noteq> []"
    and rest: "rest = [] \<or> \<not> is_token_char (hd rest)" and occ: "occurs_as_token t (p @ r @ rest)"
  shows "t = r \<or> occurs_as_token t rest"
proof -
  obtain u v where t: "t \<noteq> []" "list_all is_token_char t" and s: "p @ r @ rest = u @ t @ v"
    and u: "u = [] \<or> \<not> is_token_char (last u)" and v: "v = [] \<or> \<not> is_token_char (hd v)"
    using occ by (auto simp: occurs_as_token_def)
  have run: "takeWhile is_token_char (x @ y) = x"
    if "\<forall>c\<in>set x. is_token_char c" "y = [] \<or> \<not> is_token_char (hd y)" for x y
    using that by (cases y) auto
  obtain u' where u': "u = p @ u'" "r @ rest = u' @ t @ v"
  proof -
    from s show thesis
    proof (cases rule: append_eq_cases)
      case (1 w)
      then have "w = []" using p t by (cases w; cases t) auto
      with 1 have "u = p @ []" "r @ rest = [] @ t @ v" by simp_all
      then show thesis by (rule that)
    next
      case 2
      then show thesis by (rule that)
    qed
  qed
  show ?thesis
  proof (cases "u' = []")
    case True
    then have "takeWhile is_token_char (r @ rest) = takeWhile is_token_char (t @ v)" using u' by simp
    then show ?thesis using run [OF r(1) rest] run [of t v] t(2) v by (auto simp: list_all_iff)
  next
    case False
    then have last: "\<not> is_token_char (last u')" using u u'(1) by auto
    from u'(2) show ?thesis
    proof (cases rule: append_eq_cases)
      case 1
      with r(1) False have "is_token_char (last u')" by auto
      with last show ?thesis by simp
    next
      case (2 w)
      then have "w = [] \<or> \<not> is_token_char (last w)" using last by auto
      with 2(2) t v show ?thesis by (auto simp: occurs_as_token_def)
    qed
  qed
qed

lemma occurs_first_run_conv:
  assumes p: "\<forall>c\<in>set p. \<not> is_token_char c" and r: "\<forall>c\<in>set r. is_token_char c" "r \<noteq> []"
    and rest: "rest = [] \<or> \<not> is_token_char (hd rest)"
  shows "occurs_as_token t (p @ r @ rest) \<longleftrightarrow> t = r \<or> occurs_as_token t rest"
proof
  assume "t = r \<or> occurs_as_token t rest"
  then show "occurs_as_token t (p @ r @ rest)"
  proof
    assume "t = r"
    moreover have "p = [] \<or> \<not> is_token_char (last p)" using p by (cases p rule: rev_cases) auto
    ultimately show ?thesis
      unfolding occurs_as_token_def list_all_iff using r rest
      by (intro conjI exI [of _ p] exI [of _ rest]) auto
  next
    assume "occurs_as_token t rest"
    then obtain u v where uv: "t \<noteq> []" "list_all is_token_char t" "rest = u @ t @ v"
      "u = [] \<or> \<not> is_token_char (last u)" "v = [] \<or> \<not> is_token_char (hd v)"
      by (auto simp: occurs_as_token_def)
    with rest have "u \<noteq> []" by (cases t) auto
    with uv show ?thesis
      unfolding occurs_as_token_def by (intro conjI exI [of _ "p @ r @ u"] exI [of _ v]) auto
  qed
qed (rule occurs_first_run [OF assms])

lemma tokens_iff: "t \<in> set (tokens s) \<longleftrightarrow> occurs_as_token t s"
proof (induction s rule: tokens.induct)
  case (1 s)
  let ?p = "takeWhile (\<lambda>c. \<not> is_token_char c) s" and ?d = "dropWhile (\<lambda>c. \<not> is_token_char c) s"
  have p: "\<forall>c\<in>set ?p. \<not> is_token_char c" by (auto dest: set_takeWhileD)
  show ?case
  proof (cases ?d)
    case Nil
    then have "\<forall>c\<in>set s. \<not> is_token_char c" by (simp add: dropWhile_eq_Nil_conv)
    then have "\<not> occurs_as_token t s" by (rule occurs_in_gap)
    moreover have "tokens s = []" by (subst tokens.simps) (simp only: Nil list.case)
    ultimately show ?thesis by simp
  next
    case (Cons c cs)
    let ?r = "takeWhile is_token_char ?d" and ?rest = "dropWhile is_token_char ?d"
    have c: "is_token_char c" using Cons hd_dropWhile [of "\<lambda>c. \<not> is_token_char c" s] by auto
    have s: "s = ?p @ ?r @ ?rest" by simp
    have "occurs_as_token t s \<longleftrightarrow> t = ?r \<or> occurs_as_token t ?rest"
      by (subst s, rule occurs_first_run_conv [OF p])
         (use Cons c hd_dropWhile [of is_token_char ?d] in \<open>auto dest: set_takeWhileD\<close>)
    with "1.IH" [OF Cons] Cons show ?thesis by (simp add: tokens.simps [of s])
  qed
qed



section \<open>Properties\<close>

lemma starts_with_agree: "starts_with p s \<Longrightarrow> starts_with q s \<Longrightarrow> starts_with p q \<or> starts_with q p"
  by (auto simp: starts_with_def) (metis min_def take_take nat_le_linear take_all)

lemma prefixes_exclude:
  assumes "list_ex (\<lambda>p. starts_with p s) synthetic_test_bucket_prefixes"
  shows "\<not> list_ex (\<lambda>p. starts_with p s) real_evidence_bucket_prefixes"
proof
  assume "list_ex (\<lambda>p. starts_with p s) real_evidence_bucket_prefixes"
  with assms obtain p q where pq: "p \<in> set synthetic_test_bucket_prefixes" "q \<in> set real_evidence_bucket_prefixes"
    and "starts_with p s" "starts_with q s"
    by (auto simp: list_ex_iff)
  then have "starts_with p q \<or> starts_with q p" by (intro starts_with_agree)
  moreover have "\<not> (starts_with p q \<or> starts_with q p)"
    using pq by (auto simp: synthetic_test_bucket_prefixes_def real_evidence_bucket_prefixes_def starts_with_def)
  ultimately show False by simp
qed

lemma classify_iff:
  "classify_bucket_name b = ''synthetic_test'' \<longleftrightarrow> list_ex (\<lambda>p. starts_with p (normalize_bucket b)) synthetic_test_bucket_prefixes"
  "classify_bucket_name b = ''real_evidence'' \<longleftrightarrow> list_ex (\<lambda>p. starts_with p (normalize_bucket b)) real_evidence_bucket_prefixes"
  "classify_bucket_name b \<in> {''synthetic_test'', ''real_evidence'', ''unclassified''}"
  using prefixes_exclude [of "normalize_bucket b"] by (simp_all add: classify_bucket_name_def Let_def)

definition names_clean :: "string list \<Rightarrow> string list \<Rightarrow> string \<Rightarrow> string \<Rightarrow> bool" where
  "names_clean prefixes terms bucket key_prefix \<longleftrightarrow>
     list_ex (\<lambda>p. starts_with p (normalize_bucket bucket)) prefixes \<and>
     list_all (\<lambda>t. \<not> occurs_as_token t (lower key_prefix)) terms"

lemma prohibited_terms_Nil: "prohibited_terms terms k = [] \<longleftrightarrow> list_all (\<lambda>t. \<not> occurs_as_token t (lower k)) terms"
  by (auto simp: prohibited_terms_def filter_empty_conv list_all_iff tokens_iff)

text \<open>
  Which names are accepted. A bucket and key prefix pass the naming check exactly when the bucket starts with a
  prefix of one side of the boundary, that side is the expected one if one is given, and no
  term prohibited on that side is a maximal run of letters and digits of the key prefix. No bucket is on both sides.
\<close>

theorem naming_check_decides:
  "validate_bucket_naming bucket key_prefix expected = None \<longleftrightarrow>
     (names_clean synthetic_test_bucket_prefixes synthetic_test_prohibited_prefix_terms bucket key_prefix \<and>
        text_of expected \<in> {[], ''synthetic_test''}) \<noteq>
     (names_clean real_evidence_bucket_prefixes real_evidence_prohibited_prefix_terms bucket key_prefix \<and>
        text_of expected \<in> {[], ''real_evidence''})"
proof -
  let ?syn = "list_ex (\<lambda>p. starts_with p (normalize_bucket bucket)) synthetic_test_bucket_prefixes"
  let ?real = "list_ex (\<lambda>p. starts_with p (normalize_bucket bucket)) real_evidence_bucket_prefixes"
  consider "?syn" "\<not> ?real" "classify_bucket_name bucket = ''synthetic_test''"
    | "\<not> ?syn" "?real" "classify_bucket_name bucket = ''real_evidence''"
    | "\<not> ?syn" "\<not> ?real" "classify_bucket_name bucket = ''unclassified''"
    using classify_iff [of bucket] prefixes_exclude by auto
  then show ?thesis
    by cases (auto simp: validate_bucket_naming_def names_clean_def Let_def prohibited_terms_Nil truthy_def)
qed

text \<open>
  Which exports are accepted. Notes pass the export guard exactly when all their labels, of both kinds
  together, are the same text, and this is not a synthetic label in an export of real evidence.
\<close>

theorem export_guard_decides:
  "ensure_no_mixed_classification notes scope code = None \<longleftrightarrow>
     labels_of notes = {} \<or>
     (\<exists>label. labels_of notes = {label} \<and>
        \<not> (scope = Some ''real_evidence'' \<and> label \<in> {''synthetic_test'', ''synthetic_result''}))"
proof -
  have finite: "finite (labels_of notes)" by (simp add: labels_of_def)
  have none: "notes = [] \<Longrightarrow> labels_of notes = {}" by (simp add: labels_of_def List.map_filter_simps)
  show ?thesis
  proof (cases "1 < card (labels_of notes)")
    case True
    then have "labels_of notes \<noteq> {}" by (intro notI) simp
    moreover from this none have "notes \<noteq> []" by blast
    moreover have "labels_of notes \<noteq> {label}" for label using True by (intro notI) simp
    ultimately show ?thesis using True by (simp add: ensure_no_mixed_classification_def Let_def)
  next
    case False
    then have "card (labels_of notes) = 0 \<or> card (labels_of notes) = 1" by linarith
    then show ?thesis
    proof
      assume "card (labels_of notes) = 0"
      then have "labels_of notes = {}" using finite by simp
      then show ?thesis by (simp add: ensure_no_mixed_classification_def Let_def)
    next
      assume "card (labels_of notes) = 1"
      then obtain label where label: "labels_of notes = {label}" by (rule card_1_singletonE)
      then have "notes \<noteq> []" using none by blast
      with label show ?thesis by (auto simp: ensure_no_mixed_classification_def Let_def)
    qed
  qed
qed

text \<open>
  The labels that the service itself gives to materialised test data, \<open>synthetic_test\<close> for the storage and
  \<open>synthetic_result\<close> for the evidence, are two labels: an export with such a note is refused as mixed.
\<close>

theorem synthetic_note_is_refused_as_mixed:
  assumes "n \<in> set notes" and "clean (object_storage_classification n) = Some ''synthetic_test''"
    and "clean (evidence_classification n) = Some ''synthetic_result''"
  shows "\<exists>found. ensure_no_mixed_classification notes scope code = Some (MixedClassificationArtifacts code found scope)"
proof -
  have sub: "{''synthetic_test'', ''synthetic_result''} \<subseteq> labels_of notes"
    using assms by (force simp: labels_of_def List.map_filter_def)
  have "finite (labels_of notes)" by (simp add: labels_of_def)
  then have "card {''synthetic_test'', ''synthetic_result''} \<le> card (labels_of notes)" using sub by (rule card_mono)
  then have "1 < card (labels_of notes)" by simp
  moreover have "notes \<noteq> []" using assms(1) by auto
  ultimately show ?thesis by (simp add: ensure_no_mixed_classification_def Let_def)
qed

text \<open>A well-formed URI names its bucket and key.\<close>

lemma split_key_at_slash: "CHR ''/'' \<notin> set b \<Longrightarrow> split_key (b @ CHR ''/'' # k) = (b, k)"
  by (induction b) (auto simp: split_key_def)

lemma uri_names_its_bucket:
  assumes "CHR ''/'' \<notin> set b" and "strip (''s3://'' @ b @ ''/'' @ k) = ''s3://'' @ b @ ''/'' @ k"
  shows "classify_uri (''s3://'' @ b @ ''/'' @ k) = (classify_bucket_name b, Some b, k)"
proof -
  have "parse_s3_uri (''s3://'' @ b @ ''/'' @ k) = Some (split_key (b @ CHR ''/'' # k))"
    unfolding parse_s3_uri_def Let_def assms(2) by (simp add: starts_with_def)
  then show ?thesis by (simp only: classify_uri_def split_key_at_slash [OF assms(1)] option.case prod.case)
qed

end
