(* ===== verification/Join_Metrics.thy ===== *)
theory Join_Metrics
  imports DQ_Prelude
begin

text \<open>
  Metrics and diagnostics of join consistency checks: \<^verbatim>\<open>domain/entities/execution_metrics.py\<close> and
  \<^verbatim>\<open>application/services/join_consistency_metrics_calculator.py\<close>.

  A floating-point number in a payload is a \<^const>\<open>PObj\<close> of a rational number. The percentage of a match count
  and \<open>round(rate, 2)\<close> are arguments. The readers \<open>from_dict\<close> answer \<^const>\<open>None\<close> for a missing key
  or an unknown class, which raise, and for values of another type than the annotated one.
\<close>


section \<open>Entities\<close>

datatype failure_class = ValueMismatch | ActualityDateDrift | NullOrMissingJoinKey | OtherFailure

fun class_value :: "failure_class \<Rightarrow> string" where
  "class_value ValueMismatch = ''value_mismatch''"
| "class_value ActualityDateDrift = ''actuality_date_drift''"
| "class_value NullOrMissingJoinKey = ''null_or_missing_join_key''"
| "class_value OtherFailure = ''other''"

definition class_of :: "string \<Rightarrow> failure_class option" where
  "class_of s = find (\<lambda>c. class_value c = s) [ValueMismatch, ActualityDateDrift, NullOrMissingJoinKey, OtherFailure]"

record failure_diagnostic =
  fd_failureClass :: failure_class
  fd_rowIdentifier :: "string option"
  fd_details :: string
  fd_affectedAttributes :: "string list option"

record diagnostics_summary =
  su_failureClass :: failure_class
  su_count :: int
  su_sampleFailures :: "failure_diagnostic list"
  su_maxSampleSize :: int

record join_metrics =
  jm_matchCount :: int
  jm_mismatchCount :: int
  jm_eligibleJoinedRows :: int
  jm_matchRate :: rat
  jm_actualityDateMismatchCount :: int
  jm_nullOrMissingJoinKeyCount :: int

record join_result =
  jr_passed :: bool
  jr_metrics :: join_metrics
  jr_diagnosticsSummary :: "diagnostics_summary list"
  jr_allDiagnostics :: "failure_diagnostic list option"
  jr_executionDurationMs :: "int option"

type_synonym payload = "rat pyval"

definition opt_value :: "('a \<Rightarrow> payload) \<Rightarrow> 'a option \<Rightarrow> payload" where
  "opt_value f v = (case v of None \<Rightarrow> PNone | Some x \<Rightarrow> f x)"

definition diagnostic_to_dict :: "failure_diagnostic \<Rightarrow> payload" where
  "diagnostic_to_dict d = PDict
     [(''failureClass'', PStr (class_value (fd_failureClass d))), (''rowIdentifier'', opt_value PStr (fd_rowIdentifier d)),
      (''details'', PStr (fd_details d)), (''affectedAttributes'', opt_value (\<lambda>xs. PList (map PStr xs)) (fd_affectedAttributes d))]"

definition summary_to_dict :: "diagnostics_summary \<Rightarrow> payload" where
  "summary_to_dict s = PDict
     [(''failureClass'', PStr (class_value (su_failureClass s))), (''count'', PInt (su_count s)),
      (''sampleFailures'', PList (map diagnostic_to_dict (su_sampleFailures s))), (''maxSampleSize'', PInt (su_maxSampleSize s))]"

definition metrics_to_dict :: "(rat \<Rightarrow> rat) \<Rightarrow> join_metrics \<Rightarrow> payload" where
  "metrics_to_dict round2 m = PDict
     [(''matchCount'', PInt (jm_matchCount m)), (''mismatchCount'', PInt (jm_mismatchCount m)),
      (''eligibleJoinedRows'', PInt (jm_eligibleJoinedRows m)), (''matchRate'', PObj (round2 (jm_matchRate m))),
      (''actualityDateMismatchCount'', PInt (jm_actualityDateMismatchCount m)),
      (''nullOrMissingJoinKeyCount'', PInt (jm_nullOrMissingJoinKeyCount m))]"

definition result_to_dict :: "(rat \<Rightarrow> rat) \<Rightarrow> join_result \<Rightarrow> payload" where
  "result_to_dict round2 r = PDict
     [(''passed'', PBool (jr_passed r)), (''metrics'', metrics_to_dict round2 (jr_metrics r)),
      (''diagnosticsSummary'', PList (map summary_to_dict (jr_diagnosticsSummary r))),
      (''allDiagnostics'',
        (case jr_allDiagnostics r of
           Some (d # ds) \<Rightarrow> PList (map diagnostic_to_dict (d # ds))
         | _ \<Rightarrow> PNone)),
      (''executionDurationMs'', opt_value PInt (jr_executionDurationMs r))]"

text \<open>Typed reads: \<open>data[key]\<close> must be present, \<open>data.get(key, default)\<close> may be absent.\<close>

fun as_text :: "payload \<Rightarrow> string option" where
  "as_text (PStr s) = Some s"
| "as_text _ = None"

fun as_int :: "payload \<Rightarrow> int option" where
  "as_int (PInt i) = Some i"
| "as_int _ = None"

fun as_bool :: "payload \<Rightarrow> bool option" where
  "as_bool (PBool b) = Some b"
| "as_bool _ = None"

fun as_number :: "payload \<Rightarrow> rat option" where
  "as_number (PObj q) = Some q"
| "as_number (PInt i) = Some (of_int i)"
| "as_number _ = None"

fun as_dict :: "payload \<Rightarrow> (string \<times> payload) list option" where
  "as_dict (PDict d) = Some d"
| "as_dict _ = None"

fun as_list :: "payload \<Rightarrow> payload list option" where
  "as_list (PList vs) = Some vs"
| "as_list _ = None"

fun all_some :: "'a option list \<Rightarrow> 'a list option" where
  "all_some [] = Some []"
| "all_some (x # xs) = (case x of None \<Rightarrow> None | Some y \<Rightarrow> map_option (Cons y) (all_some xs))"

definition need :: "(payload \<Rightarrow> 'a option) \<Rightarrow> (string \<times> payload) list \<Rightarrow> string \<Rightarrow> 'a option" where
  "need read d k = Option.bind (map_of d k) read"

definition or_default :: "(payload \<Rightarrow> 'a option) \<Rightarrow> 'a \<Rightarrow> (string \<times> payload) list \<Rightarrow> string \<Rightarrow> 'a option" where
  "or_default read x d k = (case map_of d k of None \<Rightarrow> Some x | Some v \<Rightarrow> read v)"

definition optional :: "(payload \<Rightarrow> 'a option) \<Rightarrow> payload \<Rightarrow> 'a option option" where
  "optional read v = (if v = PNone then Some None else map_option Some (read v))"

definition list_of :: "(payload \<Rightarrow> 'a option) \<Rightarrow> payload \<Rightarrow> 'a list option" where
  "list_of read v = Option.bind (as_list v) (\<lambda>vs. all_some (map read vs))"

definition read_class :: "payload \<Rightarrow> failure_class option" where
  "read_class v = Option.bind (as_text v) class_of"

definition diagnostic_from_dict :: "payload \<Rightarrow> failure_diagnostic option" where
  "diagnostic_from_dict v =
     Option.bind (as_dict v) (\<lambda>d.
     Option.bind (need read_class d ''failureClass'') (\<lambda>cl.
     Option.bind (or_default (optional as_text) None d ''rowIdentifier'') (\<lambda>row.
     Option.bind (or_default as_text [] d ''details'') (\<lambda>details.
     Option.bind (or_default (optional (list_of as_text)) None d ''affectedAttributes'') (\<lambda>attrs.
       Some \<lparr>fd_failureClass = cl, fd_rowIdentifier = row, fd_details = details, fd_affectedAttributes = attrs\<rparr>)))))"

definition summary_from_dict :: "payload \<Rightarrow> diagnostics_summary option" where
  "summary_from_dict v =
     Option.bind (as_dict v) (\<lambda>d.
     Option.bind (need read_class d ''failureClass'') (\<lambda>cl.
     Option.bind (need as_int d ''count'') (\<lambda>n.
     Option.bind (or_default (list_of diagnostic_from_dict) [] d ''sampleFailures'') (\<lambda>samples.
     Option.bind (or_default as_int 5 d ''maxSampleSize'') (\<lambda>most.
       Some \<lparr>su_failureClass = cl, su_count = n, su_sampleFailures = samples, su_maxSampleSize = most\<rparr>)))))"

definition metrics_from_dict :: "payload \<Rightarrow> join_metrics option" where
  "metrics_from_dict v =
     Option.bind (as_dict v) (\<lambda>d.
     Option.bind (need as_int d ''matchCount'') (\<lambda>ok.
     Option.bind (need as_int d ''mismatchCount'') (\<lambda>bad.
     Option.bind (need as_int d ''eligibleJoinedRows'') (\<lambda>n.
     Option.bind (need as_number d ''matchRate'') (\<lambda>rate.
     Option.bind (or_default as_int 0 d ''actualityDateMismatchCount'') (\<lambda>drift.
     Option.bind (or_default as_int 0 d ''nullOrMissingJoinKeyCount'') (\<lambda>nulls.
       Some \<lparr>jm_matchCount = ok, jm_mismatchCount = bad, jm_eligibleJoinedRows = n, jm_matchRate = rate,
             jm_actualityDateMismatchCount = drift, jm_nullOrMissingJoinKeyCount = nulls\<rparr>)))))))"

definition result_from_dict :: "payload \<Rightarrow> join_result option" where
  "result_from_dict v =
     Option.bind (as_dict v) (\<lambda>d.
     Option.bind (need as_bool d ''passed'') (\<lambda>passed.
     Option.bind (need metrics_from_dict d ''metrics'') (\<lambda>m.
     Option.bind (or_default (list_of summary_from_dict) [] d ''diagnosticsSummary'') (\<lambda>summaries.
     Option.bind (if py_true (dict_get d ''allDiagnostics'' PNone)
                  then map_option Some (list_of diagnostic_from_dict (dict_get d ''allDiagnostics'' PNone))
                  else Some None) (\<lambda>diagnostics.
     Option.bind (or_default (optional as_int) None d ''executionDurationMs'') (\<lambda>duration.
       Some \<lparr>jr_passed = passed, jr_metrics = m, jr_diagnosticsSummary = summaries,
             jr_allDiagnostics = diagnostics, jr_executionDurationMs = duration\<rparr>))))))"


section \<open>Calculation\<close>

definition calculate_metrics :: "(int \<Rightarrow> int \<Rightarrow> rat) \<Rightarrow> int \<Rightarrow> int \<Rightarrow> int \<Rightarrow> int \<Rightarrow> int \<Rightarrow> join_metrics" where
  "calculate_metrics percent joined matched mismatched nulls drift =
     (let eligible = joined - nulls
      in \<lparr>jm_matchCount = matched, jm_mismatchCount = mismatched, jm_eligibleJoinedRows = eligible,
          jm_matchRate = (if 0 < eligible then percent matched eligible else 0),
          jm_actualityDateMismatchCount = drift, jm_nullOrMissingJoinKeyCount = nulls\<rparr>)"

definition classify_failure ::
  "bool \<Rightarrow> bool \<Rightarrow> bool \<Rightarrow> string option \<Rightarrow> string list option \<Rightarrow> failure_diagnostic" where
  "classify_failure value_mismatch actuality_date_drift join_key_missing row attrs =
     (let (cl, detail) =
        (if join_key_missing then (NullOrMissingJoinKey, ''Join key is null or missing; row excluded from eligible set'')
         else if actuality_date_drift then (ActualityDateDrift, ''Actuality-date delta exceeds contract tolerance'')
         else if value_mismatch then (ValueMismatch, ''Compared attribute values differ between left and right objects'')
         else (OtherFailure, ''Unknown failure reason''))
      in \<lparr>fd_failureClass = cl, fd_rowIdentifier = row, fd_details = detail, fd_affectedAttributes = attrs\<rparr>)"

definition add_failure ::
  "(failure_class, failure_diagnostic list) dict \<Rightarrow> failure_diagnostic \<Rightarrow> (failure_class, failure_diagnostic list) dict" where
  "add_failure d x =
     AList.update (fd_failureClass x) (dict_get d (fd_failureClass x) [] @ [x]) d"

definition build_diagnostics_summary :: "failure_diagnostic list \<Rightarrow> int \<Rightarrow> diagnostics_summary list" where
  "build_diagnostics_summary all_diagnostics max_sample_size =
     (let by_class = foldl add_failure [] all_diagnostics
      in map (\<lambda>c. let failures = dict_get by_class c []
           in \<lparr>su_failureClass = c, su_count = int (length failures),
               su_sampleFailures = py_slice 0 max_sample_size failures, su_maxSampleSize = max_sample_size\<rparr>)
         (sort_key class_value (map fst by_class)))"

definition build_result ::
  "bool \<Rightarrow> join_metrics \<Rightarrow> failure_diagnostic list option \<Rightarrow> int option \<Rightarrow> int \<Rightarrow> bool \<Rightarrow> join_result" where
  "build_result passed metrics all_diagnostics duration max_sample_size include_full =
     (let ds = (case all_diagnostics of None \<Rightarrow> [] | Some xs \<Rightarrow> xs)
      in \<lparr>jr_passed = passed, jr_metrics = metrics, jr_diagnosticsSummary = build_diagnostics_summary ds max_sample_size,
          jr_allDiagnostics = (if include_full then Some ds else None), jr_executionDurationMs = duration\<rparr>)"


section \<open>Round trips\<close>

lemma class_of_value [simp]: "class_of (class_value c) = Some c"
  by (cases c) (simp_all add: class_of_def)

lemma all_some_map: "(\<And>x. x \<in> set xs \<Longrightarrow> f (g x) = Some (h x)) \<Longrightarrow> all_some (map (f \<circ> g) xs) = Some (map h xs)"
  by (induction xs) auto

lemma list_of_map:
  assumes "\<And>x. f (g x) = Some x"
  shows "list_of f (PList (map g xs)) = Some xs"
  using all_some_map [of xs f g id] assms by (simp add: list_of_def)

lemma optional_value:
  assumes "\<And>x. g x \<noteq> PNone" and "\<And>x. f (g x) = Some x"
  shows "optional f (opt_value g v) = Some v"
  using assms by (cases v) (simp_all add: optional_def opt_value_def)

lemma read_class_value [simp]: "read_class (PStr (class_value c)) = Some c"
  by (simp add: read_class_def)

lemma optional_text [simp]: "optional as_text (opt_value PStr v) = Some v"
  and optional_int [simp]: "optional as_int (opt_value PInt n) = Some n"
  by (simp_all add: optional_value)

lemma optional_texts [simp]: "optional (list_of as_text) (opt_value (\<lambda>xs. PList (map PStr xs)) v) = Some v"
  by (intro optional_value list_of_map) simp_all

lemma diagnostic_round_trip [simp]: "diagnostic_from_dict (diagnostic_to_dict d) = Some d"
  by (simp add: diagnostic_from_dict_def diagnostic_to_dict_def need_def or_default_def)

lemma summary_round_trip [simp]: "summary_from_dict (summary_to_dict s) = Some s"
  by (simp add: summary_from_dict_def summary_to_dict_def need_def or_default_def list_of_map)

lemma metrics_round_trip [simp]:
  "metrics_from_dict (metrics_to_dict round2 m) = Some (m\<lparr>jm_matchRate := round2 (jm_matchRate m)\<rparr>)"
  by (simp add: metrics_from_dict_def metrics_to_dict_def need_def or_default_def)

text \<open>
  A written result is read back as it was, except that the match rate is rounded and an empty list of all diagnostics
  becomes absent. So a second round trip changes nothing more when rounding is idempotent.
\<close>

theorem join_result_round_trip:
  "result_from_dict (result_to_dict round2 r) =
     Some (r\<lparr>jr_metrics := (jr_metrics r)\<lparr>jm_matchRate := round2 (jm_matchRate (jr_metrics r))\<rparr>,
             jr_allDiagnostics := (if jr_allDiagnostics r = Some [] then None else jr_allDiagnostics r)\<rparr>)"
  by (auto simp: result_from_dict_def result_to_dict_def need_def or_default_def dict_get_def list_of_map simp del: list.map
      split: option.split list.split)


section \<open>Summaries\<close>

lemma add_failures_get:
  "dict_get (foldl add_failure d xs) c [] = dict_get d c [] @ filter (\<lambda>x. fd_failureClass x = c) xs"
  by (induction xs arbitrary: d) (simp_all add: add_failure_def)

lemma add_failures_keys: "fst ` set (foldl add_failure d xs) = fst ` set d \<union> fd_failureClass ` set xs"
  by (induction xs arbitrary: d) (simp_all add: add_failure_def Un_insert_left)

lemma add_failures_wf: "dict_wf d \<Longrightarrow> dict_wf (foldl add_failure d xs)"
  by (induction xs arbitrary: d) (simp_all add: add_failure_def)

definition classes_by_value :: "failure_class list" where
  "classes_by_value = [ActualityDateDrift, NullOrMissingJoinKey, OtherFailure, ValueMismatch]"

lemma class_value_inj: "inj class_value"
  by (intro injI) (metis class_of_value option.inject)

lemma classes_by_value: "sorted (map class_value classes_by_value)" "distinct classes_by_value" "set classes_by_value = UNIV"
  by (auto simp: classes_by_value_def less_char_def less_eq_char_def) (metis failure_class.exhaust)

lemma sorted_classes:
  assumes "distinct cs"
  shows "sort_key class_value cs = filter (\<lambda>c. c \<in> set cs) classes_by_value"
proof -
  let ?l = "sort_key class_value cs" and ?r = "filter (\<lambda>c. c \<in> set cs) classes_by_value"
  have sub: "inj_on class_value (A :: failure_class set)" for A using class_value_inj by (rule inj_on_subset) simp
  have "map class_value ?l = map class_value ?r"
  proof (rule sorted_distinct_set_unique)
    show "sorted (map class_value ?l)" by simp
    show "sorted (map class_value ?r)" by (rule sorted_filter [OF classes_by_value(1)])
    show "distinct (map class_value ?l)" using assms sub by (simp add: distinct_map)
    show "distinct (map class_value ?r)" using classes_by_value(2) sub by (simp add: distinct_map)
    show "set (map class_value ?l) = set (map class_value ?r)" using classes_by_value(3) by auto
  qed
  then show ?thesis using class_value_inj by (simp add: inj_map_eq_map)
qed

text \<open>
  The summary counts every failure once. It has one entry for each class that occurs, in the order of the class names;
  the entry holds the number of all failures of the class and the first of them up to the sample size.
\<close>

theorem summary_is_exact:
  "build_diagnostics_summary ds most =
     map (\<lambda>c. let failures = filter (\<lambda>x. fd_failureClass x = c) ds
          in \<lparr>su_failureClass = c, su_count = int (length failures),
              su_sampleFailures = py_slice 0 most failures, su_maxSampleSize = most\<rparr>)
       (filter (\<lambda>c. list_ex (\<lambda>x. fd_failureClass x = c) ds)
          [ActualityDateDrift, NullOrMissingJoinKey, OtherFailure, ValueMismatch])"
proof -
  let ?d = "foldl add_failure [] ds"
  have get: "dict_get ?d c [] = filter (\<lambda>x. fd_failureClass x = c) ds" for c
    using add_failures_get [of "[]"] by (simp add: dict_get_def)
  have keys: "set (map fst ?d) = fd_failureClass ` set ds"
    using add_failures_keys [of "[]"] by simp
  have "distinct (map fst ?d)" by (rule add_failures_wf) simp
  then have "sort_key class_value (map fst ?d) = filter (\<lambda>c. c \<in> fd_failureClass ` set ds) classes_by_value"
    unfolding keys [symmetric] by (rule sorted_classes)
  also have "\<dots> = filter (\<lambda>c. list_ex (\<lambda>x. fd_failureClass x = c) ds) classes_by_value"
    by (rule filter_cong) (auto simp: list_ex_iff)
  finally show ?thesis
    by (simp only: build_diagnostics_summary_def Let_def get classes_by_value_def)
qed

end
