(* ===== verification/Check_Expressions.thy ===== *)
theory Check_Expressions
  imports Rule_Expressions
begin

text \<open>
  Filter expressions of the structured check types
  (\<^verbatim>\<open>application/services/check_type_expression_generator.py\<close>): the seventeen generators, their
  helpers and the dispatcher.

  The parameters are a JSON object; a floating-point number in it is a \<^const>\<open>PObj\<close>, and what the
  code asks of such numbers (their text, whether they count as true, whether they lie between 0
  and 1, \<open>float(text)\<close>) is the argument \<open>float_env\<close>. A \<open>ValueError\<close> carries its text; the
  \<open>TypeError\<close> or \<open>AttributeError\<close> of a value with an unexpected type is \<open>TypeFault\<close>.
\<close>


section \<open>Parameters and results\<close>

record 'f float_env =
  fe_text :: "'f \<Rightarrow> string"
  fe_true :: "'f \<Rightarrow> bool"
  fe_in_unit :: "'f \<Rightarrow> bool"
  fe_read :: "string \<Rightarrow> 'f option"

datatype gen_error = BadParams string | TypeFault

type_synonym 'f params = "(string \<times> 'f pyval) list"

text \<open>\<open>bool(value)\<close>, \<open>str(value)\<close>, \<open>str(value or default)\<close>, \<open>str(params.get(key) or "").strip()\<close>.\<close>

definition param_true :: "'f float_env \<Rightarrow> 'f pyval \<Rightarrow> bool" where
  "param_true env v = (case v of PObj x \<Rightarrow> fe_true env x | _ \<Rightarrow> py_true v)"

definition param_str :: "'f float_env \<Rightarrow> 'f pyval \<Rightarrow> string" where
  "param_str env v = (case v of PStr s \<Rightarrow> s | _ \<Rightarrow> py_repr (fe_text env) v)"

definition str_or :: "'f float_env \<Rightarrow> string \<Rightarrow> 'f pyval \<Rightarrow> string" where
  "str_or env d v = (if param_true env v then param_str env v else d)"

definition stripped :: "'f float_env \<Rightarrow> 'f params \<Rightarrow> string \<Rightarrow> string" where
  "stripped env p k = strip (str_or env [] (pget p k))"

text \<open>\<open>bool(params.get(key, default))\<close>: a key that is present with the value \<open>None\<close> reads as false.\<close>

definition flag :: "'f float_env \<Rightarrow> bool \<Rightarrow> 'f params \<Rightarrow> string \<Rightarrow> bool" where
  "flag env d p k = (case map_of p k of None \<Rightarrow> d | Some v \<Rightarrow> param_true env v)"

text \<open>\<open>list(value or [])\<close>: the characters of a text, the keys of a mapping.\<close>

definition items :: "'f float_env \<Rightarrow> 'f pyval \<Rightarrow> gen_error + 'f pyval list" where
  "items env v =
     (if \<not> param_true env v then Inr []
      else case v of
             PList vs \<Rightarrow> Inr vs
           | PStr s \<Rightarrow> Inr (map (\<lambda>c. PStr [c]) s)
           | PDict d \<Rightarrow> Inr (map (PStr \<circ> fst) d)
           | _ \<Rightarrow> Inl TypeFault)"




section \<open>Helpers\<close>



definition quote_value :: "'f float_env \<Rightarrow> bool \<Rightarrow> 'f pyval \<Rightarrow> gen_error + string" where
  "quote_value env case_sensitive v =
     (if case_sensitive then Inr (quoted (param_str env v))
      else case v of PStr s \<Rightarrow> Inr (quoted (lower s)) | _ \<Rightarrow> Inl TypeFault)"

definition quote_values :: "'f float_env \<Rightarrow> bool \<Rightarrow> 'f pyval list \<Rightarrow> gen_error + string" where
  "quote_values env case_sensitive vs =
     try_bind (try_map (quote_value env case_sensitive) vs) (\<lambda>ts. Inr (join_text '', '' ts))"

text \<open>The text is an optional minus sign, digits, and optionally a point and digits.\<close>

definition is_number_text :: "string \<Rightarrow> bool" where
  "is_number_text s =
     (let t = (if starts_with ''-'' s then tl s else s);
          whole = takeWhile is_digit t;
          rest = dropWhile is_digit t
      in whole \<noteq> [] \<and>
         (rest = [] \<or> hd rest = CHR ''.'' \<and> tl rest \<noteq> [] \<and> list_all is_digit (tl rest)))"

definition quote_literal :: "'f float_env \<Rightarrow> 'f pyval \<Rightarrow> string" where
  "quote_literal env v =
     (case v of
        PBool b \<Rightarrow> (if b then ''true'' else ''false'')
      | PInt i \<Rightarrow> param_str env v
      | PObj x \<Rightarrow> param_str env v
      | _ \<Rightarrow>
          (let s = str_or env [] v
           in if is_number_text s then s
              else quoted (concat (map (\<lambda>c. if c = single_quote then [single_quote, single_quote] else [c]) s))))"


definition simple_condition_clause :: "'f float_env \<Rightarrow> 'f pyval \<Rightarrow> gen_error + string option" where
  "simple_condition_clause env condition =
     (case condition of
        PDict c \<Rightarrow>
          (let attribute = stripped env c ''attribute'';
               operator = lower (strip (str_or env ''equals'' (pget c ''operator'')));
               v = pget c ''value''
           in if attribute = [] \<or> v = PNone \<or> strip (param_str env v) = []
              then Inl (BadParams ''Conditional checks require condition.attribute and condition.value'')
              else if operator \<noteq> ''equals''
              then Inl (BadParams (''Conditional checks currently support only the '' @ quoted ''equals'' @ '' operator''))
              else Inr (Some (attribute @ '' = '' @ quote_literal env v)))
      | _ \<Rightarrow> Inr None)"

definition apply_simple_condition :: "'f float_env \<Rightarrow> string \<Rightarrow> 'f params \<Rightarrow> gen_error + string" where
  "apply_simple_condition env base p =
     try_bind (simple_condition_clause env (pget p ''condition'')) (\<lambda>c.
       if truthy c
       then Inr (''('' @ text_of c @ '' AND ('' @ base @ '')) OR NOT ('' @ text_of c @ '')'')
       else Inr base)"











section \<open>Generators\<close>

text \<open>The messages \<open><TYPE> check requires '<key>'\<close> and the like.\<close>

definition needs :: "string \<Rightarrow> string \<Rightarrow> gen_error" where
  "needs label key = BadParams (label @ '' check requires '' @ quoted key)"






definition generate_range :: "'f float_env \<Rightarrow> 'f params \<Rightarrow> gen_error + string" where
  "generate_range env p =
     (let attribute = stripped env p ''attribute'';
          min_val = pget p ''minValue''; max_val = pget p ''maxValue''
      in if attribute = [] then Inl (needs ''RANGE'' ''attribute'')
         else if min_val = PNone \<and> max_val = PNone
         then Inl (BadParams (''RANGE check requires at least one of '' @ quoted ''minValue'' @ '' or '' @ quoted ''maxValue''))
         else
           let inclusive = flag env True p ''inclusive'';
               low = attribute @ (if inclusive then '' >= '' else '' > '') @ quote_literal env min_val;
               high = attribute @ (if inclusive then '' <= '' else '' < '') @ quote_literal env max_val
           in apply_simple_condition env
                (if min_val \<noteq> PNone \<and> max_val \<noteq> PNone then low @ '' AND '' @ high
                 else if min_val \<noteq> PNone then low else high) p)"

definition membership :: "'f float_env \<Rightarrow> string \<Rightarrow> string \<Rightarrow> bool \<Rightarrow> 'f pyval list \<Rightarrow> gen_error + string" where
  "membership env attribute word case_sensitive vs =
     try_bind (quote_values env case_sensitive vs) (\<lambda>list_text.
       Inr ((if case_sensitive then attribute else ''LOWER('' @ attribute @ '')'') @ word @ ''('' @ list_text @ '')''))"

definition generate_allowlist :: "'f float_env \<Rightarrow> 'f params \<Rightarrow> gen_error + string" where
  "generate_allowlist env p =
     (let attribute = stripped env p ''attribute''
      in try_bind (items env (pget p ''allowedValues'')) (\<lambda>vs.
           if attribute = [] then Inl (needs ''ALLOWLIST'' ''attribute'')
           else if vs = []
           then Inl (BadParams (''ALLOWLIST check requires at least one '' @ quoted ''allowedValues'' @ '' entry''))
           else try_bind (membership env attribute '' IN '' (flag env False p ''caseSensitive'') vs) (\<lambda>base.
             apply_simple_condition env base p)))"























section \<open>Dispatch\<close>





section \<open>Generated expressions and the bracket scan\<close>

text \<open>
  A bare text has no quotes and no parentheses. A closed text leaves the state of the scan
  as it was, whatever follows (but a quote, which would continue its last literal).
\<close>

definition bare :: "string \<Rightarrow> bool" where
  "bare s \<longleftrightarrow> list_all (\<lambda>c. c \<noteq> single_quote \<and> c \<noteq> double_quote \<and> c \<noteq> CHR ''('' \<and> c \<noteq> CHR '')'') s"





lemma bare_Cons [simp]:
  "bare (c # s) \<longleftrightarrow> c \<noteq> single_quote \<and> c \<noteq> double_quote \<and> c \<noteq> CHR ''('' \<and> c \<noteq> CHR '')'' \<and> bare s"
  by (simp add: bare_def)

lemma bare_append [simp]: "bare (u @ v) \<longleftrightarrow> bare u \<and> bare v"
  by (simp add: bare_def)


lemma quoted_eq: "quoted u = single_quote # u @ [single_quote]"
  by (simp add: quoted_def char_of_def bit_0)









lemma lower_char_special:
  "of_char q < (65::nat) \<Longrightarrow> lower_char c = q \<longleftrightarrow> c = q"
proof -
  assume q: "of_char q < (65::nat)"
  have "(of_char (lower_char c) :: nat) = of_char q \<longleftrightarrow> (of_char c :: nat) = of_char q"
    using q by (auto simp: of_char_lower_char Let_def)
  then show ?thesis by simp
qed

lemma bare_lower [simp]: "bare (lower s) \<longleftrightarrow> bare s"
  by (simp add: bare_def lower_def list_all_iff lower_char_special)




text \<open>
  Parameters of the documented shape: texts without quotes and parentheses; lists only under
  the keys of value lists and entry lists; mappings only as entries and under the three keys
  of nested settings. Printed floating-point numbers are bare.
\<close>

definition scalar_ok :: "'f pyval \<Rightarrow> bool" where
  "scalar_ok v = (case v of PStr s \<Rightarrow> bare s | PList _ \<Rightarrow> False | PDict _ \<Rightarrow> False | _ \<Rightarrow> True)"

definition values_ok :: "'f pyval \<Rightarrow> bool" where
  "values_ok v = (case v of PList vs \<Rightarrow> list_all scalar_ok vs | _ \<Rightarrow> scalar_ok v)"

definition value_keys :: "string list" where
  "value_keys = [''allowedValues'', ''blockedValues'', ''attributes'']"

definition entry_keys :: "string list" where
  "entry_keys = [''joinKeys'', ''comparisons'', ''ranges'', ''allowlists'']"

definition setting_keys :: "string list" where
  "setting_keys = [''condition'', ''comparison'', ''actualityDate'']"

definition field_ok :: "string \<Rightarrow> 'f pyval \<Rightarrow> bool" where
  "field_ok k v = (if k \<in> set value_keys then values_ok v else scalar_ok v)"

definition setting_ok :: "'f pyval \<Rightarrow> bool" where
  "setting_ok v = (case v of PDict d \<Rightarrow> list_all (\<lambda>(k, w). field_ok k w) d | _ \<Rightarrow> scalar_ok v)"

definition entries_ok :: "'f pyval \<Rightarrow> bool" where
  "entries_ok v = (case v of PList vs \<Rightarrow> list_all setting_ok vs | _ \<Rightarrow> scalar_ok v)"

definition param_ok :: "string \<Rightarrow> 'f pyval \<Rightarrow> bool" where
  "param_ok k v =
     (if k \<in> set setting_keys then setting_ok v
      else if k \<in> set entry_keys then entries_ok v
      else field_ok k v)"




lemma scalar_PNone [simp]: "scalar_ok PNone" "values_ok PNone" "setting_ok PNone" "field_ok k PNone" "param_ok k PNone"
  by (simp_all add: scalar_ok_def values_ok_def setting_ok_def field_ok_def param_ok_def entries_ok_def)



































































definition demo_env :: "unit float_env" where
  "demo_env = \<lparr>fe_text = (\<lambda>_. ''0.5''), fe_true = (\<lambda>_. True), fe_in_unit = (\<lambda>_. True), fe_read = (\<lambda>_. None)\<rparr>"




section \<open>Expressions that the filter check refuses\<close>

lemma contains_start: "starts_with p s \<Longrightarrow> contains p s"
  by (cases s) (auto simp: starts_with_def)

lemma contains_middle: "contains p (u @ p @ v)"
  by (induction u) (simp_all add: contains_start starts_with_def)

lemma upper_append: "upper (u @ v) = upper u @ upper v"
  by (simp add: upper_def)

lemma and_before_or_rejected: "validate_filter_expression (Some (u @ ''AND or'' @ v)) \<noteq> None"
proof -
  let ?a = "dropWhile is_space u" and ?b = "rev (dropWhile is_space (rev v))"
  have s: "strip (u @ ''AND or'' @ v) = ?a @ ''AND or'' @ ?b"
    using strip_around [of "CHR ''A''" "CHR ''r''" u "''ND o''" v] by (simp add: is_space_def)
  have "upper (?a @ ''AND or'' @ ?b) = upper ?a @ ''AND OR'' @ upper ?b"
    by (simp add: upper_append) (simp add: upper_def upper_char_def char_of_def bit_0)
  then have "contains ''AND OR'' (upper (?a @ ''AND or'' @ ?b))" using contains_middle by metis
  then show ?thesis
    unfolding validate_filter_expression_def Let_def text_of_simps s
    by (simp split: option.split)
qed

text \<open>
  A range check with two bounds over an attribute whose name begins with \<open>or\<close>, say
  \<open>order_amount\<close>, is accepted by the generator and its expression is rejected by the filter
  expression check, whatever the bounds are: the text \<open>AND order\<close> contains \<open>AND OR\<close>.
\<close>

theorem range_over_or_attribute_is_rejected:
  assumes "strip attribute = attribute" and "starts_with ''or'' attribute"
  shows "\<exists>e. generate_range env
      [(''attribute'', PStr attribute), (''minValue'', PInt low), (''maxValue'', PInt high)] = Inr e \<and>
    validate_filter_expression (Some e) \<noteq> None"
proof -
  obtain rest where a: "attribute = ''or'' @ rest"
    using assms(2) by (metis append_take_drop_id starts_with_def)
  let ?e = "attribute @ '' >= '' @ show_int low @ '' AND '' @ attribute @ '' <= '' @ show_int high"
  have "generate_range env [(''attribute'', PStr attribute), (''minValue'', PInt low), (''maxValue'', PInt high)] = Inr ?e"
    using assms(1) a
    by (simp add: generate_range_def stripped_def str_or_def param_true_def param_str_def pget_def dict_get_def flag_def
        quote_literal_def apply_simple_condition_def simple_condition_clause_def)
  moreover have "?e = (attribute @ '' >= '' @ show_int low @ '' '') @ ''AND or'' @ (rest @ '' <= '' @ show_int high)"
    by (simp add: a)
  ultimately show ?thesis using and_before_or_rejected by metis
qed

theorem range_over_or_attribute_is_rejected_witness:
  "\<exists>e. generate_range demo_env [(''attribute'', PStr ''order_amount''), (''minValue'', PInt 0), (''maxValue'', PInt 100)] = Inr e \<and>
    validate_filter_expression (Some e) \<noteq> None"
  by (rule range_over_or_attribute_is_rejected) (simp_all add: starts_with_def text_eval)

text \<open>
  The values of a case sensitive allowlist are put between quotes as they are. A value with
  quotes in it closes its literal and adds a clause of its own to the expression, which the
  filter expression check accepts.
\<close>

theorem allowlist_value_can_add_a_clause:
  "generate_allowlist env
     [(''attribute'', PStr ''status''), (''caseSensitive'', PBool True),
      (''allowedValues'', PList [PStr (''a'' @ [single_quote] @ '') OR (role = '' @ [single_quote] @ ''admin'')])] =
   Inr (''status IN ('' @ quoted ''a'' @ '') OR (role = '' @ quoted ''admin'' @ '')'') \<and>
   validate_filter_expression (Some (''status IN ('' @ quoted ''a'' @ '') OR (role = '' @ quoted ''admin'' @ '')'')) = None"
proof
  show "generate_allowlist env
     [(''attribute'', PStr ''status''), (''caseSensitive'', PBool True),
      (''allowedValues'', PList [PStr (''a'' @ [single_quote] @ '') OR (role = '' @ [single_quote] @ ''admin'')])] =
   Inr (''status IN ('' @ quoted ''a'' @ '') OR (role = '' @ quoted ''admin'' @ '')'')"
    by (simp add: generate_allowlist_def stripped_def str_or_def param_true_def param_str_def pget_def dict_get_def items_def
        membership_def quote_values_def quote_value_def flag_def apply_simple_condition_def simple_condition_clause_def
        quoted_eq text_eval)
  show "validate_filter_expression (Some (''status IN ('' @ quoted ''a'' @ '') OR (role = '' @ quoted ''admin'' @ '')'')) = None"
    by (simp add: validate_filter_expression_def quoted_def next_is_def starts_with_def upper_def upper_char_def
      starts_with_word_def ends_with_word_def word_char_def text_eval)
qed

end
