(* ===== verification/Contract_Governance.thy ===== *)
theory Contract_Governance
  imports Rule_Expressions
begin

text \<open>
  Data contracts (\<^verbatim>\<open>application/services/data_contract_governance.py\<close>): the canonical snapshot of a
  contract document, the comparison of two snapshots, the fields that a data asset version
  shows, and the check of those fields against a contract.

  A contract document is a JSON value with integer numbers. Comparison and conformance are
  defined on canonical snapshots: their callers in \<^verbatim>\<open>api/v1/endpoints/data_assets.py\<close> and
  \<^verbatim>\<open>data_contracts.py\<close> pass nothing else. The parts of a version that are read here are \<open>asset_version\<close>
  (\<^verbatim>\<open>domain/entities/data_asset.py\<close>).
\<close>


section \<open>Normalisation\<close>

definition logical_type_aliases :: "(string, string) dict" where
  "logical_type_aliases =
     [(''char'', ''string''), (''date-time'', ''datetime''), (''datetime'', ''datetime''),
      (''datetimeoffset'', ''datetime''), (''double'', ''number''), (''float'', ''number''),
      (''int'', ''integer''), (''integer'', ''integer''), (''long'', ''integer''), (''number'', ''number''),
      (''numeric'', ''number''), (''smallint'', ''integer''), (''string'', ''string''), (''text'', ''string''),
      (''timestamp'', ''datetime''), (''uuid'', ''string''), (''varchar'', ''string''), (''bool'', ''boolean''),
      (''boolean'', ''boolean''), (''date'', ''date''), (''object'', ''object''), (''array'', ''array'')]"


definition normalize_logical_type :: "string \<Rightarrow> string" where
  "normalize_logical_type v =
     (let normalized = lower (strip v)
      in if normalized = [] then ''string'' else dict_get logical_type_aliases normalized normalized)"







record contract_field =
  cf_name :: string
  cf_logical_type :: string
  cf_physical_type :: string
  cf_description :: "string option"
  cf_required :: bool
  cf_nullable :: bool
  cf_unique :: bool
  cf_classification :: string
  cf_primary_key :: bool
  cf_primary_key_position :: json



record contract_schema =
  sc_name :: string
  sc_logical_type :: string
  sc_physical_type :: string
  sc_description :: "string option"
  sc_fields :: "contract_field list"

record contract_snapshot =
  sn_data_source_id :: string
  sn_source_kind :: string
  sn_api_version :: string
  sn_kind :: string
  sn_contract_id :: string
  sn_name :: string
  sn_version :: string
  sn_status :: string
  sn_domain :: string
  sn_owner :: "(string \<times> json) list"
  sn_contact :: "(string \<times> json) list"
  sn_description :: "(string \<times> json) list"
  sn_schema :: contract_schema
  sn_quality :: "(string \<times> json) list"




section \<open>Comparison of snapshots\<close>

text \<open>Fields by name, without blank names; of two fields with one name the later one counts.\<close>

definition fields_by_name :: "contract_field list \<Rightarrow> (string, contract_field) dict" where
  "fields_by_name fs =
     foldl (\<lambda>d f. AList.update (cf_name f) f d) [] (filter (\<lambda>f. strip (cf_name f) \<noteq> []) fs)"

definition field_map :: "contract_snapshot \<Rightarrow> (string, contract_field) dict" where
  "field_map s = fields_by_name (sc_fields (sn_schema s))"

datatype change_type = Removed | Added | Modified

datatype change_class = Breaking | Additive | Compatible | Identical

record contract_field_change =
  ch_field_name :: string
  ch_change_type :: change_type
  ch_severity :: change_class
  ch_message :: string
  ch_previous :: "contract_field option"
  ch_current :: "contract_field option"

definition removed_change :: "string \<Rightarrow> contract_field \<Rightarrow> contract_field_change" where
  "removed_change n p =
     \<lparr>ch_field_name = n, ch_change_type = Removed, ch_severity = Breaking,
      ch_message = ''Field '' @ quoted n @ '' was removed'', ch_previous = Some p, ch_current = None\<rparr>"

definition added_change :: "string \<Rightarrow> contract_field \<Rightarrow> contract_field_change" where
  "added_change n c =
     \<lparr>ch_field_name = n, ch_change_type = Added,
      ch_severity = (if cf_required c then Breaking else Additive),
      ch_message = ''Field '' @ quoted n @ '' was added'', ch_previous = None, ch_current = Some c\<rparr>"

definition type_changed :: "contract_field \<Rightarrow> contract_field \<Rightarrow> bool" where
  "type_changed p c \<longleftrightarrow> normalize_logical_type (cf_logical_type p) \<noteq> normalize_logical_type (cf_logical_type c)"

text \<open>The notes on a modified field, in the order of the tests, with their effect on the severity.\<close>

definition field_notes :: "contract_field \<Rightarrow> contract_field \<Rightarrow> string list" where
  "field_notes p c =
     (if type_changed p c
      then [''logical type changed from '' @ cf_logical_type p @ '' to '' @ cf_logical_type c] else []) @
     (if cf_nullable p \<and> \<not> cf_nullable c then [''field became non-nullable''] else []) @
     (if \<not> cf_required p \<and> cf_required c then [''field became required''] else []) @
     (if cf_required p \<and> \<not> cf_required c then [''field became optional''] else []) @
     (if \<not> cf_nullable p \<and> cf_nullable c then [''field became nullable''] else []) @
     (if cf_classification p \<noteq> cf_classification c
      then [''classification changed from '' @ cf_classification p @ '' to '' @ cf_classification c] else []) @
     (if cf_description p \<noteq> cf_description c then [''description changed''] else [])"

definition field_severity :: "contract_field \<Rightarrow> contract_field \<Rightarrow> change_class" where
  "field_severity p c =
     (if type_changed p c \<or> (cf_nullable p \<and> \<not> cf_nullable c) \<or> (\<not> cf_required p \<and> cf_required c)
      then Breaking else Compatible)"

record contract_diff =
  df_previous_version :: string
  df_current_version :: string
  df_classification :: change_class
  df_breaking :: nat
  df_compatible :: nat
  df_additive :: nat
  df_total :: nat
  df_changes :: "contract_field_change list"

text \<open>The three counters and the list of changes, and one round of each loop.\<close>

type_synonym tally = "nat \<times> nat \<times> nat \<times> contract_field_change list"

definition removal_step :: "(string, contract_field) dict \<Rightarrow> (string, contract_field) dict \<Rightarrow> string \<Rightarrow> tally \<Rightarrow> tally" where
  "removal_step previous current n t =
     (case t of (br, co, ad, changes) \<Rightarrow>
        (case map_of current n of
           Some _ \<Rightarrow> t
         | None \<Rightarrow> (br + 1, co, ad, changes @ [removed_change n (the (map_of previous n))])))"

definition current_step :: "(string, contract_field) dict \<Rightarrow> (string, contract_field) dict \<Rightarrow> string \<Rightarrow> tally \<Rightarrow> tally" where
  "current_step previous current n t =
     (case t of (br, co, ad, changes) \<Rightarrow>
        (let c = the (map_of current n)
         in case map_of previous n of
              None \<Rightarrow>
                ((if cf_required c then br + 1 else br), co, ad + 1, changes @ [added_change n c])
            | Some p \<Rightarrow>
                (if field_notes p c = [] then t
                 else
                   let change = \<lparr>ch_field_name = n, ch_change_type = Modified, ch_severity = field_severity p c,
                     ch_message = join_text ''; '' (field_notes p c), ch_previous = Some p, ch_current = Some c\<rparr>
                   in if field_severity p c = Breaking then (br + 1, co, ad, changes @ [change])
                      else (br, co + 1, ad, changes @ [change]))))"

definition diff_tally :: "(string, contract_field) dict \<Rightarrow> (string, contract_field) dict \<Rightarrow> tally" where
  "diff_tally previous current =
     fold (current_step previous current) (sort (map fst current))
       (fold (removal_step previous current) (sort (map fst previous)) (0, 0, 0, []))"

definition diff_contract_snapshots :: "contract_snapshot \<Rightarrow> contract_snapshot \<Rightarrow> contract_diff" where
  "diff_contract_snapshots previous current =
     (case diff_tally (field_map previous) (field_map current) of (br, co, ad, changes) \<Rightarrow>
        \<lparr>df_previous_version = strip (sn_version previous),
         df_current_version = strip (sn_version current),
         df_classification =
           (if br > 0 then Breaking else if ad > 0 then Additive
            else if co > 0 then Compatible else Identical),
         df_breaking = br, df_compatible = co, df_additive = ad,
         df_total = length changes, df_changes = changes\<rparr>)"


section \<open>Observed fields and conformance\<close>















section \<open>Canonical fields\<close>















section \<open>Fields by name\<close>

lemma find_snoc: "find P (ys @ [y]) = (case find P ys of Some z \<Rightarrow> Some z | None \<Rightarrow> if P y then Some y else None)"
  by (induction ys) simp_all

lemma fields_fold_map:
  "map_of (foldl (\<lambda>d f. AList.update (cf_name f) f d) d fs) n =
     (case find (\<lambda>f. cf_name f = n) (rev fs) of Some f \<Rightarrow> Some f | None \<Rightarrow> map_of d n)"
  by (induction fs arbitrary: d) (simp_all add: find_snoc split: option.split)

lemma fields_fold_wf: "dict_wf d \<Longrightarrow> dict_wf (foldl (\<lambda>d f. AList.update (cf_name f) f d) d fs)"
  by (induction fs arbitrary: d) simp_all

lemma fields_by_name_wf: "dict_wf (fields_by_name fs)"
  by (simp add: fields_by_name_def fields_fold_wf)

lemma fields_by_name_entry: "map_of (fields_by_name fs) n = Some f \<Longrightarrow> cf_name f = n \<and> f \<in> set fs"
  by (auto simp: fields_by_name_def fields_fold_map split: option.splits dest!: find_first)

abbreviation field_at :: "contract_snapshot \<Rightarrow> string \<Rightarrow> contract_field option" where
  "field_at s n \<equiv> map_of (field_map s) n"

lemma field_map_wf: "dict_wf (field_map s)"
  by (simp add: field_map_def fields_by_name_wf)

lemma map_of_key: "n \<in> set (map fst d) \<longleftrightarrow> map_of d n \<noteq> None"
  by (simp add: map_of_eq_None_iff)



section \<open>What a comparison reports\<close>

text \<open>The class of the change that is reported for a name of the current snapshot.\<close>

definition name_class :: "(string, contract_field) dict \<Rightarrow> (string, contract_field) dict \<Rightarrow> string \<Rightarrow> change_class" where
  "name_class previous current n =
     (case map_of previous n of
        None \<Rightarrow> (if cf_required (the (map_of current n)) then Breaking else Additive)
      | Some p \<Rightarrow>
          (if field_notes p (the (map_of current n)) = [] then Identical
           else field_severity p (the (map_of current n))))"

lemma severity_cases: "field_severity p c = Breaking \<or> field_severity p c = Compatible"
  by (simp add: field_severity_def)

lemma breaking_notes: "field_severity p c = Breaking \<Longrightarrow> field_notes p c \<noteq> []"
  by (auto simp: field_severity_def field_notes_def split: if_splits)

abbreviation count_if :: "('a \<Rightarrow> bool) \<Rightarrow> 'a list \<Rightarrow> nat" where
  "count_if P xs \<equiv> length (filter P xs)"

lemma removal_fold:
  "\<exists>more. fold (removal_step p c) ns (b, k, a, ch) = (b + count_if (\<lambda>n. map_of c n = None) ns, k, a, ch @ more) \<and>
     length more = count_if (\<lambda>n. map_of c n = None) ns"
proof (induction ns arbitrary: b ch)
  case (Cons n ns)
  show ?case
  proof (cases "map_of c n")
    case None
    have step: "removal_step p c n (b, k, a, ch) = (b + 1, k, a, ch @ [removed_change n (the (map_of p n))])"
      using None by (simp add: removal_step_def)
    from Cons.IH [of "b + 1" "ch @ [removed_change n (the (map_of p n))]"] show ?thesis
      using None by (auto simp: step)
  next
    case (Some f)
    then have "removal_step p c n (b, k, a, ch) = (b, k, a, ch)" by (simp add: removal_step_def)
    with Cons.IH [of b ch] Some show ?thesis by simp
  qed
qed simp

lemma current_step_counts:
  "\<exists>more. current_step p c n (b, k, a, ch) =
     (b + (if name_class p c n = Breaking then 1 else 0), k + (if name_class p c n = Compatible then 1 else 0),
      a + (if map_of p n = None then 1 else 0), ch @ more) \<and>
     length more = (if name_class p c n = Identical then 0 else 1)"
proof (cases "map_of p n")
  case None
  then show ?thesis by (simp add: current_step_def name_class_def Let_def)
next
  case (Some f)
  then show ?thesis
    using severity_cases [of f "the (map_of c n)"]
    by (auto simp: current_step_def name_class_def Let_def)
qed

lemma current_fold:
  "\<exists>more. fold (current_step p c) ns (b, k, a, ch) =
     (b + count_if (\<lambda>n. name_class p c n = Breaking) ns, k + count_if (\<lambda>n. name_class p c n = Compatible) ns,
      a + count_if (\<lambda>n. map_of p n = None) ns, ch @ more) \<and>
     length more = count_if (\<lambda>n. name_class p c n \<noteq> Identical) ns"
proof (induction ns arbitrary: b k a ch)
  case (Cons n ns)
  obtain more where more: "current_step p c n (b, k, a, ch) =
     (b + (if name_class p c n = Breaking then 1 else 0), k + (if name_class p c n = Compatible then 1 else 0),
      a + (if map_of p n = None then 1 else 0), ch @ more)"
    "length more = (if name_class p c n = Identical then 0 else 1)"
    using current_step_counts by blast
  obtain rest where rest: "fold (current_step p c) ns (current_step p c n (b, k, a, ch)) =
     (b + (if name_class p c n = Breaking then 1 else 0) + count_if (\<lambda>n. name_class p c n = Breaking) ns,
      k + (if name_class p c n = Compatible then 1 else 0) + count_if (\<lambda>n. name_class p c n = Compatible) ns,
      a + (if map_of p n = None then 1 else 0) + count_if (\<lambda>n. map_of p n = None) ns, (ch @ more) @ rest)"
    "length rest = count_if (\<lambda>n. name_class p c n \<noteq> Identical) ns"
    unfolding more(1) using Cons.IH by blast
  show ?case
    using rest more(2) by (intro exI [of _ "more @ rest"]) simp
qed simp

lemma count_sort: "count_if P (sort xs) = count_if P xs"
  by (simp add: filter_sort)

text \<open>The four numbers of a comparison.\<close>

lemma diff_counts:
  fixes previous current :: contract_snapshot
  defines "p \<equiv> field_map previous" and "c \<equiv> field_map current"
  shows "df_breaking (diff_contract_snapshots previous current) =
      count_if (\<lambda>n. map_of c n = None) (map fst p) + count_if (\<lambda>n. name_class p c n = Breaking) (map fst c)"
    and "df_compatible (diff_contract_snapshots previous current) = count_if (\<lambda>n. name_class p c n = Compatible) (map fst c)"
    and "df_additive (diff_contract_snapshots previous current) = count_if (\<lambda>n. map_of p n = None) (map fst c)"
    and "df_total (diff_contract_snapshots previous current) =
      count_if (\<lambda>n. map_of c n = None) (map fst p) + count_if (\<lambda>n. name_class p c n \<noteq> Identical) (map fst c)"
    and "df_classification (diff_contract_snapshots previous current) =
      (if df_breaking (diff_contract_snapshots previous current) > 0 then Breaking
       else if df_additive (diff_contract_snapshots previous current) > 0 then Additive
       else if df_compatible (diff_contract_snapshots previous current) > 0 then Compatible else Identical)"
proof -
  obtain m1 where m1: "fold (removal_step p c) (sort (map fst p)) (0, 0, 0, []) =
      (count_if (\<lambda>n. map_of c n = None) (map fst p), 0, 0, m1)" "length m1 = count_if (\<lambda>n. map_of c n = None) (map fst p)"
    using removal_fold [of p c "sort (map fst p)" 0 0 0 "[]"] by (auto simp: count_sort)
  obtain m2 where m2: "diff_tally p c =
     (count_if (\<lambda>n. map_of c n = None) (map fst p) + count_if (\<lambda>n. name_class p c n = Breaking) (map fst c),
      count_if (\<lambda>n. name_class p c n = Compatible) (map fst c), count_if (\<lambda>n. map_of p n = None) (map fst c), m1 @ m2)"
    "length m2 = count_if (\<lambda>n. name_class p c n \<noteq> Identical) (map fst c)"
    unfolding diff_tally_def m1(1)
    using current_fold [of p c "sort (map fst c)" "count_if (\<lambda>n. map_of c n = None) (map fst p)" 0 0 m1]
    by (auto simp: count_sort)
  show "df_breaking (diff_contract_snapshots previous current) =
      count_if (\<lambda>n. map_of c n = None) (map fst p) + count_if (\<lambda>n. name_class p c n = Breaking) (map fst c)"
    "df_compatible (diff_contract_snapshots previous current) = count_if (\<lambda>n. name_class p c n = Compatible) (map fst c)"
    "df_additive (diff_contract_snapshots previous current) = count_if (\<lambda>n. map_of p n = None) (map fst c)"
    "df_total (diff_contract_snapshots previous current) =
      count_if (\<lambda>n. map_of c n = None) (map fst p) + count_if (\<lambda>n. name_class p c n \<noteq> Identical) (map fst c)"
    "df_classification (diff_contract_snapshots previous current) =
      (if df_breaking (diff_contract_snapshots previous current) > 0 then Breaking
       else if df_additive (diff_contract_snapshots previous current) > 0 then Additive
       else if df_compatible (diff_contract_snapshots previous current) > 0 then Compatible else Identical)"
    using m2(1) m1(2) m2(2) unfolding p_def c_def by (simp_all add: diff_contract_snapshots_def)
qed


text \<open>
  The counters of a comparison overlap. Breaking, compatible and additive changes add
  up to the number of listed changes and, once more, every added field that is required:
  such a field is listed once and counted both as breaking and as additive.
\<close>

theorem required_additions_count_twice:
  "df_breaking (diff_contract_snapshots previous current) + df_compatible (diff_contract_snapshots previous current) +
     df_additive (diff_contract_snapshots previous current) =
   df_total (diff_contract_snapshots previous current) +
     length (filter (\<lambda>(n, f). field_at previous n = None \<and> cf_required f) (field_map current))"
proof -
  let ?p = "field_map previous" and ?c = "field_map current"
  let ?req = "\<lambda>n. map_of ?p n = None \<and> cf_required (the (map_of ?c n))"
  have names: "count_if (\<lambda>n. name_class ?p ?c n = Breaking) ns + count_if (\<lambda>n. name_class ?p ?c n = Compatible) ns +
      count_if (\<lambda>n. map_of ?p n = None) ns = count_if (\<lambda>n. name_class ?p ?c n \<noteq> Identical) ns + count_if ?req ns" for ns
  proof (induction ns)
    case (Cons n ns)
    have "(if name_class ?p ?c n = Breaking then 1 else 0 :: nat) + (if name_class ?p ?c n = Compatible then 1 else 0) +
        (if map_of ?p n = None then 1 else 0) = (if name_class ?p ?c n \<noteq> Identical then 1 else 0) + (if ?req n then 1 else 0)"
      using severity_cases by (auto simp: name_class_def split: option.split)
    with Cons.IH show ?case by (auto split: if_splits)
  qed simp
  have "filter (\<lambda>(n, f). map_of ?p n = None \<and> cf_required f) ?c = filter (\<lambda>x. ?req (fst x)) ?c"
    using field_map_wf [of current] by (intro filter_cong) auto
  then have "length (filter (\<lambda>(n, f). map_of ?p n = None \<and> cf_required f) ?c) = count_if ?req (map fst ?c)"
    by (simp add: filter_map comp_def)
  then show ?thesis
    using names [of "map fst ?c"] by (simp add: diff_counts)
qed

text \<open>The reference: what a reader of two contracts calls a breaking difference, and equal contracts.\<close>

definition breaking_difference :: "(string \<Rightarrow> contract_field option) \<Rightarrow> (string \<Rightarrow> contract_field option) \<Rightarrow> bool" where
  "breaking_difference p c \<longleftrightarrow>
     (\<exists>n. p n \<noteq> None \<and> c n = None) \<or>
     (\<exists>n f. p n = None \<and> c n = Some f \<and> cf_required f) \<or>
     (\<exists>n f g. p n = Some f \<and> c n = Some g \<and>
        (type_changed f g \<or> (cf_nullable f \<and> \<not> cf_nullable g) \<or> (\<not> cf_required f \<and> cf_required g)))"

definition compared_alike :: "contract_field \<Rightarrow> contract_field \<Rightarrow> bool" where
  "compared_alike f g \<longleftrightarrow> \<not> type_changed f g \<and> cf_nullable f = cf_nullable g \<and> cf_required f = cf_required g \<and>
     cf_classification f = cf_classification g \<and> cf_description f = cf_description g"

lemma notes_empty: "field_notes f g = [] \<longleftrightarrow> compared_alike f g"
  by (auto simp: field_notes_def compared_alike_def)

lemma count_pos: "0 < count_if P xs \<longleftrightarrow> (\<exists>x \<in> set xs. P x)"
  by (simp add: filter_empty_conv)

lemma ex_key: "(\<exists>n \<in> set (map fst d). P n) \<longleftrightarrow> (\<exists>n f. map_of d n = Some f \<and> P n)"
  unfolding Bex_def map_of_key by auto

lemma class_breaking:
  "map_of c n = Some g \<Longrightarrow> name_class p c n = Breaking \<longleftrightarrow>
     (map_of p n = None \<and> cf_required g) \<or> (\<exists>f. map_of p n = Some f \<and> field_severity f g = Breaking)"
  using breaking_notes by (cases "map_of p n") (auto simp: name_class_def)

lemma class_compatible:
  "map_of c n = Some g \<Longrightarrow> name_class p c n = Compatible \<longleftrightarrow>
     (\<exists>f. map_of p n = Some f \<and> \<not> compared_alike f g \<and> field_severity f g = Compatible)"
  by (cases "map_of p n") (auto simp: name_class_def notes_empty)

lemma severity_breaking:
  "field_severity f g = Breaking \<longleftrightarrow>
     type_changed f g \<or> (cf_nullable f \<and> \<not> cf_nullable g) \<or> (\<not> cf_required f \<and> cf_required g)"
  by (simp add: field_severity_def)

lemma some_breaking:
  "(\<exists>n \<in> set (map fst c). name_class p c n = Breaking) \<longleftrightarrow>
     (\<exists>n f. map_of p n = None \<and> map_of c n = Some f \<and> cf_required f) \<or>
     (\<exists>n f g. map_of p n = Some f \<and> map_of c n = Some g \<and> field_severity f g = Breaking)"
proof -
  have "(\<exists>n \<in> set (map fst c). name_class p c n = Breaking) \<longleftrightarrow>
      (\<exists>n g. map_of c n = Some g \<and>
        ((map_of p n = None \<and> cf_required g) \<or> (\<exists>f. map_of p n = Some f \<and> field_severity f g = Breaking)))"
    unfolding ex_key by (intro ex_cong1 conj_cong refl) (rule class_breaking)
  then show ?thesis by blast
qed

lemma some_compatible:
  "(\<exists>n \<in> set (map fst c). name_class p c n = Compatible) \<longleftrightarrow>
     (\<exists>n f g. map_of p n = Some f \<and> map_of c n = Some g \<and> \<not> compared_alike f g \<and> field_severity f g = Compatible)"
proof -
  have "(\<exists>n \<in> set (map fst c). name_class p c n = Compatible) \<longleftrightarrow>
      (\<exists>n g. map_of c n = Some g \<and>
        (\<exists>f. map_of p n = Some f \<and> \<not> compared_alike f g \<and> field_severity f g = Compatible))"
    unfolding ex_key by (intro ex_cong1 conj_cong refl) (rule class_compatible)
  then show ?thesis by blast
qed

text \<open>No change at all, in terms of the fields under each name.\<close>

lemma alike_iff:
  "(\<forall>n. rel_option compared_alike (p n) (c n)) \<longleftrightarrow>
     \<not> breaking_difference p c \<and> (\<nexists>n. p n = None \<and> c n \<noteq> None) \<and>
     (\<nexists>n f g. p n = Some f \<and> c n = Some g \<and> \<not> compared_alike f g \<and> field_severity f g = Compatible)"
  (is "?alike \<longleftrightarrow> ?none")
proof
  assume alike: ?alike
  have both: "compared_alike f g" if "p n = Some f" "c n = Some g" for n f g
    using spec [OF alike, of n] that by simp
  have dom: "p n = None \<longleftrightarrow> c n = None" for n
    using spec [OF alike, of n] by (cases "p n"; cases "c n") simp_all
  have "\<not> breaking_difference p c"
    unfolding breaking_difference_def using both dom by (auto simp: compared_alike_def)
  then show ?none using both dom by auto
next
  assume none: ?none
  show ?alike
  proof
    fix n
    show "rel_option compared_alike (p n) (c n)"
    proof (cases "p n")
      case None
      then have "c n = None" using none by blast
      with None show ?thesis by simp
    next
      case (Some f)
      have "c n \<noteq> None"
        using none Some unfolding breaking_difference_def by (metis option.distinct(1))
      then obtain g where g: "c n = Some g" by blast
      have "field_severity f g \<noteq> Breaking"
        using none Some g unfolding breaking_difference_def severity_breaking by blast
      then have "field_severity f g = Compatible" using severity_cases by blast
      then show ?thesis using none Some g by auto
    qed
  qed
qed

lemma breaking_iff:
  "0 < df_breaking (diff_contract_snapshots previous current) \<longleftrightarrow>
     breaking_difference (field_at previous) (field_at current)"
  unfolding diff_counts(1) add_gr_0 count_pos some_breaking ex_key breaking_difference_def severity_breaking
  by blast


text \<open>
  C21: the classification of a comparison is exact. It is breaking exactly when a field was
  removed, a required field was added, or a common field changed its type, became
  non-nullable or became required; otherwise additive exactly when a field was added; and
  identical exactly when both contracts have the same names and equal types, nullability,
  requiredness, classification and description under each of them.
\<close>

theorem diff_classification_is_exact:
  fixes previous current :: contract_snapshot
  defines "d \<equiv> diff_contract_snapshots previous current"
  shows "(df_classification d = Breaking \<longleftrightarrow> breaking_difference (field_at previous) (field_at current)) \<and>
    (df_classification d = Additive \<longleftrightarrow>
       \<not> breaking_difference (field_at previous) (field_at current) \<and>
       (\<exists>n. field_at previous n = None \<and> field_at current n \<noteq> None)) \<and>
    (df_classification d = Identical \<longleftrightarrow>
       (\<forall>n. rel_option compared_alike (field_at previous n) (field_at current n)))"
proof -
  let ?p = "field_map previous" and ?c = "field_map current"
  have breaking: "0 < df_breaking d \<longleftrightarrow> breaking_difference (map_of ?p) (map_of ?c)"
    unfolding d_def by (rule breaking_iff)
  have added: "0 < df_additive d \<longleftrightarrow> (\<exists>n. map_of ?p n = None \<and> map_of ?c n \<noteq> None)"
    unfolding d_def diff_counts(3) count_pos ex_key by auto
  have compatible: "0 < df_compatible d \<longleftrightarrow>
      (\<exists>n f g. map_of ?p n = Some f \<and> map_of ?c n = Some g \<and> \<not> compared_alike f g \<and> field_severity f g = Compatible)"
    unfolding d_def diff_counts(2) count_pos some_compatible ..
  have same: "(\<forall>n. rel_option compared_alike (map_of ?p n) (map_of ?c n)) \<longleftrightarrow>
      \<not> 0 < df_breaking d \<and> \<not> 0 < df_additive d \<and> \<not> 0 < df_compatible d"
    unfolding breaking added compatible by (rule alike_iff)
  show ?thesis
    unfolding same breaking [symmetric] added [symmetric] unfolding d_def diff_counts(5) by simp
qed



section \<open>Conformance\<close>









end
