(* ===== verification/Publication_Contracts.thy ===== *)
theory Publication_Contracts
  imports Rule_Expressions Rule_Repository
begin

text \<open>
  What a compiled rule is published with (\<^verbatim>\<open>domain/entities/rule_autopublish_policy.py\<close>): the target engine, the
  next artifact version, the sources of a join pair in the catalog, and the execution contract.

  The catalog repository is given by its three listings. \<open>preferred_engines\<close> is the reading of a DSL
  document of version 2.0.0 by its pydantic model: \<^const>\<open>None\<close> when it is invalid, otherwise the listed
  engines. The environment variable of the bucket prefix is an argument.
\<close>


section \<open>Errors\<close>

text \<open>\<open>EnvelopeInvalid\<close> and \<open>StoreRefused\<close> are the two \<open>ValueError\<close>s, the others are HTTP errors.\<close>

datatype publish_error =
    DslInvalid
  | NoPreferredEngine
  | EngineUnsupported string
  | AutoPublishUnsupported string
  | CatalogUnavailable
  | PrimaryVersionRequired
  | JoinKeysRequired string
  | SourceVersionsUnresolved string
  | SourceVersionRequired
  | VersionUnknown string
  | DataObjectUnknown string
  | WorkspaceUnknown string
  | CrossWorkspace string string
  | BucketSuffixEmpty
  | BucketPrefixInvalid
  | CompilationFailed string
  | EnvelopeInvalid
  | StoreRefused

definition publish_status :: "publish_error \<Rightarrow> nat option" where
  "publish_status e =
     (case e of
        DslInvalid \<Rightarrow> Some 422 | NoPreferredEngine \<Rightarrow> Some 422 | EngineUnsupported _ \<Rightarrow> Some 422
      | AutoPublishUnsupported _ \<Rightarrow> Some 422 | CatalogUnavailable \<Rightarrow> Some 503 | BucketPrefixInvalid \<Rightarrow> Some 503
      | CompilationFailed _ \<Rightarrow> None | EnvelopeInvalid \<Rightarrow> None | StoreRefused \<Rightarrow> None
      | _ \<Rightarrow> Some 400)"


section \<open>Engine and version\<close>

definition resolve_target_engine :: "(json \<Rightarrow> string list option) \<Rightarrow> rule_view option \<Rightarrow> publish_error + string" where
  "resolve_target_engine preferred_engines rule =
     (case rule of
        None \<Rightarrow> Inr ''gx''
      | Some v \<Rightarrow>
          (case rw_dsl v of
             PDict d \<Rightarrow>
               (let a = pget d ''schema_version'';
                    schema_version = json_text (if py_true a then a else pget d ''schemaVersion'')
                in if schema_version \<noteq> ''2.0.0'' then Inr ''gx''
                   else (case preferred_engines (PDict d) of
                           None \<Rightarrow> Inl DslInvalid
                         | Some engines \<Rightarrow>
                             (case filter (\<lambda>s. s \<noteq> []) (map (\<lambda>s. lower (strip s)) engines) of
                                [] \<Rightarrow> Inl NoPreferredEngine
                              | target_engine # _ \<Rightarrow>
                                  (if target_engine = ''gx'' \<or> target_engine = ''sodacl'' then Inr target_engine
                                   else Inl (EngineUnsupported target_engine)))))
           | _ \<Rightarrow> Inr ''gx''))"

definition allocate_next_version :: "nat list \<Rightarrow> int \<Rightarrow> nat" where
  "allocate_next_version versions minimum_version =
     (let max_version = foldl max 0 versions
      in if max_version = 0 then nat (max 1 minimum_version) else max_version + 1)"

definition normalize_resolved_ids :: "string list \<Rightarrow> string list" where
  "normalize_resolved_ids ids =
     foldl (\<lambda>resolved s. let n = strip s in if n \<noteq> [] \<and> n \<notin> set resolved then resolved @ [n] else resolved) [] ids"


section \<open>Sources in the catalog\<close>

record catalog =
  ct_versions :: "(string \<times> string) list"
  ct_objects :: "(string \<times> string) list"
  ct_datasets :: "(string \<times> string) list"

text \<open>
  The listings pair the identifier of a data object version with its data object, of a data object with its
  dataset, and of a dataset with its workspace.
\<close>

record source_target =
  so_dataObjectId :: string
  so_dataObjectVersionId :: string
  so_datasetId :: "string option"

definition resolve_catalog_source :: "catalog \<Rightarrow> string \<Rightarrow> publish_error + source_target \<times> string" where
  "resolve_catalog_source catalog vid =
     (let n = strip vid
      in if n = [] then Inl SourceVersionRequired
         else case find (\<lambda>x. fst x = n) (ct_versions catalog) of
                None \<Rightarrow> Inl (VersionUnknown n)
              | Some version \<Rightarrow>
                  (let data_object_id = strip (snd version)
                   in if data_object_id = [] then Inl (DataObjectUnknown n)
                      else
                        let dataset_id = (case find (\<lambda>x. fst x = data_object_id) (ct_objects catalog) of
                              Some data_object \<Rightarrow> strip (snd data_object) | None \<Rightarrow> []);
                            workspace_id = (if dataset_id = [] then []
                              else case find (\<lambda>x. fst x = dataset_id) (ct_datasets catalog) of
                                     Some dataset \<Rightarrow> strip (snd dataset) | None \<Rightarrow> [])
                        in if workspace_id = [] then Inl (WorkspaceUnknown n)
                           else Inr (\<lparr>so_dataObjectId = data_object_id, so_dataObjectVersionId = n,
                             so_datasetId = or_none dataset_id\<rparr>, workspace_id)))"

definition view_check_type :: "rule_view \<Rightarrow> string" where
  "view_check_type v = upper (strip (text_of (rw_check_type v)))"

definition view_params :: "rule_view \<Rightarrow> (string \<times> json) list" where
  "view_params v = (case rw_check_type_params v of PDict d \<Rightarrow> d | _ \<Rightarrow> [])"

record join_sources =
  js_left :: source_target
  js_right :: source_target
  js_join_type :: string
  js_workspace :: string

definition resolve_join_pair_sources :: "catalog \<Rightarrow> rule_view \<Rightarrow> string \<Rightarrow> publish_error + join_sources" where
  "resolve_join_pair_sources catalog rule primary_version_id =
     (let check_type = view_check_type rule; p = view_params rule;
          (l, r, join_type) =
            (if check_type = ''REFERENTIAL_INTEGRITY''
             then (primary_version_id, json_text (pget p ''refDataObjectVersionId''), ''left'')
             else if check_type = ''CORRECT''
             then (json_text (pget p ''sourceDataObjectVersionId''), json_text (pget p ''referenceDataObjectVersionId''), ''inner'')
             else (json_text (pget p ''leftDataObjectVersionId''), json_text (pget p ''rightDataObjectVersionId''), ''inner''))
      in if l = [] \<or> r = [] then Inl (SourceVersionsUnresolved check_type)
         else case resolve_catalog_source catalog l of
                Inl e \<Rightarrow> Inl e
              | Inr (left_source, left_workspace) \<Rightarrow>
                  (case resolve_catalog_source catalog r of
                     Inl e \<Rightarrow> Inl e
                   | Inr (right_source, right_workspace) \<Rightarrow>
                       (if left_workspace \<noteq> right_workspace then Inl (CrossWorkspace left_workspace right_workspace)
                        else Inr \<lparr>js_left = left_source, js_right = right_source, js_join_type = join_type,
                          js_workspace = left_workspace\<rparr>)))"


section \<open>Output locations\<close>

definition bucket_char :: "char \<Rightarrow> bool" where
  "bucket_char c \<longleftrightarrow> (let n = (of_char c :: nat) in (97 \<le> n \<and> n \<le> 122) \<or> (48 \<le> n \<and> n \<le> 57) \<or> n = 45)"

abbreviation dash :: char where
  "dash \<equiv> CHR ''-''"

text \<open>\<open>re.sub(r"-+", "-", s)\<close> and \<open>s.strip("-")\<close>.\<close>

fun collapse_dashes :: "string \<Rightarrow> string" where
  "collapse_dashes [] = []"
| "collapse_dashes (c # cs) = (if c = dash \<and> next_is dash cs then collapse_dashes cs else c # collapse_dashes cs)"

definition strip_dashes :: "string \<Rightarrow> string" where
  "strip_dashes s = rev (dropWhile (\<lambda>c. c = dash) (rev (dropWhile (\<lambda>c. c = dash) s)))"

definition bucket_text :: "string \<Rightarrow> string" where
  "bucket_text s = strip_dashes (collapse_dashes (map (\<lambda>c. if bucket_char c then c else dash) (lower (strip s))))"

definition normalize_bucket_segment :: "string \<Rightarrow> publish_error + string" where
  "normalize_bucket_segment s = (let n = bucket_text s in if n = [] then Inl BucketSuffixEmpty else Inr n)"

definition resolve_bucket_prefix :: "string option \<Rightarrow> publish_error + string" where
  "resolve_bucket_prefix environment_value =
     (let n = bucket_text (if truthy environment_value then text_of environment_value else ''dq-landing-zone-'')
      in if n = [] then Inl BucketPrefixInvalid else Inr n)"

definition join_pair_output_location :: "string option \<Rightarrow> string \<Rightarrow> string \<Rightarrow> nat \<Rightarrow> publish_error + string" where
  "join_pair_output_location environment_value workspace_id suite_id suite_version =
     (case resolve_bucket_prefix environment_value of
        Inl e \<Rightarrow> Inl e
      | Inr prefix \<Rightarrow>
          (case normalize_bucket_segment workspace_id of
             Inl e \<Rightarrow> Inl e
           | Inr segment \<Rightarrow>
               Inr (''s3://'' @ prefix @ ''-'' @ segment @ ''/gx/join-pairs/suite_id='' @ suite_id @
                 ''/suite_version='' @ show_nat suite_version @ ''/format=parquet'')))"


section \<open>Execution contract\<close>

record contract_traceability =
  tr_ruleId :: string
  tr_ruleVersionId :: string
  tr_gxSuiteId :: string
  tr_gxSuiteVersion :: nat
  tr_dataObjectVersionId :: "string option"
  tr_sourceRuleExpression :: "string option"
  tr_compiledExpression :: "string option"
  tr_artifactKey :: "string option"

record materialization =
  mt_landingZoneArtifactId :: string
  mt_landingZoneVersionId :: string
  mt_outputLocation :: string
  mt_joinType :: string
  mt_joinKeys :: "string list"
  mt_joinKeyPairs :: "(string \<times> string) list"
  mt_leftSource :: source_target
  mt_rightSource :: source_target

text \<open>\<open>engineType\<close> and \<open>engineTarget\<close> are constants; the shape is a join pair when there is a materialisation.\<close>

record execution_contract =
  ec_traceability :: contract_traceability
  ec_materialization :: "materialization option"

definition join_pair_check_types :: "string list" where
  "join_pair_check_types = [''REFERENTIAL_INTEGRITY'', ''CORRECT'', ''RECONCILE'', ''TRANSFER_MATCH'', ''JOIN_CONSISTENCY'']"

definition join_key_pairs :: "string \<Rightarrow> (string \<times> json) list \<Rightarrow> (string \<times> string) list" where
  "join_key_pairs check_type p =
     (if check_type = ''REFERENTIAL_INTEGRITY''
      then [(json_text (pget p ''attribute''), json_text (pget p ''refAttribute''))]
      else case pget p ''joinKeys'' of
             PList vs \<Rightarrow> List.map_filter (\<lambda>v. case v of
               PDict d \<Rightarrow> Some (json_text (pget d ''leftAttribute''), json_text (pget d ''rightAttribute''))
             | _ \<Rightarrow> None) vs
           | _ \<Rightarrow> [])"

definition model_text :: "(string \<times> json) list \<Rightarrow> string \<Rightarrow> string" where
  "model_text model k = (case pget model ''filter'' of PDict f \<Rightarrow> json_text (pget f k) | _ \<Rightarrow> [])"

definition base_traceability ::
  "rule_view option \<Rightarrow> string \<Rightarrow> string \<Rightarrow> string \<Rightarrow> nat \<Rightarrow> (string \<times> json) list \<Rightarrow> string list \<Rightarrow> contract_traceability" where
  "base_traceability rule rule_id rule_version_id suite_id suite_version model ids =
     (let source = model_text model ''source'';
          source' = (if source = [] then (case rule of Some v \<Rightarrow> strip (re_expression v) | None \<Rightarrow> []) else source)
      in \<lparr>tr_ruleId = rule_id, tr_ruleVersionId = rule_version_id, tr_gxSuiteId = suite_id, tr_gxSuiteVersion = suite_version,
          tr_dataObjectVersionId = (case ids of [i] \<Rightarrow> Some i | _ \<Rightarrow> None),
          tr_sourceRuleExpression = or_none source',
          tr_compiledExpression = or_none (model_text model ''normalized''),
          tr_artifactKey = or_none (json_text (pget model ''artifactKey''))\<rparr>)"

definition build_execution_contract ::
  "string option \<Rightarrow> catalog option \<Rightarrow> rule_view option \<Rightarrow> string \<Rightarrow> string \<Rightarrow> string \<Rightarrow> nat \<Rightarrow> (string \<times> json) list \<Rightarrow> string list
   \<Rightarrow> publish_error + execution_contract \<times> string list" where
  "build_execution_contract environment_value catalog rule rule_id rule_version_id suite_id suite_version model ids =
     (let trace = base_traceability rule rule_id rule_version_id suite_id suite_version model ids;
          single = Inr (\<lparr>ec_traceability = trace, ec_materialization = None\<rparr>, normalize_resolved_ids ids)
      in case rule of
           None \<Rightarrow> single
         | Some v \<Rightarrow>
             (let check_type = view_check_type v; pairs = join_key_pairs check_type (view_params v)
              in if check_type \<notin> set join_pair_check_types then single
                 else case catalog of
                        None \<Rightarrow> Inl CatalogUnavailable
                      | Some cat \<Rightarrow>
                          (if ids = [] \<or> hd ids = [] then Inl PrimaryVersionRequired
                           else if pairs = [] \<or> list_ex (\<lambda>(l, r). l = [] \<or> r = []) pairs then Inl (JoinKeysRequired check_type)
                           else case resolve_join_pair_sources cat v (hd ids) of
                                  Inl e \<Rightarrow> Inl e
                                | Inr js \<Rightarrow>
                                    (case join_pair_output_location environment_value (js_workspace js) suite_id suite_version of
                                       Inl e \<Rightarrow> Inl e
                                     | Inr location \<Rightarrow>
                                         Inr (\<lparr>ec_traceability = trace\<lparr>tr_dataObjectVersionId := Some (so_dataObjectVersionId (js_left js))\<rparr>,
                                           ec_materialization = Some \<lparr>mt_landingZoneArtifactId = ''lz_'' @ suite_id,
                                             mt_landingZoneVersionId = ''lzv_'' @ show_nat suite_version,
                                             mt_outputLocation = location, mt_joinType = js_join_type js,
                                             mt_joinKeys = map fst pairs, mt_joinKeyPairs = pairs,
                                             mt_leftSource = js_left js, mt_rightSource = js_right js\<rparr>\<rparr>,
                                           normalize_resolved_ids
                                             (ids @ [so_dataObjectVersionId (js_left js), so_dataObjectVersionId (js_right js)]))))))"



section \<open>Versions and identifiers\<close>

lemma foldl_max: "foldl max (m :: nat) vs = max m (foldl max 0 vs)"
proof (induction vs arbitrary: m)
  case (Cons v vs)
  show ?case using Cons.IH [of "max m v"] Cons.IH [of v] by simp
qed simp

lemma foldl_max_ge: "v \<in> set vs \<Longrightarrow> v \<le> foldl max (0 :: nat) vs"
proof (induction vs)
  case (Cons w ws)
  then show ?case using foldl_max [of w ws] by auto
qed simp

lemma allocated_is_fresh: "0 < allocate_next_version vs m" "v \<in> set vs \<Longrightarrow> 0 < v \<Longrightarrow> v < allocate_next_version vs m"
  using foldl_max_ge [of v vs] by (auto simp: allocate_next_version_def Let_def)

lemma resolved_ids_foldl:
  fixes acc ids :: "string list"
  assumes "distinct acc"
  defines "r \<equiv> foldl (\<lambda>acc s. let n = strip s in if n \<noteq> [] \<and> n \<notin> set acc then acc @ [n] else acc) acc ids"
  shows "distinct r \<and> set r = set acc \<union> {n \<in> strip ` set ids. n \<noteq> []}"
  unfolding r_def using assms(1)
proof (induction ids arbitrary: acc)
  case (Cons s ids)
  let ?acc = "let n = strip s in if n \<noteq> [] \<and> n \<notin> set acc then acc @ [n] else acc"
  have "distinct ?acc" "set ?acc = set acc \<union> {n \<in> {strip s}. n \<noteq> []}"
    using Cons.prems by (auto simp: Let_def)
  then show ?case using Cons.IH [of ?acc] by auto
qed simp

lemma resolved_ids: "distinct (normalize_resolved_ids ids)" "set (normalize_resolved_ids ids) = {n \<in> strip ` set ids. n \<noteq> []}"
  using resolved_ids_foldl [of "[]" ids] by (simp_all add: normalize_resolved_ids_def)

lemma catalog_source_id: "resolve_catalog_source cat vid = Inr (s, w) \<Longrightarrow>
    so_dataObjectVersionId s = strip vid \<and> strip vid \<noteq> [] \<and> w \<noteq> []"
  by (auto simp: resolve_catalog_source_def Let_def split: if_splits option.splits)


section \<open>Join pairs stay within a workspace\<close>

text \<open>
  An execution contract resolves its data object versions without blanks or duplicates. When it
  is a join pair, both sources were found in the catalog, they belong to the same
  workspace, their versions are among the resolved ones together with every requested one, the
  traceability names the left one, and every join key has both sides.
\<close>

theorem join_pair_contract_is_consistent:
  assumes "build_execution_contract env cat rule rid rvid sid sv model ids = Inr (c, resolved)"
  shows "distinct resolved \<and> [] \<notin> set resolved \<and> {n \<in> strip ` set ids. n \<noteq> []} \<subseteq> set resolved \<and>
    (\<forall>m. ec_materialization c = Some m \<longrightarrow>
      {so_dataObjectVersionId (mt_leftSource m), so_dataObjectVersionId (mt_rightSource m)} \<subseteq> set resolved \<and>
      tr_dataObjectVersionId (ec_traceability c) = Some (so_dataObjectVersionId (mt_leftSource m)) \<and>
      list_all (\<lambda>(l, r). l \<noteq> [] \<and> r \<noteq> []) (mt_joinKeyPairs m) \<and>
      (\<exists>k w. cat = Some k \<and>
         resolve_catalog_source k (so_dataObjectVersionId (mt_leftSource m)) = Inr (mt_leftSource m, w) \<and>
         resolve_catalog_source k (so_dataObjectVersionId (mt_rightSource m)) = Inr (mt_rightSource m, w)))"
proof (cases "ec_materialization c")
  case None
  then have "resolved = normalize_resolved_ids ids"
    using assms by (auto simp: build_execution_contract_def Let_def split: option.splits if_splits sum.splits)
  then show ?thesis using None resolved_ids [of ids] by auto
next
  case (Some m)
  then obtain v k js where v: "rule = Some v" "cat = Some k" "resolve_join_pair_sources k v (hd ids) = Inr js"
    and m: "mt_leftSource m = js_left js" "mt_rightSource m = js_right js"
    and pairs: "\<not> list_ex (\<lambda>(l, r). l = [] \<or> r = []) (mt_joinKeyPairs m)"
    and trace: "tr_dataObjectVersionId (ec_traceability c) = Some (so_dataObjectVersionId (js_left js))"
    and resolved: "resolved = normalize_resolved_ids (ids @ [so_dataObjectVersionId (js_left js), so_dataObjectVersionId (js_right js)])"
    using assms by (auto simp: build_execution_contract_def Let_def split: option.splits if_splits sum.splits)
  obtain l r w where sources: "resolve_catalog_source k l = Inr (js_left js, w)" "resolve_catalog_source k r = Inr (js_right js, w)"
    using v(3) by (auto simp: resolve_join_pair_sources_def Let_def split: sum.splits if_splits prod.splits)
  note left = catalog_source_id [OF sources(1)] and right = catalog_source_id [OF sources(2)]
  have again: "resolve_catalog_source k (strip x) = resolve_catalog_source k x" for x
    by (simp add: resolve_catalog_source_def)
  have "resolve_catalog_source k (so_dataObjectVersionId (js_left js)) = Inr (js_left js, w)"
    "resolve_catalog_source k (so_dataObjectVersionId (js_right js)) = Inr (js_right js, w)"
    using left right sources by (simp_all add: again)
  moreover have "list_all (\<lambda>(l, r). l \<noteq> [] \<and> r \<noteq> []) (mt_joinKeyPairs m)"
    using pairs by (auto simp: list_all_iff list_ex_iff)
  ultimately show ?thesis
    using Some m trace left right v(2)
    resolved_ids [of "ids @ [so_dataObjectVersionId (js_left js), so_dataObjectVersionId (js_right js)]"]
    unfolding resolved by auto
qed


section \<open>Bucket names\<close>

definition bucket_name_ok :: "string \<Rightarrow> bool" where
  "bucket_name_ok s \<longleftrightarrow> s \<noteq> [] \<and> list_all bucket_char s \<and> hd s \<noteq> dash \<and> last s \<noteq> dash \<and> \<not> contains [dash, dash] s"


lemma starts_append: "starts_with p s \<Longrightarrow> starts_with p (s @ v)"
  by (metis append_assoc append_take_drop_id starts_with_def append_eq_conv_conj)

lemma contains_append: "contains p s \<Longrightarrow> contains p (u @ s @ v)"
proof (induction u)
  case Nil
  then show ?case
  proof (induction s)
    case Nil
    then show ?case by (cases v) (simp_all add: starts_with_def)
  next
    case (Cons c cs)
    then show ?case using starts_append [of p "c # cs" v] by auto
  qed
qed simp

lemma contains_dashes: "contains [dash, dash] (c # s) \<longleftrightarrow> (c = dash \<and> next_is dash s) \<or> contains [dash, dash] s"
  by (cases s) (auto simp: starts_with_def next_is_def)

lemma next_collapse: "next_is q (collapse_dashes s) = next_is q s"
proof (induction s)
  case (Cons c s)
  then show ?case by (cases s) (auto simp: next_is_def)
qed simp

lemma collapse_single: "\<not> contains [dash, dash] (collapse_dashes s)"
proof (induction s)
  case (Cons c s)
  then show ?case by (auto simp: contains_dashes next_collapse simp del: contains.simps(2))
qed simp

lemma collapse_same: "\<not> contains [dash, dash] s \<Longrightarrow> collapse_dashes s = s"
proof (induction s)
  case (Cons c s)
  then show ?case by (auto simp: contains_dashes simp del: contains.simps(2))
qed simp

lemma set_collapse: "set (collapse_dashes s) \<subseteq> set s"
  by (induction s) auto

lemma strip_dashes_middle: "\<exists>u v. s = u @ strip_dashes s @ v"
proof -
  let ?P = "\<lambda>c. c = dash"
  have "s = takeWhile ?P s @ dropWhile ?P s" by simp
  moreover have "dropWhile ?P s = strip_dashes s @ rev (takeWhile ?P (rev (dropWhile ?P s)))"
    unfolding strip_dashes_def by (metis rev_append rev_rev_ident takeWhile_dropWhile_id)
  ultimately show ?thesis by metis
qed

lemma strip_dashes_ends: "strip_dashes s = [] \<or> hd (strip_dashes s) \<noteq> dash \<and> last (strip_dashes s) \<noteq> dash"
proof -
  let ?P = "\<lambda>c. c = dash" and ?t = "dropWhile (\<lambda>c. c = dash) s"
  have "?t = [] \<or> \<not> ?P (hd ?t)" by (metis (full_types) hd_dropWhile)
  then have "strip_dashes s = [] \<or> \<not> ?P (hd (strip_dashes s))"
    unfolding strip_dashes_def by (rule dropWhile_suffix_hd)
  moreover have "strip_dashes s = [] \<or> \<not> ?P (last (strip_dashes s))"
    unfolding strip_dashes_def by (metis (full_types) hd_dropWhile last_rev rev_is_Nil_conv)
  ultimately show ?thesis by blast
qed

lemma strip_dashes_same: "hd s \<noteq> dash \<Longrightarrow> last s \<noteq> dash \<Longrightarrow> strip_dashes s = s"
  by (simp add: strip_dashes_def dropWhile_hd_stable hd_rev)

lemma bucket_text_ok: "bucket_text s \<noteq> [] \<Longrightarrow> bucket_name_ok (bucket_text s)"
proof -
  let ?m = "map (\<lambda>c. if bucket_char c then c else dash) (lower (strip s))"
  assume ne: "bucket_text s \<noteq> []"
  obtain u v where mid: "collapse_dashes ?m = u @ bucket_text s @ v"
    using strip_dashes_middle unfolding bucket_text_def by blast
  then have "set (bucket_text s) \<subseteq> set ?m"
    using set_collapse [of ?m] by auto
  moreover have "bucket_char dash" by (simp add: bucket_char_def)
  ultimately have "list_all bucket_char (bucket_text s)" by (auto simp: list_all_iff)
  moreover have "\<not> contains [dash, dash] (bucket_text s)"
    using collapse_single [of ?m] contains_append [of "[dash, dash]" "bucket_text s" u v] unfolding mid by blast
  ultimately show ?thesis
    using ne strip_dashes_ends unfolding bucket_name_ok_def bucket_text_def by blast
qed


lemma bucket_char_plain: "bucket_char c \<Longrightarrow> \<not> is_space c \<and> lower_char c = c"
  by (auto simp: bucket_char_def is_space_def lower_char_def Let_def)

lemma bucket_text_same: "bucket_name_ok n \<Longrightarrow> bucket_text n = n"
proof -
  assume ok: "bucket_name_ok n"
  then have plain: "c \<in> set n \<Longrightarrow> \<not> is_space c \<and> lower_char c = c \<and> bucket_char c" for c
    using bucket_char_plain by (auto simp: bucket_name_ok_def list_all_iff)
  have "dropWhile is_space n = n" "dropWhile is_space (rev n) = rev n"
    using ok plain by (auto simp: bucket_name_ok_def hd_rev intro!: dropWhile_hd_stable)
  then have "strip n = n" by (simp add: strip_def)
  moreover have "lower n = n" unfolding lower_def by (rule map_idI) (use plain in blast)
  moreover have "map (\<lambda>c. if bucket_char c then c else dash) n = n" by (rule map_idI) (use plain in simp)
  ultimately show ?thesis
    using ok by (simp add: bucket_text_def bucket_name_ok_def collapse_same strip_dashes_same)
qed

text \<open>
  C39: the bucket part made from a workspace is usable as a bucket name and stable. When there
  is one at all, it has only lower case letters, digits and single hyphens, begins and ends
  with none of them, and normalising it again does not change it.
\<close>

theorem bucket_segment_is_well_formed:
  assumes "normalize_bucket_segment workspace = Inr n"
  shows "bucket_name_ok n \<and> normalize_bucket_segment n = Inr n"
proof -
  have "bucket_name_ok n" using assms bucket_text_ok [of workspace]
    by (auto simp: normalize_bucket_segment_def Let_def split: if_splits)
  then show ?thesis
    by (simp add: normalize_bucket_segment_def bucket_text_same) (simp add: bucket_name_ok_def)
qed

theorem bucket_segment_is_well_formed_witness: "bucket_name_ok ''retail-banking''"
proof -
  have "normalize_bucket_segment '' Retail  Banking! '' = Inr ''retail-banking''"
    by (simp add: normalize_bucket_segment_def bucket_text_def bucket_char_def strip_dashes_def next_is_def text_eval)
  then show ?thesis using bucket_segment_is_well_formed by blast
qed

definition demo_catalog :: catalog where
  "demo_catalog = \<lparr>ct_versions = [(''v1'', ''orders''), (''v2'', ''customers'')],
     ct_objects = [(''orders'', ''d1''), (''customers'', ''d2'')], ct_datasets = [(''d1'', ''Retail''), (''d2'', ''Retail'')]\<rparr>"

definition demo_view :: rule_view where
  "demo_view = \<lparr>re_id = ''r1'', re_name = ''n'', re_description = None, re_comments = None, re_expression = ''a = rhs.b'',
     re_dimension = ''d'', re_active = True, re_lifecycle_status = ''active'', re_created_by_user_id = ''u'', re_tag_ids = [],
     rw_workspace = None, rw_manual_override_by = None, rw_manual_override_at = None,
     rw_check_type = Some ''referential_integrity'',
     rw_check_type_params = PDict [(''attribute'', PStr ''a''), (''refAttribute'', PStr ''b''), (''refDataObjectVersionId'', PStr ''v2'')],
     rw_reusable_join_id = None, rw_reusable_filter_ids = [], rw_dsl = PNone, rw_taxonomy = PDict []\<rparr>"

definition demo_contract_result :: "publish_error + execution_contract \<times> string list" where
  "demo_contract_result = build_execution_contract None (Some demo_catalog) (Some demo_view) ''r1'' ''rv1'' ''gx_r1'' 3 [] [''v1'']"

theorem join_pair_contract_is_consistent_witness:
  "case demo_contract_result of Inr (c, resolved) \<Rightarrow> set [''v1'', ''v2''] \<subseteq> set resolved \<and> ec_materialization c \<noteq> None | Inl _ \<Rightarrow> False"
proof -
  have "(case demo_contract_result of Inr (c, _) \<Rightarrow>
      (case ec_materialization c of Some m \<Rightarrow> so_dataObjectVersionId (mt_leftSource m) = ''v1'' \<and>
         so_dataObjectVersionId (mt_rightSource m) = ''v2'' | None \<Rightarrow> False) | Inl _ \<Rightarrow> False)"
    by code_simp
  then obtain c resolved m where c: "demo_contract_result = Inr (c, resolved)" "ec_materialization c = Some m"
    "so_dataObjectVersionId (mt_leftSource m) = ''v1''" "so_dataObjectVersionId (mt_rightSource m) = ''v2''"
    by (auto split: sum.splits prod.splits option.splits)
  from join_pair_contract_is_consistent [OF c(1) [unfolded demo_contract_result_def]] c(2-4) show ?thesis
    by (simp add: c(1))
qed

end
