(* ===== verification/Artifact_Store.thy ===== *)
theory Artifact_Store
  imports DQ_Prelude
begin

text \<open>
  Storage of compiled artifacts:
  \<^verbatim>\<open>infrastructure/repositories/in_memory_validation_artifact_repository.py\<close>, the GX suite view on it
  (\<^verbatim>\<open>in_memory_gx_suite_repository.py\<close>) and the compiler artifacts of rule versions
  (\<^verbatim>\<open>_in_memory_compiler_artifacts.py\<close>).

  An artifact envelope keeps the fields that the repositories read; what they only carry is
  \<open>va_body\<close>. The hash of an envelope (SHA-256 of its JSON text) is an argument, as are the conversions between
  GX suite envelopes and artifact envelopes and the text of the current time.
\<close>


section \<open>Validation artifacts\<close>

record 'b artifact =
  va_id :: string
  va_version :: nat
  va_dataObjectId :: "string option"
  va_datasetId :: "string option"
  va_dataProductId :: "string option"
  va_dataObjectVersionIds :: "string list"
  va_ruleIds :: "string list"
  va_savedBy :: "string option"
  va_sourcePipeline :: "string option"
  va_status :: "string option"
  va_hash :: "string option"
  va_body :: 'b

record artifact_event =
  ae_id :: string
  ae_version :: nat
  ae_from :: "string option"
  ae_to :: string
  ae_by :: "string option"
  ae_at :: string
  ae_reason :: "string option"

record 'b artifact_repo =
  ar_artifacts :: "'b artifact list"
  ar_history :: "artifact_event list"

definition artifact_key :: "'b artifact \<Rightarrow> string \<times> nat" where
  "artifact_key a = (va_id a, va_version a)"

definition status_of :: "'b artifact \<Rightarrow> string" where
  "status_of a = text_of (va_status a)"

definition normalized_artifact :: "string \<Rightarrow> string option \<Rightarrow> string option \<Rightarrow> 'b artifact \<Rightarrow> 'b artifact" where
  "normalized_artifact status saved_by source_pipeline a =
     a\<lparr>va_status := Some status, va_savedBy := saved_by, va_sourcePipeline := source_pipeline\<rparr>"

text \<open>The error is the \<open>ValueError\<close> of an overwrite conflict; it leaves the repository as it was.\<close>

datatype store_error = OverwriteConflict

definition save_artifact ::
  "('b artifact \<Rightarrow> string) \<Rightarrow> string \<Rightarrow> 'b artifact \<Rightarrow> string \<Rightarrow> string option \<Rightarrow> string option \<Rightarrow> string option
   \<Rightarrow> 'b artifact_repo \<Rightarrow> (store_error + 'b artifact) \<times> 'b artifact_repo" where
  "save_artifact hash now envelope status expected_existing_hash saved_by source_pipeline r =
     (let normalized = normalized_artifact status saved_by source_pipeline envelope;
          same = (\<lambda>a. artifact_key a = artifact_key normalized);
          answer = normalized\<lparr>va_hash := Some (hash normalized)\<rparr>
      in case find same (ar_artifacts r) of
           Some item \<Rightarrow>
             (if hash item \<noteq> hash normalized \<and> expected_existing_hash \<noteq> Some (hash item)
              then (Inl OverwriteConflict, r)
              else (Inr answer,
                r\<lparr>ar_artifacts := update_first same (\<lambda>_. normalized) (ar_artifacts r),
                  ar_history := ar_history r @
                    (if status_of item \<noteq> status
                     then [\<lparr>ae_id = va_id normalized, ae_version = va_version normalized, ae_from = or_none (status_of item),
                       ae_to = status, ae_by = saved_by, ae_at = now, ae_reason = None\<rparr>] else [])\<rparr>))
         | None \<Rightarrow>
             (Inr answer,
              r\<lparr>ar_artifacts := ar_artifacts r @ [normalized],
                ar_history := ar_history r @
                  [\<lparr>ae_id = va_id normalized, ae_version = va_version normalized, ae_from = None, ae_to = status,
                    ae_by = saved_by, ae_at = now, ae_reason = None\<rparr>]\<rparr>))"

text \<open>The newest match of each identifier, in the order in which the identifiers first occur.\<close>

definition keep_newest :: "'b artifact \<Rightarrow> (string, 'b artifact) dict \<Rightarrow> (string, 'b artifact) dict" where
  "keep_newest item latest =
     (if va_id item = [] then latest
      else case map_of latest (va_id item) of
             None \<Rightarrow> AList.update (va_id item) item latest
           | Some existing \<Rightarrow>
               (if va_version existing < va_version item then AList.update (va_id item) item latest else latest))"

definition latest_by_artifact :: "'b artifact list \<Rightarrow> 'b artifact list" where
  "latest_by_artifact matches = map snd (fold keep_newest matches [])"

text \<open>An optional filter that is absent or empty does not restrict.\<close>

definition scope_given_matches :: "string option \<Rightarrow> string option \<Rightarrow> bool" where
  "scope_given_matches wanted actual \<longleftrightarrow> \<not> truthy wanted \<or> text_of actual = text_of wanted"

definition list_artifacts ::
  "string option \<Rightarrow> string option \<Rightarrow> string option \<Rightarrow> string option \<Rightarrow> string \<Rightarrow> bool \<Rightarrow> 'b artifact_repo \<Rightarrow> 'b artifact list" where
  "list_artifacts data_object_id data_object_version_id dataset_id data_product_id status latest_only r =
     (let matches = filter (\<lambda>a. status_of a = status \<and>
            scope_given_matches data_object_id (va_dataObjectId a) \<and>
            scope_given_matches dataset_id (va_datasetId a) \<and>
            scope_given_matches data_product_id (va_dataProductId a) \<and>
            (truthy data_object_version_id \<longrightarrow> text_of data_object_version_id \<in> set (va_dataObjectVersionIds a)))
            (ar_artifacts r)
      in if latest_only then latest_by_artifact matches else matches)"

definition list_artifacts_for_rule :: "string \<Rightarrow> string \<Rightarrow> bool \<Rightarrow> 'b artifact_repo \<Rightarrow> 'b artifact list" where
  "list_artifacts_for_rule rule_id status latest_only r =
     (let normalized_rule_id = strip rule_id
      in if normalized_rule_id = [] then []
         else
           let matches = filter (\<lambda>a. status_of a = status \<and> normalized_rule_id \<in> set (va_ruleIds a)) (ar_artifacts r)
           in if latest_only then latest_by_artifact matches else matches)"

text \<open>\<open>max(matches, key=version)\<close>: the first of the matches with the greatest version.\<close>

fun newest_of :: "'b artifact \<Rightarrow> 'b artifact list \<Rightarrow> 'b artifact" where
  "newest_of best [] = best"
| "newest_of best (a # as) = newest_of (if va_version best < va_version a then a else best) as"

definition get_artifact_by_id :: "string \<Rightarrow> nat option \<Rightarrow> string \<Rightarrow> 'b artifact_repo \<Rightarrow> 'b artifact option" where
  "get_artifact_by_id artifact_id artifact_version status r =
     (case filter (\<lambda>a. va_id a = artifact_id \<and> status_of a = status) (ar_artifacts r) of
        [] \<Rightarrow> None
      | m # ms \<Rightarrow>
          (case artifact_version of
             Some v \<Rightarrow> find (\<lambda>a. va_version a = v) (m # ms)
           | None \<Rightarrow> Some (newest_of m ms)))"

definition patch_artifact_status ::
  "string \<Rightarrow> string \<Rightarrow> string \<Rightarrow> nat option \<Rightarrow> string option \<Rightarrow> string option \<Rightarrow> 'b artifact_repo
   \<Rightarrow> 'b artifact option \<times> 'b artifact_repo" where
  "patch_artifact_status now artifact_id new_status artifact_version changed_by reason r =
     (case filter (\<lambda>a. va_id a = artifact_id) (ar_artifacts r) of
        [] \<Rightarrow> (None, r)
      | m # ms \<Rightarrow>
          (case (case artifact_version of
                   Some v \<Rightarrow> find (\<lambda>a. va_version a = v) (m # ms)
                 | None \<Rightarrow> Some (newest_of m ms)) of
             None \<Rightarrow> (None, r)
           | Some target \<Rightarrow>
               (Some (target\<lparr>va_status := Some new_status\<rparr>),
                r\<lparr>ar_artifacts := update_first (\<lambda>a. artifact_key a = artifact_key target)
                     (\<lambda>a. a\<lparr>va_status := Some new_status\<rparr>) (ar_artifacts r),
                  ar_history := ar_history r @
                    [\<lparr>ae_id = va_id target, ae_version = va_version target, ae_from = or_none (status_of target),
                      ae_to = new_status, ae_by = changed_by, ae_at = now, ae_reason = reason\<rparr>]\<rparr>)))"

definition list_artifact_status_history :: "string \<Rightarrow> nat option \<Rightarrow> 'b artifact_repo \<Rightarrow> artifact_event list" where
  "list_artifact_status_history artifact_id artifact_version r =
     filter (\<lambda>h. ae_id h = artifact_id \<and> (\<forall>v \<in> set_option artifact_version. ae_version h = v)) (ar_history r)"


section \<open>GX suites\<close>

text \<open>The suite repository stores converted envelopes in a validation artifact repository of its own.\<close>

record ('g, 'b) gx_conversion =
  gx_to_artifact :: "'g \<Rightarrow> 'b artifact"
  gx_of_artifact :: "'b artifact \<Rightarrow> 'g"

definition save_suite ::
  "('g, 'b) gx_conversion \<Rightarrow> ('b artifact \<Rightarrow> string) \<Rightarrow> string \<Rightarrow> 'g \<Rightarrow> string \<Rightarrow> string option \<Rightarrow> string option \<Rightarrow> string option
   \<Rightarrow> 'b artifact_repo \<Rightarrow> (store_error + 'g) \<times> 'b artifact_repo" where
  "save_suite cv hash now envelope status expected_existing_hash saved_by source_pipeline r =
     (case save_artifact hash now (gx_to_artifact cv envelope) status expected_existing_hash saved_by source_pipeline r of
        (Inl e, r') \<Rightarrow> (Inl e, r')
      | (Inr a, r') \<Rightarrow> (Inr (gx_of_artifact cv a), r'))"

definition list_suites ::
  "('g, 'b) gx_conversion \<Rightarrow> string option \<Rightarrow> string option \<Rightarrow> string option \<Rightarrow> string option \<Rightarrow> string \<Rightarrow> bool \<Rightarrow> 'b artifact_repo \<Rightarrow> 'g list" where
  "list_suites cv data_object_id data_object_version_id dataset_id data_product_id status latest_only r =
     map (gx_of_artifact cv) (list_artifacts data_object_id data_object_version_id dataset_id data_product_id status latest_only r)"

definition list_suites_for_rule :: "('g, 'b) gx_conversion \<Rightarrow> string \<Rightarrow> string \<Rightarrow> bool \<Rightarrow> 'b artifact_repo \<Rightarrow> 'g list" where
  "list_suites_for_rule cv rule_id status latest_only r =
     map (gx_of_artifact cv) (list_artifacts_for_rule rule_id status latest_only r)"

definition get_suite_by_id :: "('g, 'b) gx_conversion \<Rightarrow> string \<Rightarrow> nat option \<Rightarrow> string \<Rightarrow> 'b artifact_repo \<Rightarrow> 'g option" where
  "get_suite_by_id cv suite_id suite_version status r =
     map_option (gx_of_artifact cv) (get_artifact_by_id suite_id suite_version status r)"

definition patch_suite_status ::
  "('g, 'b) gx_conversion \<Rightarrow> string \<Rightarrow> string \<Rightarrow> string \<Rightarrow> nat option \<Rightarrow> string option \<Rightarrow> string option \<Rightarrow> 'b artifact_repo
   \<Rightarrow> 'g option \<times> 'b artifact_repo" where
  "patch_suite_status cv now suite_id new_status suite_version changed_by reason r =
     (case patch_artifact_status now suite_id new_status suite_version changed_by reason r of
        (a, r') \<Rightarrow> (map_option (gx_of_artifact cv) a, r'))"

record suite_event =
  se_suiteId :: string
  se_suiteVersion :: nat
  se_fromStatus :: "string option"
  se_toStatus :: string
  se_changedBy :: "string option"
  se_changedAt :: string
  se_reason :: "string option"

definition list_suite_status_history :: "string \<Rightarrow> nat option \<Rightarrow> 'b artifact_repo \<Rightarrow> suite_event list" where
  "list_suite_status_history suite_id suite_version r =
     map (\<lambda>h. \<lparr>se_suiteId = ae_id h, se_suiteVersion = ae_version h, se_fromStatus = ae_from h, se_toStatus = ae_to h,
       se_changedBy = ae_by h, se_changedAt = ae_at h, se_reason = ae_reason h\<rparr>)
       (list_artifact_status_history suite_id suite_version r)"


section \<open>Compiler artifacts\<close>

record 'p compiler_artifact =
  ca_id :: string
  ca_ruleVersionId :: string
  ca_compilerVersion :: string
  ca_compilerRevision :: nat
  ca_artifactKey :: string
  ca_artifactPayload :: 'p
  ca_diagnosticsPayload :: "json list"
  ca_compileStatus :: string
  ca_sourceFingerprint :: string
  ca_isActive :: bool
  ca_createdAt :: string

type_synonym 'p compiler_store = "(string, 'p compiler_artifact list) dict"

record 'p artifact_input =
  ai_compiler_version :: string
  ai_artifact_key :: string
  ai_artifact_payload :: 'p
  ai_diagnostics_payload :: "json list"
  ai_compile_status :: string
  ai_source_fingerprint :: string

definition upsert_active_compiler_artifact ::
  "string \<Rightarrow> string \<Rightarrow> string \<Rightarrow> 'p artifact_input \<Rightarrow> 'p compiler_store \<Rightarrow> 'p compiler_artifact \<times> 'p compiler_store" where
  "upsert_active_compiler_artifact fresh now rule_version_id i st =
     (let history = map (\<lambda>c. c\<lparr>ca_isActive := False\<rparr>) (dict_get st rule_version_id []);
          next_revision = foldr (max \<circ> ca_compilerRevision) history 0 + 1;
          row = \<lparr>ca_id = ''rca-'' @ fresh, ca_ruleVersionId = rule_version_id, ca_compilerVersion = ai_compiler_version i,
            ca_compilerRevision = next_revision, ca_artifactKey = ai_artifact_key i,
            ca_artifactPayload = ai_artifact_payload i, ca_diagnosticsPayload = ai_diagnostics_payload i,
            ca_compileStatus = ai_compile_status i, ca_sourceFingerprint = ai_source_fingerprint i,
            ca_isActive = True, ca_createdAt = now\<rparr>
      in (row, AList.update rule_version_id (sort_desc ca_compilerRevision (history @ [row])) st))"

definition get_active_compiler_artifact :: "string \<Rightarrow> 'p compiler_store \<Rightarrow> 'p compiler_artifact option" where
  "get_active_compiler_artifact rule_version_id st = find ca_isActive (dict_get st rule_version_id [])"

definition list_compiler_artifacts :: "string \<Rightarrow> 'p compiler_store \<Rightarrow> 'p compiler_artifact list" where
  "list_compiler_artifacts rule_version_id st = dict_get st rule_version_id []"



section \<open>The trail of an artifact\<close>

text \<open>Each event starts from the status that the event before it left; the first one from none.\<close>

fun unbroken :: "string option \<Rightarrow> artifact_event list \<Rightarrow> bool" where
  "unbroken f [] = True"
| "unbroken f (h # hs) = (ae_from h = f \<and> unbroken (or_none (ae_to h)) hs)"

definition trail_to :: "artifact_event list \<Rightarrow> string \<Rightarrow> bool" where
  "trail_to hs s \<longleftrightarrow> hs \<noteq> [] \<and> unbroken None hs \<and> ae_to (last hs) = s"

definition events_of :: "artifact_event list \<Rightarrow> string \<times> nat \<Rightarrow> artifact_event list" where
  "events_of hist k = filter (\<lambda>h. (ae_id h, ae_version h) = k) hist"

definition artifact_inv :: "'b artifact_repo \<Rightarrow> bool" where
  "artifact_inv r \<longleftrightarrow> distinct (map artifact_key (ar_artifacts r)) \<and>
     (\<forall>a \<in> set (ar_artifacts r). trail_to (events_of (ar_history r) (artifact_key a)) (status_of a)) \<and>
     (\<forall>h \<in> set (ar_history r). (ae_id h, ae_version h) \<in> artifact_key ` set (ar_artifacts r))"

lemma unbroken_snoc:
  "unbroken f (hs @ [h]) \<longleftrightarrow> unbroken f hs \<and> ae_from h = (if hs = [] then f else or_none (ae_to (last hs)))"
  by (induction hs arbitrary: f) auto

lemma trail_first: "ae_from h = None \<Longrightarrow> trail_to [h] (ae_to h)"
  by (simp add: trail_to_def)

lemma trail_next: "trail_to hs s \<Longrightarrow> ae_from h = or_none s \<Longrightarrow> trail_to (hs @ [h]) (ae_to h)"
  by (simp add: trail_to_def unbroken_snoc)

lemma events_append [simp]: "events_of (xs @ ys) k = events_of xs k @ events_of ys k"
  by (simp add: events_of_def)

lemma events_single [simp]: "events_of [h] k = (if (ae_id h, ae_version h) = k then [h] else [])" "events_of [] k = []"
  by (simp_all add: events_of_def)

lemma map_update_first_where: "(\<And>x. P x \<Longrightarrow> g (f x) = g x) \<Longrightarrow> map g (update_first P f xs) = map g xs"
  by (induction xs) auto

text \<open>An artifact is replaced by one with the same key, and the history gets the matching event.\<close>

lemma inv_replace:
  assumes inv: "artifact_inv r" and item: "find (\<lambda>a. artifact_key a = k) (ar_artifacts r) = Some item"
    and f: "\<And>a. artifact_key a = k \<Longrightarrow> artifact_key (f a) = k"
    and trail: "trail_to (events_of (ar_history r) k @ es) (status_of (f item))"
    and keys: "list_all (\<lambda>h. (ae_id h, ae_version h) = k) es"
  shows "artifact_inv (r\<lparr>ar_artifacts := update_first (\<lambda>a. artifact_key a = k) f (ar_artifacts r),
    ar_history := ar_history r @ es\<rparr>)"
proof -
  let ?as = "ar_artifacts r"
  have dist: "distinct (map artifact_key ?as)" using inv by (simp add: artifact_inv_def)
  have set: "set (update_first (\<lambda>a. artifact_key a = k) f ?as) = insert (f item) {y \<in> set ?as. artifact_key y \<noteq> k}"
    by (rule set_update_first [OF dist item])
  have keys_same: "map artifact_key (update_first (\<lambda>a. artifact_key a = k) f ?as) = map artifact_key ?as"
    using f by (intro map_update_first_where) simp
  have es: "events_of es k = es" "k' \<noteq> k \<Longrightarrow> events_of es k' = []" for k'
    using keys by (simp_all add: events_of_def list_all_iff filter_empty_conv filter_id_conv)
  have fi: "artifact_key (f item) = k" and k: "k \<in> artifact_key ` set ?as"
    using find_first [OF item] f by auto
  then have "artifact_key ` insert (f item) {y \<in> set ?as. artifact_key y \<noteq> k} = artifact_key ` set ?as"
    by auto
  then show ?thesis
    using inv trail es keys keys_same fi k by (auto simp: artifact_inv_def set list_all_iff)
qed

lemma inv_add:
  assumes inv: "artifact_inv r" and new: "artifact_key a \<notin> artifact_key ` set (ar_artifacts r)"
    and h: "(ae_id h, ae_version h) = artifact_key a" "ae_from h = None" "ae_to h = status_of a"
  shows "artifact_inv (r\<lparr>ar_artifacts := ar_artifacts r @ [a], ar_history := ar_history r @ [h]\<rparr>)"
proof -
  have "events_of (ar_history r) (artifact_key a) = []"
    using inv new unfolding artifact_inv_def events_of_def filter_empty_conv by metis
  then show ?thesis
    using inv new h trail_first [of h] by (auto simp: artifact_inv_def)
qed

lemma key_normalized [simp]: "artifact_key (normalized_artifact s b src a) = artifact_key a"
  "status_of (normalized_artifact s b src a) = s"
  "va_id (normalized_artifact s b src a) = va_id a" "va_version (normalized_artifact s b src a) = va_version a"
  by (simp_all add: artifact_key_def normalized_artifact_def status_of_def)

lemma find_key:
  "find (\<lambda>a. artifact_key a = k) as = None \<longleftrightarrow> k \<notin> artifact_key ` set as"
  by (auto simp: find_None_iff)

lemma save_artifact_inv:
  assumes "artifact_inv r"
  shows "artifact_inv (snd (save_artifact hash now e status x by' src r))"
proof (cases "find (\<lambda>a. artifact_key a = artifact_key e) (ar_artifacts r)")
  case None
  then have new: "artifact_key (normalized_artifact status by' src e) \<notin> artifact_key ` set (ar_artifacts r)"
    by (simp only: find_key key_normalized not_False_eq_True)
  show ?thesis
    using None inv_add [OF assms new, of "\<lparr>ae_id = va_id e, ae_version = va_version e, ae_from = None,
      ae_to = status, ae_by = by', ae_at = now, ae_reason = None\<rparr>"]
    by (simp add: save_artifact_def Let_def artifact_key_def)
next
  case (Some item)
  let ?n = "normalized_artifact status by' src e"
  let ?es = "if status_of item \<noteq> status
    then [\<lparr>ae_id = va_id ?n, ae_version = va_version ?n, ae_from = or_none (status_of item),
      ae_to = status, ae_by = by', ae_at = now, ae_reason = None\<rparr>] else []"
  have key: "item \<in> set (ar_artifacts r)" "artifact_key item = artifact_key e" using find_first [OF Some] by auto
  then have "trail_to (events_of (ar_history r) (artifact_key e)) (status_of item)"
    using assms by (force simp: artifact_inv_def)
  then have "trail_to (events_of (ar_history r) (artifact_key e) @ ?es) status"
    using trail_next [of "events_of (ar_history r) (artifact_key e)" "status_of item" "hd ?es"]
    by (cases "status_of item = status") simp_all
  then have "artifact_inv (r\<lparr>ar_artifacts := update_first (\<lambda>a. artifact_key a = artifact_key e) (\<lambda>_. ?n) (ar_artifacts r),
      ar_history := ar_history r @ ?es\<rparr>)"
    by (intro inv_replace [OF assms Some]) (simp_all add: artifact_key_def)
  then show ?thesis
    using Some assms by (simp add: save_artifact_def Let_def)
qed

definition patch_target :: "string \<Rightarrow> nat option \<Rightarrow> 'b artifact_repo \<Rightarrow> 'b artifact option" where
  "patch_target i v r =
     (case filter (\<lambda>a. va_id a = i) (ar_artifacts r) of
        [] \<Rightarrow> None
      | m # ms \<Rightarrow> (case v of Some n \<Rightarrow> find (\<lambda>a. va_version a = n) (m # ms) | None \<Rightarrow> Some (newest_of m ms)))"

lemma newest_of_in: "newest_of m ms \<in> insert m (set ms)"
proof (induction ms arbitrary: m)
  case (Cons a as)
  show ?case using Cons.IH [of a] Cons.IH [of m] by auto
qed simp

lemma newest_of_ge: "va_version m \<le> va_version (newest_of m ms) \<and> (\<forall>a \<in> set ms. va_version a \<le> va_version (newest_of m ms))"
proof (induction ms arbitrary: m)
  case (Cons b bs)
  show ?case using Cons.IH [of b] Cons.IH [of m] by auto
qed simp

lemma patch_target_in: "patch_target i v r = Some t \<Longrightarrow> t \<in> set (ar_artifacts r) \<and> va_id t = i"
proof -
  assume t: "patch_target i v r = Some t"
  then obtain m ms where m: "filter (\<lambda>a. va_id a = i) (ar_artifacts r) = m # ms"
    by (auto simp: patch_target_def split: list.splits)
  have "t \<in> set (m # ms)"
    using t m newest_of_in [of m ms] find_first [of _ "m # ms" t]
    by (auto simp: patch_target_def simp del: find.simps split: option.splits)
  then show ?thesis unfolding m [symmetric] by simp
qed

lemma patch_artifact_inv:
  assumes "artifact_inv r"
  shows "artifact_inv (snd (patch_artifact_status now i s v by' reason r))"
proof (cases "patch_target i v r")
  case None
  then have "snd (patch_artifact_status now i s v by' reason r) = r"
    by (auto simp: patch_target_def patch_artifact_status_def split: list.splits option.splits)
  then show ?thesis using assms by simp
next
  case (Some t)
  let ?e = "\<lparr>ae_id = va_id t, ae_version = va_version t, ae_from = or_none (status_of t),
    ae_to = s, ae_by = by', ae_at = now, ae_reason = reason\<rparr>"
  have t: "t \<in> set (ar_artifacts r)" using patch_target_in [OF Some] by simp
  have find: "find (\<lambda>a. artifact_key a = artifact_key t) (ar_artifacts r) = Some t"
    using find_unique [of artifact_key "ar_artifacts r" t] assms t by (simp add: artifact_inv_def)
  have "trail_to (events_of (ar_history r) (artifact_key t)) (status_of t)"
    using assms t by (simp add: artifact_inv_def)
  then have "trail_to (events_of (ar_history r) (artifact_key t) @ [?e]) (ae_to ?e)"
    by (rule trail_next) simp
  then have "artifact_inv (r\<lparr>ar_artifacts := update_first (\<lambda>a. artifact_key a = artifact_key t)
      (\<lambda>a. a\<lparr>va_status := Some s\<rparr>) (ar_artifacts r), ar_history := ar_history r @ [?e]\<rparr>)"
    by (intro inv_replace [OF assms find]) (simp_all add: artifact_key_def status_of_def)
  moreover have "snd (patch_artifact_status now i s v by' reason r) =
      r\<lparr>ar_artifacts := update_first (\<lambda>a. artifact_key a = artifact_key t)
      (\<lambda>a. a\<lparr>va_status := Some s\<rparr>) (ar_artifacts r), ar_history := ar_history r @ [?e]\<rparr>"
    using Some by (auto simp: patch_target_def patch_artifact_status_def split: list.splits option.splits)
  ultimately show ?thesis by simp
qed

text \<open>One call of the repository.\<close>

inductive artifact_step :: "('b artifact \<Rightarrow> string) \<Rightarrow> 'b artifact_repo \<Rightarrow> 'b artifact_repo \<Rightarrow> bool" for hash where
  step_save: "artifact_step hash r (snd (save_artifact hash now e status expected by' src r))"
| step_patch: "artifact_step hash r (snd (patch_artifact_status now i s v by' reason r))"

interpretation artifact_steps: preserved "artifact_step hash" artifact_inv for hash
  by unfold_locales (auto elim!: artifact_step.cases intro: save_artifact_inv patch_artifact_inv)

text \<open>
  C20: after every run of saves and status changes the identifier and version name at most
  one artifact, and the listed history of each stored artifact is an unbroken trail of
  statuses that begins at its creation and ends in its present status.
\<close>

theorem artifact_history_is_a_trail:
  assumes "(artifact_step hash)\<^sup>*\<^sup>* r r'" and "artifact_inv r" and "a \<in> set (ar_artifacts r')"
  shows "distinct (map artifact_key (ar_artifacts r')) \<and>
    trail_to (list_artifact_status_history (va_id a) (Some (va_version a)) r') (status_of a)"
proof -
  have "artifact_inv r'" using artifact_steps.run assms(1,2) by blast
  moreover have "list_artifact_status_history (va_id a) (Some (va_version a)) r' = events_of (ar_history r') (artifact_key a)"
    by (simp add: list_artifact_status_history_def events_of_def artifact_key_def)
  ultimately show ?thesis using assms(3) by (simp add: artifact_inv_def)
qed

definition demo_artifact :: "string artifact" where
  "demo_artifact = \<lparr>va_id = ''gx_r1'', va_version = 1, va_dataObjectId = Some ''orders'', va_datasetId = None,
     va_dataProductId = None, va_dataObjectVersionIds = [''v1''], va_ruleIds = [''r1''], va_savedBy = None,
     va_sourcePipeline = None, va_status = None, va_hash = None, va_body = ''suite''\<rparr>"

abbreviation empty_artifacts :: "'b artifact_repo" where
  "empty_artifacts \<equiv> \<lparr>ar_artifacts = [], ar_history = []\<rparr>"

definition demo_saved :: "string artifact_repo" where
  "demo_saved = snd (save_artifact va_body ''t1'' demo_artifact ''active'' None None None empty_artifacts)"

definition demo_patched :: "string artifact_repo" where
  "demo_patched = snd (patch_artifact_status ''t2'' ''gx_r1'' ''retired'' None None None demo_saved)"

theorem artifact_history_is_a_trail_witness:
  "trail_to (list_artifact_status_history ''gx_r1'' (Some 1) demo_patched) ''retired''"
proof -
  have "(artifact_step va_body)\<^sup>*\<^sup>* empty_artifacts demo_patched"
    unfolding demo_patched_def demo_saved_def
    by (rule rtranclp_trans [OF r_into_rtranclp r_into_rtranclp]) (rule artifact_step.intros)+
  moreover have "artifact_inv (empty_artifacts :: string artifact_repo)" by (simp add: artifact_inv_def)
  moreover have "demo_artifact\<lparr>va_status := Some ''retired''\<rparr> \<in> set (ar_artifacts demo_patched)"
    by (simp add: demo_patched_def demo_saved_def demo_artifact_def save_artifact_def patch_artifact_status_def
        artifact_key_def normalized_artifact_def)
  ultimately show ?thesis
    using artifact_history_is_a_trail [of va_body empty_artifacts demo_patched "demo_artifact\<lparr>va_status := Some ''retired''\<rparr>"]
    by (simp add: demo_artifact_def status_of_def)
qed



section \<open>Overwriting\<close>

lemma saved_item:
  assumes "save_artifact hash now e status x by' src r = (Inr a, r1)"
  shows "find (\<lambda>b. artifact_key b = artifact_key e) (ar_artifacts r1) = Some (normalized_artifact status by' src e)"
    and "a = (normalized_artifact status by' src e)\<lparr>va_hash := Some (hash (normalized_artifact status by' src e))\<rparr>"
proof -
  let ?n = "normalized_artifact status by' src e"
  have snoc: "find P (ys @ [y]) = (if find P ys = None then if P y then Some y else None else find P ys)"
    for P and y :: "'a artifact" and ys
    by (induction ys) simp_all
  show "find (\<lambda>b. artifact_key b = artifact_key e) (ar_artifacts r1) = Some ?n"
  proof (cases "find (\<lambda>b. artifact_key b = artifact_key e) (ar_artifacts r)")
    case None
    then have "ar_artifacts r1 = ar_artifacts r @ [?n]" using assms by (auto simp: save_artifact_def Let_def)
    then show ?thesis using None by (simp add: snoc)
  next
    case (Some item)
    then have "ar_artifacts r1 = update_first (\<lambda>b. artifact_key b = artifact_key e) (\<lambda>_. ?n) (ar_artifacts r)"
      using assms by (auto simp: save_artifact_def Let_def split: if_splits)
    then show ?thesis using find_update_first [OF Some, of "\<lambda>_. ?n"] by simp
  qed
  show "a = ?n\<lparr>va_hash := Some (hash ?n)\<rparr>"
    using assms by (auto simp: save_artifact_def Let_def split: option.splits if_splits)
qed

text \<open>
  The hash that a save answers with is the key to the next overwrite. A save under the
  same identifier and version is refused exactly when it changes the stored envelope and does
  not present that hash, and a refused save leaves the repository as it was.
\<close>

theorem returned_hash_guards_overwrite:
  assumes "save_artifact hash now e status x by' src r = (Inr a, r1)" and "artifact_key e' = artifact_key e"
  shows "(fst (save_artifact hash now' e' status' y by'' src' r1) = Inl OverwriteConflict \<longleftrightarrow>
       Some (hash (normalized_artifact status' by'' src' e')) \<noteq> va_hash a \<and> y \<noteq> va_hash a) \<and>
    (fst (save_artifact hash now' e' status' y by'' src' r1) = Inl OverwriteConflict \<longrightarrow>
       snd (save_artifact hash now' e' status' y by'' src' r1) = r1)"
  using saved_item [OF assms(1)] assms(2)
  by (auto simp: save_artifact_def [of hash now' e' status' y by'' src' r1] Let_def)

theorem returned_hash_guards_overwrite_witness:
  "fst (save_artifact va_body ''t2'' (demo_artifact\<lparr>va_body := ''other''\<rparr>) ''active'' (Some ''old'') None None demo_saved) =
     Inl OverwriteConflict"
proof -
  have "save_artifact va_body ''t1'' demo_artifact ''active'' None None None empty_artifacts =
      (Inr ((normalized_artifact ''active'' None None demo_artifact)\<lparr>va_hash := Some ''suite''\<rparr>), demo_saved)"
    by (simp add: demo_saved_def save_artifact_def Let_def) (simp add: demo_artifact_def normalized_artifact_def)
  from returned_hash_guards_overwrite [OF this, of "demo_artifact\<lparr>va_body := ''other''\<rparr>"] show ?thesis
    by (simp add: artifact_key_def) (simp add: normalized_artifact_def)
qed

text \<open>
  What the repository returns from a save cannot be saved again as it is. The answer carries
  its own hash in the envelope, the stored envelope does not. Unless the hash of an envelope
  collides with that of the same envelope without its hash field, the second save, with the
  same status, user and pipeline, is refused as a conflict.
\<close>

theorem saved_envelope_conflicts_with_itself:
  assumes "\<And>b h. hash (b\<lparr>va_hash := Some h\<rparr>) \<noteq> hash (b\<lparr>va_hash := None\<rparr>)" and "va_hash e = None" and "save_artifact hash now e status x by' src r = (Inr a, r1)"
  shows "save_artifact hash now' a status None by' src r1 = (Inl OverwriteConflict, r1)"
proof -
  let ?n = "normalized_artifact status by' src e"
  have a: "a = ?n\<lparr>va_hash := Some (hash ?n)\<rparr>" using saved_item [OF assms(3)] by simp
  have find: "find (\<lambda>b. artifact_key b = artifact_key (normalized_artifact status by' src a)) (ar_artifacts r1) = Some ?n"
    using saved_item(1) [OF assms(3)] by (simp add: a artifact_key_def)
  have "normalized_artifact status by' src a = ?n\<lparr>va_hash := Some (hash ?n)\<rparr>" and "?n = ?n\<lparr>va_hash := None\<rparr>"
    using assms(2) by (simp_all add: a normalized_artifact_def)
  then have "hash ?n \<noteq> hash (normalized_artifact status by' src a)"
    using assms(1) [where b = ?n and h = "hash ?n"] by simp
  then show ?thesis
    using find by (simp add: save_artifact_def [of hash now' a] Let_def)
qed

theorem saved_envelope_conflicts_with_itself_witness:
  "fst (save_artifact (\<lambda>b. case va_hash b of None \<Rightarrow> ''0'' | Some _ \<Rightarrow> ''1'') ''t2''
     ((normalized_artifact ''active'' None None demo_artifact)\<lparr>va_hash := Some ''0''\<rparr>) ''active'' None None None
     (snd (save_artifact (\<lambda>b. case va_hash b of None \<Rightarrow> ''0'' | Some _ \<Rightarrow> ''1'') ''t1'' demo_artifact ''active'' None None None
       empty_artifacts))) = Inl OverwriteConflict"
proof -
  let ?h = "\<lambda>b. case va_hash (b :: string artifact) of None \<Rightarrow> ''0'' | Some _ \<Rightarrow> ''1''"
  have none: "va_hash (normalized_artifact ''active'' None None demo_artifact) = None"
    by (simp add: demo_artifact_def normalized_artifact_def)
  then have "save_artifact ?h ''t1'' demo_artifact ''active'' None None None empty_artifacts =
      (Inr ((normalized_artifact ''active'' None None demo_artifact)\<lparr>va_hash := Some ''0''\<rparr>),
       snd (save_artifact ?h ''t1'' demo_artifact ''active'' None None None empty_artifacts))"
    by (simp add: save_artifact_def Let_def)
  from saved_envelope_conflicts_with_itself [OF _ _ this] show ?thesis
    by (simp add: demo_artifact_def)
qed



section \<open>The active compiler artifact\<close>

text \<open>Falling revisions, the newest active and no other.\<close>

definition revisions_ok :: "'p compiler_artifact list \<Rightarrow> bool" where
  "revisions_ok cs \<longleftrightarrow> sorted_wrt (>) (map ca_compilerRevision cs) \<and>
     (cs = [] \<or> ca_isActive (hd cs) \<and> list_all (\<lambda>c. \<not> ca_isActive c) (tl cs))"

definition compiler_inv :: "'p compiler_store \<Rightarrow> bool" where
  "compiler_inv st \<longleftrightarrow> (\<forall>v. revisions_ok (dict_get st v []))"

lemma sort_desc_newest:
  assumes "sorted_wrt (>) (map k xs)" and "\<And>y. y \<in> set xs \<Longrightarrow> k y < (k x :: nat)"
  shows "sort_desc k (xs @ [x]) = x # xs"
proof -
  have "sorted_wrt (\<lambda>a b. k a < k b) (rev xs)" using assms(1) by (simp add: sorted_wrt_rev sorted_wrt_map)
  then have "sorted (map k (rev xs))"
    by (simp add: sorted_wrt_map) (rule sorted_wrt_mono_rel [rotated], assumption, simp)
  then have sorted: "sort_key k (rev xs) = rev xs" by (rule sort_key_id_if_sorted)
  have insort: "insort_key k x ys = ys @ [x]" if "\<And>y. y \<in> set ys \<Longrightarrow> k y < k x" for ys
    using that
  proof (induction ys)
    case (Cons a ys)
    have "\<not> k x \<le> k a" using Cons.prems [of a] by simp
    then show ?case using Cons by simp
  qed simp
  have "insort_key k x (rev xs) = rev xs @ [x]" using assms(2) by (intro insort) simp
  then show ?thesis using sorted by (simp add: sort_desc_def)
qed

lemma revision_bound: "c \<in> set cs \<Longrightarrow> ca_compilerRevision c \<le> foldr (max \<circ> ca_compilerRevision) cs 0"
  by (induction cs) auto

lemma upsert_row:
  defines "h \<equiv> \<lambda>st v. map (\<lambda>c. c\<lparr>ca_isActive := False\<rparr>) (dict_get st v [])"
  shows "ca_compilerRevision (fst (upsert_active_compiler_artifact fresh now v i st)) =
      foldr (max \<circ> ca_compilerRevision) (h st v) 0 + 1"
    and "ca_isActive (fst (upsert_active_compiler_artifact fresh now v i st))"
    and "dict_get (snd (upsert_active_compiler_artifact fresh now v i st)) v [] =
      sort_desc ca_compilerRevision (h st v @ [fst (upsert_active_compiler_artifact fresh now v i st)])"
  by (simp_all add: upsert_active_compiler_artifact_def Let_def h_def)

lemma upsert_history:
  assumes "compiler_inv st"
  shows "dict_get (snd (upsert_active_compiler_artifact fresh now v i st)) v [] =
    fst (upsert_active_compiler_artifact fresh now v i st) # map (\<lambda>c. c\<lparr>ca_isActive := False\<rparr>) (dict_get st v [])"
  unfolding upsert_row(3)
proof (rule sort_desc_newest)
  have "sorted_wrt (>) (map ca_compilerRevision (dict_get st v []))"
    using assms by (simp add: compiler_inv_def revisions_ok_def)
  then show "sorted_wrt (>) (map ca_compilerRevision (map (\<lambda>c. c\<lparr>ca_isActive := False\<rparr>) (dict_get st v [])))"
    by (simp add: sorted_wrt_map)
  fix y assume "y \<in> set (map (\<lambda>c. c\<lparr>ca_isActive := False\<rparr>) (dict_get st v []))"
  then show "ca_compilerRevision y < ca_compilerRevision (fst (upsert_active_compiler_artifact fresh now v i st))"
    unfolding upsert_row(1) by (drule_tac revision_bound) simp
qed

text \<open>
  Storing a compiler artifact keeps exactly one active artifact per rule version, the one
  with the highest revision: the stored artifact is the active one, revisions of a version
  fall strictly along its list, all earlier artifacts are kept and inactive, and artifacts of
  other versions do not change.
\<close>

theorem newest_compiler_artifact_is_active:
  fixes fresh now v w :: string and i :: "'p artifact_input"
  assumes "compiler_inv st"
  defines "row \<equiv> fst (upsert_active_compiler_artifact fresh now v i st)"
    and "st' \<equiv> snd (upsert_active_compiler_artifact fresh now v i st)"
  shows "compiler_inv st' \<and> get_active_compiler_artifact v st' = Some row \<and>
    list_compiler_artifacts v st' = row # map (\<lambda>c. c\<lparr>ca_isActive := False\<rparr>) (list_compiler_artifacts v st) \<and>
    (w \<noteq> v \<longrightarrow> list_compiler_artifacts w st' = list_compiler_artifacts w st)"
proof -
  have h: "dict_get st' v [] = row # map (\<lambda>c. c\<lparr>ca_isActive := False\<rparr>) (dict_get st v [])"
    using upsert_history [OF assms(1)] by (simp add: row_def st'_def)
  have other: "dict_get st' u [] = dict_get st u []" if "u \<noteq> v" for u
    using that by (simp add: st'_def upsert_active_compiler_artifact_def Let_def)
  have row: "ca_isActive row"
    "ca_compilerRevision row = foldr (max \<circ> ca_compilerRevision) (map (\<lambda>c. c\<lparr>ca_isActive := False\<rparr>) (dict_get st v [])) 0 + 1"
    unfolding row_def by (rule upsert_row)+
  have "revisions_ok (dict_get st' v [])"
  proof -
    have "sorted_wrt (>) (map ca_compilerRevision (dict_get st v []))"
      using assms(1) by (simp add: compiler_inv_def revisions_ok_def)
    moreover have "ca_compilerRevision y < ca_compilerRevision row" if "y \<in> set (dict_get st v [])" for y
    proof -
      have "y\<lparr>ca_isActive := False\<rparr> \<in> set (map (\<lambda>c. c\<lparr>ca_isActive := False\<rparr>) (dict_get st v []))"
        using that by simp
      from revision_bound [OF this] show ?thesis unfolding row(2) by simp
    qed
    ultimately show ?thesis
      using row(1) unfolding h by (auto simp: revisions_ok_def comp_def list_all_iff)
  qed
  then have "compiler_inv st'"
    using assms(1) other unfolding compiler_inv_def by metis
  then show ?thesis
    using h row(1) other by (simp add: get_active_compiler_artifact_def list_compiler_artifacts_def)
qed

definition demo_compiled :: "unit artifact_input" where
  "demo_compiled = \<lparr>ai_compiler_version = ''1'', ai_artifact_key = ''k'', ai_artifact_payload = (), ai_diagnostics_payload = [],
     ai_compile_status = ''success'', ai_source_fingerprint = ''f''\<rparr>"

theorem newest_compiler_artifact_is_active_witness:
  "map ca_compilerRevision (list_compiler_artifacts ''v'' (snd (upsert_active_compiler_artifact ''b'' ''t2'' ''v'' demo_compiled
     (snd (upsert_active_compiler_artifact ''a'' ''t1'' ''v'' demo_compiled []))))) = [2, 1]"
proof -
  let ?s1 = "snd (upsert_active_compiler_artifact ''a'' ''t1'' ''v'' demo_compiled [])"
  have "compiler_inv ([] :: unit compiler_store)" by (simp add: compiler_inv_def revisions_ok_def dict_get_def)
  from newest_compiler_artifact_is_active [OF this, of "''a''" "''t1''" "''v''" demo_compiled]
  have inv: "compiler_inv ?s1" and l1: "list_compiler_artifacts ''v'' ?s1 = [fst (upsert_active_compiler_artifact ''a'' ''t1'' ''v'' demo_compiled [])]"
    by (auto simp: list_compiler_artifacts_def dict_get_def [of "[]"])
  from newest_compiler_artifact_is_active [OF inv, of "''b''" "''t2''" "''v''" demo_compiled] l1 show ?thesis
    by (simp add: upsert_row(1)) (simp add: list_compiler_artifacts_def upsert_row(1) dict_get_def [of "[]"])
qed

end
