(* ===== verification/Rule_Activation.thy ===== *)
theory Rule_Activation
  imports Rule_Lifecycle Rule_Versions Publication_Contracts Artifact_Store
begin

text \<open>
  Activation of a rule with compilation and publication: \<^verbatim>\<open>application/use_cases/activate_rule.py\<close>, the
  persistence steps of \<^verbatim>\<open>domain/entities/rule_autopublish_policy.py\<close>, and \<open>parse_effective_at_param\<close> of
  \<^verbatim>\<open>domain/entities/rule_policy.py\<close>.

  The use case works on four stores: the rules, their compiler artifacts, the GX suites and the
  validation artifacts. The compiler, the construction of suite and SodaCL envelopes from a
  contract, the readers of documents, hashes, clock and identifiers are arguments (\<open>publisher\<close>);
  spans and log events are left out.
\<close>


section \<open>Stores and services\<close>

record 'b activation_state =
  st_rules :: rule_repo
  st_compiler :: "json compiler_store"
  st_gx :: "'b artifact_repo"
  st_validation :: "'b artifact_repo"

record publish_request =
  pr_dataObjectId :: "string option"
  pr_datasetId :: "string option"
  pr_dataProductId :: "string option"
  pr_suiteVersion :: int
  pr_dataObjectVersionIds :: "string list"

type_synonym intermediate_model = "(string \<times> json) list"

record ('g, 'b) publisher =
  pb_preferred_engines :: "json \<Rightarrow> string list option"
  pb_bucket_env :: "string option"
  pb_catalog :: "catalog option"
  pb_compile :: "string \<Rightarrow> string \<Rightarrow> string \<Rightarrow> publish_error + intermediate_model"
  pb_make_suite :: "intermediate_model \<Rightarrow> execution_contract \<Rightarrow> string list \<Rightarrow> publish_request \<Rightarrow> string \<Rightarrow> nat \<Rightarrow> publish_error + 'g"
  pb_make_sodacl :: "rule_view \<Rightarrow> string \<Rightarrow> nat \<Rightarrow> string list \<Rightarrow> publish_error + 'b artifact"
  pb_convert :: "('g, 'b) gx_conversion"
  pb_hash :: "'b artifact \<Rightarrow> string"
  pb_sha256 :: "string \<Rightarrow> string"
  pb_now :: string
  pb_uuid :: string


section \<open>Persistence steps\<close>

definition resolve_current_rule_version :: "rule_repo \<Rightarrow> string \<Rightarrow> version_summary option" where
  "resolve_current_rule_version r rid =
     (case list_rule_versions r rid 1 0 of
        None \<Rightarrow> None
      | Some page \<Rightarrow>
          (case vp_versions page of
             [] \<Rightarrow> None
           | v # vs \<Rightarrow>
               (let current = (case find vs_isCurrentVersion (v # vs) of Some c \<Rightarrow> c | None \<Rightarrow> v)
                in if strip (vs_id current) = [] then None else Some current)))"

text \<open>\<open>str(intermediate_model.get("filter", {}).get("normalized") or filter_expression or "").strip()\<close>.\<close>

definition normalized_expression :: "intermediate_model \<Rightarrow> string \<Rightarrow> string" where
  "normalized_expression model filter_expression =
     (let n = (case pget model ''filter'' of PDict f \<Rightarrow> pget f ''normalized'' | _ \<Rightarrow> PNone)
      in if py_true n then json_text n else strip filter_expression)"

definition persist_compiler_artifact ::
  "('g, 'b) publisher \<Rightarrow> string \<Rightarrow> string \<Rightarrow> intermediate_model \<Rightarrow> 'b activation_state \<Rightarrow> 'b activation_state" where
  "persist_compiler_artifact pb rule_id filter_expression model st =
     (case resolve_current_rule_version (st_rules st) rule_id of
        None \<Rightarrow> st
      | Some version \<Rightarrow>
          (let compilable = (case map_of model ''compilable'' of None \<Rightarrow> True | Some v \<Rightarrow> py_true v)
           in st\<lparr>st_compiler := snd (upsert_active_compiler_artifact (pb_uuid pb) (pb_now pb) (strip (vs_id version))
                \<lparr>ai_compiler_version = (if py_true (pget model ''compilerVersion'') then py_str (pget model ''compilerVersion'') else ''unknown''),
                 ai_artifact_key = (if py_true (pget model ''artifactKey'') then py_str (pget model ''artifactKey'') else []),
                 ai_artifact_payload = PDict model,
                 ai_diagnostics_payload = (case pget model ''diagnostics'' of PList ds \<Rightarrow> ds | _ \<Rightarrow> []),
                 ai_compile_status = (if compilable then ''success'' else ''failed''),
                 ai_source_fingerprint = pb_sha256 pb (normalized_expression model filter_expression)\<rparr>
                (st_compiler st))\<rparr>))"

definition scope_given :: "publish_request \<Rightarrow> bool" where
  "scope_given q \<longleftrightarrow> truthy (pr_dataObjectId q) \<or> truthy (pr_datasetId q) \<or> truthy (pr_dataProductId q)"

definition build_gx_envelope ::
  "('g, 'b) publisher \<Rightarrow> rule_view option \<Rightarrow> string \<Rightarrow> string \<Rightarrow> string \<Rightarrow> nat \<Rightarrow> intermediate_model \<Rightarrow> publish_request \<Rightarrow> publish_error + 'g" where
  "build_gx_envelope pb rule rule_id rule_version_id suite_id suite_version model q =
     (case build_execution_contract (pb_bucket_env pb) (pb_catalog pb) rule rule_id rule_version_id suite_id suite_version model
             (pr_dataObjectVersionIds q) of
        Inl e \<Rightarrow> Inl e
      | Inr (contract, resolved) \<Rightarrow>
          (if list_all (\<lambda>v. strip (text_of v) = []) [pr_dataObjectId q, pr_datasetId q, pr_dataProductId q] \<or> resolved = []
           then Inl EnvelopeInvalid
           else pb_make_suite pb model contract resolved q suite_id suite_version))"

definition persist_gx_suite ::
  "('g, 'b) publisher \<Rightarrow> string \<Rightarrow> string \<Rightarrow> rule_view option \<Rightarrow> intermediate_model \<Rightarrow> publish_request \<Rightarrow> string option
   \<Rightarrow> 'b activation_state \<Rightarrow> (publish_error + unit) \<times> 'b activation_state" where
  "persist_gx_suite pb rule_id rule_version_id rule model q saved_by st =
     (if \<not> scope_given q \<or> pr_dataObjectVersionIds q = [] then (Inr (), st)
      else
        let suite_id = ''gx_'' @ rule_id;
            suite_version = allocate_next_version (map se_suiteVersion (list_suite_status_history suite_id None (st_gx st))) (pr_suiteVersion q)
        in case build_gx_envelope pb rule rule_id rule_version_id suite_id suite_version model q of
             Inl e \<Rightarrow> (Inl e, st)
           | Inr envelope \<Rightarrow>
               (case save_suite (pb_convert pb) (pb_hash pb) (pb_now pb) envelope ''active'' None saved_by (Some ''rule-compiler'') (st_gx st) of
                  (Inl _, _) \<Rightarrow> (Inl StoreRefused, st)
                | (Inr _, gx) \<Rightarrow> (Inr (), st\<lparr>st_gx := gx\<rparr>)))"

definition persist_validation_artifact ::
  "('g, 'b) publisher \<Rightarrow> string \<Rightarrow> string \<Rightarrow> rule_view \<Rightarrow> intermediate_model \<Rightarrow> publish_request \<Rightarrow> string option
   \<Rightarrow> 'b activation_state \<Rightarrow> (publish_error + unit) \<times> 'b activation_state" where
  "persist_validation_artifact pb rule_id rule_version_id rule model q saved_by st =
     (if \<not> scope_given q \<or> pr_dataObjectVersionIds q = [] then (Inr (), st)
      else case resolve_target_engine (pb_preferred_engines pb) (Some rule) of
             Inl e \<Rightarrow> (Inl e, st)
           | Inr target_engine \<Rightarrow>
               (let artifact_id = (if target_engine = ''sodacl'' then ''sodacl_'' else ''gx_'') @ rule_id;
                    version = allocate_next_version
                      (map ae_version (list_artifact_status_history artifact_id None (st_validation st))) (pr_suiteVersion q)
                in case (if target_engine = ''sodacl''
                         then pb_make_sodacl pb rule artifact_id version (pr_dataObjectVersionIds q)
                         else (case build_gx_envelope pb (Some rule) rule_id rule_version_id artifact_id version model q of
                                 Inl e \<Rightarrow> Inl e
                               | Inr g \<Rightarrow> Inr (gx_to_artifact (pb_convert pb) g))) of
                     Inl e \<Rightarrow> (Inl e, st)
                   | Inr a \<Rightarrow>
                       (case save_artifact (pb_hash pb) (pb_now pb) a ''active'' None saved_by (Some ''rule-compiler'') (st_validation st) of
                          (Inl _, _) \<Rightarrow> (Inl StoreRefused, st)
                        | (Inr _, repo) \<Rightarrow> (Inr (), st\<lparr>st_validation := repo\<rparr>))))"


section \<open>The use case\<close>

record activate_command =
  ac_rule_id :: string
  ac_effective_at :: "string option"
  ac_granted_scopes :: "string list option"
  ac_auto_publish_request :: "publish_request option"
  ac_saved_by :: "string option"

datatype activate_error =
    EffectiveAtInvalid
  | EffectiveAtNaive
  | SchedulerUnavailable
  | ActivateRuleNotFound string
  | ActivateNotAllowed string
  | ActivateRefused repo_error
  | PublicationFailed publish_error

text \<open>The answer is \<^const>\<open>None\<close> for no text, and otherwise the time in UTC.\<close>

definition parse_effective_at :: "iso_reader \<Rightarrow> string option \<Rightarrow> activate_error + int option" where
  "parse_effective_at iso_read v =
     (let t = strip (text_of v)
      in if t = [] then Inr None
         else case iso_read (replace_Z t) of
                None \<Rightarrow> Inl EffectiveAtInvalid
              | Some parsed \<Rightarrow> (if is_aware parsed then Inr (Some (normalize_utc parsed)) else Inl EffectiveAtNaive))"

definition custom_query_model :: "string \<Rightarrow> string \<Rightarrow> intermediate_model" where
  "custom_query_model rule_id rule_version_id =
     (let key = ''rule::'' @ rule_id @ ''::version::'' @ rule_version_id @ ''::custom-query''
      in [(''artifactKey'', PStr key), (''compilerVersion'', PStr ''unknown''), (''schemaVersion'', PStr ''1.1.0''),
          (''target'', PStr ''dsl''),
          (''rule'', PDict [(''id'', PStr rule_id), (''version_id'', PStr rule_version_id)]),
          (''filter'', PDict [(''source'', PStr []), (''normalized'', PStr []), (''predicates'', PList []),
             (''logical_operators'', PList []), (''alias_expectations'', PList []), (''ast'', PNone)]),
          (''join'', PNone),
          (''execution_contract'', PDict
             [(''engine_target'', PStr ''dq-engine''), (''input_format'', PStr ''dq.intermediate-model.v1''),
              (''compatibility_policy'', PDict
                [(''schema_versioning'', PStr ''semver''), (''compiler_versioning'', PStr ''dq-semver''),
                 (''supported_schema_series'', PStr ''1.x.x''), (''minor_version_backward_compatible'', PBool True)]),
              (''traceability'', PDict
                [(''rule_id'', PStr rule_id), (''rule_version_id'', PStr rule_version_id), (''artifact_key'', PStr key),
                 (''compiler_version'', PStr ''unknown''), (''schema_version'', PStr ''1.1.0'')]),
              (''required_execution_result_fields'', PList (map PStr
                [''artifactKey'', ''ruleId'', ''ruleVersionId'', ''executionId'', ''executedAt'', ''resultStatus'']))]),
          (''diagnostics'', PList []), (''compilable'', PBool True),
          (''summary'', PDict [(''errors'', PInt 0), (''warnings'', PInt 0)])])"

text \<open>Everything that happens once the rule record is active and the rule is found again.\<close>

definition compile_and_publish ::
  "('g, 'b) publisher \<Rightarrow> activate_command \<Rightarrow> rule_view \<Rightarrow> 'b activation_state \<Rightarrow> (publish_error + unit) \<times> 'b activation_state" where
  "compile_and_publish pb cmd rule st =
     (let rule_id = ac_rule_id cmd;
          rule_version_id = (case resolve_current_rule_version (st_rules st) rule_id of
            Some v \<Rightarrow> (if vs_id v = [] then ''latest'' else vs_id v) | None \<Rightarrow> ''latest'')
      in case resolve_target_engine (pb_preferred_engines pb) (Some rule) of
           Inl e \<Rightarrow> (Inl e, st)
         | Inr target_engine \<Rightarrow>
             (let expression = strip (re_expression rule)
              in case (if expression = [] \<and> strip (text_of (rw_check_type rule)) = []
                       then Inr (custom_query_model rule_id rule_version_id)
                       else pb_compile pb rule_id rule_version_id expression) of
                   Inl e \<Rightarrow> (Inl e, st)
                 | Inr model \<Rightarrow>
                     (let st1 = persist_compiler_artifact pb rule_id expression model st
                      in case ac_auto_publish_request cmd of
                           None \<Rightarrow> (Inr (), st1)
                         | Some q \<Rightarrow>
                             (if target_engine = ''gx''
                              then (case persist_gx_suite pb rule_id rule_version_id (Some rule) model q (ac_saved_by cmd) st1 of
                                      (Inl e, st2) \<Rightarrow> (Inl e, st2)
                                    | (Inr _, st2) \<Rightarrow> persist_validation_artifact pb rule_id rule_version_id rule model q (ac_saved_by cmd) st2)
                              else if target_engine = ''sodacl''
                              then persist_validation_artifact pb rule_id rule_version_id rule model q (ac_saved_by cmd) st1
                              else (Inl (AutoPublishUnsupported target_engine), st1)))))"

definition activate_rule ::
  "scope_check \<Rightarrow> policy_overrides \<Rightarrow> env \<Rightarrow> iso_reader \<Rightarrow> int \<Rightarrow> ('g, 'b) publisher \<Rightarrow> activate_command \<Rightarrow> 'b activation_state
   \<Rightarrow> (activate_error + reply) \<times> 'b activation_state" where
  "activate_rule has_any ov en iso_read now pb cmd st =
     (case parse_effective_at iso_read (ac_effective_at cmd) of
        Inl e \<Rightarrow> (Inl e, st)
      | Inr effective \<Rightarrow>
          (if \<exists>t \<in> set_option effective. now < t then (Inl SchedulerUnavailable, st)
           else case find (\<lambda>w. w_id w = ac_rule_id cmd) (list_rule_records None False (Some False) None (st_rules st)) of
             None \<Rightarrow> (Inl (ActivateRuleNotFound (ac_rule_id cmd)), st)
           | Some row \<Rightarrow>
               (let current_status = derive_rule_status_from_row (row_columns row)
                in if \<not> is_transition_allowed has_any ov ''rule'' current_status ''activated'' (clean_scopes (ac_granted_scopes cmd))
                   then (Inl (ActivateNotAllowed current_status), st)
                   else case activate_rule_record ov en (ac_rule_id cmd) (st_rules st) of
                     (Inl e, r') \<Rightarrow> (Inl (ActivateRefused e), st\<lparr>st_rules := r'\<rparr>)
                   | (Inr None, r') \<Rightarrow> (Inl (ActivateRuleNotFound (ac_rule_id cmd)), st\<lparr>st_rules := r'\<rparr>)
                   | (Inr (Some payload), r') \<Rightarrow>
                       (case get_rule_by_id r' (ac_rule_id cmd) of
                          None \<Rightarrow> (Inr payload, st\<lparr>st_rules := r'\<rparr>)
                        | Some rule \<Rightarrow>
                            (case compile_and_publish pb cmd rule (st\<lparr>st_rules := r'\<rparr>) of
                               (Inl e, st') \<Rightarrow> (Inl (PublicationFailed e), st')
                             | (Inr _, st') \<Rightarrow> (Inr payload, st'))))))"



section \<open>Publication touches only its own stores\<close>

lemma persist_compiler_rules [simp]: "st_rules (persist_compiler_artifact pb rid f m st) = st_rules st"
  by (simp add: persist_compiler_artifact_def Let_def split: option.split)

lemma persist_gx_rules:
  assumes "persist_gx_suite pb rid rv rule m q by' st = (x, st')"
  shows "st_rules st' = st_rules st"
  using assms by (auto simp: persist_gx_suite_def Let_def split: if_splits sum.splits prod.splits)

lemma persist_validation_rules:
  assumes "persist_validation_artifact pb rid rv v m q by' st = (x, st')"
  shows "st_rules st' = st_rules st"
  using assms unfolding persist_validation_artifact_def Let_def
  by (simp split: if_split_asm sum.split_asm prod.split_asm) auto

lemma compile_keeps_rules:
  assumes "compile_and_publish pb cmd rule st = (x, st')"
  shows "st_rules st' = st_rules st"
  using assms unfolding compile_and_publish_def Let_def
  by (simp split: if_split_asm sum.split_asm prod.split_asm option.split_asm)
    (auto dest!: persist_gx_rules persist_validation_rules)

lemma activate_effect:
  assumes "activate_rule_record [] en rid r = (Inr (Some p), r')"
  shows "current_rule_status r' rid = ''activated'' \<and> current_rule_status r rid \<in> {''approved'', ''activated''}"
proof -
  obtain x where x: "activate_rule_payload [] en rid r = (Inr (Some x), r')"
    using assms by (auto simp: activate_rule_record_def record_of_reply_def split: sum.splits prod.splits option.splits)
  then obtain e where e: "map_of (r_rules r) rid = Some e"
    and g: "ensure_rule_transition_allowed [] (Some (current_rule_status r rid)) ''activated'' = None"
    by (auto simp: activate_rule_payload_def Let_def split: option.splits)
  have "\<not> truthy (d_removed_at (details_of r rid))"
    using accepted_not_removed [OF no_resurrection_default e g] .
  then have "current_rule_status r' rid = ''activated''"
    using x e g by (auto simp: activate_rule_payload_def Let_def current_rule_status_def [of "put_details _ _ _"])
  then show ?thesis using g by (auto simp: guard_activate)
qed

text \<open>
  C4: the use case answers with a rule only when the requested time is not in the future, the
  listed rule may pass to \<open>activated\<close> under the scopes of the caller, and the stored rule is
  approved or active already; the rule is active afterwards.
\<close>

theorem activation_use_case_is_authorised:
  assumes "activate_rule has_any [] en iso_read now pb cmd st = (Inr p, st')"
  shows "(\<exists>t. parse_effective_at iso_read (ac_effective_at cmd) = Inr t \<and> (\<forall>x. t = Some x \<longrightarrow> x \<le> now)) \<and>
    (\<exists>w \<in> set (list_rule_records None False (Some False) None (st_rules st)). w_id w = ac_rule_id cmd \<and>
       is_transition_allowed has_any [] ''rule'' (derive_rule_status_from_row (row_columns w)) ''activated''
         (clean_scopes (ac_granted_scopes cmd))) \<and>
    current_rule_status (st_rules st) (ac_rule_id cmd) \<in> {''approved'', ''activated''} \<and>
    current_rule_status (st_rules st') (ac_rule_id cmd) = ''activated''"
proof -
  obtain t w r' where t: "parse_effective_at iso_read (ac_effective_at cmd) = Inr t" "\<not> (\<exists>x \<in> set_option t. now < x)"
    and w: "find (\<lambda>w. w_id w = ac_rule_id cmd) (list_rule_records None False (Some False) None (st_rules st)) = Some w"
    and allowed: "is_transition_allowed has_any [] ''rule'' (derive_rule_status_from_row (row_columns w)) ''activated''
      (clean_scopes (ac_granted_scopes cmd))"
    and act: "activate_rule_record [] en (ac_rule_id cmd) (st_rules st) = (Inr (Some p), r')"
    and "st_rules st' = r'"
    using assms
    by (auto simp: activate_rule_def Let_def split: sum.splits option.splits if_splits prod.splits
        dest!: compile_keeps_rules)
  then show ?thesis
    using t find_record_id [OF w] allowed activate_effect [OF act] by force
qed

lemma activate_record_cases:
  assumes "activate_rule_record [] en rid r = (x, r')"
  shows "r' = r \<or> current_rule_status r' rid = ''activated''"
proof (cases "fst (activate_rule_payload [] en rid r)")
  case (Inl e)
  then have "snd (activate_rule_payload [] en rid r) = r"
    by (auto simp: activate_rule_payload_def Let_def split: option.splits)
  then show ?thesis using assms Inl by (auto simp: activate_rule_record_def split: sum.splits prod.splits)
next
  case (Inr y)
  have r': "r' = snd (activate_rule_payload [] en rid r)"
    using assms Inr by (auto simp: activate_rule_record_def split: sum.splits prod.splits)
  show ?thesis
  proof (cases "map_of (r_rules r) rid")
    case None
    then show ?thesis using r' by (simp add: activate_rule_payload_def)
  next
    case (Some e)
    have g: "ensure_rule_transition_allowed [] (Some (current_rule_status r rid)) ''activated'' = None"
      using Inr Some by (auto simp: activate_rule_payload_def Let_def split: option.splits)
    have "\<not> truthy (d_removed_at (details_of r rid))"
      using accepted_not_removed [OF no_resurrection_default Some g] .
    then show ?thesis
      using Some g unfolding r' by (simp add: activate_rule_payload_def Let_def current_rule_status_def [of "put_details _ _ _"])
  qed
qed

text \<open>
  An activation that fails in compilation or publication has activated the rule. When a call
  raises, the stores are as they were or the rule is active; it is active whenever the error
  comes from the compile and publish steps, which run after the rule record was changed.
\<close>

theorem failed_publication_leaves_rule_active:
  assumes "activate_rule has_any [] en iso_read now pb cmd st = (Inl e, st')"
  shows "(st' = st \<or> current_rule_status (st_rules st') (ac_rule_id cmd) = ''activated'') \<and>
    (\<forall>p. e = PublicationFailed p \<longrightarrow> current_rule_status (st_rules st') (ac_rule_id cmd) = ''activated'')"
proof -
  let ?act = "activate_rule_record [] en (ac_rule_id cmd) (st_rules st)"
  have parse: "parse_effective_at iso_read v \<noteq> Inl (PublicationFailed p)" for v p
    by (simp add: parse_effective_at_def Let_def split: option.split)
  have "(st' = st \<and> (\<forall>p. e \<noteq> PublicationFailed p)) \<or>
      (st_rules st' = snd ?act \<and> (\<forall>p. e \<noteq> PublicationFailed p) \<and> st' = st\<lparr>st_rules := snd ?act\<rparr>) \<or>
      (\<exists>p. ?act = (Inr (Some p), st_rules st'))"
    using assms unfolding activate_rule_def Let_def
    by (simp split: sum.split_asm option.split_asm if_split_asm prod.split_asm)
      (auto simp: parse dest!: compile_keeps_rules)
  then consider "st' = st" "\<forall>p. e \<noteq> PublicationFailed p"
    | "st' = st\<lparr>st_rules := snd ?act\<rparr>" "\<forall>p. e \<noteq> PublicationFailed p"
    | p where "?act = (Inr (Some p), st_rules st')"
    by blast
  then show ?thesis
  proof cases
    case 2
    then show ?thesis using activate_record_cases [of en "ac_rule_id cmd" "st_rules st" "fst ?act" "snd ?act"] by auto
  next
    case 3
    then show ?thesis using activate_effect [OF 3] by simp
  qed simp
qed

definition activation_rules :: rule_repo where
  "activation_rules = (let r = demo_repo False ''approved'' ''active''
     in put_details ''r1'' ((details_of r ''r1'')\<lparr>d_dsl := PDict [(''schema_version'', PStr ''2.0.0'')]\<rparr>) r)"

definition activation_demo :: "string activation_state" where
  "activation_demo = \<lparr>st_rules = activation_rules, st_compiler = [], st_gx = empty_artifacts, st_validation = empty_artifacts\<rparr>"

definition demo_publisher :: "string list \<Rightarrow> (string artifact, string) publisher" where
  "demo_publisher engines = \<lparr>pb_preferred_engines = (\<lambda>_. Some engines), pb_bucket_env = None, pb_catalog = None,
     pb_compile = (\<lambda>_ _ _. Inr []),
     pb_make_suite = (\<lambda>_ _ ids _ i v. Inr (demo_artifact\<lparr>va_id := i, va_version := v, va_dataObjectVersionIds := ids\<rparr>)),
     pb_make_sodacl = (\<lambda>_ i v ids. Inr (demo_artifact\<lparr>va_id := i, va_version := v, va_dataObjectVersionIds := ids\<rparr>)),
     pb_convert = \<lparr>gx_to_artifact = id, gx_of_artifact = id\<rparr>, pb_hash = va_body, pb_sha256 = id,
     pb_now = ''2026-05-01'', pb_uuid = ''0001''\<rparr>"

definition demo_activate :: "publish_request option \<Rightarrow> activate_command" where
  "demo_activate q = \<lparr>ac_rule_id = ''r1'', ac_effective_at = None, ac_granted_scopes = None,
     ac_auto_publish_request = q, ac_saved_by = None\<rparr>"

definition demo_activation :: "string list \<Rightarrow> (activate_error + reply) \<times> string activation_state" where
  "demo_activation engines =
     activate_rule (\<lambda>_ _. True) [] demo_env (\<lambda>_. None) 0 (demo_publisher engines) (demo_activate None) activation_demo"

lemma demo_activation_outcome:
  "fst (demo_activation [''spark'']) = Inl (PublicationFailed (EngineUnsupported ''spark''))"
  "case fst (demo_activation [''GX'']) of Inl _ \<Rightarrow> False | Inr _ \<Rightarrow> True"
  by code_simp+

text \<open>The engine is checked without a publish request as well.\<close>

theorem failed_publication_leaves_rule_active_witness:
  "current_rule_status (st_rules (snd (demo_activation [''spark'']))) ''r1'' = ''activated''"
proof -
  have "demo_activation [''spark''] = (Inl (PublicationFailed (EngineUnsupported ''spark'')), snd (demo_activation [''spark'']))"
    using demo_activation_outcome(1) by (metis prod.collapse)
  from failed_publication_leaves_rule_active [OF this [unfolded demo_activation_def]] show ?thesis
    by (simp add: demo_activation_def demo_activate_def)
qed

theorem activation_use_case_is_authorised_witness:
  "current_rule_status (st_rules (snd (demo_activation [''GX'']))) ''r1'' = ''activated''"
proof -
  obtain p where "demo_activation [''GX''] = (Inr p, snd (demo_activation [''GX'']))"
    using demo_activation_outcome(2) by (cases "demo_activation [''GX'']") (auto split: sum.splits)
  from activation_use_case_is_authorised [OF this [unfolded demo_activation_def]] show ?thesis
    by (simp add: demo_activation_def demo_activate_def)
qed



section \<open>Published versions are fresh\<close>

text \<open>
  A repository after it gained an artifact under a new version, the greatest of its identifier,
  which a request for the newest active version finds.
\<close>

definition gains_newest :: "'b artifact_repo \<Rightarrow> 'b artifact_repo \<Rightarrow> 'b artifact \<Rightarrow> bool" where
  "gains_newest r r' a \<longleftrightarrow> artifact_inv r' \<and> ar_artifacts r' = ar_artifacts r @ [a] \<and>
     (\<forall>b \<in> set (ar_artifacts r). va_id b = va_id a \<longrightarrow> va_version b < va_version a) \<and>
     get_artifact_by_id (va_id a) None ''active'' r' = Some a"

lemma newest_of_snoc:
  "newest_of m (ms @ [n]) = (if va_version (newest_of m ms) < va_version n then n else newest_of m ms)"
  by (induction ms arbitrary: m) simp_all

lemma save_next_version:
  assumes inv: "artifact_inv r" and i: "va_id a = i"
    and v: "va_version a = allocate_next_version (map ae_version (list_artifact_status_history i None r)) m"
    and save: "save_artifact hash now a ''active'' None by' src r = (x, r')"
  shows "(\<exists>y. x = Inr y) \<and> gains_newest r r' (normalized_artifact ''active'' by' src a)"
proof -
  let ?n = "normalized_artifact ''active'' by' src a"
  have less: "va_version b < va_version a" if b: "b \<in> set (ar_artifacts r)" "va_id b = i" for b
  proof -
    have "events_of (ar_history r) (artifact_key b) \<noteq> []"
      using inv b(1) by (auto simp: artifact_inv_def trail_to_def)
    then obtain h where "h \<in> set (ar_history r)" "ae_id h = i" "ae_version h = va_version b"
      using b(2) by (auto simp: events_of_def artifact_key_def filter_empty_conv)
    then have "va_version b \<in> set (map ae_version (list_artifact_status_history i None r))"
      by (force simp: list_artifact_status_history_def)
    then show ?thesis
      using allocated_is_fresh(2) [of "va_version b" "map ae_version (list_artifact_status_history i None r)" m] v
        allocated_is_fresh(1) by (cases "va_version b = 0") (simp_all del: set_map)
  qed
  then have "artifact_key a \<notin> artifact_key ` set (ar_artifacts r)"
    using i by (force simp: artifact_key_def)
  then have none: "find (\<lambda>b. artifact_key b = artifact_key a) (ar_artifacts r) = None"
    by (simp add: find_key)
  have arts: "ar_artifacts r' = ar_artifacts r @ [?n]" and ok: "\<exists>y. x = Inr y"
    using save none by (auto simp: save_artifact_def Let_def)
  have "artifact_inv r'" using save_artifact_inv [OF inv, of hash now a "''active''" None by' src] save by simp
  moreover have "get_artifact_by_id i None ''active'' r' = Some ?n"
  proof (cases "filter (\<lambda>b. va_id b = i \<and> status_of b = ''active'') (ar_artifacts r)")
    case Nil
    then show ?thesis using i by (simp add: get_artifact_by_id_def arts)
  next
    case (Cons m ms)
    have "set (filter (\<lambda>b. va_id b = i \<and> status_of b = ''active'') (ar_artifacts r)) \<subseteq> {b \<in> set (ar_artifacts r). va_id b = i}"
      by auto
    then have "set (m # ms) \<subseteq> {b \<in> set (ar_artifacts r). va_id b = i}" unfolding Cons .
    then have "va_version (newest_of m ms) < va_version a"
      using less newest_of_in [of m ms] by auto
    then show ?thesis using i Cons by (simp add: get_artifact_by_id_def arts newest_of_snoc)
  qed
  ultimately show ?thesis
    using ok arts less i by (simp add: gains_newest_def)
qed

text \<open>The envelopes that are built carry the identifier and version they were asked for.\<close>

definition builders_ok :: "('g, 'b) publisher \<Rightarrow> bool" where
  "builders_ok pb \<longleftrightarrow>
     (\<forall>m c ids q i v g. pb_make_suite pb m c ids q i v = Inr g \<longrightarrow>
        va_id (gx_to_artifact (pb_convert pb) g) = i \<and> va_version (gx_to_artifact (pb_convert pb) g) = v) \<and>
     (\<forall>w i v ids a. pb_make_sodacl pb w i v ids = Inr a \<longrightarrow> va_id a = i \<and> va_version a = v)"

lemma built_suite:
  assumes "builders_ok pb" and "build_gx_envelope pb rule rid rv i v m q = Inr g"
  shows "va_id (gx_to_artifact (pb_convert pb) g) = i \<and> va_version (gx_to_artifact (pb_convert pb) g) = v"
  using assms by (auto simp: build_gx_envelope_def builders_ok_def split: sum.splits prod.splits if_splits)

lemma suite_versions: "map se_suiteVersion (list_suite_status_history i None r) = map ae_version (list_artifact_status_history i None r)"
  by (simp add: list_suite_status_history_def)

lemma persist_gx_newest:
  assumes "builders_ok pb" and "artifact_inv (st_gx st)" and "scope_given q" and "pr_dataObjectVersionIds q \<noteq> []"
    and "persist_gx_suite pb rid rv rule m q by' st = (Inr u, st')"
  shows "\<exists>a. gains_newest (st_gx st) (st_gx st') a \<and> va_id a = ''gx_'' @ rid"
    and "st_validation st' = st_validation st"
proof -
  let ?v = "allocate_next_version (map ae_version (list_artifact_status_history (''gx_'' @ rid) None (st_gx st))) (pr_suiteVersion q)"
  obtain g where g: "build_gx_envelope pb rule rid rv (''gx_'' @ rid) ?v m q = Inr g"
    using assms(3-5) by (auto simp: persist_gx_suite_def Let_def suite_versions split: sum.splits)
  let ?a = "gx_to_artifact (pb_convert pb) g"
  obtain x r' where save: "save_artifact (pb_hash pb) (pb_now pb) ?a ''active'' None by' (Some ''rule-compiler'') (st_gx st) = (x, r')"
    by fastforce
  have a: "va_id ?a = ''gx_'' @ rid" "va_version ?a = ?v" using built_suite [OF assms(1) g] by simp_all
  have "(\<exists>y. x = Inr y) \<and> gains_newest (st_gx st) r' (normalized_artifact ''active'' by' (Some ''rule-compiler'') ?a)"
    by (rule save_next_version [OF assms(2) a(1) _ save]) (simp add: a)
  moreover have "st_gx st' = r'" "st_validation st' = st_validation st"
    using assms(3-5) g save calculation
    by (auto simp: persist_gx_suite_def Let_def suite_versions save_suite_def)
  ultimately show "\<exists>a. gains_newest (st_gx st) (st_gx st') a \<and> va_id a = ''gx_'' @ rid"
    and "st_validation st' = st_validation st"
    using a by auto
qed


lemma persist_validation_newest:
  assumes "builders_ok pb" and "artifact_inv (st_validation st)" and "scope_given q" and "pr_dataObjectVersionIds q \<noteq> []"
    and "resolve_target_engine (pb_preferred_engines pb) (Some rule) = Inr engine"
    and "persist_validation_artifact pb rid rv rule m q by' st = (Inr u, st')"
  shows "\<exists>a. gains_newest (st_validation st) (st_validation st') a \<and>
      va_id a = (if engine = ''sodacl'' then ''sodacl_'' else ''gx_'') @ rid"
    and "st_gx st' = st_gx st"
proof -
  let ?i = "(if engine = ''sodacl'' then ''sodacl_'' else ''gx_'') @ rid"
  let ?v = "allocate_next_version (map ae_version (list_artifact_status_history ?i None (st_validation st))) (pr_suiteVersion q)"
  let ?built = "if engine = ''sodacl'' then pb_make_sodacl pb rule ?i ?v (pr_dataObjectVersionIds q)
    else (case build_gx_envelope pb (Some rule) rid rv ?i ?v m q of Inl e \<Rightarrow> Inl e | Inr g \<Rightarrow> Inr (gx_to_artifact (pb_convert pb) g))"
  have step: "(case ?built of Inl e \<Rightarrow> (Inl e, st)
      | Inr a \<Rightarrow> (case save_artifact (pb_hash pb) (pb_now pb) a ''active'' None by' (Some ''rule-compiler'') (st_validation st) of
          (Inl _, _) \<Rightarrow> (Inl StoreRefused, st) | (Inr _, repo) \<Rightarrow> (Inr (), st\<lparr>st_validation := repo\<rparr>))) = (Inr u, st')"
    using assms(3-6) by (simp add: persist_validation_artifact_def Let_def)
  then obtain a where built: "?built = Inr a" by (cases ?built) simp_all
  have a: "va_id a = ?i \<and> va_version a = ?v"
  proof (cases "engine = ''sodacl''")
    case True
    then show ?thesis using built assms(1) unfolding builders_ok_def by simp
  next
    case False
    then obtain g where "build_gx_envelope pb (Some rule) rid rv ?i ?v m q = Inr g" "a = gx_to_artifact (pb_convert pb) g"
      using built by (auto split: sum.splits)
    then show ?thesis using built_suite [OF assms(1)] by blast
  qed
  obtain x r' where save: "save_artifact (pb_hash pb) (pb_now pb) a ''active'' None by' (Some ''rule-compiler'') (st_validation st) = (x, r')"
    by fastforce
  have new: "(\<exists>y. x = Inr y) \<and> gains_newest (st_validation st) r' (normalized_artifact ''active'' by' (Some ''rule-compiler'') a)"
    by (rule save_next_version [OF assms(2) _ _ save]) (use a in auto)
  then have "st' = st\<lparr>st_validation := r'\<rparr>"
    using step built save by (auto simp del: if_split)
  then show "\<exists>a. gains_newest (st_validation st) (st_validation st') a \<and> va_id a = ?i" and "st_gx st' = st_gx st"
    using new a by (auto intro!: exI [of _ "normalized_artifact ''active'' by' (Some ''rule-compiler'') a"])
qed

lemma compiler_persist_stores [simp]:
  "st_gx (persist_compiler_artifact pb rid f m st) = st_gx st"
  "st_validation (persist_compiler_artifact pb rid f m st) = st_validation st"
  by (simp_all add: persist_compiler_artifact_def Let_def split: option.split)

text \<open>
  C5: publication never overwrites. When compilation and publication of a rule succeed for a request with a scope
  and at least one data object version, the validation artifact store, and for the GX engine
  also the suite store, gain exactly one artifact: its version is greater than every
  stored version of its identifier, it is what a request for the newest active version now
  finds, every stored artifact is kept, and the histories stay unbroken trails.
\<close>

theorem publication_appends_newest_version:
  assumes "compile_and_publish pb cmd rule st = (Inr u, st')"
    and "ac_auto_publish_request cmd = Some q" and "scope_given q" and "pr_dataObjectVersionIds q \<noteq> []"
    and "builders_ok pb" and "artifact_inv (st_gx st)" and "artifact_inv (st_validation st)"
  shows "\<exists>engine a. resolve_target_engine (pb_preferred_engines pb) (Some rule) = Inr engine \<and>
    gains_newest (st_validation st) (st_validation st') a \<and>
    va_id a = (if engine = ''sodacl'' then ''sodacl_'' else ''gx_'') @ ac_rule_id cmd \<and>
    (if engine = ''gx'' then (\<exists>b. gains_newest (st_gx st) (st_gx st') b \<and> va_id b = ''gx_'' @ ac_rule_id cmd)
     else st_gx st' = st_gx st)"
proof -
  let ?p = "\<lambda>rv model. persist_compiler_artifact pb (ac_rule_id cmd) (strip (re_expression rule)) model st"
  obtain engine rv model where engine: "resolve_target_engine (pb_preferred_engines pb) (Some rule) = Inr engine"
    and step: "(if engine = ''gx''
      then (case persist_gx_suite pb (ac_rule_id cmd) rv (Some rule) model q (ac_saved_by cmd) (?p rv model) of
              (Inl e, st2) \<Rightarrow> (Inl e, st2)
            | (Inr _, st2) \<Rightarrow> persist_validation_artifact pb (ac_rule_id cmd) rv rule model q (ac_saved_by cmd) st2)
      else if engine = ''sodacl''
      then persist_validation_artifact pb (ac_rule_id cmd) rv rule model q (ac_saved_by cmd) (?p rv model)
      else (Inl (AutoPublishUnsupported engine), ?p rv model)) = (Inr u, st')"
    using assms(1,2) unfolding compile_and_publish_def Let_def
    by (simp only: option.case split: sum.split_asm prod.split_asm) blast+
  show ?thesis
  proof (cases "engine = ''gx''")
    case True
    then obtain st2 where gx: "persist_gx_suite pb (ac_rule_id cmd) rv (Some rule) model q (ac_saved_by cmd) (?p rv model) = (Inr (), st2)"
      and val: "persist_validation_artifact pb (ac_rule_id cmd) rv rule model q (ac_saved_by cmd) st2 = (Inr u, st')"
      using step by (auto split: sum.splits prod.splits)
    note one = persist_gx_newest [OF assms(5) _ assms(3,4) gx, simplified, OF assms(6)]
    note two = persist_validation_newest [OF assms(5) _ assms(3,4) engine val, unfolded one(2), OF assms(7)]
    show ?thesis using engine True one(1) two by auto
  next
    case False
    then have "engine = ''sodacl''"
      and val: "persist_validation_artifact pb (ac_rule_id cmd) rv rule model q (ac_saved_by cmd) (?p rv model) = (Inr u, st')"
      using step by (auto split: if_splits)
    note two = persist_validation_newest [OF assms(5) _ assms(3,4) engine val, simplified, OF assms(7)]
    show ?thesis using engine False two by auto
  qed
qed


definition demo_publication :: "(publish_error + unit) \<times> string activation_state" where
  "demo_publication = compile_and_publish (demo_publisher [''gx''])
     (demo_activate (Some \<lparr>pr_dataObjectId = Some ''orders'', pr_datasetId = None, pr_dataProductId = None,
        pr_suiteVersion = 1, pr_dataObjectVersionIds = [''v1'']\<rparr>))
     (demo_view\<lparr>rw_check_type := None\<rparr>) activation_demo"

lemma demo_publication_outcome:
  "case fst demo_publication of Inl _ \<Rightarrow> False | Inr _ \<Rightarrow> True"
  "case resolve_target_engine (pb_preferred_engines (demo_publisher [''gx''])) (Some (demo_view\<lparr>rw_check_type := None\<rparr>)) of
     Inl _ \<Rightarrow> False | Inr engine \<Rightarrow> engine = ''gx''"
  by code_simp+

lemma empty_artifacts_inv: "artifact_inv (empty_artifacts :: string artifact_repo)"
  by (simp add: artifact_inv_def)

theorem publication_appends_newest_version_witness:
  "\<exists>a b. gains_newest empty_artifacts (st_validation (snd demo_publication)) a \<and> va_id a = ''gx_r1'' \<and>
     gains_newest empty_artifacts (st_gx (snd demo_publication)) b \<and> va_id b = ''gx_r1''"
proof -
  have "fst demo_publication = Inr ()" using demo_publication_outcome(1) by (simp split: sum.splits)
  then have run: "demo_publication = (Inr (), snd demo_publication)" by (metis prod.collapse)
  have engine: "resolve_target_engine (pb_preferred_engines (demo_publisher [''gx''])) (Some (demo_view\<lparr>rw_check_type := None\<rparr>)) = Inr ''gx''"
    using demo_publication_outcome(2) by (auto split: sum.splits)
  have inv: "artifact_inv (st_gx activation_demo)" "artifact_inv (st_validation activation_demo)"
    using empty_artifacts_inv by (simp_all add: activation_demo_def)
  have ok: "builders_ok (demo_publisher [''gx''])" by (auto simp: builders_ok_def demo_publisher_def)
  from publication_appends_newest_version [OF run [unfolded demo_publication_def] _ _ _ ok inv]
  show ?thesis unfolding engine
    by (simp add: demo_activate_def scope_given_def truthy_def activation_demo_def demo_publication_def)
qed

end
