(* ===== verification/Text_Patterns.thy ===== *)
theory Text_Patterns
  imports DQ_Prelude
begin

text \<open>
  The backtracking matcher of Python's \<^verbatim>\<open>re\<close>, for the constructs the modelled code uses: character
  classes, sequences, ordered alternatives, greedy and lazy repetition, optional parts, word boundaries and
  groups. Patterns are values of the datatype \<open>rx\<close>, written down as the code has them; all of
  them consume at least one character, so the rules of \<open>re\<close> for empty matches are not needed.
\<close>


section \<open>Patterns\<close>

datatype rx =
    Empty
  | Class "char \<Rightarrow> bool"
  | Seq rx rx
  | Alt rx rx
  | Star rx
  | Lazy rx
  | Boundary
  | Group nat rx

text \<open>
  A position in a text, with the characters before it in reverse order and those after it, and the
  groups captured on the way, the latest first.
\<close>

type_synonym rx_state = "string \<times> string \<times> (nat \<times> string) list"

text \<open>A word boundary: exactly one of the two characters around a position is a word character.\<close>

definition at_boundary :: "string \<Rightarrow> string \<Rightarrow> bool" where
  "at_boundary left rest \<longleftrightarrow>
     (left \<noteq> [] \<and> word_char (hd left)) \<noteq> (rest \<noteq> [] \<and> word_char (hd rest))"

text \<open>
  All ways to match at a position, in the order in which the matcher tries them. A repetition goes on
  only after progress; the number bounds its rounds by the characters that are left.
\<close>

fun rounds :: "(rx_state \<Rightarrow> rx_state list) \<Rightarrow> nat \<Rightarrow> rx_state \<Rightarrow> rx_state list" where
  "rounds f 0 st = [st]"
| "rounds f (Suc n) st =
     concat (map (rounds f n) (filter (\<lambda>st'. length (fst (snd st')) < length (fst (snd st))) (f st))) @ [st]"

fun lazy_rounds :: "(rx_state \<Rightarrow> rx_state list) \<Rightarrow> nat \<Rightarrow> rx_state \<Rightarrow> rx_state list" where
  "lazy_rounds f 0 st = [st]"
| "lazy_rounds f (Suc n) st =
     st # concat (map (lazy_rounds f n) (filter (\<lambda>st'. length (fst (snd st')) < length (fst (snd st))) (f st)))"

primrec matches :: "rx \<Rightarrow> rx_state \<Rightarrow> rx_state list" where
  "matches Empty st = [st]"
| "matches (Class P) st =
     (case st of (left, rest, gs) \<Rightarrow>
        (case rest of [] \<Rightarrow> [] | c # cs \<Rightarrow> if P c then [(c # left, cs, gs)] else []))"
| "matches (Seq r s) st = concat (map (matches s) (matches r st))"
| "matches (Alt r s) st = matches r st @ matches s st"
| "matches (Star r) st = rounds (matches r) (length (fst (snd st))) st"
| "matches (Lazy r) st = lazy_rounds (matches r) (length (fst (snd st))) st"
| "matches Boundary st = (case st of (left, rest, gs) \<Rightarrow> if at_boundary left rest then [st] else [])"
| "matches (Group n r) st =
     map (\<lambda>(left, rest, gs). (left, rest, (n, take (length (fst (snd st)) - length rest) (fst (snd st))) # gs))
       (matches r st)"


section \<open>Abbreviated patterns\<close>

text \<open>A character of a given text in either case, and a text in either case (\<open>re.IGNORECASE\<close>).\<close>

definition lit :: "string \<Rightarrow> rx" where
  "lit s = foldr (\<lambda>c r. Seq (Class (\<lambda>d. d = c)) r) s Empty"

definition lit_ci :: "string \<Rightarrow> rx" where
  "lit_ci s = foldr (\<lambda>c r. Seq (Class (\<lambda>d. lower_char d = lower_char c)) r) s Empty"

definition seq :: "rx list \<Rightarrow> rx" where
  "seq rs = foldr Seq rs Empty"

definition one_of :: "rx list \<Rightarrow> rx" where
  "one_of rs = (case rev rs of [] \<Rightarrow> Class (\<lambda>_. False) | r # ss \<Rightarrow> foldl (\<lambda>acc s. Alt s acc) r ss)"

definition opt_rx :: "rx \<Rightarrow> rx" where
  "opt_rx r = Alt r Empty"

definition plus :: "rx \<Rightarrow> rx" where
  "plus r = Seq r (Star r)"

definition rx_digits :: rx where
  "rx_digits = plus (Class is_digit)"

definition rx_spaces :: rx where
  "rx_spaces = Star (Class is_space)"

definition rx_spaces1 :: rx where
  "rx_spaces1 = plus (Class is_space)"

text \<open>\<open>[A-Za-z_][A-Za-z0-9_]*\<close>\<close>

definition ident_start :: "char \<Rightarrow> bool" where
  "ident_start c \<longleftrightarrow>
     (let n = (of_char c :: nat) in (65 \<le> n \<and> n \<le> 90) \<or> (97 \<le> n \<and> n \<le> 122) \<or> n = 95)"

definition ident_char :: "char \<Rightarrow> bool" where
  "ident_char c \<longleftrightarrow> ident_start c \<or> is_digit c"

definition rx_ident :: rx where
  "rx_ident = Seq (Class ident_start) (Star (Class ident_char))"

text \<open>\<open>-?\d+(?:\.\d+)?\<close>\<close>

definition rx_number :: rx where
  "rx_number = seq [opt_rx (lit ''-''), rx_digits, opt_rx (Seq (lit ''.'') rx_digits)]"

text \<open>\<open>'(?:''|[^'])*'\<close> and \<open>"(?:\\"|[^"])*"\<close>\<close>

definition rx_single_quoted :: rx where
  "rx_single_quoted =
     seq [lit [CHR 0x27], Star (Alt (lit [CHR 0x27, CHR 0x27]) (Class (\<lambda>c. c \<noteq> CHR 0x27))), lit [CHR 0x27]]"

definition rx_double_quoted :: rx where
  "rx_double_quoted =
     seq [lit [CHR 0x22], Star (Alt (lit [CHR 0x5C, CHR 0x22]) (Class (\<lambda>c. c \<noteq> CHR 0x22))), lit [CHR 0x22]]"

lemmas rx_defs = lit_def lit_ci_def seq_def one_of_def opt_rx_def plus_def rx_digits_def rx_spaces_def rx_spaces1_def
  rx_ident_def rx_number_def rx_single_quoted_def rx_double_quoted_def


section \<open>Searching\<close>

text \<open>A match: where it starts, its text, and its groups.\<close>

record rx_match =
  m_start :: nat
  m_text :: string
  m_groups :: "(nat \<times> string) list"

definition m_group :: "nat \<Rightarrow> rx_match \<Rightarrow> string option" where
  "m_group n m = map_of (m_groups m) n"

text \<open>
  The text cut into its leftmost matches and the characters between them; \<open>finditer\<close> and \<open>sub\<close>
  are read off.
\<close>

function pieces :: "rx \<Rightarrow> string \<Rightarrow> string \<Rightarrow> (char + rx_match) list" where
  "pieces r left [] = []"
| "pieces r left (c # cs) =
     (case matches r (left, c # cs, []) of
        [] \<Rightarrow> Inl c # pieces r (c # left) cs
      | (left', rest, gs) # _ \<Rightarrow>
          (if length rest < length (c # cs)
           then Inr \<lparr>m_start = length left, m_text = take (length (c # cs) - length rest) (c # cs), m_groups = gs\<rparr>
                  # pieces r left' rest
           else Inl c # pieces r (c # left) cs))"
  by pat_completeness auto
termination by (relation "measure (\<lambda>(r, b, s). length s)") auto

definition finditer :: "rx \<Rightarrow> string \<Rightarrow> rx_match list" where
  "finditer r s = concat (map (\<lambda>p. case p of Inl _ \<Rightarrow> [] | Inr m \<Rightarrow> [m]) (pieces r [] s))"

definition sub :: "rx \<Rightarrow> (rx_match \<Rightarrow> string) \<Rightarrow> string \<Rightarrow> string" where
  "sub r f s = concat (map (\<lambda>p. case p of Inl c \<Rightarrow> [c] | Inr m \<Rightarrow> f m) (pieces r [] s))"

text \<open>\<open>re.search(...) is not None\<close>, and \<open>re.match\<close> and \<open>re.fullmatch\<close> with the groups.\<close>

definition found :: "rx \<Rightarrow> string \<Rightarrow> bool" where
  "found r s \<longleftrightarrow> finditer r s \<noteq> []"

definition match_prefix :: "rx \<Rightarrow> string \<Rightarrow> (nat \<times> string) list option" where
  "match_prefix r s = (case matches r ([], s, []) of [] \<Rightarrow> None | st # _ \<Rightarrow> Some (snd (snd st)))"

definition fullmatch :: "rx \<Rightarrow> string \<Rightarrow> (nat \<times> string) list option" where
  "fullmatch r s =
     (case filter (\<lambda>st. fst (snd st) = []) (matches r ([], s, [])) of [] \<Rightarrow> None | st # _ \<Rightarrow> Some (snd (snd st)))"

end
