(* ===== verification/Rule_Compiler.thy ===== *)
theory Rule_Compiler
  imports Rule_Expressions Text_Patterns
begin

text \<open>
  The rule compiler, \<^verbatim>\<open>application/services/rule_compiler.py\<close>: a filter expression is normalised, checked,
  split into tokens, parsed to a tree by recursive descent, and returned as an intermediate
  model. Regular expressions are values of \<^typ>\<open>rx\<close>. A parser takes the tokens that are left (the code
  keeps an index into a fixed list) and returns what it read with the tokens after it.
\<close>


section \<open>Normalised expressions\<close>

definition ws_sub :: "rx \<Rightarrow> string \<Rightarrow> string \<Rightarrow> string" where
  "ws_sub r t s = sub r (\<lambda>_. t) s"

definition rx_word :: "string \<Rightarrow> rx" where
  "rx_word w = seq [Boundary, lit_ci w, Boundary]"

definition rx_comparison_operator :: rx where
  "rx_comparison_operator = one_of [lit ''>='', lit ''<='', lit ''!='', lit ''='', lit ''>'', lit ''<'']"

definition normalize_expression :: "string option \<Rightarrow> string" where
  "normalize_expression expression =
     (let s0 = strip (text_of expression);
          s1 = ws_sub (seq [rx_spaces, lit ''<>'', rx_spaces]) '' != '' s0;
          s2 = sub (seq [rx_spaces, Group 1 rx_comparison_operator, rx_spaces])
                 (\<lambda>m. '' '' @ text_of (m_group 1 m) @ '' '') s1;
          s3 = ws_sub (rx_word ''AND'') '' AND '' s2;
          s4 = ws_sub (rx_word ''OR'') '' OR '' s3;
          s5 = ws_sub (rx_word ''NOT'') '' NOT '' s4
      in strip (ws_sub rx_spaces1 '' '' s5))"


section \<open>Tokens\<close>

datatype token_type =
    T_LPAREN | T_RPAREN | T_COMMA | T_TYPECAST | T_DOT | T_OP | T_STRING | T_NUMBER | T_ARITH | T_IDENT | T_KEYWORD

type_synonym token = "token_type \<times> string"

definition compiler_keywords :: "string list" where
  "compiler_keywords =
     [''AND'', ''OR'', ''NOT'', ''IS'', ''NULL'', ''IN'', ''BETWEEN'', ''LIKE'', ''RLIKE'', ''TRUE'', ''FALSE'']"

text \<open>
  The alternatives of \<open>_TOKEN_REGEX\<close>. A literal between single quotes takes doubled quotes as long as a
  closing quote remains; between double quotes the same holds for an escaped quote.
\<close>

fun single_quoted_rest :: "string \<Rightarrow> (string \<times> string) option" where
  "single_quoted_rest [] = None"
| "single_quoted_rest (c # cs) =
     (if c = single_quote
      then (case cs of
              d # ds \<Rightarrow>
                (if d = single_quote
                 then (case single_quoted_rest ds of
                         Some (t, u) \<Rightarrow> Some (c # d # t, u) | None \<Rightarrow> Some ([c], cs))
                 else Some ([c], cs))
            | [] \<Rightarrow> Some ([c], cs))
      else map_option (\<lambda>(t, u). (c # t, u)) (single_quoted_rest cs))"

fun double_quoted_rest :: "string \<Rightarrow> (string \<times> string) option" where
  "double_quoted_rest [] = None"
| "double_quoted_rest (c # cs) =
     (if c = double_quote then Some ([c], cs)
      else if c = CHR 0x5C \<and> next_is double_quote cs
      then (case double_quoted_rest (drop 1 cs) of
              Some (t, u) \<Rightarrow> Some (c # double_quote # t, u)
            | None \<Rightarrow> Some ([c, double_quote], drop 1 cs))
      else map_option (\<lambda>(t, u). (c # t, u)) (double_quoted_rest cs))"

definition quoted_rest :: "char \<Rightarrow> string \<Rightarrow> (string \<times> string) option" where
  "quoted_rest c cs =
     (if c = single_quote then single_quoted_rest cs else if c = double_quote then double_quoted_rest cs else None)"

definition number_token :: "string \<Rightarrow> (string \<times> string) option" where
  "number_token s =
     (let sign = (if starts_with ''-'' s then ''-'' else []);
          s1 = drop (length sign) s;
          whole = takeWhile is_digit s1; s2 = dropWhile is_digit s1;
          frac = (if starts_with ''.'' s2 then takeWhile is_digit (drop 1 s2) else [])
      in if whole = [] then None
         else if frac = [] then Some (sign @ whole, s2)
         else Some (sign @ whole @ ''.'' @ frac, drop (Suc (length frac)) s2))"

definition operator_token :: "string \<Rightarrow> string option" where
  "operator_token s = find (\<lambda>w. starts_with w s) [''>='', ''<='', ''!='', ''<>'', ''!~'', ''='', ''>'', ''<'', ''~'']"

text \<open>One match of the token expression at the start of a text; \<^const>\<open>None\<close> as the type is white space.\<close>

definition next_token :: "string \<Rightarrow> ((token_type option \<times> string) \<times> string) option" where
  "next_token s =
     (case s of
        [] \<Rightarrow> None
      | c # cs \<Rightarrow>
          (if is_space c then Some ((None, takeWhile is_space s), dropWhile is_space s)
           else if c = CHR ''('' then Some ((Some T_LPAREN, [c]), cs)
           else if c = CHR '')'' then Some ((Some T_RPAREN, [c]), cs)
           else if c = CHR '','' then Some ((Some T_COMMA, [c]), cs)
           else if starts_with ''::'' s then Some ((Some T_TYPECAST, ''::''), drop 2 s)
           else if c = CHR ''.'' then Some ((Some T_DOT, [c]), cs)
           else case operator_token s of
             Some w \<Rightarrow> Some ((Some T_OP, w), drop (length w) s)
           | None \<Rightarrow>
               (case quoted_rest c cs of
                  Some (t, u) \<Rightarrow> Some ((Some T_STRING, c # t), u)
                | None \<Rightarrow>
                    (case number_token s of
                       Some (t, u) \<Rightarrow> Some ((Some T_NUMBER, t), u)
                     | None \<Rightarrow>
                         (if c \<in> set ''+-*/'' then Some ((Some T_ARITH, [c]), cs)
                          else if ident_start c then Some ((Some T_IDENT, takeWhile ident_char s), dropWhile ident_char s)
                          else None)))))"

definition token_of :: "token_type \<times> string \<Rightarrow> token" where
  "token_of t =
     (if fst t = T_IDENT \<and> upper (snd t) \<in> set compiler_keywords then (T_KEYWORD, upper (snd t)) else t)"

lemma single_quoted_rest_shorter: "single_quoted_rest s = Some (t, u) \<Longrightarrow> length u < length s"
proof (induction s arbitrary: t u rule: single_quoted_rest.induct)
  case (2 c cs)
  then show ?case by (force split: if_splits list.splits option.splits)
qed simp

lemma double_quoted_rest_shorter: "double_quoted_rest s = Some (t, u) \<Longrightarrow> length u < length s"
proof (induction s arbitrary: t u rule: double_quoted_rest.induct)
  case (2 c cs)
  then show ?case by (force split: if_splits option.splits)
qed simp

lemma number_token_shorter:
  assumes "number_token s = Some (t, u)"
  shows "length u < length s"
proof -
  let ?k = "if starts_with ''-'' s then 1 else (0 :: nat)"
  let ?s1 = "drop ?k s"
  have "length (dropWhile is_digit ?s1) < length ?s1" if "takeWhile is_digit ?s1 \<noteq> []"
    using that length_append [of "takeWhile is_digit ?s1" "dropWhile is_digit ?s1"] by simp
  then show ?thesis
    using assms by (auto simp: number_token_def Let_def split: if_splits)
qed

lemma dropWhile_shorter: "P c \<Longrightarrow> length (dropWhile P (c # cs)) < length (c # cs)"
  using length_dropWhile_le [of P cs] by simp

lemma operator_token_nonempty: "operator_token s = Some w \<Longrightarrow> w \<noteq> []"
  by (auto simp: operator_token_def split: if_splits)

lemma drop_shorter: "w \<noteq> [] \<Longrightarrow> length (drop (length w) (c # cs)) < length (c # cs)"
  by (cases w) auto

lemma quoted_rest_shorter: "quoted_rest c cs = Some (t, u) \<Longrightarrow> length u < length (c # cs)"
  using single_quoted_rest_shorter [of cs t u] double_quoted_rest_shorter [of cs t u]
  by (simp add: quoted_rest_def split: if_split_asm)

definition leaves_less :: "string \<Rightarrow> ('t \<times> string) option \<Rightarrow> bool" where
  "leaves_less s r \<longleftrightarrow> (\<forall>t u. r = Some (t, u) \<longrightarrow> length u < length s)"

lemma leaves_less_intros:
  "length u < length s \<Longrightarrow> leaves_less s (Some (t, u))"
  "leaves_less s None"
  "(b \<Longrightarrow> leaves_less s x) \<Longrightarrow> (\<not> b \<Longrightarrow> leaves_less s y) \<Longrightarrow> leaves_less s (if b then x else y)"
  "(o' = None \<Longrightarrow> leaves_less s x) \<Longrightarrow> (\<And>w. o' = Some w \<Longrightarrow> leaves_less s (f w)) \<Longrightarrow>
     leaves_less s (case o' of None \<Rightarrow> x | Some w \<Rightarrow> f w)"
  "(\<And>v w. p = (v, w) \<Longrightarrow> leaves_less s (g v w)) \<Longrightarrow> leaves_less s (case p of (v, w) \<Rightarrow> g v w)"
  by (auto simp: leaves_less_def split: option.split prod.split)

lemma next_token_shorter:
  assumes "next_token s = Some (t, u)"
  shows "length u < length s"
proof (cases s)
  case (Cons c cs)
  have "leaves_less (c # cs) (next_token (c # cs))"
    unfolding next_token_def list.case
  proof (intro leaves_less_intros)
    show "length (dropWhile is_space (c # cs)) < length (c # cs)" if "is_space c"
      using that by (rule dropWhile_shorter)
    show "length (dropWhile ident_char (c # cs)) < length (c # cs)" if "ident_start c"
      using that by (intro dropWhile_shorter) (simp add: ident_char_def)
    show "length (drop (length w) (c # cs)) < length (c # cs)" if "operator_token (c # cs) = Some w" for w
      by (rule drop_shorter [OF operator_token_nonempty [OF that]])
    show "length v < length (c # cs)" if "quoted_rest c cs = Some p" "p = (w, v)" for p w v
      using quoted_rest_shorter that by blast
    show "length v < length (c # cs)" if "number_token (c # cs) = Some p" "p = (w, v)" for p w v
      using number_token_shorter that by blast
  qed simp_all
  then show ?thesis using assms Cons by (simp add: leaves_less_def)
qed (use assms in \<open>simp add: next_token_def\<close>)

text \<open>The loop of \<open>_tokenize_expression\<close>; the error is the message.\<close>

function tokenize_expression :: "string \<Rightarrow> string + token list" where
  "tokenize_expression s =
     (if s = [] then Inr []
      else case next_token s of
             None \<Rightarrow> Inl (''Unrecognized token near '' @ quoted (take 16 s))
           | Some ((kind, text), rest) \<Rightarrow>
               (case kind of
                  None \<Rightarrow> tokenize_expression rest
                | Some k \<Rightarrow> try_bind (tokenize_expression rest) (\<lambda>ts. Inr (token_of (k, text) # ts))))"
  by pat_completeness auto
termination by (relation "measure length") (auto dest: next_token_shorter)

declare tokenize_expression.simps [simp del]


section \<open>Parser of tokens\<close>

text \<open>
  The expression tree. Values of predicates: nothing (\<open>IS NULL\<close>), a text, a list of operands (\<open>IN\<close>), or two
  bounds (\<open>BETWEEN\<close>); an operand is its text with its type.
\<close>

type_synonym operand = "string \<times> string"

datatype ast_value = NoValue | TextValue string | ListValue "operand list" | RangeValue operand operand

record ast_predicate =
  ap_field :: string
  ap_operator :: string
  ap_value :: ast_value
  ap_valueType :: string

datatype ast =
    Pred ast_predicate
  | AndNode ast ast
  | OrNode ast ast
  | NotNode ast

text \<open>
  A parser stops with the message of an \<open>_AstParserError\<close>. The other outcome, \<open>Stuck\<close>, marks a recursive call on a
  remainder that is not shorter; it makes the recursion well-founded and is shown never to occur.
\<close>

datatype parse_failure = AstError string | Stuck

type_synonym 'a parsed = "parse_failure + 'a \<times> token list"

definition at_token :: "token_type \<Rightarrow> string option \<Rightarrow> token list \<Rightarrow> bool" where
  "at_token k v ts =
     (case ts of [] \<Rightarrow> False | t # _ \<Rightarrow> fst t = k \<and> (case v of None \<Rightarrow> True | Some w \<Rightarrow> upper (snd t) = upper w))"

abbreviation keyword :: "string \<Rightarrow> token list \<Rightarrow> bool" where
  "keyword w \<equiv> at_token T_KEYWORD (Some w)"

definition type_name :: "token_type \<Rightarrow> string" where
  "type_name k =
     (case k of T_LPAREN \<Rightarrow> ''LPAREN'' | T_RPAREN \<Rightarrow> ''RPAREN'' | T_COMMA \<Rightarrow> ''COMMA'' | T_TYPECAST \<Rightarrow> ''TYPECAST''
      | T_DOT \<Rightarrow> ''DOT'' | T_OP \<Rightarrow> ''OP'' | T_STRING \<Rightarrow> ''STRING'' | T_NUMBER \<Rightarrow> ''NUMBER'' | T_ARITH \<Rightarrow> ''ARITH''
      | T_IDENT \<Rightarrow> ''IDENT'' | T_KEYWORD \<Rightarrow> ''KEYWORD'')"

definition expect_token :: "token_type \<Rightarrow> string option \<Rightarrow> token list \<Rightarrow> token parsed" where
  "expect_token k v ts =
     (let expected = (case v of None \<Rightarrow> type_name k | Some w \<Rightarrow> w)
      in case ts of
           [] \<Rightarrow> Inl (AstError (''Expected '' @ quoted expected @ '' but reached end of expression''))
         | t # rest \<Rightarrow>
             (if at_token k v ts then Inr (t, rest)
              else Inl (AstError (''Expected '' @ quoted expected @ '' but found '' @ quoted (snd t)))))"

definition parse_literal :: "token list \<Rightarrow> operand parsed" where
  "parse_literal ts =
     (case ts of
        [] \<Rightarrow> Inl (AstError ''Expected literal but reached end of expression'')
      | t # rest \<Rightarrow>
          (if fst t = T_NUMBER then Inr ((snd t, ''number''), rest)
           else if fst t = T_STRING then Inr ((snd t, ''string''), rest)
           else if fst t = T_KEYWORD \<and> upper (snd t) \<in> {''TRUE'', ''FALSE''} then Inr ((lower (snd t), ''boolean''), rest)
           else Inl (AstError (''Expected literal but found '' @ quoted (snd t)))))"

text \<open>\<open>_parse_value_expression_with_stops\<close>: tokens up to a stop outside parentheses, put together as text.\<close>

fun value_parts :: "bool \<Rightarrow> bool \<Rightarrow> int \<Rightarrow> token list \<Rightarrow> string list \<times> token list" where
  "value_parts on_comma on_rparen depth [] = ([], [])"
| "value_parts on_comma on_rparen depth ((k, v) # ts) =
     (if depth = 0 \<and> (k = T_KEYWORD \<and> upper v \<in> {''AND'', ''OR''} \<or> on_rparen \<and> k = T_RPAREN \<or> on_comma \<and> k = T_COMMA)
      then ([], (k, v) # ts)
      else let (parts, rest) = value_parts on_comma on_rparen
                 (if k = T_LPAREN then depth + 1 else if k = T_RPAREN then depth - 1 else depth) ts
           in (v # parts, rest))"

fun join_pieces :: "string \<Rightarrow> string list \<Rightarrow> string" where
  "join_pieces prev [] = []"
| "join_pieces prev (piece # ps) =
     (let r = (if piece \<in> {'')'', '',''} \<or> prev \<in> {''('', ''.''} \<or> piece = ''.'' then piece else '' '' @ piece)
      in r @ join_pieces r ps)"

definition render_parts :: "string list \<Rightarrow> string" where
  "render_parts parts = (case parts of [] \<Rightarrow> [] | p # ps \<Rightarrow> strip (p @ join_pieces p ps))"

definition parse_value_expression :: "bool \<Rightarrow> bool \<Rightarrow> token list \<Rightarrow> operand parsed" where
  "parse_value_expression on_comma on_rparen ts =
     (case value_parts on_comma on_rparen 0 ts of (parts, rest) \<Rightarrow>
        (if parts = [] then Inl (AstError ''Expected predicate value but reached end of expression'')
         else Inr ((render_parts parts, ''expression''), rest)))"

definition parse_value_operand :: "bool \<Rightarrow> bool \<Rightarrow> token list \<Rightarrow> operand parsed" where
  "parse_value_operand on_comma on_rparen ts =
     (case ts of
        [] \<Rightarrow> Inl (AstError ''Expected predicate value but reached end of expression'')
      | t # _ \<Rightarrow>
          (if fst t \<in> {T_NUMBER, T_STRING} \<or> fst t = T_KEYWORD \<and> upper (snd t) \<in> {''TRUE'', ''FALSE''}
           then parse_literal ts else parse_value_expression on_comma on_rparen ts))"

text \<open>
  \<open>_parse_field_reference\<close>: an identifier, dotted segments, type casts, and calls with everything up to
  the matching parenthesis.
\<close>

lemma expect_token_rest: "expect_token k v ts = Inr (t, r) \<Longrightarrow> ts = t # r"
  by (auto simp: expect_token_def Let_def split: list.splits if_splits)

function dotted_parts :: "token list \<Rightarrow> string list parsed" where
  "dotted_parts ts =
     (if at_token T_DOT None ts
      then (case expect_token T_IDENT None (tl ts) of
              Inl e \<Rightarrow> Inl e
            | Inr (t, rest) \<Rightarrow> try_bind (dotted_parts rest) (\<lambda>(ps, r). Inr (''.'' # snd t # ps, r)))
      else Inr ([], ts))"
  by pat_completeness auto
termination
  by (relation "measure length") (auto simp: at_token_def split: list.splits dest!: expect_token_rest)

declare dotted_parts.simps [simp del]

fun cast_parts :: "token list \<Rightarrow> string list parsed" where
  "cast_parts ((T_TYPECAST, c) # ts) =
     (case ts of
        [] \<Rightarrow> Inl (AstError ''Unexpected end of expression'')
      | (k, v) # rest \<Rightarrow>
          (if k \<in> {T_IDENT, T_KEYWORD} then try_bind (cast_parts rest) (\<lambda>(ps, r). Inr (''::'' # v # ps, r))
           else Inl (AstError (''Expected type name after '' @ quoted ''::'' @ '' but found '' @ quoted v))))"
| "cast_parts ts = Inr ([], ts)"

fun call_parts :: "nat \<Rightarrow> token list \<Rightarrow> string list parsed" where
  "call_parts 0 [] = Inr ([], [])"
| "call_parts 0 ((k, v) # ts) =
     (if k = T_LPAREN then try_bind (call_parts 1 ts) (\<lambda>(ps, r). Inr (''('' # ps, r)) else Inr ([], (k, v) # ts))"
| "call_parts (Suc d) [] = Inl (AstError ''Unexpected end of expression'')"
| "call_parts (Suc d) ((k, v) # ts) =
     try_bind (call_parts (if k = T_LPAREN then Suc (Suc d) else if k = T_RPAREN then d else Suc d) ts)
       (\<lambda>(ps, r). Inr (v # ps, r))"

definition parse_field_reference :: "token list \<Rightarrow> string parsed" where
  "parse_field_reference ts =
     try_bind (expect_token T_IDENT None ts) (\<lambda>(t, ts1).
     try_bind (dotted_parts ts1) (\<lambda>(ds, ts2).
     try_bind (cast_parts ts2) (\<lambda>(cs, ts3).
     try_bind (call_parts 0 ts3) (\<lambda>(ps, ts4). Inr (snd t @ concat ds @ concat cs @ concat ps, ts4)))))"

lemma dotted_parts_rest: "dotted_parts ts = Inr (ps, r) \<Longrightarrow> length r \<le> length ts"
proof (induction ts arbitrary: ps r rule: dotted_parts.induct)
  case (1 ts)
  show ?case
  proof (cases "at_token T_DOT None ts")
    case True
    then obtain t r1 where t: "expect_token T_IDENT None (tl ts) = Inr (t, r1)"
      and more: "\<exists>ps'. dotted_parts r1 = Inr (ps', r)"
      using "1.prems" by (subst (asm) dotted_parts.simps) (auto simp: try_bind_Inr split: sum.splits prod.splits)
    then have "length r \<le> length r1" using "1.IH" [OF True t refl] by blast
    then show ?thesis using arg_cong [OF expect_token_rest [OF t], of length] by simp
  qed (use "1.prems" in \<open>subst (asm) dotted_parts.simps, simp\<close>)
qed

lemma cast_parts_rest: "cast_parts ts = Inr (ps, r) \<Longrightarrow> length r \<le> length ts"
  by (induction ts arbitrary: ps r rule: cast_parts.induct) (force simp: try_bind_Inr split: list.splits prod.splits if_splits)+

lemma call_parts_rest: "call_parts d ts = Inr (ps, r) \<Longrightarrow> length r \<le> length ts"
  by (induction d ts arbitrary: ps r rule: call_parts.induct) (fastforce simp: try_bind_Inr split: if_splits)+

lemma parse_field_reference_rest: "parse_field_reference ts = Inr (f, r) \<Longrightarrow> length r < length ts"
  by (auto simp: parse_field_reference_def try_bind_Inr dest!: dotted_parts_rest cast_parts_rest call_parts_rest expect_token_rest)

lemma parse_literal_rest: "parse_literal ts = Inr (l, r) \<Longrightarrow> length r < length ts"
  by (auto simp: parse_literal_def split: list.splits if_splits)

lemma value_parts_rest: "value_parts c p d ts = (ps, r) \<Longrightarrow> length r \<le> length ts \<and> (ps \<noteq> [] \<longrightarrow> length r < length ts)"
  by (induction c p d ts arbitrary: ps r rule: value_parts.induct) (force simp: Let_def split: if_splits prod.splits)+

lemma parse_value_operand_rest: "parse_value_operand c p ts = Inr (l, r) \<Longrightarrow> length r < length ts"
  by (auto simp: parse_value_operand_def parse_value_expression_def split: list.splits if_splits prod.splits
      dest!: parse_literal_rest value_parts_rest)

text \<open>The operands of \<open>IN\<close> after the first one.\<close>

function more_operands :: "token list \<Rightarrow> operand list parsed" where
  "more_operands ts =
     (if at_token T_COMMA None ts
      then (case parse_value_operand True True (tl ts) of
              Inl e \<Rightarrow> Inl e
            | Inr (v, r) \<Rightarrow> try_bind (more_operands r) (\<lambda>(vs, r'). Inr (v # vs, r')))
      else Inr ([], ts))"
  by pat_completeness auto
termination
  by (relation "measure length") (auto simp: at_token_def split: list.splits dest!: parse_value_operand_rest)

declare more_operands.simps [simp del]

lemma more_operands_rest: "more_operands ts = Inr (vs, r) \<Longrightarrow> length r \<le> length ts"
proof (induction ts arbitrary: vs r rule: more_operands.induct)
  case (1 ts)
  show ?case
  proof (cases "at_token T_COMMA None ts")
    case True
    then obtain v r1 where v: "parse_value_operand True True (tl ts) = Inr (v, r1)"
      and more: "\<exists>vs'. more_operands r1 = Inr (vs', r)"
      using "1.prems" by (subst (asm) more_operands.simps) (auto simp: try_bind_Inr split: sum.splits prod.splits)
    then show ?thesis using "1.IH" [OF True v refl] parse_value_operand_rest [OF v] by fastforce
  qed (use "1.prems" in \<open>subst (asm) more_operands.simps, simp\<close>)
qed

definition predicate_node :: "string \<Rightarrow> string \<Rightarrow> ast_value \<Rightarrow> string \<Rightarrow> ast" where
  "predicate_node f op v ty = Pred \<lparr>ap_field = f, ap_operator = op, ap_value = v, ap_valueType = ty\<rparr>"

definition not_prefix :: "bool \<Rightarrow> string \<Rightarrow> string" where
  "not_prefix negated op = (if negated then ''NOT '' @ op else op)"

definition parse_in :: "string \<Rightarrow> bool \<Rightarrow> token list \<Rightarrow> ast parsed" where
  "parse_in f negated ts =
     try_bind (expect_token T_LPAREN None ts) (\<lambda>(_, ts1).
     try_bind (parse_value_operand True True ts1) (\<lambda>(v, ts2).
     try_bind (more_operands ts2) (\<lambda>(vs, ts3).
     try_bind (expect_token T_RPAREN None ts3) (\<lambda>(_, ts4).
       Inr (predicate_node f (not_prefix negated ''IN'') (ListValue (v # vs)) ''list'', ts4)))))"

definition parse_between :: "string \<Rightarrow> bool \<Rightarrow> token list \<Rightarrow> ast parsed" where
  "parse_between f negated ts =
     try_bind (parse_value_operand False True ts) (\<lambda>(lo, ts1).
     try_bind (expect_token T_KEYWORD (Some ''AND'') ts1) (\<lambda>(_, ts2).
     try_bind (parse_value_operand False True ts2) (\<lambda>(hi, ts3).
       Inr (predicate_node f (not_prefix negated ''BETWEEN'') (RangeValue lo hi) ''range'', ts3))))"

definition parse_like :: "string \<Rightarrow> string \<Rightarrow> token list \<Rightarrow> ast parsed" where
  "parse_like f op ts =
     try_bind (parse_literal ts) (\<lambda>(l, ts1). Inr (predicate_node f op (TextValue (fst l)) (snd l), ts1))"

definition negation_misplaced :: "string \<Rightarrow> parse_failure" where
  "negation_misplaced f = AstError (''Expected IN, BETWEEN, LIKE or RLIKE after NOT for '' @ quoted f)"

text \<open>\<open>_parse_predicate\<close> after the field reference and an optional \<open>NOT\<close>.\<close>

definition predicate_tail :: "string \<Rightarrow> bool \<Rightarrow> token list \<Rightarrow> ast parsed" where
  "predicate_tail f negated ts =
     (let is_true = (if negated then Inl (negation_misplaced f)
                     else Inr (predicate_node f ''IS TRUE'' (TextValue ''true'') ''boolean'', ts))
      in if keyword ''IN'' ts then parse_in f negated (tl ts)
         else if keyword ''BETWEEN'' ts then parse_between f negated (tl ts)
         else if keyword ''LIKE'' ts then parse_like f (not_prefix negated ''LIKE'') (tl ts)
         else if keyword ''RLIKE'' ts then parse_like f (not_prefix negated ''RLIKE'') (tl ts)
         else case ts of
           [] \<Rightarrow> is_true
         | (k, v) # rest \<Rightarrow>
             (if k = T_KEYWORD \<and> v \<in> {''AND'', ''OR''} \<or> k = T_RPAREN then is_true
              else if k = T_OP \<and> v \<in> {''~'', ''!~''}
              then parse_like f
                     (if v = ''~'' then not_prefix negated ''RLIKE'' else if negated then ''RLIKE'' else ''!~'') rest
              else if k = T_OP \<and> v \<in> {''='', ''!='', ''<>'', ''>'', ''>='', ''<'', ''<=''}
              then try_bind (parse_value_operand False True rest) (\<lambda>(l, ts1).
                     if negated then Inl (AstError ''NOT is not allowed before comparison operators'')
                     else Inr (predicate_node f (if v = ''<>'' then ''!='' else v) (TextValue (fst l)) (snd l), ts1))
              else if negated then Inl (negation_misplaced f)
              else Inl (AstError (''Unsupported predicate operator '' @ quoted v))))"

definition parse_predicate :: "token list \<Rightarrow> ast parsed" where
  "parse_predicate ts0 =
     try_bind (parse_field_reference ts0) (\<lambda>(f, ts).
       if keyword ''IS'' ts
       then (let negated = keyword ''NOT'' (tl ts); ts1 = (if negated then tl (tl ts) else tl ts)
             in try_bind (expect_token T_KEYWORD (Some ''NULL'') ts1) (\<lambda>(_, ts2).
                  Inr (predicate_node f (if negated then ''IS NOT NULL'' else ''IS NULL'') NoValue ''null'', ts2)))
       else if keyword ''NOT'' ts then predicate_tail f True (tl ts)
       else predicate_tail f False ts)"

lemma tl_shorter [simp]: "at_token k v ts \<Longrightarrow> length (tl ts) < length ts"
  by (cases ts) (simp_all add: at_token_def)

lemma expect_token_length: "expect_token k v ts = Inr (t, r) \<Longrightarrow> length r < length ts"
  by (drule expect_token_rest) simp

lemma predicate_tail_rest: "predicate_tail f negated ts = Inr (n, r) \<Longrightarrow> length r \<le> length ts"
proof -
  have in_rest: "parse_in f b us = Inr (n, r) \<Longrightarrow> length r < length us" for b us
    by (auto simp: parse_in_def try_bind_Inr dest!: expect_token_length parse_value_operand_rest more_operands_rest)
  have between_rest: "parse_between f b us = Inr (n, r) \<Longrightarrow> length r < length us" for b us
    by (auto simp: parse_between_def try_bind_Inr dest!: expect_token_length parse_value_operand_rest)
  have like_rest: "parse_like f op us = Inr (n, r) \<Longrightarrow> length r < length us" for op us
    by (auto simp: parse_like_def try_bind_Inr dest!: parse_literal_rest)
  show "predicate_tail f negated ts = Inr (n, r) \<Longrightarrow> length r \<le> length ts"
    by (auto simp: predicate_tail_def try_bind_Inr Let_def split: if_splits list.splits
        dest!: parse_value_operand_rest in_rest between_rest like_rest)
qed

lemma parse_predicate_rest: "parse_predicate ts = Inr (n, r) \<Longrightarrow> length r < length ts"
proof -
  assume parse: "parse_predicate ts = Inr (n, r)"
  then obtain f us where us: "parse_field_reference ts = Inr (f, us)"
    by (auto simp: parse_predicate_def try_bind_Inr)
  have "length r \<le> length us"
    using parse by (auto simp: parse_predicate_def us try_bind_Inr Let_def split: if_splits
        dest!: expect_token_length predicate_tail_rest)
  then show ?thesis using parse_field_reference_rest [OF us] by simp
qed

text \<open>
  The four mutually recursive functions with their two loops. The guards compare with the tokens the callee got;
  that they hold is \<open>parser_progress\<close> below.
\<close>

function parse_or :: "token list \<Rightarrow> ast parsed"
  and or_loop :: "ast \<Rightarrow> token list \<Rightarrow> ast parsed"
  and parse_and :: "token list \<Rightarrow> ast parsed"
  and and_loop :: "ast \<Rightarrow> token list \<Rightarrow> ast parsed"
  and parse_not :: "token list \<Rightarrow> ast parsed"
  and parse_factor :: "token list \<Rightarrow> ast parsed" where
  "parse_or ts =
     (case parse_and ts of
        Inl e \<Rightarrow> Inl e
      | Inr (n, r) \<Rightarrow> if length r < length ts then or_loop n r else Inl Stuck)"
| "or_loop n ts =
     (if keyword ''OR'' ts
      then (case parse_and (tl ts) of
              Inl e \<Rightarrow> Inl e
            | Inr (m, r) \<Rightarrow> if length r < length ts then or_loop (OrNode n m) r else Inl Stuck)
      else Inr (n, ts))"
| "parse_and ts =
     (case parse_not ts of
        Inl e \<Rightarrow> Inl e
      | Inr (n, r) \<Rightarrow> if length r < length ts then and_loop n r else Inl Stuck)"
| "and_loop n ts =
     (if keyword ''AND'' ts
      then (case parse_not (tl ts) of
              Inl e \<Rightarrow> Inl e
            | Inr (m, r) \<Rightarrow> if length r < length ts then and_loop (AndNode n m) r else Inl Stuck)
      else Inr (n, ts))"
| "parse_not ts =
     (if keyword ''NOT'' ts then try_bind (parse_not (tl ts)) (\<lambda>(n, r). Inr (NotNode n, r)) else parse_factor ts)"
| "parse_factor ts =
     (if at_token T_LPAREN None ts
      then try_bind (parse_or (tl ts)) (\<lambda>(n, r). try_bind (expect_token T_RPAREN None r) (\<lambda>(_, r'). Inr (n, r')))
      else parse_predicate ts)"
  by pat_completeness auto
termination
  by (relation "measure (\<lambda>x. case x of
       Inl (Inl ts) \<Rightarrow> 6 * length ts + 5 | Inl (Inr (Inl (_, ts))) \<Rightarrow> 6 * length ts + 4
     | Inl (Inr (Inr ts)) \<Rightarrow> 6 * length ts + 3 | Inr (Inl (_, ts)) \<Rightarrow> 6 * length ts + 2
     | Inr (Inr (Inl ts)) \<Rightarrow> 6 * length ts + 1 | Inr (Inr (Inr ts)) \<Rightarrow> 6 * length ts)")
    (auto dest!: tl_shorter)

lemmas parser_simps = parse_or.simps or_loop.simps parse_and.simps and_loop.simps parse_not.simps parse_factor.simps

declare parser_simps [simp del]

text \<open>\<open>parse\<close>: the whole token list is one expression.\<close>

definition parse_tokens :: "token list \<Rightarrow> parse_failure + ast" where
  "parse_tokens ts =
     try_bind (parse_or ts) (\<lambda>(n, r).
       case r of [] \<Rightarrow> Inr n | t # _ \<Rightarrow> Inl (AstError (''Unexpected token '' @ quoted (snd t))))"


definition compile_expression_ast :: "string \<Rightarrow> ast option \<times> string option" where
  "compile_expression_ast normalized_expression =
     (if normalized_expression = [] then (None, None)
      else case tokenize_expression normalized_expression of
             Inl e \<Rightarrow> (None, Some e)
           | Inr ts \<Rightarrow>
               (case parse_tokens ts of
                  Inr n \<Rightarrow> (Some n, None)
                | Inl (AstError e) \<Rightarrow> (None, Some e)
                | Inl Stuck \<Rightarrow> (None, None)))"


section \<open>Predicates and logical operators\<close>

record flat_predicate =
  fp_field :: string
  fp_operator :: string
  fp_value :: string
  fp_valueType :: string

text \<open>
  \<open>_ast_predicate_to_flat\<close>. The parser builds ranges for \<open>BETWEEN\<close>, lists for \<open>IN\<close> and no value for \<open>IS NULL\<close> only, with or
  without \<open>NOT\<close>; other combinations have no text here.
\<close>

definition ast_predicate_to_flat :: "ast_predicate \<Rightarrow> flat_predicate" where
  "ast_predicate_to_flat p =
     (let make = (\<lambda>v ty. \<lparr>fp_field = ap_field p, fp_operator = ap_operator p, fp_value = v, fp_valueType = ty\<rparr>);
          op = ap_operator p
      in case ap_value p of
           RangeValue lo hi \<Rightarrow>
             (if op \<in> {''BETWEEN'', ''NOT BETWEEN''} then make (fst lo @ '' AND '' @ fst hi) ''range'' else make [] ''unknown'')
         | ListValue vs \<Rightarrow>
             (if op \<in> {''IN'', ''NOT IN''} then make (''('' @ join_text '', '' (map fst vs) @ '')'') ''list'' else make [] ''unknown'')
         | NoValue \<Rightarrow>
             (if op \<in> {''IS NULL'', ''IS NOT NULL''} then make ''NULL'' ''null''
              else make [] (if ap_valueType p = [] then ''unknown'' else ap_valueType p))
         | TextValue v \<Rightarrow>
             (if op \<in> {''IS NULL'', ''IS NOT NULL''} then make ''NULL'' ''null''
              else make v (if ap_valueType p = [] then ''unknown'' else ap_valueType p)))"

text \<open>The leaves of a tree, the two walks over a tree.\<close>

primrec leaves :: "ast \<Rightarrow> ast_predicate list" where
  "leaves (Pred p) = [p]"
| "leaves (AndNode l r) = leaves l @ leaves r"
| "leaves (OrNode l r) = leaves l @ leaves r"
| "leaves (NotNode n) = leaves n"

definition collect_predicates :: "ast option \<Rightarrow> flat_predicate list" where
  "collect_predicates t = (case t of None \<Rightarrow> [] | Some n \<Rightarrow> map ast_predicate_to_flat (leaves n))"

primrec tree_operators :: "ast \<Rightarrow> string list" where
  "tree_operators (Pred p) = []"
| "tree_operators (AndNode l r) = tree_operators l @ ''AND'' # tree_operators r"
| "tree_operators (OrNode l r) = tree_operators l @ ''OR'' # tree_operators r"
| "tree_operators (NotNode n) = ''NOT'' # tree_operators n"

text \<open>\<open>_infer_literal_type\<close> and the predicates found by regular expressions.\<close>

definition infer_literal_type :: "string \<Rightarrow> string" where
  "infer_literal_type raw =
     (let literal = strip raw
      in if fullmatch rx_number literal \<noteq> None then ''number''
         else if fullmatch (one_of [lit_ci ''true'', lit_ci ''false'']) literal \<noteq> None then ''boolean''
         else if starts_with [single_quote] literal \<or> starts_with [double_quote] literal then ''string''
         else if starts_with ''('' literal \<and> starts_with '')'' (rev literal) then ''list''
         else ''unknown'')"

definition rx_literal :: rx where
  "rx_literal = one_of [rx_number, lit_ci ''true'', lit_ci ''false'', rx_single_quoted, rx_double_quoted]"

definition rx_not :: rx where
  "rx_not = opt_rx (Group 2 (Seq (lit_ci ''NOT'') rx_spaces1))"

definition rx_predicate_comparison :: rx where
  "rx_predicate_comparison =
     seq [Boundary, Group 1 rx_ident, rx_spaces,
       Group 2 (one_of [lit ''='', lit ''!='', lit ''>='', lit ''<='', lit ''>'', lit ''<'']), rx_spaces, Group 3 rx_literal]"

definition rx_predicate_between :: rx where
  "rx_predicate_between =
     seq [Boundary, Group 1 rx_ident, rx_spaces1, rx_not, lit_ci ''BETWEEN'', rx_spaces1, Group 3 rx_literal,
       rx_spaces1, lit_ci ''AND'', rx_spaces1, Group 4 rx_literal]"

definition rx_predicate_in :: rx where
  "rx_predicate_in =
     seq [Boundary, Group 1 rx_ident, rx_spaces1, rx_not, lit_ci ''IN'', rx_spaces,
       Group 3 (seq [lit ''('', Star (Class (\<lambda>c. c \<noteq> CHR '')'')), lit '')''])]"

definition rx_predicate_like :: rx where
  "rx_predicate_like =
     seq [Boundary, Group 1 rx_ident, rx_spaces1, rx_not,
       Group 3 (one_of [lit_ci ''LIKE'', lit_ci ''RLIKE'', lit ''~'', lit ''!~'']), rx_spaces, Group 4 rx_literal]"

definition rx_predicate_is_null :: rx where
  "rx_predicate_is_null =
     seq [Boundary, Group 1 rx_ident, rx_spaces1, lit_ci ''IS'', rx_spaces1, rx_not, lit_ci ''NULL'', Boundary]"

definition group_text :: "nat \<Rightarrow> rx_match \<Rightarrow> string" where
  "group_text n m = text_of (m_group n m)"

definition matched_predicate ::
  "(rx_match \<Rightarrow> string) \<Rightarrow> (rx_match \<Rightarrow> string) \<Rightarrow> (rx_match \<Rightarrow> string) \<Rightarrow> rx_match \<Rightarrow> nat \<times> flat_predicate" where
  "matched_predicate op v ty m =
     (m_start m, \<lparr>fp_field = group_text 1 m, fp_operator = upper (strip (op m)), fp_value = v m, fp_valueType = ty m\<rparr>)"

definition negated_as :: "rx_match \<Rightarrow> string \<Rightarrow> string" where
  "negated_as m op = not_prefix (m_group 2 m \<noteq> None) op"

definition indexed_predicates :: "string \<Rightarrow> (nat \<times> flat_predicate) list" where
  "indexed_predicates s =
     map (matched_predicate (\<lambda>m. negated_as m ''BETWEEN'')
            (\<lambda>m. strip (group_text 3 m) @ '' AND '' @ strip (group_text 4 m)) (\<lambda>_. ''range'')) (finditer rx_predicate_between s) @
     map (matched_predicate (\<lambda>m. negated_as m ''IN'') (\<lambda>m. strip (group_text 3 m)) (\<lambda>_. ''list'')) (finditer rx_predicate_in s) @
     map (matched_predicate (\<lambda>m. negated_as m (upper (group_text 3 m))) (\<lambda>m. strip (group_text 4 m))
            (\<lambda>m. infer_literal_type (strip (group_text 4 m)))) (finditer rx_predicate_like s) @
     map (matched_predicate (\<lambda>m. if m_group 2 m \<noteq> None then ''IS NOT NULL'' else ''IS NULL'') (\<lambda>_. ''NULL'') (\<lambda>_. ''null''))
       (finditer rx_predicate_is_null s) @
     map (matched_predicate (group_text 2) (\<lambda>m. strip (group_text 3 m)) (\<lambda>m. infer_literal_type (group_text 3 m)))
       (finditer rx_predicate_comparison s)"

definition predicate_key :: "flat_predicate \<Rightarrow> string \<times> string \<times> string" where
  "predicate_key p = (fp_field p, fp_operator p, fp_value p)"

definition compile_predicates :: "string \<Rightarrow> flat_predicate list" where
  "compile_predicates normalized_expression =
     foldl (\<lambda>ps p. if predicate_key p \<in> set (map predicate_key ps) then ps else ps @ [p]) []
       (map snd (sort_key fst (indexed_predicates normalized_expression)))"

text \<open>\<open>_extract_logical_operators\<close>: the flag is \<open>consume_between_and\<close>.\<close>

fun logical_scan :: "bool \<Rightarrow> string list \<Rightarrow> string list" where
  "logical_scan consume [] = []"
| "logical_scan consume (token # tokens) =
     (if token = ''BETWEEN'' then logical_scan True tokens
      else if token = ''AND'' \<and> consume then logical_scan False tokens
      else if token = ''NOT'' \<and> tokens \<noteq> [] \<and> hd tokens \<in> {''IN'', ''BETWEEN'', ''LIKE'', ''RLIKE''} then logical_scan consume tokens
      else if token \<in> {''AND'', ''OR'', ''NOT''} then token # logical_scan consume tokens
      else logical_scan consume tokens)"

definition extract_logical_operators :: "string \<Rightarrow> string list" where
  "extract_logical_operators s =
     logical_scan False (map (upper \<circ> m_text) (finditer
       (seq [Boundary, one_of (map lit_ci [''AND'', ''OR'', ''NOT'', ''IN'', ''BETWEEN'', ''LIKE'', ''RLIKE'']), Boundary]) s))"


section \<open>Diagnostics and expectations on aliases\<close>

record compile_diagnostic =
  dg_code :: string
  dg_severity :: string
  dg_message :: string

definition filter_message :: "filter_problem \<Rightarrow> string" where
  "filter_message p =
     (case p of
        ExpressionRequired \<Rightarrow> ''Filter expression is required''
      | Semicolon \<Rightarrow> ''Do not use semicolons in filter expressions''
      | CommentMarker \<Rightarrow> ''Comments are not allowed in filter expressions''
      | ClosingWithoutOpening \<Rightarrow> ''Unbalanced parentheses: found a closing parenthesis without matching opening parenthesis''
      | UnclosedSingleQuote \<Rightarrow> ''Unclosed single quote in filter expression''
      | UnclosedDoubleQuote \<Rightarrow> ''Unclosed double quote in filter expression''
      | UnbalancedParentheses \<Rightarrow> ''Unbalanced parentheses in filter expression''
      | StartsWithOperator \<Rightarrow> ''Expression cannot start with AND/OR''
      | EndsWithOperator \<Rightarrow> ''Expression cannot end with AND/OR''
      | ConsecutiveOperators \<Rightarrow> ''Consecutive logical operators detected'')"

definition join_message :: "join_problem \<Rightarrow> string" where
  "join_message p =
     (case p of
        JoinRequired \<Rightarrow> ''Join definition is required''
      | JoinInvalidJson \<Rightarrow> ''Join definition must be valid JSON''
      | JoinNoCondition \<Rightarrow> ''Join definition must contain at least one condition''
      | JoinNotObjectOrArray \<Rightarrow> ''Join definition must be an object or array''
      | JoinEntryNotObject \<Rightarrow> ''Join definition entries must be objects''
      | JoinConditionNotObject \<Rightarrow> ''Join condition must be an object''
      | JoinFieldRequired key \<Rightarrow> ''Join condition field '' @ quoted key @ '' is required''
      | JoinOperatorUnknown \<Rightarrow> ''Join condition operator must be one of: =, !=, >, >=, <, <='')"

definition without_literals :: "string \<Rightarrow> string" where
  "without_literals s = ws_sub rx_double_quoted '' '' (ws_sub rx_single_quoted '' '' s)"

definition rx_referential_subquery :: rx where
  "rx_referential_subquery =
     seq [rx_spaces, rx_ident, rx_spaces1, lit_ci ''IN'', rx_spaces, lit ''('', rx_spaces, lit_ci ''SELECT'', rx_spaces1, rx_ident,
       rx_spaces1, lit_ci ''FROM'', rx_spaces1, Class ident_start, Star (Class (\<lambda>c. ident_char c \<or> c = CHR ''-'')),
       rx_spaces, lit '')'', rx_spaces]"

definition rx_uniqueness_window :: rx where
  "rx_uniqueness_window =
     seq [rx_spaces, lit_ci ''COUNT(*)'', rx_spaces1, lit_ci ''OVER'', rx_spaces, lit ''('', rx_spaces, lit_ci ''PARTITION'',
       rx_spaces1, lit_ci ''BY'', rx_spaces1,
       Group 1 (Seq rx_ident (Star (seq [rx_spaces, lit '','', rx_spaces, rx_ident]))),
       rx_spaces, lit '')'', rx_spaces, lit ''='', rx_spaces, lit ''1'', rx_spaces]"

definition uses_select :: "string \<Rightarrow> bool" where
  "uses_select scrubbed \<longleftrightarrow> found (rx_word ''SELECT'') scrubbed \<and> fullmatch rx_referential_subquery scrubbed = None"

definition uses_aggregate :: "string \<Rightarrow> bool" where
  "uses_aggregate scrubbed \<longleftrightarrow>
     found (seq [Boundary, one_of (map lit_ci [''COUNT'', ''SUM'', ''AVG'', ''MIN'', ''MAX'']), rx_spaces, lit ''('']) scrubbed \<and>
     fullmatch rx_uniqueness_window scrubbed = None"

definition compile_diagnostics :: "string \<Rightarrow> filter_problem option \<Rightarrow> compile_diagnostic list" where
  "compile_diagnostics normalized_expression validation_error =
     (let scrubbed = without_literals normalized_expression
      in (case validation_error of
            None \<Rightarrow> []
          | Some e \<Rightarrow> [\<lparr>dg_code = ''DQ7_FILTER_VALIDATION'', dg_severity = ''error'', dg_message = filter_message e\<rparr>]) @
         (if uses_select scrubbed
          then [\<lparr>dg_code = ''DQ7_RESERVED_KEYWORD'', dg_severity = ''warning'',
            dg_message = ''Reserved keyword SELECT triggers alias warning''\<rparr>] else []) @
         (if uses_aggregate scrubbed
          then [\<lparr>dg_code = ''DQ7_UNSUPPORTED_AGGREGATE'', dg_severity = ''error'',
            dg_message = ''COUNT, SUM, AVG, MIN, MAX are reserved; no GROUP BY semantics''\<rparr>] else []))"

text \<open>\<open>infer_alias_expectations\<close> of \<^verbatim>\<open>application/services/rule_expression.py\<close>.\<close>

definition reserved_keywords :: "string list" where
  "reserved_keywords =
     [''and'', ''or'', ''not'', ''is'', ''null'', ''in'', ''like'', ''rlike'', ''between'', ''true'', ''false'', ''select'', ''from'',
      ''where'', ''case'', ''when'', ''then'', ''else'', ''end'', ''now'', ''curdate'', ''count'', ''sum'', ''avg'', ''min'', ''max'',
      ''length'', ''trim'', ''regexp_replace'', ''interval'', ''day'']"

definition push_expectation :: "string \<Rightarrow> string \<Rightarrow> (string, string) dict \<Rightarrow> (string, string) dict" where
  "push_expectation alias_raw expected d =
     (let alias = strip alias_raw
      in if alias = [] \<or> lower alias \<in> set reserved_keywords then d
         else case map_of d alias of
                Some e \<Rightarrow> AList.update alias (if e \<noteq> expected then ''unknown'' else expected) d
              | None \<Rightarrow> AList.update alias expected d)"

definition rx_alias_comparison :: rx where
  "rx_alias_comparison =
     seq [Boundary, Group 1 rx_ident, rx_spaces,
       Group 2 (one_of [lit ''>='', lit ''<='', lit ''='', lit ''!='', lit ''>'', lit ''<'', lit_ci ''like'', lit_ci ''rlike'', lit ''~'', lit ''!~'']),
       rx_spaces, Group 3 rx_literal]"

definition push_match :: "(string, string) dict \<Rightarrow> rx_match \<Rightarrow> (string, string) dict" where
  "push_match d m =
     (let kind = infer_literal_type (group_text 3 m)
      in if kind \<in> {''number'', ''boolean'', ''string''} then push_expectation (group_text 1 m) kind d else d)"

definition push_token :: "(string, string) dict \<Rightarrow> rx_match \<Rightarrow> (string, string) dict" where
  "push_token d m =
     (if lower (group_text 1 m) \<in> set reserved_keywords then d else dict_setdefault (group_text 1 m) ''unknown'' d)"

definition rx_bracketed :: rx where
  "rx_bracketed =
     seq [lit ''['', Star (Alt (Seq (lit [CHR 0x5C]) (Class (\<lambda>c. c \<noteq> CHR 0x0A))) (Class (\<lambda>c. c \<noteq> CHR '']''))), lit '']'']"

definition rx_regex_literal :: rx where
  "rx_regex_literal =
     seq [lit ''/'', plus (Alt (Seq (lit [CHR 0x5C]) (Class (\<lambda>c. c \<noteq> CHR 0x0A))) (Class (\<lambda>c. c \<notin> {CHR ''/'', CHR 0x0A}))), lit ''/'',
       Star (Class (\<lambda>c. c \<in> set ''gimsuy''))]"

definition infer_alias_expectations :: "string \<Rightarrow> (string, string) dict" where
  "infer_alias_expectations source =
     (if strip source = [] then []
      else let bare_source = ws_sub rx_regex_literal '' '' (ws_sub rx_bracketed '' '' (without_literals source))
           in foldl push_token (foldl push_match [] (finditer rx_alias_comparison source))
                (finditer (seq [Boundary, Group 1 rx_ident, Boundary]) bare_source))"


section \<open>Compilation\<close>

record compiled_model =
  cm_artifactKey :: string
  cm_compilerVersion :: string
  cm_schemaVersion :: string
  cm_rule_id :: string
  cm_rule_versionId :: string
  cm_source :: string
  cm_normalized :: string
  cm_predicates :: "flat_predicate list"
  cm_logicalOperators :: "string list"
  cm_aliasExpectations :: "(string, string) dict"
  cm_ast :: "ast option"
  cm_join :: "json option"
  cm_diagnostics :: "compile_diagnostic list"
  cm_compilable :: bool

definition build_artifact_key :: "(string \<Rightarrow> string) \<Rightarrow> string \<Rightarrow> string \<Rightarrow> string \<Rightarrow> string" where
  "build_artifact_key sha256 rule_id rule_version_id normalized_expression =
     ''rule::'' @ rule_id @ ''::version::'' @ rule_version_id @ ''::'' @
     take 16 (sha256 (rule_id @ '':'' @ rule_version_id @ '':'' @ normalized_expression))"

definition non_compilable :: "compile_diagnostic list \<Rightarrow> bool" where
  "non_compilable ds \<longleftrightarrow>
     list_ex (\<lambda>d. dg_code d \<in> {''DQ7_RESERVED_KEYWORD'', ''DQ7_UNSUPPORTED_AGGREGATE''}) ds"

definition has_errors :: "compile_diagnostic list \<Rightarrow> bool" where
  "has_errors ds \<longleftrightarrow> list_ex (\<lambda>d. dg_severity d = ''error'') ds"

text \<open>\<open>compile_rule_to_intermediate_model\<close>; a join definition that is not given is \<^const>\<open>None\<close>.\<close>

definition compile_rule_to_intermediate_model ::
  "(string \<Rightarrow> string) \<Rightarrow> (string \<Rightarrow> json option) \<Rightarrow> (json \<Rightarrow> string) \<Rightarrow> string \<Rightarrow> string \<Rightarrow> string option \<Rightarrow> json option
   \<Rightarrow> compiled_model" where
  "compile_rule_to_intermediate_model sha256 loads dumps rule_id rule_version_id filter_expression join_definition =
     (let normalized = normalize_expression filter_expression;
          ds0 = compile_diagnostics normalized (validate_filter_expression (Some normalized));
          join = map_option (normalize_join_definition loads dumps) join_definition;
          ds1 = ds0 @ (case join of
                  Some (Inl e) \<Rightarrow> [\<lparr>dg_code = ''DQ7_JOIN_VALIDATION'', dg_severity = ''error'', dg_message = join_message e\<rparr>]
                | _ \<Rightarrow> []);
          (tree, ast_error) = compile_expression_ast normalized;
          warned = (case ast_error of Some e \<Rightarrow> e \<noteq> [] \<and> \<not> non_compilable ds1 | None \<Rightarrow> False);
          ds = ds1 @ (if warned
                then [\<lparr>dg_code = ''DQ7_AST_PARSE'', dg_severity = ''warning'',
                  dg_message = ''AST parse warning: '' @ text_of ast_error\<rparr>] else [])
      in \<lparr>cm_artifactKey = build_artifact_key sha256 rule_id rule_version_id normalized,
          cm_compilerVersion = ''dq-7.3.0'', cm_schemaVersion = ''1.1.0'',
          cm_rule_id = rule_id, cm_rule_versionId = rule_version_id,
          cm_source = strip (text_of filter_expression), cm_normalized = normalized,
          cm_predicates = (if warned then compile_predicates normalized else collect_predicates tree),
          cm_logicalOperators = (case tree of Some n \<Rightarrow> tree_operators n | None \<Rightarrow> extract_logical_operators normalized),
          cm_aliasExpectations = infer_alias_expectations normalized,
          cm_ast = tree,
          cm_join = (case join of Some (Inr t) \<Rightarrow> if t = [] then None else loads t | _ \<Rightarrow> None),
          cm_diagnostics = ds,
          cm_compilable = (\<not> has_errors ds \<and> \<not> non_compilable ds)\<rparr>)"

end
