(* ===== verification/Gx_Expectations.thy ===== *)
theory Gx_Expectations
  imports Rule_Compiler
begin

text \<open>
  Translation of compiled rules to Great Expectations: \<^verbatim>\<open>application/services/gx_expectations.py\<close>. The input is a
  \<^typ>\<open>compiled_model\<close>, whose tree and predicates are always of the shapes the compiler builds. A decimal
  literal is read by the argument \<open>to_float\<close> (\<open>float(text)\<close>) into a type of its own. An error is a constructor with
  the part of the message that varies. \<open>lower_gx_row_condition_artifact\<close> needs the installed library and is not modelled.
\<close>


section \<open>Literals\<close>

datatype 'f literal = LNone | LBool bool | LInt int | LFloat 'f | LText string

text \<open>\<open>isinstance(literal, (int, float))\<close>: truth values are integers.\<close>

definition is_numeric :: "'f literal \<Rightarrow> bool" where
  "is_numeric l = (case l of LBool _ \<Rightarrow> True | LInt _ \<Rightarrow> True | LFloat _ \<Rightarrow> True | _ \<Rightarrow> False)"

datatype gx_error =
    EmptyLiteral
  | UnsupportedLiteral string
  | ListNotParenthesized string
  | ListEmpty
  | ListNotLiteral string
  | ListHasNull
  | BetweenShape string
  | BetweenNull
  | FieldMissing
  | FieldUnsupported string
  | FunctionUnsupported string
  | RegexFlags
  | NumericExpected string
  | ValueUnsupported
  | WrappedField string
  | ExpressionValue string
  | OperatorUnsupported string
  | UnaryUnsupported
  | NoAst
  | NoNormalizedExpression
  | NoBlocks
  | TooManyBlocks nat
  | TooManyStatements nat
  | OrWithoutAst
  | NoPredicates
  | EmptyRegex

fun replace_pair :: "char \<Rightarrow> char \<Rightarrow> char \<Rightarrow> string \<Rightarrow> string" where
  "replace_pair a b r (x # y # s) = (if x = a \<and> y = b then r # replace_pair a b r s else x # replace_pair a b r (y # s))"
| "replace_pair a b r s = s"

abbreviation backslash :: char where
  "backslash \<equiv> CHR 0x5C"

definition strip_sql_string_quotes :: "string \<Rightarrow> string" where
  "strip_sql_string_quotes v =
     (let raw = strip v
      in if 2 \<le> length raw \<and> hd raw = last raw \<and> hd raw \<in> {single_quote, double_quote}
         then (let inner = butlast (tl raw)
               in if hd raw = single_quote then replace_pair single_quote single_quote single_quote inner
                  else replace_pair backslash backslash backslash (replace_pair backslash double_quote double_quote inner))
         else raw)"

definition rx_integer :: rx where
  "rx_integer = Seq (opt_rx (lit ''-'')) rx_digits"

definition rx_decimal :: rx where
  "rx_decimal = seq [opt_rx (lit ''-''), rx_digits, lit ''.'', rx_digits]"

definition ends_with :: "string \<Rightarrow> string \<Rightarrow> bool" where
  "ends_with w s \<longleftrightarrow> starts_with (rev w) (rev s)"

definition parse_sql_literal :: "(string \<Rightarrow> 'f) \<Rightarrow> string \<Rightarrow> gx_error + 'f literal" where
  "parse_sql_literal to_float v =
     (let raw = strip v
      in if raw = [] then Inl EmptyLiteral
         else if fullmatch (one_of [lit_ci ''true'', lit_ci ''false'']) raw \<noteq> None then Inr (LBool (lower raw = ''true''))
         else if fullmatch rx_integer raw \<noteq> None then Inr (LInt (case int_of_text raw of Some i \<Rightarrow> i | None \<Rightarrow> 0))
         else if fullmatch rx_decimal raw \<noteq> None then Inr (LFloat (to_float raw))
         else if upper raw = ''NULL'' then Inr LNone
         else if starts_with [single_quote] raw \<and> ends_with [single_quote] raw \<or>
             starts_with [double_quote] raw \<and> ends_with [double_quote] raw
         then Inr (LText (strip_sql_string_quotes raw))
         else Inl (UnsupportedLiteral raw))"

text \<open>
  The loop that \<open>_parse_in_list\<close> and \<open>_split_function_arguments\<close> share: items at commas outside quotes and
  brackets, with the state \<open>in_quote\<close>, \<open>depth\<close> and \<open>buf\<close>.
\<close>

definition add_item :: "string \<Rightarrow> string list \<Rightarrow> string list" where
  "add_item buf items = (if strip buf = [] then items else strip buf # items)"

fun split_items :: "char option \<Rightarrow> int \<Rightarrow> string \<Rightarrow> string \<Rightarrow> string list" where
  "split_items q depth buf [] = add_item buf []"
| "split_items (Some q) depth buf (c # cs) =
     (if c = q
      then (if q = single_quote \<and> next_is single_quote cs
            then split_items (Some q) depth (buf @ [c, single_quote]) (drop 1 cs)
            else split_items None depth (buf @ [c]) cs)
      else split_items (Some q) depth (buf @ [c]) cs)"
| "split_items None depth buf (c # cs) =
     (if c \<in> {single_quote, double_quote} then split_items (Some c) depth (buf @ [c]) cs
      else if c = CHR ''('' then split_items None (depth + 1) (buf @ [c]) cs
      else if c = CHR '')'' then split_items None (depth - 1) (buf @ [c]) cs
      else if c = CHR '','' \<and> depth = 0 then add_item buf (split_items None depth [] cs)
      else split_items None depth (buf @ [c]) cs)"

definition parse_in_list :: "(string \<Rightarrow> 'f) \<Rightarrow> string \<Rightarrow> gx_error + 'f literal list" where
  "parse_in_list to_float v =
     (let raw = strip v
      in if \<not> (starts_with ''('' raw \<and> ends_with '')'' raw) then Inl (ListNotParenthesized raw)
         else let inner = strip (butlast (tl raw))
              in if inner = [] then Inl ListEmpty
                 else let items = split_items None 0 [] inner
                      in if list_ex (\<lambda>i. CHR ''('' \<in> set i \<and> \<not> starts_with [single_quote] (strip i) \<and>
                              \<not> starts_with [double_quote] (strip i)) items
                         then Inl (ListNotLiteral raw)
                         else try_bind (try_map (parse_sql_literal to_float) items) (\<lambda>parsed.
                                if list_ex (\<lambda>l. l = LNone) parsed then Inl ListHasNull else Inr parsed))"

definition rx_any :: rx where
  "rx_any = Class (\<lambda>c. c \<noteq> CHR 0x0A)"

definition rx_between_value :: rx where
  "rx_between_value =
     seq [Group 1 (Seq rx_any (Lazy rx_any)), rx_spaces1, lit_ci ''AND'', rx_spaces1, Group 2 (Seq rx_any (Lazy rx_any))]"

definition parse_bounds :: "(string \<Rightarrow> 'f) \<Rightarrow> string \<Rightarrow> string \<Rightarrow> gx_error + 'f literal \<times> 'f literal" where
  "parse_bounds to_float lo hi =
     try_bind (parse_sql_literal to_float lo) (\<lambda>l.
     try_bind (parse_sql_literal to_float hi) (\<lambda>h.
       if l = LNone \<or> h = LNone then Inl BetweenNull else Inr (l, h)))"

definition parse_between_bounds :: "(string \<Rightarrow> 'f) \<Rightarrow> string \<Rightarrow> gx_error + 'f literal \<times> 'f literal" where
  "parse_between_bounds to_float v =
     (case fullmatch rx_between_value (strip v) of
        None \<Rightarrow> Inl (BetweenShape (strip v))
      | Some gs \<Rightarrow> parse_bounds to_float (strip (text_of (map_of gs 1))) (strip (text_of (map_of gs 2))))"


section \<open>Field references\<close>

record field_ref =
  fr_column :: string
  fr_wrapper :: "string option"

definition rx_function_call :: rx where
  "rx_function_call = seq [Group 1 rx_ident, lit ''('', Group 2 (Star rx_any), lit '')'']"

definition rx_wrapper :: rx where
  "rx_wrapper =
     seq [Group 1 (one_of [lit_ci ''TRIM'', lit_ci ''LOWER'', lit_ci ''UPPER'']), lit ''('', Group 2 (plus rx_any), lit '')'']"

definition rx_typecast :: rx where
  "rx_typecast = Seq (Group 1 (Seq rx_any (Lazy rx_any))) (plus (Seq (lit ''::'') rx_ident))"

definition rx_dotted :: rx where
  "rx_dotted = Seq (plus (Seq rx_ident (lit ''.''))) rx_ident"

definition after_last_dot :: "string \<Rightarrow> string" where
  "after_last_dot s = rev (takeWhile (\<lambda>c. c \<noteq> CHR ''.'') (rev s))"

definition parse_field_ref :: "string \<Rightarrow> gx_error + field_ref" where
  "parse_field_ref field =
     (let raw = strip field
      in if raw = [] then Inl FieldMissing
         else let (wrapper, raw1) = (case fullmatch rx_wrapper raw of
                    None \<Rightarrow> (None, raw)
                  | Some gs \<Rightarrow> (Some (upper (text_of (map_of gs 1))), strip (text_of (map_of gs 2))));
                  raw2 = (case fullmatch rx_typecast raw1 of None \<Rightarrow> raw1 | Some gs \<Rightarrow> strip (text_of (map_of gs 1)))
              in if fullmatch rx_ident raw2 \<noteq> None then Inr \<lparr>fr_column = raw2, fr_wrapper = wrapper\<rparr>
                 else if fullmatch rx_dotted raw2 \<noteq> None
                 then Inr \<lparr>fr_column = after_last_dot raw2, fr_wrapper = wrapper\<rparr>
                 else Inl (FieldUnsupported field))"

definition parse_function_call :: "string \<Rightarrow> (string \<times> string list) option" where
  "parse_function_call field =
     map_option (\<lambda>gs. (upper (text_of (map_of gs 1)), split_items None 0 [] (strip (text_of (map_of gs 2)))))
       (fullmatch rx_function_call (strip field))"

definition normalize_regex_flags :: "string \<Rightarrow> gx_error + string" where
  "normalize_regex_flags flags =
     (let normalized = filter (\<lambda>c. \<not> is_space c) flags
      in if list_all (\<lambda>c. c \<in> set ''ims'') normalized then Inr normalized else Inl RegexFlags)"

definition compose_regex_pattern :: "string \<Rightarrow> string \<Rightarrow> string" where
  "compose_regex_pattern pattern flags = (if flags = [] then pattern else ''(?'' @ flags @ '')'' @ pattern)"

text \<open>\<open>text.split(c)\<close>, with empty parts.\<close>

definition split_at_char :: "char \<Rightarrow> string \<Rightarrow> string list" where
  "split_at_char c s = foldr (\<lambda>x acc. if x = c then [] # acc else (x # hd acc) # tl acc) s [[]]"

definition split_columns :: "string \<Rightarrow> string list" where
  "split_columns s = filter (\<lambda>c. c \<noteq> []) (map strip (split_at_char (CHR '','') s))"

definition parse_uniqueness_columns :: "string \<Rightarrow> string list option" where
  "parse_uniqueness_columns e =
     (case fullmatch rx_uniqueness_window (strip e) of
        None \<Rightarrow> None
      | Some gs \<Rightarrow> (let cs = split_columns (text_of (map_of gs 1)) in if cs = [] then None else Some cs))"


section \<open>Row conditions\<close>

text \<open>The serialised form of a condition: comparisons with one literal or a list, null tests, their combinations.\<close>

datatype 'f parameter = One "'f literal" | Many "'f literal list"

datatype 'f condition = Comparison string string "'f parameter" | Nullity string bool

datatype 'f serialized =
    Single "'f condition"
  | AndConditions "'f serialized list"
  | OrConditions "'f serialized list"
  | PassThrough string

text \<open>
  The values of the keyword arguments of an expectation. A JSON value that is passed on is a literal or a list of literals if it
  is one; \<open>GJson\<close> is any other.
\<close>

datatype 'f gx_value =
    GText string
  | GLit "'f literal"
  | GLits "'f literal list"
  | GTexts "string list"
  | GCond "'f serialized"
  | GJson "'f pyval"

fun literal_of_json :: "'f pyval \<Rightarrow> 'f literal option" where
  "literal_of_json PNone = Some LNone"
| "literal_of_json (PBool b) = Some (LBool b)"
| "literal_of_json (PInt i) = Some (LInt i)"
| "literal_of_json (PObj x) = Some (LFloat x)"
| "literal_of_json (PStr s) = Some (LText s)"
| "literal_of_json _ = None"

definition json_list :: "'f pyval list \<Rightarrow> 'f gx_value" where
  "json_list vs = (case those (map literal_of_json vs) of Some ls \<Rightarrow> GLits ls | None \<Rightarrow> GJson (PList vs))"

definition json_value :: "'f pyval \<Rightarrow> 'f gx_value" where
  "json_value v =
     (case v of PList vs \<Rightarrow> json_list vs | _ \<Rightarrow> (case literal_of_json v of Some l \<Rightarrow> GLit l | None \<Rightarrow> GJson v))"

record 'f gx_expectation =
  ex_type :: string
  ex_kwargs :: "(string \<times> 'f gx_value) list"
  ex_meta :: "(string \<times> string) list"

definition requires_pass_through_leaf :: "ast_predicate \<Rightarrow> bool" where
  "requires_pass_through_leaf p \<longleftrightarrow>
     fullmatch rx_wrapper (strip (ap_field p)) \<noteq> None \<or>
     upper (strip (ap_operator p)) \<in> {''LIKE'', ''NOT LIKE'', ''RLIKE'', ''NOT RLIKE''}"

definition requires_pass_through :: "ast \<Rightarrow> bool" where
  "requires_pass_through n \<longleftrightarrow> list_ex requires_pass_through_leaf (leaves n)"

definition literal_of_value :: "(string \<Rightarrow> 'f) \<Rightarrow> ast_value \<Rightarrow> gx_error + 'f literal" where
  "literal_of_value to_float v =
     (case v of TextValue t \<Rightarrow> parse_sql_literal to_float (strip t) | _ \<Rightarrow> Inl ValueUnsupported)"

definition list_of_value :: "(string \<Rightarrow> 'f) \<Rightarrow> ast_value \<Rightarrow> gx_error + 'f literal list" where
  "list_of_value to_float v =
     (case v of
        ListValue ls \<Rightarrow> try_map (\<lambda>l. parse_sql_literal to_float (strip (fst l))) ls
      | TextValue t \<Rightarrow> parse_in_list to_float t
      | _ \<Rightarrow> Inl ValueUnsupported)"

definition bounds_of_value :: "(string \<Rightarrow> 'f) \<Rightarrow> ast_value \<Rightarrow> gx_error + 'f literal \<times> 'f literal" where
  "bounds_of_value to_float v =
     (case v of
        RangeValue lo hi \<Rightarrow> parse_bounds to_float (strip (fst lo)) (strip (fst hi))
      | TextValue t \<Rightarrow> parse_between_bounds to_float t
      | _ \<Rightarrow> Inl ValueUnsupported)"

definition compared :: "string \<Rightarrow> string \<Rightarrow> 'f literal \<Rightarrow> 'f condition" where
  "compared column op l = Comparison column op (One l)"

text \<open>\<open>str(value or "").strip()\<close> of the value of a predicate occurs in messages only and is left out of them.\<close>

definition predicate_to_blocks :: "(string \<Rightarrow> 'f) \<Rightarrow> ast_predicate \<Rightarrow> gx_error + 'f condition list list" where
  "predicate_to_blocks to_float p =
     (let op = upper (strip (ap_operator p)); v = ap_value p
      in try_bind (parse_field_ref (ap_field p)) (\<lambda>field.
         let column = fr_column field
         in if fr_wrapper field \<noteq> None then Inl (WrappedField (ap_field p))
            else if op = ''IS NOT NULL'' then Inr [[Nullity column False]]
            else if op = ''IS NULL'' then Inr [[Nullity column True]]
            else if op = ''IS TRUE'' then Inr [[compared column ''=='' (LBool True)]]
            else if lower (strip (ap_valueType p)) = ''expression'' then Inl (ExpressionValue (ap_field p))
            else if op \<in> {''='', ''!=''}
            then try_bind (literal_of_value to_float v) (\<lambda>l.
                   Inr [[compared column (if op = ''='' then ''=='' else ''!='') l]])
            else if op \<in> {''>'', ''>='', ''<'', ''<=''}
            then try_bind (literal_of_value to_float v) (\<lambda>l.
                   if is_numeric l then Inr [[compared column op l]] else Inl (NumericExpected (ap_field p)))
            else if op \<in> {''BETWEEN'', ''NOT BETWEEN''}
            then try_bind (bounds_of_value to_float v) (\<lambda>(lo, hi).
                   Inr (if op = ''BETWEEN'' then [[compared column ''>='' lo, compared column ''<='' hi]]
                        else [[compared column ''<'' lo], [compared column ''>'' hi]]))
            else if op \<in> {''IN'', ''NOT IN''}
            then try_bind (list_of_value to_float v) (\<lambda>ls.
                   Inr [[Comparison column (if op = ''IN'' then ''IN'' else ''NOT_IN'') (Many ls)]])
            else Inl (OperatorUnsupported op)))"

text \<open>\<open>_ast_to_rendered_condition_blocks\<close>: a disjunction of conjunctions.\<close>

primrec condition_blocks :: "(string \<Rightarrow> 'f) \<Rightarrow> ast \<Rightarrow> gx_error + 'f condition list list" where
  "condition_blocks to_float (Pred p) = predicate_to_blocks to_float p"
| "condition_blocks to_float (AndNode l r) =
     try_bind (condition_blocks to_float l) (\<lambda>ls. try_bind (condition_blocks to_float r) (\<lambda>rs.
       Inr (concat (map (\<lambda>lb. map (\<lambda>rb. lb @ rb) rs) ls))))"
| "condition_blocks to_float (OrNode l r) =
     try_bind (condition_blocks to_float l) (\<lambda>ls. try_bind (condition_blocks to_float r) (\<lambda>rs. Inr (ls @ rs)))"
| "condition_blocks to_float (NotNode n) = Inl UnaryUnsupported"

definition combine_block :: "'f condition list \<Rightarrow> 'f serialized" where
  "combine_block block =
     (case block of [c] \<Rightarrow> Single c | _ \<Rightarrow> AndConditions (map Single block))"

definition combine_blocks :: "'f condition list list \<Rightarrow> 'f serialized" where
  "combine_blocks blocks =
     (case map combine_block blocks of [b] \<Rightarrow> b | bs \<Rightarrow> OrConditions bs)"

text \<open>
  The artifact; for a pass-through condition the blocks and their counts are missing. The source text, which repeats the
  blocks in Python syntax, is not modelled.
\<close>

record 'f row_condition =
  rc_blocks :: "'f condition list list option"
  rc_block_count :: "nat option"
  rc_statement_count :: "nat option"
  rc_serialized :: "'f serialized"
  rc_structured :: bool

definition build_gx_row_condition ::
  "(string \<Rightarrow> 'f) \<Rightarrow> nat \<Rightarrow> nat \<Rightarrow> compiled_model \<Rightarrow> gx_error + 'f row_condition" where
  "build_gx_row_condition to_float max_blocks max_statements m =
     (case cm_ast m of
        None \<Rightarrow> Inl NoAst
      | Some tree \<Rightarrow>
          (if requires_pass_through tree
           then (let source = strip (if cm_normalized m = [] then cm_source m else cm_normalized m)
                 in if source = [] then Inl NoNormalizedExpression
                    else Inr \<lparr>rc_blocks = None, rc_block_count = None, rc_statement_count = None,
                      rc_serialized = PassThrough source, rc_structured = False\<rparr>)
           else try_bind (condition_blocks to_float tree) (\<lambda>blocks.
             let n = length blocks; k = sum_list (map length blocks)
             in if blocks = [] then Inl NoBlocks
                else if max_blocks < n then Inl (TooManyBlocks n)
                else if max_statements < k then Inl (TooManyStatements k)
                else Inr \<lparr>rc_blocks = Some blocks, rc_block_count = Some n, rc_statement_count = Some k,
                  rc_serialized = combine_blocks blocks, rc_structured = True\<rparr>)))"

definition row_condition_types :: "string list" where
  "row_condition_types =
     [''expect_column_values_to_not_be_null'', ''expect_column_values_to_be_null'', ''expect_column_values_to_be_in_set'',
      ''expect_column_values_to_not_be_in_set'', ''expect_column_values_to_be_between'', ''expect_column_values_to_not_be_between'',
      ''expect_column_proportion_of_non_null_values_to_be_between'',
      ''expect_column_values_to_be_between_for_other_column_value'', ''expect_column_values_to_be_in_set_for_other_column_value'',
      ''expect_column_values_to_equal_other_column'', ''expect_column_values_to_equal_other_column_case_insensitive'',
      ''expect_column_pair_values_to_be_equal'', ''expect_column_values_to_be_within_numeric_tolerance_of_other_column'',
      ''expect_column_timestamps_to_be_within_tolerance_of_other_column'', ''expect_column_values_to_match_regex'',
      ''expect_column_values_to_not_match_regex'', ''expect_column_values_to_be_unique'', ''expect_compound_columns_to_be_unique'',
      ''expect_column_values_to_be_within_past_days'', ''expect_column_pair_values_to_have_max_lag_hours'',
      ''expect_column_values_to_not_be_in_future'', ''expect_table_row_count_to_be_between'']"

text \<open>The conjuncts of a condition; an empty conjunction counts as one condition.\<close>

definition conjuncts :: "'f serialized \<Rightarrow> 'f serialized list" where
  "conjuncts c = (case c of AndConditions cs \<Rightarrow> if cs = [] then [c] else cs | _ \<Rightarrow> [c])"

definition merge_row_conditions :: "'f serialized option \<Rightarrow> 'f serialized \<Rightarrow> 'f serialized" where
  "merge_row_conditions existing attached =
     (case existing of
        None \<Rightarrow> attached
      | Some c \<Rightarrow> (case conjuncts c @ conjuncts attached of [d] \<Rightarrow> d | ds \<Rightarrow> AndConditions ds))"

definition value_text :: "'f gx_value option \<Rightarrow> string" where
  "value_text v = (case v of Some (GText t) \<Rightarrow> t | _ \<Rightarrow> [])"

definition attach_to :: "'f serialized \<Rightarrow> 'f gx_expectation \<Rightarrow> 'f gx_expectation" where
  "attach_to c e =
     (let kwargs = ex_kwargs e;
          first = value_text (map_of kwargs ''column'');
          primary = strip (if first = [] then value_text (map_of kwargs ''column_A'') else first);
          put = (\<lambda>old. e\<lparr>ex_kwargs := AList.update ''row_condition'' (GCond (merge_row_conditions old c)) kwargs\<rparr>)
      in if ex_type e \<notin> set row_condition_types then e
         else if primary = [] \<and> ex_type e \<noteq> ''expect_table_row_count_to_be_between'' then e
         else case map_of kwargs ''row_condition'' of None \<Rightarrow> put None | Some (GCond d) \<Rightarrow> put (Some d) | Some _ \<Rightarrow> e)"

definition attach_gx_row_condition_to_expectations ::
  "(string \<Rightarrow> 'f) \<Rightarrow> 'f gx_expectation list \<Rightarrow> compiled_model option \<Rightarrow> gx_error + 'f gx_expectation list" where
  "attach_gx_row_condition_to_expectations to_float es model =
     (case model of
        None \<Rightarrow> Inr es
      | Some m \<Rightarrow> try_bind (build_gx_row_condition to_float 16 100 m) (\<lambda>a. Inr (map (attach_to (rc_serialized a)) es)))"


section \<open>Expectations of expressions\<close>

text \<open>Floats are read by one argument and have an exact value, the other; numbers are compared and cut to integers by value.\<close>

record 'f gx_env =
  ge_read :: "string \<Rightarrow> 'f"
  ge_value :: "'f \<Rightarrow> rat"

definition numeric_value :: "'f gx_env \<Rightarrow> 'f literal \<Rightarrow> rat option" where
  "numeric_value env l =
     (case l of LBool b \<Rightarrow> Some (if b then 1 else 0) | LInt i \<Rightarrow> Some (of_int i) | LFloat x \<Rightarrow> Some (ge_value env x) | _ \<Rightarrow> None)"

definition same_value :: "'f gx_env \<Rightarrow> 'f literal \<Rightarrow> 'f literal \<Rightarrow> bool" where
  "same_value env a b \<longleftrightarrow>
     (case (numeric_value env a, numeric_value env b) of
        (Some x, Some y) \<Rightarrow> x = y
      | (None, None) \<Rightarrow> a = b
      | _ \<Rightarrow> False)"

definition truncated :: "'f gx_env \<Rightarrow> 'f literal \<Rightarrow> int" where
  "truncated env l =
     (let x = (case numeric_value env l of Some v \<Rightarrow> v | None \<Rightarrow> 0) in if x < 0 then - \<lfloor>- x\<rfloor> else \<lfloor>x\<rfloor>)"

definition make_expectation :: "(string \<times> string) list \<Rightarrow> string \<Rightarrow> (string \<times> 'f gx_value) list \<Rightarrow> 'f gx_expectation" where
  "make_expectation meta ty kwargs = \<lparr>ex_type = ty, ex_kwargs = kwargs, ex_meta = meta\<rparr>"

definition without_spaces :: "string \<Rightarrow> string" where
  "without_spaces s = filter (\<lambda>c. \<not> is_space c) s"

definition is_now :: "string \<Rightarrow> bool" where
  "is_now s \<longleftrightarrow> upper (without_spaces s) \<in> {''NOW()'', ''CURRENT_DATE'', ''CURRENT_DATE()''}"

definition column_of :: "string \<Rightarrow> gx_error + string" where
  "column_of field = try_bind (parse_field_ref field) (\<lambda>r. Inr (fr_column r))"

definition numeric_literal :: "'f gx_env \<Rightarrow> string \<Rightarrow> gx_error + 'f literal" where
  "numeric_literal env v =
     try_bind (parse_sql_literal (ge_read env) v) (\<lambda>l. if is_numeric l then Inr l else Inl (NumericExpected v))"

definition regexp_matches :: "(string \<times> string) list \<Rightarrow> string \<Rightarrow> string list \<Rightarrow> gx_error + 'f gx_expectation" where
  "regexp_matches meta op args =
     (if op \<noteq> ''IS TRUE'' \<or> length args \<notin> {2, 3} then Inl (FunctionUnsupported ''REGEXP_MATCHES'')
      else try_bind (column_of (args ! 0)) (\<lambda>column.
           try_bind (if length args = 3 then normalize_regex_flags (strip_sql_string_quotes (args ! 2)) else Inr []) (\<lambda>flags.
             Inr (make_expectation meta ''expect_column_values_to_match_regex''
               [(''column'', GText column),
                (''regex'', GText (compose_regex_pattern (strip_sql_string_quotes (args ! 1)) flags))]))))"

definition datediff :: "'f gx_env \<Rightarrow> (string \<times> string) list \<Rightarrow> string \<Rightarrow> string \<Rightarrow> string list \<Rightarrow> gx_error + 'f gx_expectation" where
  "datediff env meta op v args =
     (if length args \<noteq> 2 \<or> \<not> is_now (args ! 0) \<or> op \<notin> {''<='', ''<''} then Inl (FunctionUnsupported ''DATEDIFF'')
      else try_bind (numeric_literal env v) (\<lambda>l.
           try_bind (column_of (args ! 1)) (\<lambda>column.
             Inr (make_expectation meta ''expect_column_values_to_be_within_past_days''
               [(''column'', GText column), (''max_days_old'', GLit (LInt (truncated env l))), (''anchor'', GText ''now'')]))))"

definition timestampdiff :: "'f gx_env \<Rightarrow> (string \<times> string) list \<Rightarrow> string \<Rightarrow> string \<Rightarrow> string list \<Rightarrow> gx_error + 'f gx_expectation" where
  "timestampdiff env meta op v args =
     (if length args \<noteq> 3 \<or> upper (without_spaces (strip_sql_string_quotes (args ! 0))) \<noteq> ''HOUR'' \<or> op \<notin> {''<='', ''<''}
      then Inl (FunctionUnsupported ''TIMESTAMPDIFF'')
      else try_bind (numeric_literal env v) (\<lambda>l.
           try_bind (column_of (args ! 2)) (\<lambda>column.
           try_bind (column_of (args ! 1)) (\<lambda>start.
             Inr (make_expectation meta ''expect_column_pair_values_to_have_max_lag_hours''
               [(''column'', GText column), (''start_column'', GText start), (''max_hours'', GLit (LInt (truncated env l)))])))))"

text \<open>\<open>_build_expression_based_expectation\<close>; a field reference that is refused raises from here as well.\<close>

definition build_expression_based_expectation ::
  "'f gx_env \<Rightarrow> (string \<times> string) list \<Rightarrow> flat_predicate \<Rightarrow> gx_error + 'f gx_expectation option" where
  "build_expression_based_expectation env meta p =
     (let field = strip (fp_field p); op = upper (strip (fp_operator p)); v = strip (fp_value p);
          call = parse_function_call field;
          some = (\<lambda>r. try_bind r (\<lambda>e. Inr (Some e)))
      in if map_option fst call = Some ''REGEXP_MATCHES'' then some (regexp_matches meta op (snd (the call)))
         else if map_option fst call = Some ''DATEDIFF'' then some (datediff env meta op v (snd (the call)))
         else if map_option fst call = Some ''TIMESTAMPDIFF'' then some (timestampdiff env meta op v (snd (the call)))
         else if op \<in> {''<='', ''<''} \<and> lower (strip (fp_valueType p)) = ''expression'' \<and> is_now v
         then some (try_bind (column_of field) (\<lambda>column.
                Inr (make_expectation meta ''expect_column_values_to_not_be_in_future'' [(''column'', GText column)])))
         else Inr None)"

text \<open>\<open>re.escape\<close> of one character, and \<open>LIKE\<close> patterns as regular expressions.\<close>

definition regex_escape :: "char \<Rightarrow> string" where
  "regex_escape c =
     (if c \<in> set ''()[]{}?*+-|^$.&~# '' \<or> c = backslash \<or> (of_char c :: nat) \<in> {9, 10, 11, 12, 13} then [backslash, c] else [c])"

definition sql_like_to_regex :: "string \<Rightarrow> string" where
  "sql_like_to_regex pattern =
     ''^'' @ concat (map (\<lambda>c. if c = CHR ''%'' then ''.*'' else if c = CHR ''_'' then ''.'' else regex_escape c)
       (strip_sql_string_quotes pattern)) @ ''$''"


section \<open>Conditional allow lists\<close>

text \<open>\<open>_flatten_ast_branches\<close> for the two operators.\<close>

fun or_branches :: "ast \<Rightarrow> ast list" where
  "or_branches (OrNode l r) = or_branches l @ or_branches r"
| "or_branches n = [n]"

fun and_branches :: "ast \<Rightarrow> ast list" where
  "and_branches (AndNode l r) = and_branches l @ and_branches r"
| "and_branches n = [n]"

text \<open>The operator and the field text of a node; inner nodes have no field.\<close>

definition node_operator :: "ast \<Rightarrow> string" where
  "node_operator n =
     (case n of Pred p \<Rightarrow> upper (strip (ap_operator p)) | AndNode _ _ \<Rightarrow> ''AND'' | OrNode _ _ \<Rightarrow> ''OR'' | NotNode _ \<Rightarrow> ''NOT'')"

definition node_field :: "ast \<Rightarrow> string" where
  "node_field n = (case n of Pred p \<Rightarrow> ap_field p | _ \<Rightarrow> [])"

definition node_value :: "ast \<Rightarrow> ast_value" where
  "node_value n = (case n of Pred p \<Rightarrow> ap_value p | _ \<Rightarrow> NoValue)"

text \<open>
  The loop over the two conjuncts of a branch: the predicates found for the context and the list, or \<^const>\<open>None\<close> when the
  function gives up.
\<close>

fun pick_conjuncts :: "ast option \<Rightarrow> ast option \<Rightarrow> ast list \<Rightarrow> gx_error + (ast option \<times> ast option) option" where
  "pick_conjuncts ctx alw [] = Inr (Some (ctx, alw))"
| "pick_conjuncts ctx alw (n # ns) =
     try_bind (parse_field_ref (node_field n)) (\<lambda>field.
       if node_operator n = ''='' \<and> ctx = None
       then (if fr_wrapper field \<noteq> None then Inr None else pick_conjuncts (Some n) alw ns)
       else if node_operator n = ''IN'' \<and> alw = None
       then (if fr_wrapper field \<notin> {None, Some ''LOWER''} then Inr None else pick_conjuncts ctx (Some n) ns)
       else pick_conjuncts ctx alw ns)"

text \<open>
  The variables of the loop over the branches: context column, attribute column, case sensitivity and the
  allowed values by context value. \<open>same_as\<close> is the check of one of them against the earlier branches.
\<close>

record 'f allow_state =
  al_context :: "string option"
  al_attribute :: "string option"
  al_case :: "bool option"
  al_groups :: "('f literal \<times> 'f literal list) list"

definition same_as :: "'a option \<Rightarrow> 'a \<Rightarrow> bool" where
  "same_as old new \<longleftrightarrow> (case old of None \<Rightarrow> True | Some o' \<Rightarrow> o' = new)"

fun extend_group :: "'f gx_env \<Rightarrow> 'f literal \<Rightarrow> 'f literal list \<Rightarrow> ('f literal \<times> 'f literal list) list
  \<Rightarrow> ('f literal \<times> 'f literal list) list" where
  "extend_group env k vs [] = [(k, vs)]"
| "extend_group env k vs ((k', ws) # gs) =
     (if same_value env k' k then (k', ws @ vs) # gs else (k', ws) # extend_group env k vs gs)"

definition allow_branch :: "'f gx_env \<Rightarrow> 'f allow_state \<Rightarrow> ast \<Rightarrow> gx_error + 'f allow_state option" where
  "allow_branch env st branch =
     (let conjunct_nodes = and_branches branch
      in if length conjunct_nodes \<noteq> 2 then Inr None
         else try_bind (pick_conjuncts None None conjunct_nodes) (\<lambda>picked.
           case picked of
             Some (Some ctx, Some alw) \<Rightarrow>
               try_bind (parse_field_ref (node_field ctx)) (\<lambda>cf.
               try_bind (parse_field_ref (node_field alw)) (\<lambda>af.
                 if fr_wrapper cf \<noteq> None \<or> fr_column af = fr_column cf \<or> fr_wrapper af \<notin> {None, Some ''LOWER''} then Inr None
                 else try_bind (literal_of_value (ge_read env) (node_value ctx)) (\<lambda>k.
                      try_bind (list_of_value (ge_read env) (node_value alw)) (\<lambda>vs.
                        if same_as (al_context st) (fr_column cf) \<and> same_as (al_attribute st) (fr_column af) \<and>
                           same_as (al_case st) (fr_wrapper af = None)
                        then Inr (Some \<lparr>al_context = Some (fr_column cf), al_attribute = Some (fr_column af),
                               al_case = Some (fr_wrapper af = None), al_groups = extend_group env k vs (al_groups st)\<rparr>)
                        else Inr None))))
           | _ \<Rightarrow> Inr None))"

fun allow_branches :: "'f gx_env \<Rightarrow> 'f allow_state \<Rightarrow> ast list \<Rightarrow> gx_error + 'f allow_state option" where
  "allow_branches env st [] = Inr (Some st)"
| "allow_branches env st (b # bs) =
     try_bind (allow_branch env st b) (\<lambda>r. case r of None \<Rightarrow> Inr None | Some st' \<Rightarrow> allow_branches env st' bs)"

definition merge_literals :: "'f gx_env \<Rightarrow> 'f literal list \<Rightarrow> 'f literal list" where
  "merge_literals env vs = foldl (\<lambda>acc v. if list_ex (\<lambda>w. same_value env w v) acc then acc else acc @ [v]) [] vs"

definition build_conditional_allowlist ::
  "'f gx_env \<Rightarrow> (string \<times> string) list \<Rightarrow> compiled_model \<Rightarrow> gx_error + 'f gx_expectation list option" where
  "build_conditional_allowlist env meta m =
     (case cm_ast m of
        None \<Rightarrow> Inr None
      | Some tree \<Rightarrow>
          (let branches = or_branches tree
           in if length branches < 2 then Inr None
              else try_bind (allow_branches env \<lparr>al_context = None, al_attribute = None, al_case = None, al_groups = []\<rparr> branches) (\<lambda>r.
                case r of
                  Some st \<Rightarrow>
                    (case (al_context st, al_attribute st, al_case st) of
                       (Some c, Some a, Some cs) \<Rightarrow>
                         Inr (Some (
                           make_expectation meta ''expect_column_values_to_not_be_null'' [(''column'', GText c)] #
                           make_expectation meta ''expect_column_values_to_be_in_set''
                             [(''column'', GText c), (''value_set'', GLits (map fst (al_groups st)))] #
                           map (\<lambda>(k, vs). make_expectation meta ''expect_column_values_to_be_in_set_for_other_column_value''
                             [(''column'', GText a), (''other_column'', GText c), (''other_value'', GLit k),
                              (''value_set'', GLits (merge_literals env vs)), (''case_sensitive'', GLit (LBool cs))])
                             (al_groups st)))
                     | _ \<Rightarrow> Inr None)
                | None \<Rightarrow> Inr None)))"


section \<open>Expectations of a rule\<close>

definition gx_meta :: "string option \<Rightarrow> string option \<Rightarrow> (string \<times> string) list" where
  "gx_meta rule_id artifact_key =
     (if truthy rule_id then [(''dq.rule_id'', text_of rule_id)] else []) @
     (if truthy artifact_key then [(''dq.artifact_key'', text_of artifact_key)] else [])"

text \<open>The regular expression in the code is the raw text \<open>r"^\\s*$"\<close>, with two backslashes.\<close>

definition blank_regex :: string where
  "blank_regex = ''^'' @ [backslash, backslash] @ ''s*$''"

definition expectation_for ::
  "'f gx_env \<Rightarrow> (string \<times> string) list \<Rightarrow> flat_predicate \<Rightarrow> gx_error + 'f gx_expectation" where
  "expectation_for env meta p =
     try_bind (build_expression_based_expectation env meta p) (\<lambda>special.
       case special of Some e \<Rightarrow> Inr e
       | None \<Rightarrow>
         (let op = upper (strip (fp_operator p)); v = strip (fp_value p); ty = lower (strip (fp_valueType p));
              make = make_expectation meta; read = ge_read env
          in try_bind (parse_field_ref (fp_field p)) (\<lambda>field.
             let c = (''column'', GText (fr_column field));
                 regular = (
                   if op = ''IS NOT NULL'' then Inr (make ''expect_column_values_to_not_be_null'' [c])
                   else if op = ''IS NULL'' then Inr (make ''expect_column_values_to_be_null'' [c])
                   else if op = ''IS TRUE''
                   then Inr (make ''expect_column_values_to_be_in_set'' [c, (''value_set'', GLits [LBool True])])
                   else if ty = ''expression'' then Inl (ExpressionValue (fp_field p))
                   else if op \<in> {''='', ''!=''}
                   then try_bind (parse_sql_literal read v) (\<lambda>l.
                     Inr (make (if op = ''='' then ''expect_column_values_to_be_in_set'' else ''expect_column_values_to_not_be_in_set'')
                       [c, (''value_set'', GLits [l])]))
                   else if op \<in> {''>'', ''>='', ''<'', ''<=''}
                   then try_bind (numeric_literal env v) (\<lambda>l.
                     Inr (make ''expect_column_values_to_be_between''
                       (if op \<in> {''>'', ''>=''}
                        then [c, (''min_value'', GLit l)] @ (if op = ''>'' then [(''strict_min'', GLit (LBool True))] else [])
                        else [c, (''max_value'', GLit l)] @ (if op = ''<'' then [(''strict_max'', GLit (LBool True))] else []))))
                   else if op \<in> {''BETWEEN'', ''NOT BETWEEN''}
                   then try_bind (parse_between_bounds read v) (\<lambda>(lo, hi).
                     Inr (make (if op = ''BETWEEN'' then ''expect_column_values_to_be_between'' else ''expect_column_values_to_not_be_between'')
                       [c, (''min_value'', GLit lo), (''max_value'', GLit hi)]))
                   else if op \<in> {''IN'', ''NOT IN''}
                   then try_bind (parse_in_list read v) (\<lambda>ls.
                     Inr (make (if op = ''IN'' then ''expect_column_values_to_be_in_set'' else ''expect_column_values_to_not_be_in_set'')
                       [c, (''value_set'', GLits ls)]))
                   else if op \<in> {''LIKE'', ''NOT LIKE''}
                   then Inr (make (if op = ''LIKE'' then ''expect_column_values_to_match_regex'' else ''expect_column_values_to_not_match_regex'')
                     [c, (''regex'', GText (sql_like_to_regex v))])
                   else if op \<in> {''RLIKE'', ''NOT RLIKE''}
                   then (let regex = strip_sql_string_quotes v
                         in if regex = [] then Inl EmptyRegex
                            else Inr (make (if op = ''RLIKE'' then ''expect_column_values_to_match_regex''
                                    else ''expect_column_values_to_not_match_regex'') [c, (''regex'', GText regex)]))
                   else Inl (OperatorUnsupported op))
             in if fr_wrapper field = Some ''TRIM'' \<and> op \<in> {''='', ''!=''} \<and> ty = ''string''
                then try_bind (parse_sql_literal read v) (\<lambda>l.
                       if l = LText []
                       then Inr (make (if op = ''!='' then ''expect_column_values_to_not_match_regex''
                              else ''expect_column_values_to_match_regex'') [c, (''regex'', GText blank_regex)])
                       else regular)
                else regular)))"

definition build_gx_expectations_from_intermediate_model ::
  "'f gx_env \<Rightarrow> string option \<Rightarrow> string option \<Rightarrow> compiled_model \<Rightarrow> gx_error + 'f gx_expectation list" where
  "build_gx_expectations_from_intermediate_model env rule_id artifact_key m =
     (let meta = gx_meta rule_id artifact_key;
          normalized = strip (if cm_normalized m = [] then cm_source m else cm_normalized m)
      in case parse_uniqueness_columns normalized of
           Some cs \<Rightarrow>
             Inr [if length cs = 1 then make_expectation meta ''expect_column_values_to_be_unique'' [(''column'', GText (hd cs))]
                  else make_expectation meta ''expect_compound_columns_to_be_unique''
                    [(''column'', GText (hd cs)), (''columns'', GTexts cs)]]
         | None \<Rightarrow>
             try_bind (build_conditional_allowlist env meta m) (\<lambda>allow.
               case allow of Some es \<Rightarrow> Inr es
               | None \<Rightarrow>
                 (let ops = map upper (cm_logicalOperators m)
                  in if ''NOT'' \<in> set ops then Inl UnaryUnsupported
                     else if ''OR'' \<in> set ops \<and> cm_ast m = None then Inl OrWithoutAst
                     else if cm_predicates m = [] then Inl NoPredicates
                     else try_bind (try_map (expectation_for env meta) (cm_predicates m)) (\<lambda>es.
                       if ''OR'' \<in> set ops
                       then attach_gx_row_condition_to_expectations (ge_read env) es (Some m) else Inr es))))"

end
