(* ===== verification/Engine_Evaluation.thy ===== *)
theory Engine_Evaluation
  imports Gx_Expectations
begin

text \<open>
  Evaluation of expectations by the engine: \<^verbatim>\<open>evaluate_expectations_spark\<close> of \<^verbatim>\<open>src/dq-engine/gx_dispatch_expectations.py\<close>.
  A data frame is the list of its rows. The column expressions the code builds for Spark are a datatype; what Spark does with them is
  an argument: which rows a condition keeps (\<open>en_keeps\<close>), a scoping by a row condition (\<open>en_where\<close>), the
  grouping key of a row (\<open>en_group\<close>), the native runner of the installed library, and the conversions of Python values.
\<close>


section \<open>Values and column expressions\<close>

datatype engine_error = InvalidExpectation string string | UnsupportedExpectation string | LibraryError

datatype 'f col =
    Col string
  | Lit "'f gx_value"
  | AsText "'f col"
  | Lowered "'f col"
  | Timestamp "'f col"
  | UnixTime "'f col"
  | CurrentTimestamp
  | Abs "'f col"
  | Minus "'f col" "'f col"
  | Divide "'f col" "'f col"
  | IsNull "'f col"
  | IsNotNull "'f col"
  | Compare string "'f col" "'f col"
  | IsIn "'f col" "'f gx_value list"
  | Rlike "'f col" string
  | Conj "'f col" "'f col"
  | Disj "'f col" "'f col"
  | Negated "'f col"

text \<open>A row as nested dictionaries; \<open>Cell\<close> is a value by its text.\<close>

datatype row_value = Nothing | Cell string | Struct "(string \<times> row_value) list"

record ('f, 'r, 'k) engine =
  en_value :: "'f \<Rightarrow> rat"
  en_str :: "'f gx_value \<Rightarrow> string"
  en_int :: "'f gx_value \<Rightarrow> int option"
  en_float :: "'f gx_value \<Rightarrow> 'f option"
  en_of_int :: "int \<Rightarrow> 'f"
  en_ratio :: "nat \<Rightarrow> nat \<Rightarrow> 'f"
  en_keeps :: "'f col \<Rightarrow> 'r \<Rightarrow> bool"
  en_where :: "'f gx_value \<Rightarrow> 'r list \<Rightarrow> 'r list option"
  en_group :: "string list \<Rightarrow> 'r \<Rightarrow> 'k"
  en_row :: "'r \<Rightarrow> row_value"
  en_show :: "row_value \<Rightarrow> string"
  en_native :: "'f gx_expectation \<Rightarrow> 'r list \<Rightarrow> engine_error + bool"

text \<open>\<open>kwargs.get(key)\<close>: a missing argument and \<open>None\<close> are the same.\<close>

definition arg :: "'f gx_expectation \<Rightarrow> string \<Rightarrow> 'f gx_value option" where
  "arg e k = (case map_of (ex_kwargs e) k of Some (GLit LNone) \<Rightarrow> None | v \<Rightarrow> v)"

definition text_value :: "('f, 'r, 'k) engine \<Rightarrow> 'f gx_value \<Rightarrow> string" where
  "text_value en v = (case v of GText t \<Rightarrow> t | GLit (LText t) \<Rightarrow> t | _ \<Rightarrow> en_str en v)"

definition truthy_value :: "('f, 'r, 'k) engine \<Rightarrow> 'f gx_value \<Rightarrow> bool" where
  "truthy_value en v =
     (case v of
        GText t \<Rightarrow> t \<noteq> []
      | GLit l \<Rightarrow> (case l of LNone \<Rightarrow> False | LBool b \<Rightarrow> b | LInt i \<Rightarrow> i \<noteq> 0 | LFloat x \<Rightarrow> en_value en x \<noteq> 0 | LText t \<Rightarrow> t \<noteq> [])
      | GLits ls \<Rightarrow> ls \<noteq> []
      | GTexts ts \<Rightarrow> ts \<noteq> []
      | GCond _ \<Rightarrow> True
      | GJson v \<Rightarrow> py_true v)"

text \<open>\<open>str(kwargs.get(key) or other).strip()\<close> and \<open>bool(kwargs.get(key))\<close>.\<close>

definition text_or :: "('f, 'r, 'k) engine \<Rightarrow> string \<Rightarrow> 'f gx_expectation \<Rightarrow> string \<Rightarrow> string" where
  "text_or en other e k =
     strip (case arg e k of None \<Rightarrow> other | Some v \<Rightarrow> if truthy_value en v then text_value en v else other)"

abbreviation text_arg :: "('f, 'r, 'k) engine \<Rightarrow> 'f gx_expectation \<Rightarrow> string \<Rightarrow> string" where
  "text_arg en \<equiv> text_or en []"

definition flag_arg :: "('f, 'r, 'k) engine \<Rightarrow> 'f gx_expectation \<Rightarrow> string \<Rightarrow> bool" where
  "flag_arg en e k = (case arg e k of None \<Rightarrow> False | Some v \<Rightarrow> truthy_value en v)"

definition list_arg :: "'f gx_expectation \<Rightarrow> string \<Rightarrow> 'f gx_value list option" where
  "list_arg e k =
     (case arg e k of
        Some (GLits ls) \<Rightarrow> Some (map GLit ls)
      | Some (GTexts ts) \<Rightarrow> Some (map GText ts)
      | Some (GJson (PList vs)) \<Rightarrow> Some (map json_value vs)
      | _ \<Rightarrow> None)"

definition float_lit :: "('f, 'r, 'k) engine \<Rightarrow> 'f gx_value \<Rightarrow> engine_error + 'f col" where
  "float_lit en v = (case en_float en v of None \<Rightarrow> Inl LibraryError | Some x \<Rightarrow> Inr (Lit (GLit (LFloat x))))"

definition int_float :: "('f, 'r, 'k) engine \<Rightarrow> int \<Rightarrow> 'f col" where
  "int_float en i = Lit (GLit (LFloat (en_of_int en i)))"


section \<open>Row identifiers\<close>

text \<open>\<open>_resolve_row_value\<close> along the parts of a dotted name, and \<open>_build_row_identifier\<close>.\<close>

fun resolve_row_value :: "row_value \<Rightarrow> string list \<Rightarrow> row_value" where
  "resolve_row_value v [] = v"
| "resolve_row_value (Struct kvs) (p # ps) =
     resolve_row_value (case map_of kvs p of None \<Rightarrow> Nothing | Some v \<Rightarrow> v) ps"
| "resolve_row_value _ (p # ps) = Nothing"

definition row_text :: "('f, 'r, 'k) engine \<Rightarrow> row_value \<Rightarrow> string option" where
  "row_text en v = (case v of Nothing \<Rightarrow> None | Cell s \<Rightarrow> Some s | Struct _ \<Rightarrow> Some (en_show en v))"

fun identifier_parts :: "('f, 'r, 'k) engine \<Rightarrow> row_value \<Rightarrow> string list \<Rightarrow> string list option" where
  "identifier_parts en row [] = Some []"
| "identifier_parts en row (f # fs) =
     (case row_text en (resolve_row_value row (split_at_char (CHR ''.'') f)) of
        None \<Rightarrow> None
      | Some s \<Rightarrow> map_option ((#) (f @ ''='' @ s)) (identifier_parts en row fs))"

fun joined :: "string \<Rightarrow> string list \<Rightarrow> string" where
  "joined sep [] = []"
| "joined sep [x] = x"
| "joined sep (x # xs) = x @ sep @ joined sep xs"

definition build_row_identifier :: "('f, 'r, 'k) engine \<Rightarrow> 'r \<Rightarrow> string list \<Rightarrow> string option" where
  "build_row_identifier en row pk =
     (case en_row en row of
        Struct kvs \<Rightarrow> (if pk = [] then None else map_option (joined ''|'') (identifier_parts en (Struct kvs) pk))
      | _ \<Rightarrow> None)"

definition first_row_identifier :: "('f, 'r, 'k) engine \<Rightarrow> 'r list \<Rightarrow> 'f col option \<Rightarrow> string list \<Rightarrow> string option" where
  "first_row_identifier en rows cond pk =
     (case (pk, cond) of
        (_ # _, Some c) \<Rightarrow> (case filter (en_keeps en c) rows of [] \<Rightarrow> None | r # _ \<Rightarrow> build_row_identifier en r pk)
      | _ \<Rightarrow> None)"


section \<open>Conditions of one expectation\<close>

text \<open>What one expectation finds: a second column that does not exist, a condition for failing rows, or a verdict without one.\<close>

datatype 'f verdict = MissingColumn string | FailsOn "'f col" | Fails bool

definition invalid :: "'f gx_expectation \<Rightarrow> string \<Rightarrow> engine_error + 'a" where
  "invalid e what = Inl (InvalidExpectation (strip (ex_type e)) what)"

definition pair_equal_verdict ::
  "('f, 'r, 'k) engine \<Rightarrow> string list \<Rightarrow> string \<Rightarrow> 'f gx_expectation \<Rightarrow> engine_error + 'f verdict" where
  "pair_equal_verdict en columns column e =
     (let other = text_arg en e ''column_B'';
          left = text_or en column e ''column_A'';
          mode = lower (text_or en ''both_values_are_missing'' e ''ignore_row_if'');
          found = (\<lambda>evaluated. Inr (FailsOn (Conj evaluated
            (Disj (Disj (IsNull (Col left)) (IsNull (Col other))) (Compare ''!='' (Col left) (Col other))))))
      in if left = [] \<or> other = [] then invalid e ''column_A and column_B''
         else if left \<notin> set columns then Inr (MissingColumn left)
         else if other \<notin> set columns then Inr (MissingColumn other)
         else if mode = ''both_values_are_missing'' then found (Negated (Conj (IsNull (Col left)) (IsNull (Col other))))
         else if mode = ''either_value_is_missing'' then found (Conj (IsNotNull (Col left)) (IsNotNull (Col other)))
         else if mode = ''neither'' then found (Lit (GLit (LBool True)))
         else invalid e ''ignore_row_if'')"

text \<open>The bounds \<open>min_value\<close> and \<open>max_value\<close> with their strictness, as a condition on a column.\<close>

definition range_condition :: "('f, 'r, 'k) engine \<Rightarrow> string \<Rightarrow> 'f gx_expectation \<Rightarrow> 'f col" where
  "range_condition en column e =
     (let with_min = (case arg e ''min_value'' of
            None \<Rightarrow> Lit (GLit (LBool True))
          | Some v \<Rightarrow> Conj (Lit (GLit (LBool True)))
              (Compare (if flag_arg en e ''strict_min'' then ''>'' else ''>='') (Col column) (Lit v)))
      in case arg e ''max_value'' of
           None \<Rightarrow> with_min
         | Some v \<Rightarrow> Conj with_min (Compare (if flag_arg en e ''strict_max'' then ''<'' else ''<='') (Col column) (Lit v)))"

definition between_for_other_verdict ::
  "('f, 'r, 'k) engine \<Rightarrow> string list \<Rightarrow> string \<Rightarrow> 'f gx_expectation \<Rightarrow> engine_error + 'f verdict" where
  "between_for_other_verdict en columns column e =
     (let other = text_arg en e ''other_column''
      in if other = [] then invalid e ''other_column''
         else case arg e ''other_value'' of
           None \<Rightarrow> invalid e ''other_value''
         | Some v \<Rightarrow>
             (if arg e ''min_value'' = None \<and> arg e ''max_value'' = None then invalid e ''min_value or max_value''
              else if other \<notin> set columns then Inr (MissingColumn other)
              else Inr (FailsOn (Conj (Compare ''='' (Col other) (Lit v))
                (Disj (IsNull (Col column)) (Negated (range_condition en column e)))))))"

definition in_set_for_other_verdict ::
  "('f, 'r, 'k) engine \<Rightarrow> string list \<Rightarrow> string \<Rightarrow> 'f gx_expectation \<Rightarrow> engine_error + 'f verdict" where
  "in_set_for_other_verdict en columns column e =
     (let other = text_arg en e ''other_column'';
          case_sensitive = (case map_of (ex_kwargs e) ''case_sensitive'' of None \<Rightarrow> True | Some v \<Rightarrow> truthy_value en v)
      in if other = [] then invalid e ''other_column''
         else case arg e ''other_value'' of
           None \<Rightarrow> invalid e ''other_value''
         | Some v \<Rightarrow> (case list_arg e ''value_set'' of
             None \<Rightarrow> invalid e ''value_set list''
           | Some vs \<Rightarrow>
               (if other \<notin> set columns then Inr (MissingColumn other)
                else let allowed = (if case_sensitive then IsIn (Col column) vs
                       else IsIn (Lowered (AsText (Col column))) (map (GText \<circ> lower \<circ> text_value en) vs))
                     in Inr (FailsOn (Conj (Compare ''='' (Col other) (Lit v))
                       (Disj (IsNull (Col column)) (Negated allowed)))))))"

text \<open>The four comparisons with another column.\<close>

definition time_units :: "string list" where
  "time_units = [''minute'', ''minutes'', ''hour'', ''hours'', ''day'', ''days'']"

definition unit_seconds :: "string \<Rightarrow> int" where
  "unit_seconds u = (if starts_with ''minute'' u then 60 else if starts_with ''hour'' u then 3600 else 86400)"

definition other_column_verdict ::
  "('f, 'r, 'k) engine \<Rightarrow> string list \<Rightarrow> string \<Rightarrow> string \<Rightarrow> 'f gx_expectation \<Rightarrow> engine_error + 'f verdict" where
  "other_column_verdict en columns ty column e =
     (let other = text_arg en e ''other_column''; a = Col column; b = Col other;
          fails = (\<lambda>x y c. Inr (FailsOn (Disj (Disj (IsNull x) (IsNull y)) c)))
      in if other = [] then invalid e ''other_column''
         else if other \<notin> set columns then Inr (MissingColumn other)
         else if ty = ''expect_column_values_to_equal_other_column'' then fails a b (Compare ''!='' a b)
         else if ty = ''expect_column_values_to_equal_other_column_case_insensitive''
         then fails a b (Compare ''!='' (Lowered (AsText a)) (Lowered (AsText b)))
         else if ty = ''expect_column_values_to_be_within_numeric_tolerance_of_other_column''
         then (case arg e ''tolerance'' of
                 None \<Rightarrow> invalid e ''tolerance''
               | Some v \<Rightarrow> try_bind (float_lit en v) (\<lambda>l. fails a b (Compare ''>'' (Abs (Minus a b)) l)))
         else (let difference_unit = lower (text_arg en e ''difference_unit'') in
               case arg e ''max_difference'' of
                 None \<Rightarrow> invalid e ''max_difference''
               | Some v \<Rightarrow>
                   (if difference_unit \<notin> set time_units then invalid e ''difference_unit''
                    else try_bind (float_lit en v) (\<lambda>l.
                      fails (Timestamp a) (Timestamp b) (Compare ''>''
                        (Divide (Abs (Minus (UnixTime (Timestamp a)) (UnixTime (Timestamp b)))) (int_float en (unit_seconds difference_unit))) l)))))"

text \<open>The share of values that are present; both bounds are read and compared as floats.\<close>

definition bound_ok ::
  "('f, 'r, 'k) engine \<Rightarrow> (rat \<Rightarrow> rat \<Rightarrow> bool) \<Rightarrow> (rat \<Rightarrow> rat \<Rightarrow> bool) \<Rightarrow> bool \<Rightarrow> rat \<Rightarrow> 'f gx_value option \<Rightarrow> engine_error + bool" where
  "bound_ok en strict weak is_strict x v =
     (case v of
        None \<Rightarrow> Inr True
      | Some w \<Rightarrow> (case en_float en w of
          None \<Rightarrow> Inl LibraryError
        | Some f \<Rightarrow> Inr (if is_strict then strict x (en_value en f) else weak x (en_value en f))))"

definition proportion_verdict ::
  "('f, 'r, 'k) engine \<Rightarrow> 'r list \<Rightarrow> string \<Rightarrow> 'f gx_expectation \<Rightarrow> engine_error + 'f verdict" where
  "proportion_verdict en rows column e =
     (let present = length (filter (en_keeps en (IsNotNull (Col column))) rows);
          proportion = (if rows = [] then 0 else en_value en (en_ratio en present (length rows)))
      in try_bind (bound_ok en (>) (\<ge>) (flag_arg en e ''strict_min'') proportion (arg e ''min_value'')) (\<lambda>lower_ok.
         try_bind (bound_ok en (<) (\<le>) (flag_arg en e ''strict_max'') proportion (arg e ''max_value'')) (\<lambda>upper_ok.
           Inr (Fails (\<not> (lower_ok \<and> upper_ok))))))"

definition in_set_verdict :: "string \<Rightarrow> string \<Rightarrow> 'f gx_expectation \<Rightarrow> engine_error + 'f verdict" where
  "in_set_verdict ty column e =
     (case list_arg e ''value_set'' of
        None \<Rightarrow> invalid e ''value_set list''
      | Some vs \<Rightarrow> Inr (FailsOn (Conj (IsNotNull (Col column))
          (if ty = ''expect_column_values_to_be_in_set'' then Negated (IsIn (Col column) vs) else IsIn (Col column) vs))))"

definition between_verdict ::
  "('f, 'r, 'k) engine \<Rightarrow> string \<Rightarrow> string \<Rightarrow> 'f gx_expectation \<Rightarrow> engine_error + 'f verdict" where
  "between_verdict en ty column e =
     (if arg e ''min_value'' = None \<and> arg e ''max_value'' = None then invalid e ''min_value or max_value''
      else Inr (FailsOn (Conj (IsNotNull (Col column))
        (if ty = ''expect_column_values_to_be_between'' then Negated (range_condition en column e)
         else range_condition en column e))))"

definition regex_verdict ::
  "('f, 'r, 'k) engine \<Rightarrow> string \<Rightarrow> string \<Rightarrow> 'f gx_expectation \<Rightarrow> engine_error + 'f verdict" where
  "regex_verdict en ty column e =
     (let regex = (case arg e ''regex'' of None \<Rightarrow> [] | Some v \<Rightarrow> if truthy_value en v then text_value en v else []);
          hits = Rlike (AsText (Col column)) regex
      in if regex = [] then invalid e ''regex''
         else Inr (FailsOn (if ty = ''expect_column_values_to_match_regex'' then Disj (IsNull (Col column)) (Negated hits)
                            else Conj (IsNotNull (Col column)) hits)))"

definition past_days_verdict ::
  "('f, 'r, 'k) engine \<Rightarrow> string \<Rightarrow> 'f gx_expectation \<Rightarrow> engine_error + 'f verdict" where
  "past_days_verdict en column e =
     (case arg e ''max_days_old'' of
        None \<Rightarrow> invalid e ''max_days_old''
      | Some v \<Rightarrow>
          (if lower (text_or en ''now'' e ''anchor'') \<noteq> ''now'' then invalid e ''anchor''
           else try_bind (float_lit en v) (\<lambda>l. Inr (FailsOn (Disj (IsNull (Timestamp (Col column)))
             (Compare ''>'' (Divide (Minus (UnixTime CurrentTimestamp) (UnixTime (Timestamp (Col column)))) (int_float en 86400)) l))))))"

definition max_lag_verdict ::
  "('f, 'r, 'k) engine \<Rightarrow> string list \<Rightarrow> string \<Rightarrow> 'f gx_expectation \<Rightarrow> engine_error + 'f verdict" where
  "max_lag_verdict en columns column e =
     (let start = text_arg en e ''start_column'';
          start_ts = Timestamp (Col start); end_ts = Timestamp (Col column)
      in if start = [] then invalid e ''start_column''
         else case arg e ''max_hours'' of
           None \<Rightarrow> invalid e ''max_hours''
         | Some v \<Rightarrow>
             (if start \<notin> set columns then Inr (MissingColumn start)
              else try_bind (float_lit en v) (\<lambda>l. Inr (FailsOn (Disj (Disj (IsNull start_ts) (IsNull end_ts))
                (Compare ''>'' (Divide (Minus (UnixTime end_ts) (UnixTime start_ts)) (int_float en 3600)) l))))))"

definition not_future_verdict :: "string \<Rightarrow> 'f gx_expectation \<Rightarrow> engine_error + 'f verdict" where
  "not_future_verdict column e =
     (let reference = (case arg e ''reference_time'' of None \<Rightarrow> CurrentTimestamp | Some v \<Rightarrow> Timestamp (Lit v))
      in Inr (FailsOn (Disj (IsNull (Timestamp (Col column))) (Compare ''>'' (Timestamp (Col column)) reference))))"

text \<open>The branches over the type of an expectation on one column.\<close>

definition column_verdict ::
  "('f, 'r, 'k) engine \<Rightarrow> string list \<Rightarrow> 'r list \<Rightarrow> string \<Rightarrow> string \<Rightarrow> 'f gx_expectation \<Rightarrow> engine_error + 'f verdict" where
  "column_verdict en columns rows ty column e =
     (if ty = ''expect_column_values_to_not_be_null'' then Inr (FailsOn (IsNull (Col column)))
      else if ty = ''expect_column_values_to_be_unique''
      then Inr (Fails (\<not> distinct (map (en_group en [column]) rows)))
      else if ty = ''expect_column_pair_values_to_be_equal'' then pair_equal_verdict en columns column e
      else if ty = ''expect_column_values_to_be_between_for_other_column_value'' then between_for_other_verdict en columns column e
      else if ty = ''expect_column_values_to_be_in_set_for_other_column_value'' then in_set_for_other_verdict en columns column e
      else if ty \<in> {''expect_column_values_to_equal_other_column'', ''expect_column_values_to_equal_other_column_case_insensitive'',
          ''expect_column_values_to_be_within_numeric_tolerance_of_other_column'',
          ''expect_column_timestamps_to_be_within_tolerance_of_other_column''}
      then other_column_verdict en columns ty column e
      else if ty = ''expect_column_values_to_be_null'' then Inr (FailsOn (IsNotNull (Col column)))
      else if ty = ''expect_column_proportion_of_non_null_values_to_be_between'' then proportion_verdict en rows column e
      else if ty \<in> {''expect_column_values_to_be_in_set'', ''expect_column_values_to_not_be_in_set''} then in_set_verdict ty column e
      else if ty \<in> {''expect_column_values_to_be_between'', ''expect_column_values_to_not_be_between''} then between_verdict en ty column e
      else if ty \<in> {''expect_column_values_to_match_regex'', ''expect_column_values_to_not_match_regex''} then regex_verdict en ty column e
      else if ty = ''expect_column_values_to_be_within_past_days'' then past_days_verdict en column e
      else if ty = ''expect_column_pair_values_to_have_max_lag_hours'' then max_lag_verdict en columns column e
      else if ty = ''expect_column_values_to_not_be_in_future'' then not_future_verdict column e
      else Inl (UnsupportedExpectation ty))"



section \<open>The loop over the expectations\<close>

text \<open>The figures of native results and of row counts in diagnostics are left out of \<open>eval_diagnostic\<close>.\<close>

record eval_diagnostic =
  ed_reason :: string
  ed_index :: nat
  ed_type :: string
  ed_columns :: "string list"
  ed_message :: string
  ed_row :: "string option"

record rule_result =
  rr_index :: nat
  rr_passed :: bool
  rr_checked :: nat
  rr_failed :: "nat option"
  rr_succeeded :: "int option"
  rr_filtered :: nat

text \<open>The variables of the loop; \<open>es_counts\<close> is \<open>computed_row_counts\<close>, keyed by \<open>id(frame)\<close>.\<close>

record eval_state =
  es_diagnostics :: "eval_diagnostic list"
  es_results :: "rule_result list"
  es_passed :: nat
  es_failed :: nat
  es_counts :: "(nat \<times> nat) list"

definition get_row_count :: "nat \<Rightarrow> 'r list \<Rightarrow> eval_state \<Rightarrow> nat \<times> eval_state" where
  "get_row_count frame rows st =
     (case map_of (es_counts st) frame of
        Some n \<Rightarrow> (n, st)
      | None \<Rightarrow> (length rows, st\<lparr>es_counts := (frame, length rows) # es_counts st\<rparr>))"

definition diag :: "string \<Rightarrow> nat \<Rightarrow> string \<Rightarrow> string list \<Rightarrow> string \<Rightarrow> string option \<Rightarrow> eval_diagnostic" where
  "diag reason idx ty cs message row =
     \<lparr>ed_reason = reason, ed_index = idx, ed_type = ty, ed_columns = cs, ed_message = message, ed_row = row\<rparr>"

definition count_pass :: "eval_state \<Rightarrow> eval_state" where
  "count_pass st = st\<lparr>es_passed := es_passed st + 1\<rparr>"

definition count_failure :: "eval_diagnostic list \<Rightarrow> eval_state \<Rightarrow> eval_state" where
  "count_failure ds st = st\<lparr>es_failed := es_failed st + 1, es_diagnostics := es_diagnostics st @ ds\<rparr>"

definition tally_check :: "bool \<Rightarrow> eval_diagnostic \<Rightarrow> eval_state \<Rightarrow> eval_state" where
  "tally_check ok d st = (if ok then count_pass st else count_failure [d] st)"

definition column_missing :: "nat \<Rightarrow> string \<Rightarrow> string \<Rightarrow> string option \<Rightarrow> eval_diagnostic" where
  "column_missing idx ty c row = diag ''missing_column'' idx ty [c] (''Column '' @ [single_quote] @ c @ [single_quote] @ '' not found'') row"

definition columns_missing :: "nat \<Rightarrow> string \<Rightarrow> string list \<Rightarrow> eval_diagnostic" where
  "columns_missing idx ty cs = diag ''missing_column'' idx ty cs (''Column(s) missing: '' @ joined '', '' cs) None"

definition build_rule_result :: "nat \<Rightarrow> bool \<Rightarrow> nat \<Rightarrow> nat option \<Rightarrow> nat \<Rightarrow> rule_result" where
  "build_rule_result idx ok checked failures total_records =
     \<lparr>rr_index = idx, rr_passed = ok, rr_checked = checked, rr_failed = failures,
      rr_succeeded = map_option (\<lambda>n. int checked - int n) failures,
      rr_filtered = nat (int total_records - int checked)\<rparr>"

definition build_row_failure_diagnostics ::
  "('f, 'r, 'k) engine \<Rightarrow> 'r list \<Rightarrow> 'f col \<Rightarrow> string list \<Rightarrow> nat \<Rightarrow> string \<Rightarrow> string \<Rightarrow> eval_diagnostic list" where
  "build_row_failure_diagnostics en rows cond pk idx ty column =
     concat (map (\<lambda>r. case build_row_identifier en r pk of
         Some i \<Rightarrow> if i = [] then [] else [diag ''expectation_failed'' idx ty [column] ''Expectation failed'' (Some i)]
       | None \<Rightarrow> []) (filter (en_keeps en cond) rows))"

text \<open>What is common to all evaluations of one call: columns of the frame, number of rows, key fields, identities of frames.\<close>

record eval_context =
  ec_columns :: "string list"
  ec_rows :: nat
  ec_keys :: "string list"
  ec_frame :: "nat option \<Rightarrow> nat"

definition scope_id :: "eval_context \<Rightarrow> nat \<Rightarrow> 'f gx_expectation \<Rightarrow> nat" where
  "scope_id cx idx e = ec_frame cx (if arg e ''row_condition'' = None then None else Some idx)"

definition evaluate_row_count ::
  "('f, 'r, 'k) engine \<Rightarrow> eval_context \<Rightarrow> nat \<Rightarrow> 'f gx_expectation \<Rightarrow> string \<Rightarrow> 'r list \<Rightarrow> eval_state \<Rightarrow> engine_error + eval_state" where
  "evaluate_row_count en cx idx e ty scoped st =
     (case (arg e ''min_value'', arg e ''max_value'') of
        (Some lo, Some hi) \<Rightarrow>
          (let (n, st') = get_row_count (scope_id cx idx e) scoped st;
               finish = (\<lambda>ok. Inr (tally_check ok (diag ''expectation_failed'' idx ty [] ''Row count expectation failed'' None) st'))
           in case en_int en lo of
                None \<Rightarrow> Inl LibraryError
              | Some l \<Rightarrow>
                  (if int n < l then finish False
                   else case en_int en hi of None \<Rightarrow> Inl LibraryError | Some h \<Rightarrow> finish (int n \<le> h)))
      | _ \<Rightarrow> invalid e ''min_value and max_value'')"

definition evaluate_compound ::
  "('f, 'r, 'k) engine \<Rightarrow> eval_context \<Rightarrow> nat \<Rightarrow> 'f gx_expectation \<Rightarrow> string \<Rightarrow> 'r list \<Rightarrow> eval_state \<Rightarrow> engine_error + eval_state" where
  "evaluate_compound en cx idx e ty scoped st =
     (case list_arg e ''columns'' of
        Some (v # vs) \<Rightarrow>
          (let columns = map (text_value en) (v # vs);
               missing = filter (\<lambda>c. c \<noteq> [] \<and> c \<notin> set (ec_columns cx)) (map strip columns)
           in if missing \<noteq> [] then Inr (count_failure [columns_missing idx ty missing] st)
              else Inr (tally_check (distinct (map (en_group en columns) scoped))
                (diag ''expectation_failed'' idx ty columns ''Expectation failed'' None) st))
      | _ \<Rightarrow> invalid e ''columns list'')"

definition evaluate_native ::
  "('f, 'r, 'k) engine \<Rightarrow> nat \<Rightarrow> 'f gx_expectation \<Rightarrow> string \<Rightarrow> 'r list \<Rightarrow> eval_state \<Rightarrow> engine_error + eval_state" where
  "evaluate_native en idx e ty rows st =
     try_bind (en_native en e rows) (\<lambda>ok. Inr (tally_check ok (diag ''expectation_failed'' idx ty [] ''Expectation failed'' None) st))"

text \<open>The end of an iteration: the result of the rule, and what a failure adds to the diagnostics.\<close>

definition record_verdict ::
  "('f, 'r, 'k) engine \<Rightarrow> eval_context \<Rightarrow> nat \<Rightarrow> 'f gx_expectation \<Rightarrow> string \<Rightarrow> string \<Rightarrow> 'r list \<Rightarrow> 'f col option \<Rightarrow> bool
   \<Rightarrow> eval_state \<Rightarrow> eval_state" where
  "record_verdict en cx idx e ty column scoped cond has_failure st =
     (let (checked, st1) = get_row_count (scope_id cx idx e) scoped st;
          failures = map_option (\<lambda>c. length (filter (en_keeps en c) scoped)) cond;
          st2 = st1\<lparr>es_results := es_results st1 @ [build_rule_result idx (\<not> has_failure) checked failures (ec_rows cx)]\<rparr>;
          row_diagnostics = (case cond of
              Some c \<Rightarrow> if ec_keys cx = [] then [] else build_row_failure_diagnostics en scoped c (ec_keys cx) idx ty column
            | None \<Rightarrow> [])
      in if \<not> has_failure then count_pass st2
         else if row_diagnostics \<noteq> [] then count_failure row_diagnostics st2
         else count_failure [diag ''expectation_failed'' idx ty [column] ''Expectation failed''
                (first_row_identifier en scoped cond (ec_keys cx))] st2)"

definition primary_column :: "('f, 'r, 'k) engine \<Rightarrow> 'f gx_expectation \<Rightarrow> string" where
  "primary_column en e =
     (case arg e ''column'' of
        Some v \<Rightarrow> if truthy_value en v then strip (text_value en v) else text_arg en e ''column_A''
      | None \<Rightarrow> text_arg en e ''column_A'')"

definition evaluate_column ::
  "('f, 'r, 'k) engine \<Rightarrow> eval_context \<Rightarrow> nat \<Rightarrow> 'f gx_expectation \<Rightarrow> string \<Rightarrow> 'r list \<Rightarrow> eval_state \<Rightarrow> engine_error + eval_state" where
  "evaluate_column en cx idx e ty scoped st =
     (let column = primary_column en e
      in if column = [] then invalid e ''column''
         else if column \<notin> set (ec_columns cx)
         then Inr (count_failure [column_missing idx ty column
                (first_row_identifier en scoped (Some (Lit (GLit (LBool True)))) (ec_keys cx))] st)
         else try_bind (column_verdict en (ec_columns cx) scoped ty column e) (\<lambda>v.
                case v of
                  MissingColumn c \<Rightarrow> Inr (count_failure [column_missing idx ty c None] st)
                | FailsOn c \<Rightarrow> Inr (record_verdict en cx idx e ty column scoped (Some c) (list_ex (en_keeps en c) scoped) st)
                | Fails b \<Rightarrow> Inr (record_verdict en cx idx e ty column scoped None b st)))"

definition evaluate_expectation ::
  "('f, 'r, 'k) engine \<Rightarrow> eval_context \<Rightarrow> 'r list \<Rightarrow> nat \<Rightarrow> 'f gx_expectation \<Rightarrow> eval_state \<Rightarrow> engine_error + eval_state" where
  "evaluate_expectation en cx rows idx e st =
     (let ty = strip (ex_type e)
      in if ec_keys cx = [] \<and> ty = ''expect_query_results_to_match_comparison'' then evaluate_native en idx e ty rows st
         else case (case arg e ''row_condition'' of None \<Rightarrow> Some rows | Some c \<Rightarrow> en_where en c rows) of
           None \<Rightarrow> Inl LibraryError
         | Some scoped \<Rightarrow>
             (if ty = ''expect_table_row_count_to_be_between'' then evaluate_row_count en cx idx e ty scoped st
              else if ty = ''expect_compound_columns_to_be_unique'' then evaluate_compound en cx idx e ty scoped st
              else if ty = ''expect_query_results_to_match_comparison'' then evaluate_native en idx e ty rows st
              else evaluate_column en cx idx e ty scoped st))"

fun evaluate_loop ::
  "('f, 'r, 'k) engine \<Rightarrow> eval_context \<Rightarrow> 'r list \<Rightarrow> nat \<Rightarrow> 'f gx_expectation list \<Rightarrow> eval_state \<Rightarrow> engine_error + eval_state" where
  "evaluate_loop en cx rows idx [] st = Inr st"
| "evaluate_loop en cx rows idx (e # es) st =
     try_bind (evaluate_expectation en cx rows idx e st) (\<lambda>st'. evaluate_loop en cx rows (idx + 1) es st')"

record eval_summary =
  su_row_count :: nat
  su_expectations :: nat
  su_passed :: nat
  su_failed :: nat
  su_results :: "rule_result list"

definition evaluate_expectations_spark ::
  "('f, 'r, 'k) engine \<Rightarrow> (nat option \<Rightarrow> nat) \<Rightarrow> string list \<Rightarrow> 'r list \<Rightarrow> 'f gx_expectation list \<Rightarrow> string list
   \<Rightarrow> engine_error + bool \<times> eval_summary \<times> eval_diagnostic list" where
  "evaluate_expectations_spark en frame columns rows es primary_key_fields =
     (let st0 = \<lparr>es_diagnostics = [], es_results = [], es_passed = 0, es_failed = 0, es_counts = []\<rparr>;
          (n, st1) = get_row_count (frame None) rows st0;
          cx = \<lparr>ec_columns = columns, ec_rows = n, ec_keys = filter (\<lambda>k. k \<noteq> []) (map strip primary_key_fields), ec_frame = frame\<rparr>
      in try_bind (evaluate_loop en cx rows 0 es st1) (\<lambda>st.
           Inr (es_failed st = 0,
             \<lparr>su_row_count = n, su_expectations = length es, su_passed = es_passed st, su_failed = es_failed st,
              su_results = es_results st\<rparr>,
             es_diagnostics st)))"

end
