(* ===== verification/Direct_Checks.thy ===== *)
theory Direct_Checks
  imports Check_Expressions Engine_Evaluation
begin

text \<open>
  Expectations of the structured check types: \<^verbatim>\<open>application/services/gx_rule_expectations.py\<close>, the seventeen builders, their
  helpers and the dispatcher. The parameters are the JSON object of \<open>Check_Expressions\<close>; a value that is passed on
  unchanged is a literal, a list of literals or, when it is nested, the JSON value itself.
  \<open>GxExpectationBuildError\<close> is \<open>Unbuildable\<close> with its text, or \<open>ConditionError\<close> when the translation of the compiled rule
  raises it; any other exception, of \<open>int\<close> or \<open>float\<close> on a value they refuse for example, is \<open>Raised\<close>.
\<close>


section \<open>Numbers\<close>

text \<open>
  Floating-point numbers are an argument: \<open>float(int)\<close>, which overflows, \<open>x / 100.0\<close>, \<open>x < 0.0\<close>, the integer a number is equal
  to if \<open>x.is_integer()\<close>, and \<open>int(x)\<close>. Reading and printing them is \<^typ>\<open>'f float_env\<close>.
\<close>

record 'f numbers =
  nu_env :: "'f float_env"
  nu_of_int :: "int \<Rightarrow> 'f option"
  nu_percent :: "'f \<Rightarrow> 'f"
  nu_negative :: "'f \<Rightarrow> bool"
  nu_whole :: "'f \<Rightarrow> int option"
  nu_trunc :: "'f \<Rightarrow> int option"

datatype build_error = Unbuildable string | ConditionError gx_error | Raised

definition float_of :: "'f numbers \<Rightarrow> 'f pyval \<Rightarrow> 'f option" where
  "float_of nu v =
     (case v of
        PBool b \<Rightarrow> nu_of_int nu (if b then 1 else 0)
      | PInt i \<Rightarrow> nu_of_int nu i
      | PObj x \<Rightarrow> Some x
      | PStr s \<Rightarrow> fe_read (nu_env nu) s
      | _ \<Rightarrow> None)"

definition int_of_value :: "'f numbers \<Rightarrow> 'f pyval \<Rightarrow> build_error + int" where
  "int_of_value nu v =
     (case (case v of
              PBool b \<Rightarrow> Some (if b then 1 else 0)
            | PInt i \<Rightarrow> Some i
            | PObj x \<Rightarrow> nu_trunc nu x
            | PStr s \<Rightarrow> int_of_text s
            | _ \<Rightarrow> None) of
        None \<Rightarrow> Inl Raised | Some i \<Rightarrow> Inr i)"


section \<open>Required parameters\<close>

definition require_text :: "'f numbers \<Rightarrow> string \<Rightarrow> 'f params \<Rightarrow> string \<Rightarrow> build_error + string" where
  "require_text nu label p k =
     (let v = stripped (nu_env nu) p k
      in if v = [] then Inl (Unbuildable (label @ '' check type requires '' @ quoted k)) else Inr v)"

definition require_list :: "string \<Rightarrow> 'f params \<Rightarrow> string \<Rightarrow> build_error + 'f pyval list" where
  "require_list label p k =
     (case pget p k of
        PList (v # vs) \<Rightarrow> Inr (v # vs)
      | _ \<Rightarrow> Inl (Unbuildable (label @ '' check type requires a non-empty '' @ quoted k @ '' list'')))"

definition threshold_text :: "string \<Rightarrow> string \<Rightarrow> build_error" where
  "threshold_text metric rest = Unbuildable (''THRESHOLD '' @ metric @ '' requires '' @ rest)"

definition require_threshold_ratio :: "'f numbers \<Rightarrow> string \<Rightarrow> 'f params \<Rightarrow> build_error + 'f" where
  "require_threshold_ratio nu metric p =
     (if pget p ''threshold'' = PNone then Inl (threshold_text metric (quoted ''threshold''))
      else case float_of nu (pget p ''threshold'') of
        None \<Rightarrow> Inl (threshold_text metric (''numeric '' @ quoted ''threshold''))
      | Some x \<Rightarrow>
          (if fe_in_unit (nu_env nu) (nu_percent nu x) then Inr (nu_percent nu x)
           else Inl (threshold_text metric ''threshold percentage between 0 and 100'')))"

definition require_non_negative_int :: "'f numbers \<Rightarrow> string \<Rightarrow> 'f params \<Rightarrow> string \<Rightarrow> build_error + int" where
  "require_non_negative_int nu label p k =
     (if pget p k = PNone then Inl (Unbuildable (label @ '' check type requires '' @ quoted k))
      else case float_of nu (pget p k) of
        None \<Rightarrow> Inl (Unbuildable (label @ '' check type requires numeric '' @ quoted k))
      | Some x \<Rightarrow>
          (case (nu_negative nu x, nu_whole nu x) of
             (False, Some i) \<Rightarrow> Inr i
           | _ \<Rightarrow> Inl (Unbuildable (label @ '' check type requires a non-negative whole-number '' @ quoted k))))"

abbreviation yes :: "'f gx_value" where
  "yes \<equiv> GLit (LBool True)"

definition threshold_ratio_bounds :: "string \<Rightarrow> string \<Rightarrow> 'f \<Rightarrow> build_error + (string \<times> 'f gx_value) list" where
  "threshold_ratio_bounds metric operator ratio =
     (let v = GLit (LFloat ratio)
      in if operator = ''gte'' then Inr [(''min_value'', v)]
         else if operator = ''gt'' then Inr [(''min_value'', v), (''strict_min'', yes)]
         else if operator = ''lte'' then Inr [(''max_value'', v)]
         else if operator = ''lt'' then Inr [(''max_value'', v), (''strict_max'', yes)]
         else Inl (Unbuildable (''THRESHOLD '' @ metric @ '' operator must be one of: gt, gte, lt, lte'')))"

definition check_regex_flags :: "string \<Rightarrow> string \<Rightarrow> build_error + string" where
  "check_regex_flags label flags =
     (let normalized = filter (\<lambda>c. \<not> is_space c) flags
      in if list_all (\<lambda>c. c \<in> set ''ims'') normalized then Inr normalized
         else Inl (Unbuildable (label @ '' check type only supports regex flags '' @ quoted ''i'' @ '', '' @ quoted ''m'' @
                '', and '' @ quoted ''s'' @ '' for GX auto-publish'')))"

definition compose_regex :: "string \<Rightarrow> bool \<Rightarrow> string \<Rightarrow> string" where
  "compose_regex flags exact pattern =
     (if flags = [] then [] else ''(?'' @ flags @ '')'') @ (if exact then ''^(?:'' @ pattern @ '')$'' else pattern)"

definition escape_text :: "string \<Rightarrow> string" where
  "escape_text s = concat (map regex_escape s)"

definition compose_literal_set_regex :: "'f numbers \<Rightarrow> bool \<Rightarrow> 'f pyval list \<Rightarrow> string" where
  "compose_literal_set_regex nu case_sensitive vs =
     compose_regex (if case_sensitive then [] else ''i'') True
       (join_text ''|'' (map (escape_text \<circ> param_str (nu_env nu)) vs))"

type_synonym meta = "(string \<times> string) list"

definition regex_expectation :: "meta \<Rightarrow> bool \<Rightarrow> string \<Rightarrow> string \<Rightarrow> 'f gx_expectation" where
  "regex_expectation meta negate column regex =
     make_expectation meta (if negate then ''expect_column_values_to_not_match_regex'' else ''expect_column_values_to_match_regex'')
       [(''column'', GText column), (''regex'', GText regex)]"

definition in_set_expectation :: "meta \<Rightarrow> bool \<Rightarrow> string \<Rightarrow> 'f pyval list \<Rightarrow> 'f gx_expectation" where
  "in_set_expectation meta negate column vs =
     make_expectation meta (if negate then ''expect_column_values_to_not_be_in_set'' else ''expect_column_values_to_be_in_set'')
       [(''column'', GText column), (''value_set'', json_list vs)]"

definition serialized_equals_row_condition :: "string \<Rightarrow> string \<Rightarrow> 'f gx_value" where
  "serialized_equals_row_condition column v = GCond (Single (Comparison column ''=='' (One (LText v))))"

definition not_null_expectation :: "meta \<Rightarrow> string \<Rightarrow> 'f gx_expectation" where
  "not_null_expectation meta column = make_expectation meta ''expect_column_values_to_not_be_null'' [(''column'', GText column)]"


section \<open>Builders\<close>

text \<open>The parameter \<open>operator\<close>, \<open>metric\<close> or \<open>mode\<close>, with its default.\<close>

definition choice :: "'f numbers \<Rightarrow> string \<Rightarrow> 'f params \<Rightarrow> string \<Rightarrow> string" where
  "choice nu d p k = lower (strip (str_or (nu_env nu) d (pget p k)))"

definition quantile_expectation :: "'f numbers \<Rightarrow> meta \<Rightarrow> string \<Rightarrow> string \<Rightarrow> 'f params \<Rightarrow> build_error + 'f gx_expectation" where
  "quantile_expectation nu meta column operator p =
     (if pget p ''quantile'' = PNone then Inl (threshold_text ''quantile'' (quoted ''quantile''))
      else case float_of nu (pget p ''quantile'') of
        None \<Rightarrow> Inl (threshold_text ''quantile'' (''numeric '' @ quoted ''quantile''))
      | Some q \<Rightarrow>
          (if \<not> fe_in_unit (nu_env nu) q then Inl (threshold_text ''quantile'' (quoted ''quantile'' @ '' between 0 and 1''))
           else if operator \<notin> {''gte'', ''lte''}
           then Inl (Unbuildable ''THRESHOLD quantile check type only supports operators gte and lte'')
           else if pget p ''threshold'' = PNone then Inl (threshold_text ''quantile'' (quoted ''threshold''))
           else case float_of nu (pget p ''threshold'') of
             None \<Rightarrow> Inl (threshold_text ''quantile'' (''numeric '' @ quoted ''threshold''))
           | Some x \<Rightarrow>
               Inr (make_expectation meta ''expect_column_quantile_values_to_be_between''
                 [(''column'', GText column),
                  (''quantile_ranges'', GJson (PDict
                     [(''quantiles'', PList [PObj q]),
                      (''value_ranges'', PList [PList [if operator = ''gte'' then PObj x else PNone,
                                                     if operator = ''lte'' then PObj x else PNone]])])),
                  (''allow_relative_error'', GLit (LBool False))])))"

definition build_threshold_expectations :: "'f numbers \<Rightarrow> meta \<Rightarrow> 'f params \<Rightarrow> build_error + 'f gx_expectation list" where
  "build_threshold_expectations nu meta p =
     try_bind (require_text nu ''THRESHOLD'' p ''attribute'') (\<lambda>column.
       let metric = choice nu ''null_pct'' p ''metric''; operator = choice nu ''gte'' p ''operator''
       in if metric = ''null_pct''
          then try_bind (require_threshold_ratio nu metric p) (\<lambda>ratio.
               try_bind (threshold_ratio_bounds metric operator ratio) (\<lambda>bounds.
                 Inr [make_expectation meta ''expect_column_proportion_of_non_null_values_to_be_between''
                   ((''column'', GText column) # bounds)]))
          else if metric = ''quantile''
          then try_bind (quantile_expectation nu meta column operator p) (\<lambda>e. Inr [e])
          else Inl (Unbuildable (''THRESHOLD GX auto-publish currently supports only metrics '' @ quoted ''null_pct'' @ '' and '' @
                 quoted ''quantile'' @ '' because they have exact native GX aggregate mappings'')))"

definition row_count_bounds :: "'f numbers \<Rightarrow> string \<Rightarrow> 'f params \<Rightarrow> build_error + (string \<times> 'f gx_value) list" where
  "row_count_bounds nu operator p =
     (let bound = (\<lambda>k i. (k, GLit (LInt i)))
      in if operator = ''between''
         then try_bind (require_non_negative_int nu ''ROW_COUNT'' p ''minValue'') (\<lambda>lo.
              try_bind (require_non_negative_int nu ''ROW_COUNT'' p ''maxValue'') (\<lambda>hi.
                if hi < lo
                then Inl (Unbuildable (''ROW_COUNT check type with operator '' @ quoted ''between'' @ '' requires maxValue >= minValue''))
                else Inr [bound ''min_value'' lo, bound ''max_value'' hi]))
         else try_bind (require_non_negative_int nu ''ROW_COUNT'' p ''threshold'') (\<lambda>n.
                if operator = ''gte'' then Inr [bound ''min_value'' n]
                else if operator = ''gt'' then Inr [bound ''min_value'' (n + 1)]
                else if operator = ''lte'' then Inr [bound ''max_value'' n]
                else if operator = ''lt''
                then (if n = 0
                      then Inl (Unbuildable (''ROW_COUNT check type cannot express operator '' @ quoted ''lt'' @ '' with threshold 0''))
                      else Inr [bound ''max_value'' (n - 1)])
                else Inl (Unbuildable ''ROW_COUNT check type operator must be one of: gt, gte, lt, lte, between'')))"

definition build_row_count_expectations :: "'f numbers \<Rightarrow> meta \<Rightarrow> 'f params \<Rightarrow> build_error + 'f gx_expectation list" where
  "build_row_count_expectations nu meta p =
     try_bind (row_count_bounds nu (choice nu ''gte'' p ''operator'') p) (\<lambda>bounds.
       Inr [make_expectation meta ''expect_table_row_count_to_be_between'' bounds])"

definition build_regex_expectations :: "'f numbers \<Rightarrow> meta \<Rightarrow> 'f params \<Rightarrow> build_error + 'f gx_expectation list" where
  "build_regex_expectations nu meta p =
     try_bind (require_text nu ''REGEX'' p ''attribute'') (\<lambda>column.
     try_bind (require_text nu ''REGEX'' p ''pattern'') (\<lambda>pattern.
     try_bind (check_regex_flags ''REGEX'' (str_or (nu_env nu) [] (pget p ''flags''))) (\<lambda>flags.
       Inr [regex_expectation meta False column (compose_regex flags False pattern)])))"

text \<open>The bounds of a range, as the range check and a contextual range write them.\<close>

definition bound_arguments :: "bool \<Rightarrow> 'f pyval \<Rightarrow> 'f pyval \<Rightarrow> (string \<times> 'f gx_value) list" where
  "bound_arguments inclusive lo hi =
     (if lo = PNone then [] else (''min_value'', json_value lo) # (if inclusive then [] else [(''strict_min'', yes)])) @
     (if hi = PNone then [] else (''max_value'', json_value hi) # (if inclusive then [] else [(''strict_max'', yes)]))"

definition build_range_expectations :: "'f numbers \<Rightarrow> meta \<Rightarrow> 'f params \<Rightarrow> build_error + 'f gx_expectation list" where
  "build_range_expectations nu meta p =
     try_bind (require_text nu ''RANGE'' p ''attribute'') (\<lambda>column.
       if pget p ''minValue'' = PNone \<and> pget p ''maxValue'' = PNone
       then Inl (Unbuildable (''RANGE check type requires at least one of '' @ quoted ''minValue'' @ '' or '' @ quoted ''maxValue''))
       else Inr [make_expectation meta ''expect_column_values_to_be_between''
              ((''column'', GText column) #
               bound_arguments (flag (nu_env nu) True p ''inclusive'') (pget p ''minValue'') (pget p ''maxValue''))])"

text \<open>Allow lists and block lists, with the parameter that holds the values.\<close>

definition build_list_expectations ::
  "'f numbers \<Rightarrow> meta \<Rightarrow> string \<Rightarrow> string \<Rightarrow> bool \<Rightarrow> 'f params \<Rightarrow> build_error + 'f gx_expectation list" where
  "build_list_expectations nu meta label k negate p =
     try_bind (require_text nu label p ''attribute'') (\<lambda>column.
     try_bind (require_list label p k) (\<lambda>vs.
       Inr [if flag (nu_env nu) False p ''caseSensitive'' then in_set_expectation meta negate column vs
            else regex_expectation meta negate column (compose_literal_set_regex nu False vs)]))"

definition build_allowlist_expectations :: "'f numbers \<Rightarrow> meta \<Rightarrow> 'f params \<Rightarrow> build_error + 'f gx_expectation list" where
  "build_allowlist_expectations nu meta = build_list_expectations nu meta ''ALLOWLIST'' ''allowedValues'' False"

definition build_blocklist_expectations :: "'f numbers \<Rightarrow> meta \<Rightarrow> 'f params \<Rightarrow> build_error + 'f gx_expectation list" where
  "build_blocklist_expectations nu meta = build_list_expectations nu meta ''BLOCKLIST'' ''blockedValues'' True"

text \<open>An entry of a contextual range or of a conditional allow list: its context value and its expectation.\<close>

definition contextual_range_entry ::
  "'f numbers \<Rightarrow> meta \<Rightarrow> string \<Rightarrow> string \<Rightarrow> 'f pyval \<Rightarrow> build_error + string \<times> 'f gx_expectation" where
  "contextual_range_entry nu meta attribute context_attribute v =
     (case v of
        PDict item \<Rightarrow>
          try_bind (require_text nu ''PLAUSIBLE'' item ''contextValue'') (\<lambda>c.
            if pget item ''minValue'' = PNone \<and> pget item ''maxValue'' = PNone
            then Inl (Unbuildable (''PLAUSIBLE contextual_range entries require at least one of '' @ quoted ''minValue'' @
                   '' or '' @ quoted ''maxValue''))
            else Inr (c, make_expectation meta ''expect_column_values_to_be_between''
                   ([(''column'', GText attribute), (''row_condition'', serialized_equals_row_condition context_attribute c)] @
                    bound_arguments (flag (nu_env nu) True item ''inclusive'') (pget item ''minValue'') (pget item ''maxValue''))))
      | _ \<Rightarrow> Inl (Unbuildable ''PLAUSIBLE contextual_range entries must be objects''))"

definition conditional_allow_entry ::
  "'f numbers \<Rightarrow> meta \<Rightarrow> string \<Rightarrow> string \<Rightarrow> 'f pyval \<Rightarrow> build_error + string \<times> 'f gx_expectation" where
  "conditional_allow_entry nu meta attribute context_attribute v =
     (case v of
        PDict item \<Rightarrow>
          try_bind (require_text nu ''PLAUSIBLE'' item ''contextValue'') (\<lambda>c.
          try_bind (require_list ''PLAUSIBLE'' item ''allowedValues'') (\<lambda>vs.
            Inr (c, make_expectation meta ''expect_column_values_to_be_in_set_for_other_column_value''
              [(''column'', GText attribute), (''other_column'', GText context_attribute), (''other_value'', GLit (LText c)),
               (''value_set'', json_list vs), (''case_sensitive'', GLit (LBool (flag (nu_env nu) False item ''caseSensitive'')))])))
      | _ \<Rightarrow> Inl (Unbuildable ''PLAUSIBLE conditional_allowlist entries must be objects''))"

text \<open>The context values in the order of their first occurrence, and the list with the membership check inserted at the second place.\<close>

definition listed_values :: "string list \<Rightarrow> string list" where
  "listed_values cs = foldl (\<lambda>acc c. if c \<in> set acc then acc else acc @ [c]) [] cs"

definition plausible_expectations ::
  "meta \<Rightarrow> string \<Rightarrow> (string \<times> 'f gx_expectation) list \<Rightarrow> 'f gx_expectation list" where
  "plausible_expectations meta context_attribute entries =
     not_null_expectation meta context_attribute #
     make_expectation meta ''expect_column_values_to_be_in_set''
       [(''column'', GText context_attribute), (''value_set'', GLits (map LText (listed_values (map fst entries))))] #
     map snd entries"

definition build_plausible_expectations :: "'f numbers \<Rightarrow> meta \<Rightarrow> 'f params \<Rightarrow> build_error + 'f gx_expectation list" where
  "build_plausible_expectations nu meta p =
     try_bind (require_text nu ''PLAUSIBLE'' p ''attribute'') (\<lambda>attribute.
     try_bind (require_text nu ''PLAUSIBLE'' p ''contextAttribute'') (\<lambda>context_attribute.
       let mode = choice nu ''contextual_range'' p ''mode'';
           build = (\<lambda>k entry. try_bind (require_list ''PLAUSIBLE'' p k) (\<lambda>vs.
             try_bind (try_map (entry nu meta attribute context_attribute) vs) (\<lambda>entries.
               Inr (plausible_expectations meta context_attribute entries))))
       in if mode = ''contextual_range'' then build ''ranges'' contextual_range_entry
          else if mode = ''conditional_allowlist'' then build ''allowlists'' conditional_allow_entry
          else Inl (Unbuildable ''PLAUSIBLE mode must be one of: contextual_range, conditional_allowlist'')))"

definition build_uniqueness_expectations :: "'f numbers \<Rightarrow> meta \<Rightarrow> 'f params \<Rightarrow> build_error + 'f gx_expectation list" where
  "build_uniqueness_expectations nu meta p =
     try_bind (require_list ''UNIQUENESS'' p ''attributes'') (\<lambda>vs.
       case filter (\<lambda>s. s \<noteq> []) (map (strip \<circ> param_str (nu_env nu)) vs) of
         [] \<Rightarrow> Inl (Unbuildable ''UNIQUENESS check type requires at least one non-empty attribute'')
       | [c] \<Rightarrow> Inr [make_expectation meta ''expect_column_values_to_be_unique'' [(''column'', GText c)]]
       | c # cs \<Rightarrow>
           Inr [make_expectation meta ''expect_compound_columns_to_be_unique''
             [(''column'', GText c), (''columns'', GTexts (c # cs))]])"

definition rhs_column :: "string \<Rightarrow> build_error + string" where
  "rhs_column attribute =
     (if strip attribute = [] then Inl (Unbuildable ''Cross-object GX expectations require a non-empty right-side attribute'')
      else Inr (''rhs.'' @ strip attribute))"

definition pair_equal_expectation :: "meta \<Rightarrow> string \<Rightarrow> string \<Rightarrow> 'f gx_expectation" where
  "pair_equal_expectation meta l r =
     make_expectation meta ''expect_column_pair_values_to_be_equal''
       [(''column_A'', GText l), (''column_B'', GText r), (''ignore_row_if'', GText ''neither'')]"

definition comparison_expectation ::
  "'f numbers \<Rightarrow> meta \<Rightarrow> string \<Rightarrow> string \<Rightarrow> string \<Rightarrow> string \<Rightarrow> 'f pyval \<Rightarrow> build_error + 'f gx_expectation" where
  "comparison_expectation nu meta label l r mode tolerance =
     (let normalized = lower (strip (if mode = [] then ''exact'' else mode));
          columns = [(''column'', GText l), (''other_column'', GText r)]
      in if normalized = ''exact'' then Inr (pair_equal_expectation meta l r)
         else if normalized = ''case_insensitive''
         then Inr (make_expectation meta ''expect_column_values_to_equal_other_column_case_insensitive'' columns)
         else if normalized = ''numeric_tolerance''
         then (if tolerance = PNone
               then Inl (Unbuildable (label @ '' numeric_tolerance comparisons require '' @ quoted ''tolerance''))
               else case float_of nu tolerance of
                 None \<Rightarrow> Inl Raised
               | Some x \<Rightarrow>
                   Inr (make_expectation meta ''expect_column_values_to_be_within_numeric_tolerance_of_other_column''
                     (columns @ [(''tolerance'', GLit (LFloat x))])))
         else Inl (Unbuildable (label @ '' GX auto-publish does not support comparison mode '' @ quoted mode)))"

definition build_referential_integrity_expectations ::
  "'f numbers \<Rightarrow> meta \<Rightarrow> 'f params \<Rightarrow> build_error + 'f gx_expectation list" where
  "build_referential_integrity_expectations nu meta p =
     try_bind (require_text nu ''REFERENTIAL_INTEGRITY'' p ''attribute'') (\<lambda>_.
     try_bind (require_text nu ''REFERENTIAL_INTEGRITY'' p ''refAttribute'') (\<lambda>ref_attribute.
     try_bind (rhs_column ref_attribute) (\<lambda>column. Inr [not_null_expectation meta column])))"

text \<open>The expectation of one comparison, which the four cross-object checks build alike.\<close>

definition compared_attributes :: "'f numbers \<Rightarrow> meta \<Rightarrow> string \<Rightarrow> 'f params \<Rightarrow> build_error + 'f gx_expectation" where
  "compared_attributes nu meta label c =
     try_bind (require_text nu label c ''leftAttribute'') (\<lambda>l.
     try_bind (require_text nu label c ''rightAttribute'') (\<lambda>right.
     try_bind (rhs_column right) (\<lambda>r.
       comparison_expectation nu meta label l r (str_or (nu_env nu) ''exact'' (pget c ''mode'')) (pget c ''tolerance''))))"

definition compared_entries :: "'f numbers \<Rightarrow> meta \<Rightarrow> string \<Rightarrow> 'f pyval list \<Rightarrow> build_error + 'f gx_expectation list" where
  "compared_entries nu meta label vs =
     try_map (\<lambda>v. case v of
         PDict c \<Rightarrow> compared_attributes nu meta label c
       | _ \<Rightarrow> Inl (Unbuildable (label @ '' comparisons entries must be objects''))) vs"

definition within_tolerance_expectation :: "meta \<Rightarrow> string \<Rightarrow> string \<Rightarrow> int \<Rightarrow> string \<Rightarrow> 'f gx_expectation" where
  "within_tolerance_expectation meta l r difference difference_unit =
     make_expectation meta ''expect_column_timestamps_to_be_within_tolerance_of_other_column''
       [(''column'', GText l), (''other_column'', GText r), (''max_difference'', GLit (LInt difference)),
        (''difference_unit'', GText difference_unit)]"

text \<open>The list with the expectation on the actuality dates appended when it is configured.\<close>

definition append_actuality_expectation ::
  "'f numbers \<Rightarrow> meta \<Rightarrow> 'f params \<Rightarrow> 'f gx_expectation list \<Rightarrow> build_error + 'f gx_expectation list" where
  "append_actuality_expectation nu meta p es =
     (case pget p ''actualityDate'' of
        PDict a \<Rightarrow>
          (let l = stripped (nu_env nu) a ''leftAttribute''; r = stripped (nu_env nu) a ''rightAttribute'';
               difference_unit = lower (stripped (nu_env nu) a ''resolvedToleranceUnit'')
           in if a = [] \<or> pget a ''resolvedToleranceValue'' = PNone \<or> difference_unit = [] \<or> l = [] \<or> r = [] then Inr es
              else try_bind (int_of_value nu (pget a ''resolvedToleranceValue'')) (\<lambda>i.
                     Inr (es @ [within_tolerance_expectation meta l (''rhs.'' @ r) i difference_unit])))
      | _ \<Rightarrow> Inr es)"

definition build_correct_expectations :: "'f numbers \<Rightarrow> meta \<Rightarrow> 'f params \<Rightarrow> build_error + 'f gx_expectation list" where
  "build_correct_expectations nu meta p =
     (case pget p ''comparison'' of
        PDict c \<Rightarrow>
          try_bind (compared_attributes nu meta ''CORRECT'' c) (\<lambda>e. append_actuality_expectation nu meta p [e])
      | _ \<Rightarrow> Inl (Unbuildable (''CORRECT check type requires '' @ quoted ''comparison'')))"

definition build_reconcile_expectations :: "'f numbers \<Rightarrow> meta \<Rightarrow> 'f params \<Rightarrow> build_error + 'f gx_expectation list" where
  "build_reconcile_expectations nu meta p =
     try_bind (require_list ''RECONCILE'' p ''comparisons'') (\<lambda>vs.
     try_bind (compared_entries nu meta ''RECONCILE'' vs) (append_actuality_expectation nu meta p))"

definition build_transfer_match_expectations :: "'f numbers \<Rightarrow> meta \<Rightarrow> 'f params \<Rightarrow> build_error + 'f gx_expectation list" where
  "build_transfer_match_expectations nu meta p =
     (let mode = choice nu ''row_value_match'' p ''mode''
      in if mode = ''row_value_match''
         then try_bind (require_list ''TRANSFER_MATCH'' p ''comparisons'') (\<lambda>vs.
              try_bind (compared_entries nu meta ''TRANSFER_MATCH'' vs) (append_actuality_expectation nu meta p))
         else if mode = ''payload_hash_match''
         then try_bind (require_text nu ''TRANSFER_MATCH'' p ''leftHashAttribute'') (\<lambda>l.
              try_bind (require_text nu ''TRANSFER_MATCH'' p ''rightHashAttribute'') (\<lambda>right.
              try_bind (rhs_column right) (\<lambda>r.
                append_actuality_expectation nu meta p [pair_equal_expectation meta l r])))
         else Inl (Unbuildable (''TRANSFER_MATCH GX auto-publish does not support mode '' @ quoted mode)))"

definition build_join_consistency_expectations :: "'f numbers \<Rightarrow> meta \<Rightarrow> 'f params \<Rightarrow> build_error + 'f gx_expectation list" where
  "build_join_consistency_expectations nu meta p =
     (let label = ''JOIN_CONSISTENCY''
      in try_bind (require_list label p ''comparisons'') (\<lambda>vs.
         case pget p ''actualityDate'' of
           PDict a \<Rightarrow>
             try_bind (compared_entries nu meta label vs) (\<lambda>es.
               let difference_unit = lower (stripped (nu_env nu) a ''resolvedToleranceUnit'')
               in if pget a ''resolvedToleranceValue'' = PNone \<or> difference_unit = []
                  then Inl (Unbuildable (label @ '' actualityDate requires resolvedToleranceValue and resolvedToleranceUnit''))
                  else try_bind (require_text nu label a ''leftAttribute'') (\<lambda>l.
                       try_bind (require_text nu label a ''rightAttribute'') (\<lambda>right.
                       try_bind (rhs_column right) (\<lambda>r.
                       try_bind (int_of_value nu (pget a ''resolvedToleranceValue'')) (\<lambda>i.
                         Inr (es @ [within_tolerance_expectation meta l r i difference_unit]))))))
         | _ \<Rightarrow> Inl (Unbuildable (label @ '' check type requires '' @ quoted ''actualityDate''))))"

definition build_freshness_expectations :: "'f numbers \<Rightarrow> meta \<Rightarrow> 'f params \<Rightarrow> build_error + 'f gx_expectation list" where
  "build_freshness_expectations nu meta p =
     try_bind (require_text nu ''FRESHNESS'' p ''attribute'') (\<lambda>column.
       let max_days = pget p ''maxDaysOld''; anchor = choice nu ''now'' p ''anchor''
       in if max_days = PNone then Inl (Unbuildable (''FRESHNESS check type requires '' @ quoted ''maxDaysOld''))
          else if anchor \<noteq> ''now''
          then Inl (Unbuildable (''FRESHNESS GX auto-publish currently only supports anchor='' @ quoted ''now''))
          else try_bind (int_of_value nu max_days) (\<lambda>i.
                 Inr [make_expectation meta ''expect_column_values_to_be_within_past_days''
                   [(''column'', GText column), (''max_days_old'', GLit (LInt i)), (''anchor'', GText anchor)]]))"

definition build_lag_expectations :: "'f numbers \<Rightarrow> meta \<Rightarrow> 'f params \<Rightarrow> build_error + 'f gx_expectation list" where
  "build_lag_expectations nu meta p =
     try_bind (require_text nu ''LAG'' p ''startAttribute'') (\<lambda>start.
     try_bind (require_text nu ''LAG'' p ''endAttribute'') (\<lambda>stop.
       if pget p ''maxHours'' = PNone then Inl (Unbuildable (''LAG check type requires '' @ quoted ''maxHours''))
       else try_bind (int_of_value nu (pget p ''maxHours'')) (\<lambda>i.
              Inr [make_expectation meta ''expect_column_pair_values_to_have_max_lag_hours''
                [(''column'', GText stop), (''start_column'', GText start), (''max_hours'', GLit (LInt i))]])))"

definition build_future_date_expectations :: "'f numbers \<Rightarrow> meta \<Rightarrow> 'f params \<Rightarrow> build_error + 'f gx_expectation list" where
  "build_future_date_expectations nu meta p =
     try_bind (require_text nu ''FUTURE_DATE'' p ''attribute'') (\<lambda>column.
       let reference_time = stripped (nu_env nu) p ''referenceDate''
       in Inr [make_expectation meta ''expect_column_values_to_not_be_in_future''
            ((''column'', GText column) # (if reference_time = [] then [] else [(''reference_time'', GText reference_time)]))])"

text \<open>The regular expressions \<open>^\s*$\<close>, with one backslash, and \<open>\s*(?:values)\s*\<close>.\<close>

definition spaces_regex :: string where
  "spaces_regex = backslash # ''s*''"

definition build_present_expectations :: "'f numbers \<Rightarrow> meta \<Rightarrow> 'f params \<Rightarrow> build_error + 'f gx_expectation list" where
  "build_present_expectations nu meta p =
     try_bind (require_text nu ''PRESENT'' p ''attribute'') (\<lambda>column.
       case items (nu_env nu) (pget p ''blockedValues'') of
         Inl _ \<Rightarrow> Inl Raised
       | Inr vs \<Rightarrow>
           (let blocked = filter (\<lambda>s. s \<noteq> []) (map (strip \<circ> param_str (nu_env nu)) vs);
                flags = (if flag (nu_env nu) False p ''caseSensitive'' then [] else ''i'');
                pattern = spaces_regex @ ''(?:'' @ join_text ''|'' (map escape_text blocked) @ '')'' @ spaces_regex
            in Inr ([not_null_expectation meta column,
                     regex_expectation meta True column (''^'' @ spaces_regex @ ''$'')] @
                    (if blocked = [] then [] else [regex_expectation meta True column (compose_regex flags True pattern)]))))"


section \<open>The dispatcher\<close>

type_synonym 'f builder = "'f numbers \<Rightarrow> meta \<Rightarrow> 'f params \<Rightarrow> build_error + 'f gx_expectation list"

definition builders :: "(string \<times> 'f builder) list" where
  "builders =
     [(''THRESHOLD'', build_threshold_expectations),
      (''ROW_COUNT'', build_row_count_expectations),
      (''REGEX'', build_regex_expectations),
      (''RANGE'', build_range_expectations),
      (''ALLOWLIST'', build_allowlist_expectations),
      (''BLOCKLIST'', build_blocklist_expectations),
      (''PLAUSIBLE'', build_plausible_expectations),
      (''UNIQUENESS'', build_uniqueness_expectations),
      (''REFERENTIAL_INTEGRITY'', build_referential_integrity_expectations),
      (''FRESHNESS'', build_freshness_expectations),
      (''LAG'', build_lag_expectations),
      (''FUTURE_DATE'', build_future_date_expectations),
      (''PRESENT'', build_present_expectations),
      (''CORRECT'', build_correct_expectations),
      (''RECONCILE'', build_reconcile_expectations),
      (''TRANSFER_MATCH'', build_transfer_match_expectations),
      (''JOIN_CONSISTENCY'', build_join_consistency_expectations)]"

definition build_direct_expectations ::
  "'f numbers \<Rightarrow> meta \<Rightarrow> string \<Rightarrow> 'f params \<Rightarrow> build_error + 'f gx_expectation list" where
  "build_direct_expectations nu meta check_type p =
     (case map_of builders check_type of
        None \<Rightarrow> Inl (Unbuildable (''No GX expectation builder is registered for check type '' @ quoted check_type))
      | Some builder \<Rightarrow>
          try_bind (builder nu meta p) (\<lambda>es.
            if es = [] then Inl (Unbuildable (''GX expectation builder produced no expectations for check type '' @ quoted check_type))
            else Inr es))"

definition direct_check_types :: "string list" where
  "direct_check_types =
     [''THRESHOLD'', ''ROW_COUNT'', ''REGEX'', ''RANGE'', ''ALLOWLIST'', ''BLOCKLIST'', ''PLAUSIBLE'', ''UNIQUENESS'',
      ''REFERENTIAL_INTEGRITY'', ''FRESHNESS'', ''LAG'', ''FUTURE_DATE'', ''PRESENT'', ''CORRECT'', ''RECONCILE'',
      ''TRANSFER_MATCH'', ''JOIN_CONSISTENCY'']"

text \<open>
  What the dispatcher reads of a rule; the other two sets of check types are empty in the code. The kind of a rule without a
  direct check type is its own or the one of its structured definition.
\<close>

record 'f checked_rule =
  ck_id :: "string option"
  ck_type :: "string option"
  ck_params :: "'f params option"
  ck_kind :: "string option"
  ck_dsl :: "'f params option"

definition resolve_rule_kind :: "'f numbers \<Rightarrow> 'f checked_rule \<Rightarrow> string" where
  "resolve_rule_kind nu rule =
     (let direct_kind = strip (text_of (ck_kind rule))
      in if direct_kind \<noteq> [] then direct_kind
         else case ck_dsl rule of
           None \<Rightarrow> []
         | Some dsl \<Rightarrow> (case pget dsl ''rule'' of PDict payload \<Rightarrow> stripped (nu_env nu) payload ''kind'' | _ \<Rightarrow> []))"

definition condition_result :: "gx_error + 'a \<Rightarrow> build_error + 'a" where
  "condition_result r = (case r of Inl e \<Rightarrow> Inl (ConditionError e) | Inr x \<Rightarrow> Inr x)"

text \<open>
  The expectations of a rule. The lowering of a structured definition (\<^verbatim>\<open>rule_dsl_gx_lowerer.py\<close>), reached for custom queries
  only, is the argument \<open>lower_dsl\<close>.
\<close>

definition build_gx_expectations_for_rule ::
  "'f numbers \<Rightarrow> 'f gx_env \<Rightarrow> ('f params \<Rightarrow> build_error + 'f gx_expectation list) \<Rightarrow> 'f checked_rule
   \<Rightarrow> compiled_model option \<Rightarrow> string option \<Rightarrow> string option \<Rightarrow> build_error + 'f gx_expectation list" where
  "build_gx_expectations_for_rule nu env lower_dsl rule model rule_id artifact_key =
     (let check_type = upper (strip (text_of (ck_type rule)));
          params = (case ck_params rule of None \<Rightarrow> [] | Some p \<Rightarrow> p);
          rule_identifier = quoted (if truthy (ck_id rule) then text_of (ck_id rule) else ''unknown-rule'');
          meta = gx_meta rule_id artifact_key
      in if check_type \<in> set direct_check_types
         then (if params = []
               then Inl (Unbuildable (''Rule '' @ rule_identifier @ '' declares check type '' @ quoted check_type @
                      '' without check_type_params''))
               else try_bind (build_direct_expectations nu meta check_type params) (\<lambda>es.
                 if check_type = ''PLAUSIBLE'' \<and> choice nu [] params ''mode'' = ''conditional_allowlist'' then Inr es
                 else condition_result (attach_gx_row_condition_to_expectations (ge_read env) es model)))
         else if resolve_rule_kind nu rule = ''custom_query_assertion''
         then (case ck_dsl rule of
                 None \<Rightarrow> Inl (Unbuildable ''custom_query_assertion requires a semantic DSL payload'')
               | Some dsl \<Rightarrow> lower_dsl dsl)
         else case model of
           None \<Rightarrow> Inl (Unbuildable (''Rule '' @ rule_identifier @
             '' cannot build GX expectations without a supported check type or compiler intermediate model''))
         | Some m \<Rightarrow> condition_result (build_gx_expectations_from_intermediate_model env rule_id artifact_key m))"

end
