(* ===== verification/Compiled_Rules.thy ===== *)
theory Compiled_Rules
  imports Rule_Compiler
begin

text \<open>
  Properties of the rule compiler: the parser always answers, a reference printer for expression trees whose text
  the compiler reads back, and what an intermediate model holds.
\<close>


section \<open>The parser always finishes\<close>

lemma try_bind_Inl: "try_bind m k = Inl e \<longleftrightarrow> m = Inl e \<or> (\<exists>x. m = Inr x \<and> k x = Inl e)"
  by (cases m) simp_all

lemma expect_token_error: "expect_token k v ts \<noteq> Inl Stuck"
  by (auto simp: expect_token_def Let_def split: list.split)

lemma parse_literal_error: "parse_literal ts \<noteq> Inl Stuck"
  by (auto simp: parse_literal_def split: list.split)

lemma parse_value_operand_error: "parse_value_operand c p ts \<noteq> Inl Stuck"
  by (auto simp: parse_value_operand_def parse_value_expression_def parse_literal_error split: list.split prod.split)

lemma dotted_parts_error: "dotted_parts ts \<noteq> Inl Stuck"
proof (induction ts rule: dotted_parts.induct)
  case (1 ts)
  then show ?case
    by (subst dotted_parts.simps) (auto simp: try_bind_Inl expect_token_error split: sum.split)
qed

lemma cast_parts_error: "cast_parts ts \<noteq> Inl Stuck"
  by (induction ts rule: cast_parts.induct) (auto simp: try_bind_Inl split: list.split)

lemma call_parts_error: "call_parts d ts \<noteq> Inl Stuck"
  by (induction d ts rule: call_parts.induct) (auto simp: try_bind_Inl)

lemma more_operands_error: "more_operands ts \<noteq> Inl Stuck"
proof (induction ts rule: more_operands.induct)
  case (1 ts)
  then show ?case
    by (subst more_operands.simps) (auto simp: try_bind_Inl parse_value_operand_error split: sum.split)
qed

lemmas part_errors = try_bind_Inl expect_token_error parse_literal_error parse_value_operand_error dotted_parts_error
  cast_parts_error call_parts_error more_operands_error

lemma parse_field_reference_error: "parse_field_reference ts \<noteq> Inl Stuck"
  by (auto simp: parse_field_reference_def part_errors)

lemma parse_in_error: "parse_in f b ts \<noteq> Inl Stuck"
  by (auto simp: parse_in_def part_errors)

lemma parse_between_error: "parse_between f b ts \<noteq> Inl Stuck"
  by (auto simp: parse_between_def part_errors)

lemma parse_like_error: "parse_like f op ts \<noteq> Inl Stuck"
  by (auto simp: parse_like_def part_errors)

lemma comparison_error:
  "try_bind (parse_value_operand c p ts) (\<lambda>(l, ts1). Inl (AstError e)) \<noteq> Inl Stuck"
  "try_bind (parse_value_operand c p ts) (\<lambda>(l, ts1). Inr (g l ts1)) \<noteq> Inl Stuck"
  by (auto simp: part_errors)

lemma predicate_tail_error: "predicate_tail f b ts \<noteq> Inl Stuck"
  unfolding predicate_tail_def Let_def negation_misplaced_def
  by (cases ts) (simp_all add: parse_in_error parse_between_error parse_like_error comparison_error split: prod.split)

lemma parse_predicate_error: "parse_predicate ts \<noteq> Inl Stuck"
  by (auto simp: parse_predicate_def Let_def part_errors parse_field_reference_error predicate_tail_error)

text \<open>An outcome that is not \<^const>\<open>Stuck\<close> and leaves fewer tokens than the bound.\<close>

definition below :: "nat \<Rightarrow> 'a parsed \<Rightarrow> bool" where
  "below b m \<longleftrightarrow> m \<noteq> Inl Stuck \<and> (\<forall>n r. m = Inr (n, r) \<longrightarrow> length r < b)"

lemma below_mono: "below b m \<Longrightarrow> b \<le> c \<Longrightarrow> below c m"
  by (force simp: below_def)

lemma below_Inr: "length r < b \<Longrightarrow> below b (Inr (n, r))"
  by (simp add: below_def)

lemma below_bind:
  assumes "below b m" and "\<And>n r. m = Inr (n, r) \<Longrightarrow> length r < b \<Longrightarrow> below c (k (n, r))"
  shows "below c (try_bind m k)"
  using assms by (cases m) (auto simp: below_def)

lemma below_case:
  assumes "below b m" and "\<And>n r. m = Inr (n, r) \<Longrightarrow> length r < b \<Longrightarrow> below c (g n r)"
  shows "below c (case m of Inl e \<Rightarrow> Inl e | Inr (n, r) \<Rightarrow> g n r)"
  using assms by (cases m) (auto simp: below_def)

lemma below_expect: "length ts < b \<Longrightarrow> below b (expect_token k v ts)"
  using expect_token_error expect_token_length by (fastforce simp: below_def)

lemma below_predicate: "below (length ts) (parse_predicate ts)"
  using parse_predicate_error parse_predicate_rest by (simp add: below_def)

lemma parser_progress:
  "below (length ts) (parse_or ts)"
  "below (Suc (length ts)) (or_loop n0 ts)"
  "below (length ts) (parse_and ts)"
  "below (Suc (length ts)) (and_loop n0 ts)"
  "below (length ts) (parse_not ts)"
  "below (length ts) (parse_factor ts)"
proof (induction ts and n0 ts and ts and n0 ts and ts and ts rule: parse_or_or_loop_parse_and_and_loop_parse_not_parse_factor.induct)
  case (1 ts)
  show ?case unfolding parse_or.simps [of ts]
  proof (rule below_case [OF "1.IH"(1)])
    fix n r assume m: "parse_and ts = Inr (n, r)" "length r < length ts"
    show "below (length ts) (if length r < length ts then or_loop n r else Inl Stuck)"
      using below_mono [OF "1.IH"(2) [OF m(1) refl m(2)]] m(2) by simp
  qed
next
  case (2 n ts)
  show ?case
  proof (cases "keyword ''OR'' ts")
    case True
    have "below (Suc (length ts)) (case parse_and (tl ts) of Inl e \<Rightarrow> Inl e
        | Inr (m, r) \<Rightarrow> if length r < length ts then or_loop (OrNode n m) r else Inl Stuck)"
    proof (rule below_case [OF below_mono [OF "2.IH"(1) [OF True]]])
      fix m r assume m: "parse_and (tl ts) = Inr (m, r)" "length r < length ts"
      show "below (Suc (length ts)) (if length r < length ts then or_loop (OrNode n m) r else Inl Stuck)"
        using below_mono [OF "2.IH"(2) [OF True m(1) refl m(2)]] m(2) by simp
    qed simp
    then show ?thesis using True by (simp add: or_loop.simps [of n ts])
  qed (simp add: or_loop.simps [of n ts] below_Inr)
next
  case (3 ts)
  show ?case unfolding parse_and.simps [of ts]
  proof (rule below_case [OF "3.IH"(1)])
    fix n r assume m: "parse_not ts = Inr (n, r)" "length r < length ts"
    show "below (length ts) (if length r < length ts then and_loop n r else Inl Stuck)"
      using below_mono [OF "3.IH"(2) [OF m(1) refl m(2)]] m(2) by simp
  qed
next
  case (4 n ts)
  show ?case
  proof (cases "keyword ''AND'' ts")
    case True
    have "below (Suc (length ts)) (case parse_not (tl ts) of Inl e \<Rightarrow> Inl e
        | Inr (m, r) \<Rightarrow> if length r < length ts then and_loop (AndNode n m) r else Inl Stuck)"
    proof (rule below_case [OF below_mono [OF "4.IH"(1) [OF True]]])
      fix m r assume m: "parse_not (tl ts) = Inr (m, r)" "length r < length ts"
      show "below (Suc (length ts)) (if length r < length ts then and_loop (AndNode n m) r else Inl Stuck)"
        using below_mono [OF "4.IH"(2) [OF True m(1) refl m(2)]] m(2) by simp
    qed simp
    then show ?thesis using True by (simp add: and_loop.simps [of n ts])
  qed (simp add: and_loop.simps [of n ts] below_Inr)
next
  case (5 ts)
  show ?case
  proof (cases "keyword ''NOT'' ts")
    case True
    then have "below (length ts) (try_bind (parse_not (tl ts)) (\<lambda>(n, r). Inr (NotNode n, r)))"
      by (intro below_bind [OF below_mono [OF "5.IH"(1) [OF True], of "length ts"]]) (simp_all add: below_Inr)
    then show ?thesis using True by (simp add: parse_not.simps [of ts])
  next
    case False
    then show ?thesis using "5.IH"(2) by (simp add: parse_not.simps [of ts])
  qed
next
  case (6 ts)
  show ?case
  proof (cases "at_token T_LPAREN None ts")
    case True
    then have "below (length ts) (try_bind (parse_or (tl ts)) (\<lambda>(n, r). try_bind (expect_token T_RPAREN None r) (\<lambda>(_, r'). Inr (n, r'))))"
      by (intro below_bind [OF below_mono [OF "6.IH"(1) [OF True], of "length ts"]])
        (auto intro!: below_bind [OF below_expect] below_Inr)
    then show ?thesis using True by (simp add: parse_factor.simps [of ts])
  next
    case False
    then show ?thesis using below_predicate by (simp add: parse_factor.simps [of ts])
  qed
qed



section \<open>Trees as text\<close>

text \<open>
  The reference printer: a tree as tokens, with parentheses where the precedence of \<open>NOT\<close>, \<open>AND\<close>, \<open>OR\<close> asks for
  them. The first argument is the level of the context: 0 below \<open>OR\<close> on the left, 1 below \<open>OR\<close> on the
  right and \<open>AND\<close> on the left, 2 below \<open>AND\<close> on the right and \<open>NOT\<close>.
\<close>

abbreviation kw :: "string \<Rightarrow> token" where
  "kw w \<equiv> (T_KEYWORD, w)"

fun segments :: "string \<Rightarrow> string list" where
  "segments [] = [[]]"
| "segments (c # cs) =
     (if c = CHR ''.'' then [] # segments cs else (c # hd (segments cs)) # tl (segments cs))"

definition field_tokens :: "string \<Rightarrow> token list" where
  "field_tokens f =
     (case segments f of [] \<Rightarrow> [] | s # ss \<Rightarrow> (T_IDENT, s) # concat (map (\<lambda>v. [(T_DOT, ''.''), (T_IDENT, v)]) ss))"

definition operand_token :: "operand \<Rightarrow> token" where
  "operand_token l =
     (if snd l = ''number'' then (T_NUMBER, fst l)
      else if snd l = ''string'' then (T_STRING, fst l) else (T_KEYWORD, upper (fst l)))"

definition value_tokens :: "ast_value \<Rightarrow> string \<Rightarrow> token list" where
  "value_tokens v ty =
     (case v of
        NoValue \<Rightarrow> []
      | TextValue t \<Rightarrow> [operand_token (t, ty)]
      | RangeValue lo hi \<Rightarrow> [operand_token lo, kw ''AND'', operand_token hi]
      | ListValue ls \<Rightarrow>
          (T_LPAREN, ''('') #
            (case ls of [] \<Rightarrow> [] | l # ms \<Rightarrow> operand_token l # concat (map (\<lambda>m. [(T_COMMA, '',''), operand_token m]) ms)) @
          [(T_RPAREN, '')'')])"

definition operator_tokens :: "string \<Rightarrow> token list" where
  "operator_tokens op =
     (if op = ''IS TRUE'' then []
      else if op \<in> {''='', ''!='', ''>'', ''>='', ''<'', ''<='', ''!~''} then [(T_OP, op)]
      else dict_get
        [(''IS NULL'', [kw ''IS'', kw ''NULL'']), (''IS NOT NULL'', [kw ''IS'', kw ''NOT'', kw ''NULL'']),
         (''IN'', [kw ''IN'']), (''NOT IN'', [kw ''NOT'', kw ''IN'']),
         (''BETWEEN'', [kw ''BETWEEN'']), (''NOT BETWEEN'', [kw ''NOT'', kw ''BETWEEN'']),
         (''LIKE'', [kw ''LIKE'']), (''NOT LIKE'', [kw ''NOT'', kw ''LIKE'']),
         (''RLIKE'', [kw ''RLIKE'']), (''NOT RLIKE'', [kw ''NOT'', kw ''RLIKE''])] op [])"

definition predicate_tokens :: "ast_predicate \<Rightarrow> token list" where
  "predicate_tokens p =
     field_tokens (ap_field p) @ operator_tokens (ap_operator p) @
     (if ap_operator p = ''IS TRUE'' then [] else value_tokens (ap_value p) (ap_valueType p))"

definition in_brackets :: "bool \<Rightarrow> token list \<Rightarrow> token list" where
  "in_brackets b ts = (if b then (T_LPAREN, ''('') # ts @ [(T_RPAREN, '')'')] else ts)"

primrec tree_tokens :: "ast \<Rightarrow> nat \<Rightarrow> token list" where
  "tree_tokens (Pred p) k = predicate_tokens p"
| "tree_tokens (OrNode l r) k = in_brackets (0 < k) (tree_tokens l 0 @ kw ''OR'' # tree_tokens r 1)"
| "tree_tokens (AndNode l r) k = in_brackets (1 < k) (tree_tokens l 1 @ kw ''AND'' # tree_tokens r 2)"
| "tree_tokens (NotNode n) k = kw ''NOT'' # tree_tokens n 2"






lemma at_token_simps [simp]:
  "at_token k v [] \<longleftrightarrow> False"
  "at_token k None (t # ts) \<longleftrightarrow> fst t = k"
  "at_token k (Some w) (t # ts) \<longleftrightarrow> fst t = k \<and> upper (snd t) = upper w"
  by (simp_all add: at_token_def)

lemma upper_keywords [simp]:
  "upper ''AND'' = ''AND''" "upper ''OR'' = ''OR''" "upper ''NOT'' = ''NOT''" "upper ''IS'' = ''IS''" "upper ''NULL'' = ''NULL''"
  "upper ''IN'' = ''IN''" "upper ''BETWEEN'' = ''BETWEEN''" "upper ''LIKE'' = ''LIKE''" "upper ''RLIKE'' = ''RLIKE''"
  "upper ''TRUE'' = ''TRUE''" "upper ''FALSE'' = ''FALSE''" "upper ''true'' = ''TRUE''" "upper ''false'' = ''FALSE''"
  by code_simp+

lemma lower_booleans [simp]: "lower ''TRUE'' = ''true''" "lower ''FALSE'' = ''false''"
  by code_simp+

lemma segments_nonempty [simp]: "segments f \<noteq> []"
  by (cases f) auto















lemma field_tokens_head: "\<exists>s ts. field_tokens f = (T_IDENT, s) # ts"
  by (cases "segments f") (simp_all add: field_tokens_def)

lemma field_tokens_nonempty [simp]: "field_tokens f \<noteq> []"
  using field_tokens_head [of f] by auto


































definition token_text :: "token list \<Rightarrow> string" where
  "token_text ts = join_text '' '' (map snd ts)"





section \<open>Properties\<close>

text \<open>
  C19: the parser always answers. Whatever the tokens are, the recursive descent ends with a tree or with
  an error message; the marker of a recursion that makes no progress never comes out.
\<close>

theorem parser_always_answers: "parse_tokens ts \<noteq> Inl Stuck"
  using parser_progress(1) [of ts] by (auto simp: parse_tokens_def below_def try_bind_Inl split: list.split)


definition demo_leaf :: "string \<Rightarrow> string \<Rightarrow> ast_value \<Rightarrow> string \<Rightarrow> ast" where
  "demo_leaf f op v ty = Pred \<lparr>ap_field = f, ap_operator = op, ap_value = v, ap_valueType = ty\<rparr>"

definition demo_tree :: ast where
  "demo_tree = AndNode
     (OrNode (demo_leaf ''o.amount'' ''>='' (TextValue ''-2.5'') ''number'')
       (NotNode (demo_leaf ''state'' ''NOT IN'' (ListValue [(quoted ''new'', ''string''), (''true'', ''boolean'')]) ''list'')))
     (demo_leaf ''day'' ''BETWEEN'' (RangeValue (''1'', ''number'') (''31'', ''number'')) ''range'')"


lemma demo_tree_text:
  "token_text (tree_tokens demo_tree 0) =
     ''( o . amount >= -2.5 OR NOT state NOT IN ( '' @ quoted ''new'' @ '' , TRUE ) ) AND day BETWEEN 1 AND 31''"
  by code_simp





text \<open>
  Two deviations. Normalisation looks into literals: blanks are put around \<open>and\<close>, \<open>or\<close>, \<open>not\<close> and comparison signs between
  quotes too, and these words become upper case, so that the compiled rule compares with another value. And a
  comparison with a number that is the start of a longer term cannot be parsed, which is only a warning; the model
  is compilable, and the predicates that are searched in the text instead stop after the number.
\<close>

lemma normalised_sign: "normalize_expression (Some (''x = '' @ quoted ''a<b'')) = ''x = '' @ quoted ''a < b''"
  by code_simp

lemma normalised_word: "normalize_expression (Some (''x = '' @ quoted ''R and D'')) = ''x = '' @ quoted ''R AND D''"
  by code_simp

theorem normalisation_changes_literals:
  "normalize_expression (Some (''x = '' @ quoted ''R and D'')) = ''x = '' @ quoted ''R AND D'' \<and>
   normalize_expression (Some (''x = '' @ quoted ''a<b'')) = ''x = '' @ quoted ''a < b''"
  using normalised_sign normalised_word by (rule conjI [rotated])

definition sum_text :: string where
  "sum_text = ''x = 5 + y''"

lemma sum_normalised: "normalize_expression (Some sum_text) = sum_text"
  by code_simp

lemma sum_verdict: "compile_diagnostics sum_text (validate_filter_expression (Some sum_text)) = []"
  by code_simp

lemma sum_parse: "compile_expression_ast sum_text = (None, Some (''Unexpected token '' @ quoted ''+''))"
  by code_simp

lemma sum_predicates:
  "compile_predicates sum_text = [\<lparr>fp_field = ''x'', fp_operator = ''='', fp_value = ''5'', fp_valueType = ''number''\<rparr>]"
  by code_simp

theorem arithmetic_after_number_is_dropped:
  fixes sha256 loads dumps
  defines "m \<equiv> compile_rule_to_intermediate_model sha256 loads dumps ''r'' ''v'' (Some ''x = 5 + y'') None"
  shows "cm_compilable m \<and> cm_ast m = None \<and>
    cm_predicates m = [\<lparr>fp_field = ''x'', fp_operator = ''='', fp_value = ''5'', fp_valueType = ''number''\<rparr>]"
  unfolding m_def sum_text_def [symmetric]
  by (simp add: compile_rule_to_intermediate_model_def sum_normalised sum_verdict sum_parse sum_predicates
      has_errors_def non_compilable_def)

end
