(* ===== verification/Rule_Execution.thy ===== *)
theory Rule_Execution
  imports Engine_Evaluation
begin

text \<open>
  From a compiled rule to the verdict of the engine: what the counters and results of an evaluation say, what the row conditions and the
  expectations of a rule mean for the rows of a table, and where the translation changes the meaning of a rule.
\<close>


section \<open>The books of an evaluation\<close>





lemma counting_simps [simp]:
  "es_passed (count_pass st) = Suc (es_passed st)" "es_failed (count_pass st) = es_failed st"
  "es_diagnostics (count_pass st) = es_diagnostics st" "es_results (count_pass st) = es_results st"
  "es_counts (count_pass st) = es_counts st"
  "es_passed (count_failure ds st) = es_passed st" "es_failed (count_failure ds st) = Suc (es_failed st)"
  "es_diagnostics (count_failure ds st) = es_diagnostics st @ ds" "es_results (count_failure ds st) = es_results st"
  "es_counts (count_failure ds st) = es_counts st"
  by (simp_all add: count_pass_def count_failure_def)



text \<open>The rows an expectation is evaluated on, with the identity of their frame.\<close>

definition scope_rows :: "('f, 'r, 'k) engine \<Rightarrow> 'r list \<Rightarrow> 'f gx_expectation \<Rightarrow> 'r list option" where
  "scope_rows en rows e = (case arg e ''row_condition'' of None \<Rightarrow> Some rows | Some c \<Rightarrow> en_where en c rows)"








section \<open>The truth of a rule on a row\<close>

text \<open>
  What a rule says of a row is the three-valued truth of SQL: a comparison with a missing value is unknown. A table is described by the value
  of a column in a row, if present, and by three comparisons of values with literals; the other comparisons are their negations.
\<close>

record ('f, 'r, 'v) table =
  td_value :: "string \<Rightarrow> 'r \<Rightarrow> 'v option"
  td_eq :: "'v \<Rightarrow> 'f literal \<Rightarrow> bool"
  td_le :: "'v \<Rightarrow> 'f literal \<Rightarrow> bool"
  td_ge :: "'v \<Rightarrow> 'f literal \<Rightarrow> bool"

definition and3 :: "bool option \<Rightarrow> bool option \<Rightarrow> bool option" where
  "and3 a b = (if a = Some False \<or> b = Some False then Some False else if a = Some True \<and> b = Some True then Some True else None)"

definition not3 :: "bool option \<Rightarrow> bool option" where
  "not3 = map_option Not"

definition or3 :: "bool option \<Rightarrow> bool option \<Rightarrow> bool option" where
  "or3 a b = not3 (and3 (not3 a) (not3 b))"

datatype 'f test = NullTest bool | CompareTest string "'f literal" | RangeTest bool "'f literal" "'f literal" | InTest bool "'f literal list"

definition literal_comparison :: "('f, 'r, 'v) table \<Rightarrow> string \<Rightarrow> 'v \<Rightarrow> 'f literal \<Rightarrow> bool" where
  "literal_comparison td op x l =
     (if op = ''='' then td_eq td x l else if op = ''!='' then \<not> td_eq td x l
      else if op = ''<='' then td_le td x l else if op = ''>'' then \<not> td_le td x l
      else if op = ''>='' then td_ge td x l else \<not> td_ge td x l)"

definition compare_truth :: "('f, 'r, 'v) table \<Rightarrow> string \<Rightarrow> string \<Rightarrow> 'f literal \<Rightarrow> 'r \<Rightarrow> bool option" where
  "compare_truth td op c l r =
     (case td_value td c r of None \<Rightarrow> None | Some x \<Rightarrow> if l = LNone then None else Some (literal_comparison td op x l))"

definition in_truth :: "('f, 'r, 'v) table \<Rightarrow> string \<Rightarrow> 'f literal list \<Rightarrow> 'r \<Rightarrow> bool option" where
  "in_truth td c ls r =
     (if td_value td c r = None then None else foldr (\<lambda>l. or3 (compare_truth td ''='' c l r)) ls (Some False))"

definition signed :: "bool \<Rightarrow> bool option \<Rightarrow> bool option" where
  "signed positive t = (if positive then t else not3 t)"

definition test_truth :: "('f, 'r, 'v) table \<Rightarrow> string \<Rightarrow> 'f test \<Rightarrow> 'r \<Rightarrow> bool option" where
  "test_truth td c t r =
     (case t of
        NullTest b \<Rightarrow> Some ((td_value td c r = None) = b)
      | CompareTest op l \<Rightarrow> compare_truth td op c l r
      | RangeTest b lo hi \<Rightarrow> signed b (and3 (compare_truth td ''>='' c lo r) (compare_truth td ''<='' c hi r))
      | InTest b ls \<Rightarrow> signed b (in_truth td c ls r))"

text \<open>How an operator and the literals of its value are read as a test.\<close>

definition comparisons :: "string list" where
  "comparisons = [''='', ''!='', ''>'', ''>='', ''<'', ''<='']"

definition read_test ::
  "string \<Rightarrow> (gx_error + 'f literal) \<Rightarrow> (gx_error + 'f literal \<times> 'f literal) \<Rightarrow> (gx_error + 'f literal list) \<Rightarrow> 'f test option" where
  "read_test op one two many =
     (if op = ''IS NOT NULL'' then Some (NullTest False)
      else if op = ''IS NULL'' then Some (NullTest True)
      else if op = ''IS TRUE'' then Some (CompareTest ''='' (LBool True))
      else if op \<in> set comparisons then (case one of Inl _ \<Rightarrow> None | Inr l \<Rightarrow> Some (CompareTest op l))
      else if op \<in> {''BETWEEN'', ''NOT BETWEEN''}
      then (case two of Inl _ \<Rightarrow> None | Inr (lo, hi) \<Rightarrow> Some (RangeTest (op = ''BETWEEN'') lo hi))
      else if op \<in> {''IN'', ''NOT IN''} then (case many of Inl _ \<Rightarrow> None | Inr ls \<Rightarrow> Some (InTest (op = ''IN'') ls))
      else None)"

definition leaf_test :: "(string \<Rightarrow> 'f) \<Rightarrow> ast_predicate \<Rightarrow> 'f test option" where
  "leaf_test to_float p =
     read_test (upper (strip (ap_operator p))) (literal_of_value to_float (ap_value p)) (bounds_of_value to_float (ap_value p))
       (list_of_value to_float (ap_value p))"

definition plain_column :: "string \<Rightarrow> string option" where
  "plain_column field =
     (case parse_field_ref field of Inr f \<Rightarrow> if fr_wrapper f = None then Some (fr_column f) else None | Inl _ \<Rightarrow> None)"

definition leaf_truth :: "(string \<Rightarrow> 'f) \<Rightarrow> ('f, 'r, 'v) table \<Rightarrow> ast_predicate \<Rightarrow> 'r \<Rightarrow> bool option" where
  "leaf_truth to_float td p r =
     (case (plain_column (ap_field p), leaf_test to_float p) of (Some c, Some t) \<Rightarrow> test_truth td c t r | _ \<Rightarrow> None)"

primrec rule_truth :: "(string \<Rightarrow> 'f) \<Rightarrow> ('f, 'r, 'v) table \<Rightarrow> ast \<Rightarrow> 'r \<Rightarrow> bool option" where
  "rule_truth to_float td (Pred p) r = leaf_truth to_float td p r"
| "rule_truth to_float td (AndNode a b) r = and3 (rule_truth to_float td a r) (rule_truth to_float td b r)"
| "rule_truth to_float td (OrNode a b) r = or3 (rule_truth to_float td a r) (rule_truth to_float td b r)"
| "rule_truth to_float td (NotNode a) r = not3 (rule_truth to_float td a r)"

lemma truth3_True:
  "and3 a b = Some True \<longleftrightarrow> a = Some True \<and> b = Some True" "or3 a b = Some True \<longleftrightarrow> a = Some True \<or> b = Some True"
  "not3 a = Some True \<longleftrightarrow> a = Some False"
  by (auto simp: and3_def or3_def not3_def)

lemma truth3_False:
  "and3 a b = Some False \<longleftrightarrow> a = Some False \<or> b = Some False" "or3 a b = Some False \<longleftrightarrow> a = Some False \<and> b = Some False"
  "not3 a = Some False \<longleftrightarrow> a = Some True"
  by (auto simp: and3_def or3_def not3_def)

lemma compare_present: "compare_truth td op c l r = Some b \<Longrightarrow> td_value td c r \<noteq> None"
  by (auto simp: compare_truth_def split: option.splits)

lemma in_truth_cases:
  "in_truth td c ls r = Some True \<longleftrightarrow> (\<exists>l \<in> set ls. compare_truth td ''='' c l r = Some True)"
  "in_truth td c ls r = Some False \<longleftrightarrow> td_value td c r \<noteq> None \<and> (\<forall>l \<in> set ls. compare_truth td ''='' c l r = Some False)"
  by (induction ls) (auto simp: in_truth_def truth3_True truth3_False dest: compare_present split: if_splits)


section \<open>Row conditions mean what the rule says\<close>

text \<open>
  A condition selects the rows on which it is true; so documents the library the conditions it reads from their serialised form. \<open>selects\<close>
  is its evaluation of one condition.
\<close>

definition selects_by_truth :: "('f, 'r, 'v) table \<Rightarrow> ('f condition \<Rightarrow> 'r \<Rightarrow> bool) \<Rightarrow> bool" where
  "selects_by_truth td selects \<longleftrightarrow>
     (\<forall>c b r. selects (Nullity c b) r \<longleftrightarrow> (td_value td c r = None) = b) \<and>
     (\<forall>c l r. selects (Comparison c ''=='' (One l)) r \<longleftrightarrow> compare_truth td ''='' c l r = Some True) \<and>
     (\<forall>op c l r. op \<in> set comparisons \<longrightarrow> selects (Comparison c op (One l)) r \<longleftrightarrow> compare_truth td op c l r = Some True) \<and>
     (\<forall>c ls r. selects (Comparison c ''IN'' (Many ls)) r \<longleftrightarrow> in_truth td c ls r = Some True) \<and>
     (\<forall>c ls r. selects (Comparison c ''NOT_IN'' (Many ls)) r \<longleftrightarrow> in_truth td c ls r = Some False)"

fun serialized_selects :: "('f condition \<Rightarrow> 'r \<Rightarrow> bool) \<Rightarrow> (string \<Rightarrow> 'r \<Rightarrow> bool) \<Rightarrow> 'f serialized \<Rightarrow> 'r \<Rightarrow> bool" where
  "serialized_selects selects passes (Single c) r = selects c r"
| "serialized_selects selects passes (AndConditions cs) r = list_all (\<lambda>c. serialized_selects selects passes c r) cs"
| "serialized_selects selects passes (OrConditions cs) r = list_ex (\<lambda>c. serialized_selects selects passes c r) cs"
| "serialized_selects selects passes (PassThrough t) r = passes t r"

definition blocks_select :: "('f condition \<Rightarrow> 'r \<Rightarrow> bool) \<Rightarrow> 'f condition list list \<Rightarrow> 'r \<Rightarrow> bool" where
  "blocks_select selects bs r \<longleftrightarrow> (\<exists>b \<in> set bs. \<forall>c \<in> set b. selects c r)"

lemma combined_selects:
  "serialized_selects selects passes (combine_blocks bs) r \<longleftrightarrow> blocks_select selects bs r"
proof -
  have block: "serialized_selects selects passes (combine_block b) r \<longleftrightarrow> (\<forall>c \<in> set b. selects c r)" for b
    by (auto simp: combine_block_def list_all_iff split: list.split)
  show ?thesis
    by (cases bs rule: remdups_adj.cases) (simp_all add: combine_blocks_def blocks_select_def block list_ex_iff)
qed

definition known_operators :: "string list" where
  "known_operators =
     [''IS NOT NULL'', ''IS NULL'', ''IS TRUE'', ''='', ''!='', ''>'', ''>='', ''<'', ''<='', ''BETWEEN'', ''NOT BETWEEN'', ''IN'', ''NOT IN'']"

text \<open>The blocks of a test on a column.\<close>

fun test_blocks :: "string \<Rightarrow> 'f test \<Rightarrow> 'f condition list list" where
  "test_blocks c (NullTest b) = [[Nullity c b]]"
| "test_blocks c (CompareTest op l) = [[Comparison c (if op = ''='' then ''=='' else op) (One l)]]"
| "test_blocks c (RangeTest b lo hi) =
     (if b then [[Comparison c ''>='' (One lo), Comparison c ''<='' (One hi)]]
      else [[Comparison c ''<'' (One lo)], [Comparison c ''>'' (One hi)]])"
| "test_blocks c (InTest b ls) = [[Comparison c (if b then ''IN'' else ''NOT_IN'') (Many ls)]]"

lemma predicate_blocks_are_test_blocks:
  assumes blocks: "predicate_to_blocks to_float p = Inr bs"
  shows "\<exists>c t. plain_column (ap_field p) = Some c \<and> leaf_test to_float p = Some t \<and> bs = test_blocks c t"
proof -
  define op where "op = upper (strip (ap_operator p))"
  obtain f where f: "parse_field_ref (ap_field p) = Inr f" "fr_wrapper f = None"
    using blocks by (auto simp: predicate_to_blocks_def Let_def try_bind_Inr split: if_splits)
  define c where "c = fr_column f"
  define one two many where "one = literal_of_value to_float (ap_value p)" and "two = bounds_of_value to_float (ap_value p)"
    and "many = list_of_value to_float (ap_value p)"
  note body = blocks [unfolded predicate_to_blocks_def Let_def f try_bind_simps, folded op_def c_def one_def two_def many_def]
  have column: "plain_column (ap_field p) = Some c" using f by (simp add: plain_column_def c_def)
  have leaf: "leaf_test to_float p = read_test op one two many"
    by (simp add: leaf_test_def op_def one_def two_def many_def)
  have "op \<in> set known_operators"
  proof (rule ccontr)
    assume "op \<notin> set known_operators"
    then show False using body by (cases "lower (strip (ap_valueType p)) = ''expression''") (simp_all add: known_operators_def)
  qed
  then have "\<exists>t. read_test op one two many = Some t \<and> bs = test_blocks c t"
    unfolding known_operators_def list.set insert_iff empty_iff
    by (elim disjE) (use body in \<open>simp_all add: read_test_def comparisons_def compared_def try_bind_def split: sum.splits if_splits prod.splits\<close>)
  then show ?thesis using column leaf by simp
qed

lemma test_blocks_select:
  assumes sel: "selects_by_truth td selects" and ops: "\<And>op l. t = CompareTest op l \<Longrightarrow> op \<in> set comparisons"
  shows "blocks_select selects (test_blocks c t) r \<longleftrightarrow> test_truth td c t r = Some True"
proof -
  have cmp: "selects (Comparison c op (One l)) r \<longleftrightarrow> compare_truth td op c l r = Some True" if "op \<in> set comparisons" for op l
    using sel that unfolding selects_by_truth_def by blast
  have bounds: "selects (Comparison c ''>='' (One l)) r \<longleftrightarrow> compare_truth td ''>='' c l r = Some True"
    "selects (Comparison c ''<='' (One l)) r \<longleftrightarrow> compare_truth td ''<='' c l r = Some True"
    "selects (Comparison c ''<'' (One l)) r \<longleftrightarrow> compare_truth td ''>='' c l r = Some False"
    "selects (Comparison c ''>'' (One l)) r \<longleftrightarrow> compare_truth td ''<='' c l r = Some False" for l
    by (auto simp: cmp comparisons_def compare_truth_def literal_comparison_def split: option.split)
  have rest: "selects (Nullity c b) r \<longleftrightarrow> (td_value td c r = None) = b"
    "selects (Comparison c ''=='' (One l)) r \<longleftrightarrow> compare_truth td ''='' c l r = Some True"
    "selects (Comparison c ''IN'' (Many ls)) r \<longleftrightarrow> in_truth td c ls r = Some True"
    "selects (Comparison c ''NOT_IN'' (Many ls)) r \<longleftrightarrow> in_truth td c ls r = Some False" for b l ls
    using sel by (simp_all add: selects_by_truth_def)
  show ?thesis
    using ops cmp by (cases t) (auto simp: blocks_select_def test_truth_def signed_def truth3_True truth3_False rest bounds)
qed

lemma read_test_comparison: "read_test op one two many = Some (CompareTest op' l) \<Longrightarrow> op' \<in> set comparisons"
  by (auto simp: read_test_def comparisons_def split: if_splits sum.splits)

lemma predicate_blocks_select:
  assumes "selects_by_truth td selects" "predicate_to_blocks to_float p = Inr bs"
  shows "blocks_select selects bs r \<longleftrightarrow> leaf_truth to_float td p r = Some True"
proof -
  obtain c t where t: "plain_column (ap_field p) = Some c" "leaf_test to_float p = Some t" "bs = test_blocks c t"
    using predicate_blocks_are_test_blocks [OF assms(2)] by blast
  have "t = CompareTest op l \<Longrightarrow> op \<in> set comparisons" for op l
    using t(2) by (auto simp: leaf_test_def dest: read_test_comparison)
  then show ?thesis
    using test_blocks_select [OF assms(1)] t by (simp add: leaf_truth_def)
qed

lemma condition_blocks_select:
  assumes "selects_by_truth td selects"
  shows "condition_blocks to_float tree = Inr bs \<Longrightarrow> blocks_select selects bs r \<longleftrightarrow> rule_truth to_float td tree r = Some True"
proof (induction tree arbitrary: bs)
  case (Pred p)
  then show ?case using predicate_blocks_select [OF assms] by simp
next
  case (AndNode a b)
  obtain ls rs where parts: "condition_blocks to_float a = Inr ls" "condition_blocks to_float b = Inr rs"
    "bs = concat (map (\<lambda>lb. map (\<lambda>rb. lb @ rb) rs) ls)"
    using AndNode.prems by (auto simp: try_bind_Inr)
  have "blocks_select selects bs r \<longleftrightarrow> blocks_select selects ls r \<and> blocks_select selects rs r"
    by (fastforce simp: blocks_select_def parts(3))
  then show ?case using AndNode.IH parts by (simp add: truth3_True)
next
  case (OrNode a b)
  obtain ls rs where parts: "condition_blocks to_float a = Inr ls" "condition_blocks to_float b = Inr rs" "bs = ls @ rs"
    using OrNode.prems by (auto simp: try_bind_Inr)
  have "blocks_select selects bs r \<longleftrightarrow> blocks_select selects ls r \<or> blocks_select selects rs r"
    by (auto simp: blocks_select_def parts(3))
  then show ?case using OrNode.IH parts by (simp add: truth3_True)
qed simp


text \<open>
  C9: a structured row condition selects exactly the rows on which the rule is true in the three-valued logic of SQL, for every
  tree the compiler builds, and it stays within its limits: at least one and at most \<open>max_blocks\<close> blocks, at most
  \<open>max_statements\<close> statements, with the counts it reports.
\<close>

theorem row_condition_means_rule:
  assumes "build_gx_row_condition to_float max_blocks max_statements m = Inr a" "rc_structured a" "cm_ast m = Some tree"
    and "selects_by_truth td selects"
  shows "(serialized_selects selects passes (rc_serialized a) r \<longleftrightarrow> rule_truth to_float td tree r = Some True) \<and>
    (\<exists>blocks. rc_blocks a = Some blocks \<and> rc_block_count a = Some (length blocks) \<and> 1 \<le> length blocks \<and> length blocks \<le> max_blocks \<and>
       rc_statement_count a = Some (sum_list (map length blocks)) \<and> sum_list (map length blocks) \<le> max_statements)"
proof -
  obtain bs where bs: "condition_blocks to_float tree = Inr bs" "bs \<noteq> []" "length bs \<le> max_blocks"
    "sum_list (map length bs) \<le> max_statements"
    "a = \<lparr>rc_blocks = Some bs, rc_block_count = Some (length bs), rc_statement_count = Some (sum_list (map length bs)),
          rc_serialized = combine_blocks bs, rc_structured = True\<rparr>"
    using assms(1-3) by (auto simp: build_gx_row_condition_def Let_def try_bind_Inr split: if_splits)
  then show ?thesis
    using condition_blocks_select [OF assms(4) bs(1)] by (simp add: combined_selects Suc_le_eq)
qed



section \<open>The engine decides expectations by truth\<close>

text \<open>
  What Spark documents of column expressions: \<open>value\<close> is the three-valued value of an expression on a row, a filter keeps the rows where
  it is true, missing values make comparisons unknown, and connectives are those of SQL.
\<close>

definition evaluates_by_truth :: "('f, 'r, 'k) engine \<Rightarrow> ('f, 'r, 'v) table \<Rightarrow> ('f col \<Rightarrow> 'r \<Rightarrow> bool option) \<Rightarrow> bool" where
  "evaluates_by_truth en td ev \<longleftrightarrow>
     (\<forall>c r. en_keeps en c r \<longleftrightarrow> ev c r = Some True) \<and>
     (\<forall>r. ev (Lit (GLit (LBool True))) r = Some True) \<and>
     (\<forall>c r. ev (IsNull (Col c)) r = Some (td_value td c r = None)) \<and>
     (\<forall>c r. ev (IsNotNull (Col c)) r = Some (td_value td c r \<noteq> None)) \<and>
     (\<forall>op c l r. op \<in> set comparisons \<longrightarrow> ev (Compare op (Col c) (Lit (GLit l))) r = compare_truth td op c l r) \<and>
     (\<forall>c ls r. td_value td c r \<noteq> None \<longrightarrow> ev (IsIn (Col c) (map GLit ls)) r = in_truth td c ls r) \<and>
     (\<forall>a b r. ev (Conj a b) r = and3 (ev a r) (ev b r)) \<and>
     (\<forall>a b r. ev (Disj a b) r = or3 (ev a r) (ev b r)) \<and>
     (\<forall>a r. ev (Negated a) r = not3 (ev a r))"

lemma evaluated:
  assumes "evaluates_by_truth en td ev"
  shows "en_keeps en c r \<longleftrightarrow> ev c r = Some True" "ev (Lit (GLit (LBool True))) r = Some True"
    "ev (IsNull (Col n)) r = Some (td_value td n r = None)" "ev (IsNotNull (Col n)) r = Some (td_value td n r \<noteq> None)"
    "op \<in> set comparisons \<Longrightarrow> ev (Compare op (Col n) (Lit (GLit l))) r = compare_truth td op n l r"
    "td_value td n r \<noteq> None \<Longrightarrow> ev (IsIn (Col n) (map GLit ls)) r = in_truth td n ls r"
    "ev (Conj a b) r = and3 (ev a r) (ev b r)" "ev (Disj a b) r = or3 (ev a r) (ev b r)" "ev (Negated a) r = not3 (ev a r)"
  using assms by (simp_all add: evaluates_by_truth_def)

text \<open>An expectation that is evaluated on some of the rows and fails exactly when one of them meets a condition.\<close>

definition special_types :: "string list" where
  "special_types = [''expect_query_results_to_match_comparison'', ''expect_table_row_count_to_be_between'',
     ''expect_compound_columns_to_be_unique'']"

definition fails_where ::
  "('f, 'r, 'k) engine \<Rightarrow> string list \<Rightarrow> 'r list \<Rightarrow> 'f gx_expectation \<Rightarrow> 'f col \<times> 'r list \<Rightarrow> bool" where
  "fails_where en columns rows e cs \<longleftrightarrow>
     scope_rows en rows e = Some (snd cs) \<and> strip (ex_type e) \<notin> set special_types \<and>
     primary_column en e \<noteq> [] \<and> primary_column en e \<in> set columns \<and>
     column_verdict en columns (snd cs) (strip (ex_type e)) (primary_column en e) e = Inr (FailsOn (fst cs))"

definition unmet :: "('f, 'r, 'k) engine \<Rightarrow> 'f col \<times> 'r list \<Rightarrow> bool" where
  "unmet en cs \<longleftrightarrow> \<not> list_ex (en_keeps en (fst cs)) (snd cs)"

lemma get_row_count_keeps_failures:
  "get_row_count f rows st = (n, st1) \<Longrightarrow> es_failed st1 = es_failed st"
  by (auto simp: get_row_count_def split: option.splits)

lemma record_verdict_failures:
  "es_failed (record_verdict en cx idx e ty column scoped cond b st) = es_failed st + (if b then 1 else 0)"
  by (cases "get_row_count (scope_id cx idx e) scoped st")
    (auto simp: record_verdict_def Let_def dest: get_row_count_keeps_failures)

lemma fails_where_evaluates:
  assumes "fails_where en (ec_columns cx) rows e cs"
  shows "\<exists>st'. evaluate_expectation en cx rows idx e st = Inr st' \<and>
    es_failed st' = es_failed st + (if unmet en cs then 0 else 1)"
  using assms
  by (auto simp: fails_where_def unmet_def special_types_def evaluate_expectation_def evaluate_column_def Let_def
    record_verdict_failures scope_rows_def [symmetric])

lemma loop_fails_where:
  "list_all2 (fails_where en (ec_columns cx) rows) es css \<Longrightarrow>
   \<exists>st'. evaluate_loop en cx rows idx es st = Inr st' \<and> es_failed st \<le> es_failed st' \<and>
     (es_failed st' = es_failed st \<longleftrightarrow> list_all (unmet en) css)"
proof (induction es css arbitrary: idx st rule: list_all2_induct)
  case Nil
  then show ?case by simp
next
  case (Cons e es cs css)
  obtain st1 where st1: "evaluate_expectation en cx rows idx e st = Inr st1"
    "es_failed st1 = es_failed st + (if unmet en cs then 0 else 1)"
    using fails_where_evaluates [OF Cons(1)] by blast
  obtain st' where st': "evaluate_loop en cx rows (idx + 1) es st1 = Inr st'" "es_failed st1 \<le> es_failed st'"
    "es_failed st' = es_failed st1 \<longleftrightarrow> list_all (unmet en) css"
    using Cons.IH by blast
  then show ?case using st1 by (cases "unmet en cs") auto
qed

lemma evaluation_fails_where:
  assumes "list_all2 (fails_where en columns rows) es css"
  shows "\<exists>s d. evaluate_expectations_spark en frame columns rows es keys = Inr (list_all (unmet en) css, s, d)"
proof -
  define cx where "cx = \<lparr>ec_columns = columns, ec_rows = length rows,
    ec_keys = filter (\<lambda>k. k \<noteq> []) (map strip keys), ec_frame = frame\<rparr>"
  define st1 where "st1 = \<lparr>es_diagnostics = [], es_results = [], es_passed = 0, es_failed = 0,
    es_counts = [(frame None, length rows)]\<rparr>"
  have "list_all2 (fails_where en (ec_columns cx) rows) es css" using assms by (simp add: cx_def)
  from loop_fails_where [OF this, of 0 st1]
  obtain st' where "evaluate_loop en cx rows 0 es st1 = Inr st'"
    "es_failed st' = es_failed st1 \<longleftrightarrow> list_all (unmet en) css"
    by blast
  then show ?thesis
    by (auto simp: evaluate_expectations_spark_def get_row_count_def Let_def st1_def [symmetric] cx_def [symmetric])
      (simp_all add: st1_def)
qed


section \<open>Conjunctions of simple predicates\<close>

text \<open>The expectation of a test: its type and its arguments besides the column.\<close>

fun test_expectation :: "'f test \<Rightarrow> string \<times> (string \<times> 'f gx_value) list" where
  "test_expectation (NullTest b) = (if b then ''expect_column_values_to_be_null'' else ''expect_column_values_to_not_be_null'', [])"
| "test_expectation (CompareTest op l) =
     (if op = ''='' then (''expect_column_values_to_be_in_set'', [(''value_set'', GLits [l])])
      else if op = ''!='' then (''expect_column_values_to_not_be_in_set'', [(''value_set'', GLits [l])])
      else (''expect_column_values_to_be_between'',
        if op = ''>'' then [(''min_value'', GLit l), (''strict_min'', GLit (LBool True))]
        else if op = ''>='' then [(''min_value'', GLit l)]
        else if op = ''<'' then [(''max_value'', GLit l), (''strict_max'', GLit (LBool True))]
        else [(''max_value'', GLit l)]))"
| "test_expectation (RangeTest b lo hi) =
     (if b then ''expect_column_values_to_be_between'' else ''expect_column_values_to_not_be_between'',
      [(''min_value'', GLit lo), (''max_value'', GLit hi)])"
| "test_expectation (InTest b ls) =
     (if b then ''expect_column_values_to_be_in_set'' else ''expect_column_values_to_not_be_in_set'', [(''value_set'', GLits ls)])"

definition expectation_of_test :: "(string \<times> string) list \<Rightarrow> string \<Rightarrow> 'f test \<Rightarrow> 'f gx_expectation" where
  "expectation_of_test meta c t =
     make_expectation meta (fst (test_expectation t)) ((''column'', GText c) # snd (test_expectation t))"

text \<open>Tests the code gives a meaning to: known comparisons, numbers for an order, bounds that are present.\<close>

fun test_ok :: "'f test \<Rightarrow> bool" where
  "test_ok (CompareTest op l) \<longleftrightarrow> op \<in> set comparisons \<and> (op \<notin> {''='', ''!=''} \<longrightarrow> l \<noteq> LNone)"
| "test_ok (RangeTest b lo hi) \<longleftrightarrow> lo \<noteq> LNone \<and> hi \<noteq> LNone"
| "test_ok _ \<longleftrightarrow> True"

text \<open>The test a flat predicate states, read from its texts.\<close>

definition flat_test :: "(string \<Rightarrow> 'f) \<Rightarrow> Rule_Compiler.flat_predicate \<Rightarrow> 'f test option" where
  "flat_test to_float p =
     (let v = strip (fp_value p)
      in read_test (upper (strip (fp_operator p))) (parse_sql_literal to_float v) (parse_between_bounds to_float v)
           (parse_in_list to_float v))"

definition flat_truth :: "(string \<Rightarrow> 'f) \<Rightarrow> ('f, 'r, 'v) table \<Rightarrow> Rule_Compiler.flat_predicate \<Rightarrow> 'r \<Rightarrow> bool option" where
  "flat_truth to_float td p r =
     (case (plain_column (fp_field p), flat_test to_float p) of (Some c, Some t) \<Rightarrow> test_truth td c t r | _ \<Rightarrow> None)"

text \<open>Predicates on a column of the table itself, with an operator that is not a text pattern and a literal value.\<close>

definition simple_predicate :: "string list \<Rightarrow> Rule_Compiler.flat_predicate \<Rightarrow> bool" where
  "simple_predicate columns p \<longleftrightarrow>
     (case plain_column (fp_field p) of None \<Rightarrow> False | Some c \<Rightarrow> c \<in> set columns \<and> c \<noteq> [] \<and> strip c = c) \<and>
     parse_function_call (strip (fp_field p)) = None \<and> upper (strip (fp_operator p)) \<in> set known_operators \<and>
     lower (strip (fp_valueType p)) \<noteq> ''expression''"

lemma bounds_are_present:
  "parse_between_bounds to_float v = Inr (lo, hi) \<Longrightarrow> lo \<noteq> LNone \<and> hi \<noteq> LNone"
  by (auto simp: parse_between_bounds_def parse_bounds_def try_bind_Inr split: option.splits if_splits)

lemma simple_expectation:
  assumes plain: "simple_predicate columns p" and built: "expectation_for env meta p = Inr e"
  shows "\<exists>c t. plain_column (fp_field p) = Some c \<and> c \<in> set columns \<and> c \<noteq> [] \<and> strip c = c \<and>
    flat_test (ge_read env) p = Some t \<and> test_ok t \<and> e = expectation_of_test meta c t"
proof -
  define op v ty where "op = upper (strip (fp_operator p))" and "v = strip (fp_value p)" and "ty = lower (strip (fp_valueType p))"
  obtain c where c: "plain_column (fp_field p) = Some c" "c \<in> set columns" "c \<noteq> []" "strip c = c"
    using plain by (auto simp: simple_predicate_def split: option.splits)
  then obtain f where f: "parse_field_ref (fp_field p) = Inr f" "fr_wrapper f = None" "fr_column f = c"
    by (auto simp: plain_column_def split: sum.splits if_splits)
  have conditions: "parse_function_call (strip (fp_field p)) = None" "op \<in> set known_operators" "ty \<noteq> ''expression''"
    using plain by (simp_all add: simple_predicate_def op_def ty_def)
  have "build_expression_based_expectation env meta p = Inr None"
    using conditions by (simp add: build_expression_based_expectation_def Let_def ty_def)
  note body = built [unfolded expectation_for_def this try_bind_simps option.case Let_def f, folded op_def v_def ty_def]
  define one where "one = parse_sql_literal (ge_read env) v"
  define two where "two = parse_between_bounds (ge_read env) v"
  define many where "many = parse_in_list (ge_read env) v"
  have "\<exists>t. read_test op one two many = Some t \<and> test_ok t \<and> e = expectation_of_test meta c t"
    using conditions(2) unfolding known_operators_def list.set insert_iff empty_iff
    by (elim disjE) (use body f(2,3) conditions(3) bounds_are_present [of "ge_read env" v, folded two_def] in
      \<open>auto simp: read_test_def comparisons_def expectation_of_test_def numeric_literal_def is_numeric_def
        one_def [symmetric] two_def [symmetric] many_def [symmetric] try_bind_def split: sum.splits if_splits prod.splits\<close>)
  then show ?thesis
    using c by (simp add: flat_test_def Let_def op_def v_def one_def two_def many_def)
qed


text \<open>The condition for failing rows of the expectation of a test.\<close>

fun test_condition :: "string \<Rightarrow> 'f test \<Rightarrow> 'f col" where
  "test_condition c (NullTest b) = (if b then IsNotNull (Col c) else IsNull (Col c))"
| "test_condition c (CompareTest op l) =
     Conj (IsNotNull (Col c))
       (if op = ''='' then Negated (IsIn (Col c) [GLit l])
        else if op = ''!='' then IsIn (Col c) [GLit l]
        else Negated (Conj (Lit (GLit (LBool True))) (Compare op (Col c) (Lit (GLit l)))))"
| "test_condition c (RangeTest b lo hi) =
     (let inside = Conj (Conj (Lit (GLit (LBool True))) (Compare ''>='' (Col c) (Lit (GLit lo)))) (Compare ''<='' (Col c) (Lit (GLit hi)))
      in Conj (IsNotNull (Col c)) (if b then Negated inside else inside))"
| "test_condition c (InTest b ls) =
     Conj (IsNotNull (Col c)) (if b then Negated (IsIn (Col c) (map GLit ls)) else IsIn (Col c) (map GLit ls))"

definition test_types :: "string list" where
  "test_types = [''expect_column_values_to_be_null'', ''expect_column_values_to_not_be_null'', ''expect_column_values_to_be_in_set'',
     ''expect_column_values_to_not_be_in_set'', ''expect_column_values_to_be_between'', ''expect_column_values_to_not_be_between'']"

lemma test_types_are_plain: "list_all (\<lambda>s. strip s = s \<and> s \<notin> set special_types) test_types"
  by code_simp

lemma test_verdicts:
  "column_verdict en cs rows ''expect_column_values_to_be_null'' c e = Inr (FailsOn (IsNotNull (Col c)))"
  "column_verdict en cs rows ''expect_column_values_to_not_be_null'' c e = Inr (FailsOn (IsNull (Col c)))"
  "column_verdict en cs rows ''expect_column_values_to_be_in_set'' c e = in_set_verdict ''expect_column_values_to_be_in_set'' c e"
  "column_verdict en cs rows ''expect_column_values_to_not_be_in_set'' c e = in_set_verdict ''expect_column_values_to_not_be_in_set'' c e"
  "column_verdict en cs rows ''expect_column_values_to_be_between'' c e = between_verdict en ''expect_column_values_to_be_between'' c e"
  "column_verdict en cs rows ''expect_column_values_to_not_be_between'' c e =
     between_verdict en ''expect_column_values_to_not_be_between'' c e"
  by (simp_all add: column_verdict_def)

lemma test_type: "fst (test_expectation t) \<in> set test_types"
  by (cases t) (simp_all add: test_types_def)

text \<open>An expectation that states a test, whatever its row condition.\<close>

definition states_test :: "'f gx_expectation \<Rightarrow> string \<Rightarrow> 'f test \<Rightarrow> bool" where
  "states_test e c t \<longleftrightarrow> ex_type e = fst (test_expectation t) \<and>
     (\<forall>k. k \<noteq> ''row_condition'' \<longrightarrow> map_of (ex_kwargs e) k = map_of ((''column'', GText c) # snd (test_expectation t)) k)"

lemma test_condition_of_expectation:
  assumes ok: "test_ok t" and c: "c \<in> set columns" "c \<noteq> []" "strip c = c"
    and states: "states_test e c t" and scope: "scope_rows en rows e = Some scoped"
  shows "fails_where en columns rows e (test_condition c t, scoped)"
proof -
  have args: "map_of (ex_kwargs e) k = map_of ((''column'', GText c) # snd (test_expectation t)) k" if "k \<noteq> ''row_condition''" for k
    using states that by (simp add: states_test_def)
  have column: "primary_column en e = c"
    using c by (simp add: primary_column_def args arg_def truthy_value_def text_value_def)
  have plain: "strip (fst (test_expectation t)) = fst (test_expectation t)" "fst (test_expectation t) \<notin> set special_types"
    using test_types_are_plain test_type [of t] by (simp_all add: list_all_iff)
  have "column_verdict en columns scoped (fst (test_expectation t)) c e = Inr (FailsOn (test_condition c t))"
  proof (cases t)
    case (CompareTest op l)
    then have "op \<in> set comparisons" "op \<notin> {''='', ''!=''} \<longrightarrow> l \<noteq> LNone" using ok by simp_all
    then show ?thesis
      unfolding comparisons_def list.set insert_iff empty_iff
      by (elim disjE) (use args in \<open>simp_all add: CompareTest test_verdicts arg_def in_set_verdict_def list_arg_def between_verdict_def
        range_condition_def flag_arg_def truthy_value_def Let_def split: literal.split\<close>)
  next
    case (RangeTest b lo hi)
    then show ?thesis
      using ok args by (cases b) (simp_all add: test_verdicts arg_def between_verdict_def
        range_condition_def flag_arg_def truthy_value_def Let_def split: literal.split)
  next
    case (InTest b ls)
    then show ?thesis
      using args by (cases b) (simp_all add: test_verdicts arg_def in_set_verdict_def list_arg_def)
  qed (simp add: test_verdicts)
  then show ?thesis
    using c(1,2) column plain states scope by (simp add: fails_where_def states_test_def)
qed

text \<open>That condition is true exactly where the test is false; an unknown test is no failure.\<close>

lemma test_condition_is_falsity:
  assumes ev: "evaluates_by_truth en td ev" and ok: "test_ok t"
  shows "en_keeps en (test_condition c t) r \<longleftrightarrow> test_truth td c t r = Some False"
proof (cases t)
  case (NullTest b)
  then show ?thesis by (auto simp: evaluated [OF ev] test_truth_def)
next
  case (CompareTest op l)
  have one: "ev (IsIn (Col c) [GLit l]) r = in_truth td c [l] r" if "td_value td c r \<noteq> None" for l
    using evaluated(6) [OF ev that, of "[l]"] by simp
  have negated: "compare_truth td ''!='' c l r = Some False \<longleftrightarrow> compare_truth td ''='' c l r = Some True"
    by (auto simp: compare_truth_def literal_comparison_def split: option.split)
  have "op \<in> set comparisons" using ok CompareTest by simp
  then have cmp: "ev (Compare op (Col c) (Lit (GLit l))) r = compare_truth td op c l r"
    by (rule evaluated(5) [OF ev])
  show ?thesis
    by (cases "td_value td c r = None")
      (auto simp: CompareTest evaluated(1-4,7-9) [OF ev] one cmp negated test_truth_def truth3_True truth3_False in_truth_cases
        dest: compare_present)
next
  case (RangeTest b lo hi)
  have cmp: "ev (Compare op (Col c) (Lit (GLit l))) r = compare_truth td op c l r" if "op \<in> {''>='', ''<=''}" for op l
    using that by (auto simp: comparisons_def intro!: evaluated(5) [OF ev])
  show ?thesis
    by (auto simp: RangeTest Let_def evaluated(1-4,7-9) [OF ev] cmp test_truth_def signed_def truth3_True truth3_False dest: compare_present)
next
  case (InTest b ls)
  show ?thesis
    by (cases "td_value td c r = None")
      (auto simp: InTest evaluated(1-4,6-9) [OF ev] test_truth_def signed_def truth3_True truth3_False in_truth_cases dest: compare_present)
qed


lemma try_map_list_all2: "try_map f xs = Inr ys \<Longrightarrow> list_all2 (\<lambda>x y. f x = Inr y) xs ys"
  by (induction xs arbitrary: ys) (auto simp: try_bind_Inr)

text \<open>What an expectation has to do with the predicate it was built for: the test, and the rows it is evaluated on.\<close>

definition simple_test :: "(string \<Rightarrow> 'f) \<Rightarrow> string list \<Rightarrow> Rule_Compiler.flat_predicate \<Rightarrow> string \<Rightarrow> 'f test \<Rightarrow> bool" where
  "simple_test to_float columns p c t \<longleftrightarrow>
     plain_column (fp_field p) = Some c \<and> c \<in> set columns \<and> c \<noteq> [] \<and> strip c = c \<and>
     flat_test to_float p = Some t \<and> test_ok t"

definition checks ::
  "('f, 'r, 'k) engine \<Rightarrow> (string \<Rightarrow> 'f) \<Rightarrow> string list \<Rightarrow> 'r list \<Rightarrow> 'r list \<Rightarrow> Rule_Compiler.flat_predicate \<Rightarrow> 'f gx_expectation \<Rightarrow> bool" where
  "checks en to_float columns rows scoped p e \<longleftrightarrow>
     (\<exists>c t. simple_test to_float columns p c t \<and> states_test e c t \<and> scope_rows en rows e = Some scoped)"

lemma checksI:
  "simple_test to_float columns p c t \<Longrightarrow> states_test e c t \<Longrightarrow> scope_rows en rows e = Some scoped \<Longrightarrow>
   checks en to_float columns rows scoped p e"
  by (auto simp: checks_def)

lemma scoped_rule_verdict:
  assumes "list_all2 (checks en to_float columns rows scoped) ps es"
    and ev: "evaluates_by_truth en td ev"
  shows "\<exists>s d. evaluate_expectations_spark en frame columns rows es keys =
    Inr (list_all (\<lambda>r. list_all (\<lambda>p. flat_truth to_float td p r \<noteq> Some False) ps) scoped, s, d)"
proof -
  have "\<exists>css. list_all2 (fails_where en columns rows) es css \<and>
      (list_all (unmet en) css \<longleftrightarrow> list_all (\<lambda>r. list_all (\<lambda>p. flat_truth to_float td p r \<noteq> Some False) ps) scoped)"
    using assms(1)
  proof (induction ps es rule: list_all2_induct)
    case Nil
    then show ?case by (intro exI [of _ "[]"]) (simp add: list_all_iff)
  next
    case (Cons p ps e es)
    obtain c t where t: "plain_column (fp_field p) = Some c" "c \<in> set columns" "c \<noteq> []" "strip c = c"
      "flat_test to_float p = Some t" "test_ok t" "states_test e c t" "scope_rows en rows e = Some scoped"
      using Cons(1) by (auto simp: checks_def simple_test_def)
    obtain css where css: "list_all2 (fails_where en columns rows) es css"
      "list_all (unmet en) css \<longleftrightarrow> list_all (\<lambda>r. list_all (\<lambda>p. flat_truth to_float td p r \<noteq> Some False) ps) scoped"
      using Cons.IH by blast
    have "unmet en (test_condition c t, scoped) \<longleftrightarrow> list_all (\<lambda>r. flat_truth to_float td p r \<noteq> Some False) scoped"
      using t(1,5) test_condition_is_falsity [OF ev t(6), of c]
      by (auto simp: unmet_def flat_truth_def list_all_iff list_ex_iff)
    then show ?case
      using css test_condition_of_expectation [OF t(6,2,3,4,7,8)]
      by (intro exI [of _ "(test_condition c t, scoped) # css"]) (auto simp: list_all_iff)
  qed
  then obtain css where css: "list_all2 (fails_where en columns rows) es css"
    "list_all (unmet en) css \<longleftrightarrow> list_all (\<lambda>r. list_all (\<lambda>p. flat_truth to_float td p r \<noteq> Some False) ps) scoped"
    by blast
  show ?thesis using evaluation_fails_where [OF css(1), of frame keys] unfolding css(2) .
qed

text \<open>What the theorems on rules share: the rule is neither a uniqueness rule nor a conditional allow list, and its predicates are simple.\<close>

definition simple_rule :: "'f gx_env \<Rightarrow> (string \<times> string) list \<Rightarrow> string list \<Rightarrow> compiled_model \<Rightarrow> bool" where
  "simple_rule env meta columns m \<longleftrightarrow>
     parse_uniqueness_columns (strip (if cm_normalized m = [] then cm_source m else cm_normalized m)) = None \<and>
     build_conditional_allowlist env meta m = Inr None \<and> list_all (simple_predicate columns) (cm_predicates m)"

lemma simple_rule_expectations:
  assumes "build_gx_expectations_from_intermediate_model env rule_id key m = Inr es" "simple_rule env (gx_meta rule_id key) columns m"
  obtains es0 where
    "list_all2 (\<lambda>p e. \<exists>c t. simple_test (ge_read env) columns p c t \<and> e = expectation_of_test (gx_meta rule_id key) c t)
       (cm_predicates m) es0"
    "if ''OR'' \<in> set (map upper (cm_logicalOperators m))
     then attach_gx_row_condition_to_expectations (ge_read env) es0 (Some m) = Inr es else es = es0"
proof -
  obtain es0 where es0: "try_map (expectation_for env (gx_meta rule_id key)) (cm_predicates m) = Inr es0"
    "if ''OR'' \<in> set (map upper (cm_logicalOperators m))
     then attach_gx_row_condition_to_expectations (ge_read env) es0 (Some m) = Inr es else es = es0"
    using assms by (auto simp: build_gx_expectations_from_intermediate_model_def simple_rule_def Let_def try_bind_Inr split: if_splits)
  have "list_all2 (\<lambda>p e. \<exists>c t. simple_test (ge_read env) columns p c t \<and> e = expectation_of_test (gx_meta rule_id key) c t)
       (cm_predicates m) es0"
    using try_map_list_all2 [OF es0(1)]
    by (rule list.rel_mono_strong)
      (use assms(2) simple_expectation in \<open>fastforce simp: simple_rule_def list_all_iff simple_test_def\<close>)
  then show thesis using es0(2) that by blast
qed

lemma expectation_of_test_states: "states_test (expectation_of_test meta c t) c t"
  by (simp add: states_test_def expectation_of_test_def make_expectation_def)

lemma expectation_of_test_scope: "scope_rows en rows (expectation_of_test meta c t) = Some rows"
  by (cases t) (simp_all add: scope_rows_def arg_def expectation_of_test_def make_expectation_def)

text \<open>
  C7: a conjunction of simple predicates is enforced exactly. The engine accepts the expectations that are built for it, and passes a
  table precisely when no predicate of the rule is false on any row; a predicate that is unknown because a
  value is missing is not reported.
\<close>

theorem conjunctive_rule_is_enforced:
  assumes "build_gx_expectations_from_intermediate_model env rule_id key m = Inr es"
    and "simple_rule env (gx_meta rule_id key) columns m" "''OR'' \<notin> set (map upper (cm_logicalOperators m))"
    and "evaluates_by_truth en td ev"
  shows "\<exists>s d. evaluate_expectations_spark en frame columns rows es keys =
    Inr (list_all (\<lambda>r. list_all (\<lambda>p. flat_truth (ge_read env) td p r \<noteq> Some False) (cm_predicates m)) rows, s, d)"
proof -
  obtain es0 where es0: "list_all2 (\<lambda>p e. \<exists>c t. simple_test (ge_read env) columns p c t \<and> e = expectation_of_test (gx_meta rule_id key) c t)
       (cm_predicates m) es0"
    "if ''OR'' \<in> set (map upper (cm_logicalOperators m))
     then attach_gx_row_condition_to_expectations (ge_read env) es0 (Some m) = Inr es else es = es0"
    by (rule simple_rule_expectations [OF assms(1,2)])
  then have "es = es0" using assms(3) by simp
  have "list_all2 (checks en (ge_read env) columns rows rows) (cm_predicates m) es"
    unfolding \<open>es = es0\<close> using es0(1)
    by (rule list_all2_mono, elim exE conjE) (simp add: checksI [OF _ expectation_of_test_states expectation_of_test_scope])
  from scoped_rule_verdict [OF this assms(4)] show ?thesis .
qed



section \<open>Rules with alternatives\<close>





end
