(* ===== verification/Allow_Lists.thy ===== *)
theory Allow_Lists
  imports Rule_Execution
begin

text \<open>
  Conditional allow lists, rules of the form \<open>(c = 'x' AND a IN (...)) OR (c = 'y' AND a IN (...))\<close>: the expectations
  that \<^const>\<open>build_conditional_allowlist\<close> builds for them, from the branches of the tree to the verdict of the engine.
\<close>


section \<open>Python equality of literals\<close>

lemma same_value_refl [simp]: "same_value env a a"
  by (simp add: same_value_def split: option.split)








section \<open>The groups of allowed values\<close>









section \<open>Branches\<close>

lemma and_branches_nonempty [simp]: "and_branches n \<noteq> []"
  by (induction n) auto













section \<open>From the groups to the verdict\<close>










end
