(* ===== verification/Check_Execution.thy ===== *)
theory Check_Execution
  imports Direct_Checks Compiled_Rules Allow_Lists
begin

text \<open>
  The structured check types from their parameters to the verdict of the engine: what the builders of \<open>Direct_Checks\<close> promise,
  which rows a published check is evaluated on, and where builder and engine, or builder and compiler, do not fit together.
\<close>


section \<open>What is built\<close>





lemma known_types [simp]:
  "''expect_column_values_to_not_be_null'' \<in> set row_condition_types" "''expect_column_values_to_be_in_set'' \<in> set row_condition_types"
  "''expect_column_values_to_not_be_in_set'' \<in> set row_condition_types" "''expect_column_values_to_be_between'' \<in> set row_condition_types"
  "''expect_column_proportion_of_non_null_values_to_be_between'' \<in> set row_condition_types"
  "''expect_column_values_to_be_in_set_for_other_column_value'' \<in> set row_condition_types"
  "''expect_column_values_to_equal_other_column_case_insensitive'' \<in> set row_condition_types"
  "''expect_column_pair_values_to_be_equal'' \<in> set row_condition_types"
  "''expect_column_values_to_be_within_numeric_tolerance_of_other_column'' \<in> set row_condition_types"
  "''expect_column_timestamps_to_be_within_tolerance_of_other_column'' \<in> set row_condition_types"
  "''expect_column_values_to_match_regex'' \<in> set row_condition_types" "''expect_column_values_to_not_match_regex'' \<in> set row_condition_types"
  "''expect_column_values_to_be_unique'' \<in> set row_condition_types" "''expect_compound_columns_to_be_unique'' \<in> set row_condition_types"
  "''expect_column_values_to_be_within_past_days'' \<in> set row_condition_types"
  "''expect_column_pair_values_to_have_max_lag_hours'' \<in> set row_condition_types"
  "''expect_column_values_to_not_be_in_future'' \<in> set row_condition_types" "''expect_table_row_count_to_be_between'' \<in> set row_condition_types"
  by (simp_all add: row_condition_types_def)


lemma stripped_strip [simp]: "strip (stripped env p k) = stripped env p k"
  by (simp add: stripped_def)

lemma strip_nonempty: "c \<in> set s \<Longrightarrow> \<not> is_space c \<Longrightarrow> strip s \<noteq> []"
  by (auto simp: strip_def dropWhile_eq_Nil_conv) (metis in_set_conv_decomp dropWhile_append3 append_Cons list.set_intros(1) set_append Un_iff)

lemma strip_rhs [simp]: "strip (CHR ''r'' # s) \<noteq> []"
  by (rule strip_nonempty [of "CHR ''r''"]) (simp_all add: is_space_def)

text \<open>An expectation on a column, with arguments of its own behind it.\<close>

definition plain_arguments :: "(string \<times> 'f gx_value) list \<Rightarrow> bool" where
  "plain_arguments kvs \<longleftrightarrow> (case map_of kvs ''row_condition'' of None \<Rightarrow> True | Some (GCond _) \<Rightarrow> True | _ \<Rightarrow> False)"

lemma plain_arguments_simps [simp]:
  "plain_arguments []" "k \<noteq> ''row_condition'' \<Longrightarrow> plain_arguments ((k, v) # kvs) \<longleftrightarrow> plain_arguments kvs"
  "plain_arguments ((''row_condition'', GCond c) # kvs)"
  by (simp_all add: plain_arguments_def)




lemma bound_arguments_plain [simp]: "plain_arguments (bound_arguments b lo hi)"
  by (simp add: bound_arguments_def)



















section \<open>The row condition of a rule\<close>






lemma condition_result_Inr [simp]: "condition_result r = Inr x \<longleftrightarrow> r = Inr x"
  by (cases r) (simp_all add: condition_result_def)



section \<open>Row counts\<close>






end
