(* ===== verification/Range_Checks.thy ===== *)
theory Range_Checks
  imports Check_Execution
begin

text \<open>
  Range checks and contextual ranges: the truth of their bounds on a row, the condition the engine evaluates for them, and
  the rows they are evaluated on.
\<close>


section \<open>Bounds\<close>















section \<open>Range checks of published rules\<close>







section \<open>Contextual ranges\<close>






lemma listed_values_set [simp]: "set (listed_values cs) = set cs"
proof -
  have "set (foldl (\<lambda>acc c. if c \<in> set acc then acc else acc @ [c]) acc cs) = set acc \<union> set cs" for acc
    by (induction cs arbitrary: acc) auto
  then show ?thesis by (simp add: listed_values_def)
qed







end
