(* ===== verification/Published_Checks.thy ===== *)
theory Published_Checks
  imports Range_Checks
begin

text \<open>
  Structured checks published with the expression that the program generates for them: from the parameters through
  \<open>Check_Expressions\<close>, the compiler and \<open>Direct_Checks\<close> to the engine.
\<close>


section \<open>The chain of translations\<close>





























section \<open>A range check that cannot fail\<close>
















end
