(* ===== verification/Execution_Examples.thy ===== *)
theory Execution_Examples
  imports Allow_Lists
begin

text \<open>
  Concrete tables, rules and an engine for the theorems on the execution of rules: every hypothesis of these theorems holds here, and the
  verdicts they give are the ones the definitions compute.
\<close>

section \<open>Examples\<close>

text \<open>A table of integers and texts, and an engine that evaluates conditions as Spark documents it.\<close>

type_synonym table_row = "(string \<times> unit literal) list"

definition run_env :: "unit gx_env" where
  "run_env = \<lparr>ge_read = (\<lambda>_. ()), ge_value = (\<lambda>_. 0)\<rparr>"

definition run_order :: "(rat \<Rightarrow> rat \<Rightarrow> bool) \<Rightarrow> unit literal \<Rightarrow> unit literal \<Rightarrow> bool" where
  "run_order le x l = (case (numeric_value run_env x, numeric_value run_env l) of (Some a, Some b) \<Rightarrow> le a b | _ \<Rightarrow> False)"

definition run_table :: "(unit, table_row, unit literal) table" where
  "run_table = \<lparr>td_value = (\<lambda>c r. map_of r c), td_eq = same_value run_env, td_le = run_order (\<le>), td_ge = run_order (\<ge>)\<rparr>"

fun run_ev :: "unit col \<Rightarrow> table_row \<Rightarrow> bool option" where
  "run_ev (Lit (GLit (LBool b))) r = Some b"
| "run_ev (IsNull (Col c)) r = Some (map_of r c = None)"
| "run_ev (IsNotNull (Col c)) r = Some (map_of r c \<noteq> None)"
| "run_ev (Compare op' (Col c) (Lit (GLit l))) r = compare_truth run_table op' c l r"
| "run_ev (IsIn (Col c) vs) r = in_truth run_table c (map (\<lambda>v. case v of GLit l \<Rightarrow> l | _ \<Rightarrow> LNone) vs) r"
| "run_ev (Conj a b) r = and3 (run_ev a r) (run_ev b r)"
| "run_ev (Disj a b) r = or3 (run_ev a r) (run_ev b r)"
| "run_ev (Negated a) r = not3 (run_ev a r)"
| "run_ev _ r = None"

fun run_selects :: "unit condition \<Rightarrow> table_row \<Rightarrow> bool" where
  "run_selects (Nullity c b) r \<longleftrightarrow> (map_of r c = None) = b"
| "run_selects (Comparison c op' (One l)) r \<longleftrightarrow> compare_truth run_table (if op' = ''=='' then ''='' else op') c l r = Some True"
| "run_selects (Comparison c op' (Many ls)) r \<longleftrightarrow> in_truth run_table c ls r = Some (op' = ''IN'')"

definition run_engine :: "(unit, table_row, unit literal option list) engine" where
  "run_engine = \<lparr>en_value = (\<lambda>_. 0), en_str = (\<lambda>_. []), en_int = (\<lambda>_. None), en_float = (\<lambda>_. Some ()), en_of_int = (\<lambda>_. ()),
     en_ratio = (\<lambda>_ _. ()), en_keeps = (\<lambda>c r. run_ev c r = Some True),
     en_where = (\<lambda>v rows. case v of GCond c \<Rightarrow> Some (filter (serialized_selects run_selects (\<lambda>_ _. False) c) rows) | _ \<Rightarrow> None),
     en_group = (\<lambda>cs r. map (map_of r) cs), en_row = (\<lambda>_. Nothing), en_show = (\<lambda>_. []), en_native = (\<lambda>_ _. Inl LibraryError)\<rparr>"

definition run_frame :: "nat option \<Rightarrow> nat" where
  "run_frame f = (case f of None \<Rightarrow> 0 | Some i \<Rightarrow> Suc i)"


lemma run_engine_truth: "evaluates_by_truth run_engine run_table run_ev"
proof -
  have "map ((\<lambda>v. case v of GLit l \<Rightarrow> l | _ \<Rightarrow> LNone) \<circ> GLit) ls = ls" for ls :: "unit literal list"
    by (induction ls) simp_all
  then show ?thesis by (auto simp: evaluates_by_truth_def run_engine_def run_table_def)
qed

lemma run_selects_truth: "selects_by_truth run_table run_selects"
  by (auto simp: selects_by_truth_def run_table_def comparisons_def)


definition run_leaf :: "string \<Rightarrow> string \<Rightarrow> ast_value \<Rightarrow> string \<Rightarrow> ast" where
  "run_leaf f op' v ty = Pred \<lparr>ap_field = f, ap_operator = op', ap_value = v, ap_valueType = ty\<rparr>"

definition run_model :: "string \<Rightarrow> ast \<Rightarrow> compiled_model" where
  "run_model expression tree =
     \<lparr>cm_artifactKey = ''k'', cm_compilerVersion = ''1'', cm_schemaVersion = ''1'', cm_rule_id = ''r'', cm_rule_versionId = ''v'',
      cm_source = expression, cm_normalized = expression, cm_predicates = map ast_predicate_to_flat (leaves tree),
      cm_logicalOperators = tree_operators tree, cm_aliasExpectations = [], cm_ast = Some tree, cm_join = None,
      cm_diagnostics = [], cm_compilable = True\<rparr>"

definition run_build :: "compiled_model \<Rightarrow> unit gx_expectation list" where
  "run_build m = (case build_gx_expectations_from_intermediate_model run_env None None m of Inr es \<Rightarrow> es | Inl _ \<Rightarrow> [])"

definition both_tree :: ast where
  "both_tree = AndNode (run_leaf ''p'' ''>'' (TextValue ''0'') ''number'') (run_leaf ''q'' ''IN'' (ListValue [(''1'', ''number''), (''2'', ''number'')]) ''list'')"

definition either_tree :: ast where
  "either_tree = OrNode (run_leaf ''p'' ''='' (TextValue ''1'') ''number'') (run_leaf ''q'' ''IS NULL'' NoValue ''null'')"

definition both_model :: compiled_model where
  "both_model = run_model ''p > 0 AND q IN (1, 2)'' both_tree"

definition either_model :: compiled_model where
  "either_model = run_model ''p = 1 OR q IS NULL'' either_tree"

definition built :: "compiled_model \<Rightarrow> bool" where
  "built m \<longleftrightarrow> (case build_gx_expectations_from_intermediate_model run_env None None m of Inr _ \<Rightarrow> True | Inl _ \<Rightarrow> False)"

lemma built_model: "built m \<Longrightarrow> build_gx_expectations_from_intermediate_model run_env None None m = Inr (run_build m)"
  by (simp add: built_def run_build_def split: sum.splits)

lemma both_built: "built both_model"
  by code_simp

lemma both_simple: "simple_rule run_env (gx_meta None None) [''p'', ''q''] both_model"
  by code_simp



lemma alternatives:
  "''OR'' \<notin> set (map upper (cm_logicalOperators both_model))" "''OR'' \<in> set (map upper (cm_logicalOperators either_model))"
  "\<not> requires_pass_through either_tree"
  by code_simp+

lemma either_condition:
  "case build_gx_row_condition (\<lambda>_. ()) 16 100 either_model of Inr a \<Rightarrow> rc_structured a | Inl _ \<Rightarrow> False"
  by code_simp

lemma model_trees: "cm_ast both_model = Some both_tree" "cm_ast either_model = Some either_tree"
  by (simp_all add: both_model_def either_model_def run_model_def)

text \<open>The verdict of the engine on the expectations of a rule.\<close>

definition run_verdict :: "compiled_model \<Rightarrow> table_row list \<Rightarrow> bool option" where
  "run_verdict m rows =
     (case evaluate_expectations_spark run_engine run_frame [''p'', ''q''] rows (run_build m) [] of
        Inr (ok, _, _) \<Rightarrow> Some ok | Inl _ \<Rightarrow> None)"





theorem row_condition_means_rule_witness:
  "case build_gx_row_condition (\<lambda>_. ()) 16 100 either_model of
     Inr a \<Rightarrow> serialized_selects run_selects (\<lambda>_ _. False) (rc_serialized a) [(''p'', LInt 5)] \<and>
       \<not> serialized_selects run_selects (\<lambda>_ _. False) (rc_serialized a) [(''p'', LInt 5), (''q'', LInt 4)]
   | Inl _ \<Rightarrow> False"
proof (cases "build_gx_row_condition (\<lambda>_. ()) 16 100 either_model")
  case (Inl e)
  then show ?thesis using either_condition by simp
next
  case (Inr a)
  have "rc_structured a" using either_condition Inr by simp
  note means = row_condition_means_rule [OF Inr this model_trees(2) run_selects_truth, where passes = "\<lambda>_ _. False"]
  have "rule_truth (\<lambda>_. ()) run_table either_tree [(''p'', LInt 5)] = Some True"
    "rule_truth (\<lambda>_. ()) run_table either_tree [(''p'', LInt 5), (''q'', LInt 4)] \<noteq> Some True"
    by code_simp+
  then show ?thesis using means by (simp add: Inr)
qed

text \<open>No predicate of a rule is false on a row of a table; every valid row is of that kind.\<close>

definition never_false :: "compiled_model \<Rightarrow> table_row list \<Rightarrow> bool" where
  "never_false m rows \<longleftrightarrow>
     list_all (\<lambda>r. list_all (\<lambda>p. flat_truth (ge_read run_env) run_table p r \<noteq> Some False) (cm_predicates m)) rows"


lemma both_rows:
  "\<not> never_false both_model [[(''p'', LInt 5), (''q'', LInt 3)]]"
  "never_false both_model [[(''p'', LInt 5), (''q'', LInt 2)], [(''p'', LInt 5)]]"
  by code_simp+

theorem conjunctive_rule_is_enforced_witness:
  "run_verdict both_model [[(''p'', LInt 5), (''q'', LInt 3)]] = Some False \<and>
   run_verdict both_model [[(''p'', LInt 5), (''q'', LInt 2)], [(''p'', LInt 5)]] = Some True"
proof -
  note enforced = conjunctive_rule_is_enforced [OF built_model [OF both_built] both_simple alternatives(1) run_engine_truth,
    where frame = run_frame and keys = "[]", folded never_false_def]
  show ?thesis
    using enforced [of "[[(''p'', LInt 5), (''q'', LInt 3)]]"] enforced [of "[[(''p'', LInt 5), (''q'', LInt 2)], [(''p'', LInt 5)]]"] both_rows
    by (auto simp: run_verdict_def)
qed














section \<open>Where the translation changes a rule\<close>

text \<open>A wrapper around the field of a comparison is dropped: \<open>LOWER(s) = 'x'\<close> is checked as \<open>s = 'x'\<close>.\<close>

lemma wrapped_field_is_compared_unwrapped:
  "(case expectation_for run_env [] \<lparr>fp_field = ''LOWER(s)'', fp_operator = ''='', fp_value = ''0'', fp_valueType = ''number''\<rparr> of
      Inr e \<Rightarrow> ex_kwargs e = [(''column'', GText ''s''), (''value_set'', GLits [LInt 0])] | Inl _ \<Rightarrow> False)"
  by code_simp

text \<open>A strict bound on an age is checked as a weak one.\<close>

lemma strict_age_is_checked_weakly:
  "datediff run_env [] ''<'' ''7'' [''NOW()'', ''d''] = datediff run_env [] ''<='' ''7'' [''NOW()'', ''d'']"
  by (simp add: datediff_def)

text \<open>Two frames with the same identity: the count of the first is taken for the second, and a result counts \<open>-1\<close> records as succeeded.\<close>

definition scoped_check :: "bool \<Rightarrow> unit gx_expectation" where
  "scoped_check b = make_expectation [] ''expect_column_values_to_be_null''
     [(''column'', GText ''p''), (''row_condition'', GCond (Single (Nullity ''p'' b)))]"

lemma reused_frame_identity_miscounts:
  "case evaluate_expectations_spark run_engine (\<lambda>f. if f = None then 0 else 1) [''p'', ''q''] [[(''p'', LInt 1)]]
       [scoped_check True, scoped_check False] [] of
     Inr (_, s, _) \<Rightarrow> map rr_succeeded (su_results s) = [Some 0, Some (- 1)] | Inl _ \<Rightarrow> False"
  by code_simp

end
