(* ===== verification/Check_Examples.thy ===== *)
theory Check_Examples
  imports Published_Checks Execution_Examples
begin

text \<open>
  Concrete checks for the theorems of \<open>Check_Execution\<close>, \<open>Range_Checks\<close> and \<open>Published_Checks\<close>, on the table and the engine of
  \<open>Execution_Examples\<close>.
\<close>


section \<open>Examples\<close>






































end
