(* ===== verification/Spec2Isabelle.thy ===== *)
theory Spec2Isabelle
  imports Rule_Lifecycle Rule_Versions Run_Plan_Requests
    Exception_Facts Rule_Expressions Grouped_Execution Execution_Runs
    Run_Plan_Validation Service_Levels Rule_Conflicts Storage_Classification Join_Metrics
    Check_Expressions Contract_Governance Rule_Activation Check_Examples
begin

text \<open>
  \<^bold>\<open>Verification of the governance core of \<open>dq-made-easy\<close>.\<close>

  The program manages data quality rules: a FastAPI service (\<open>src/dq-api/fastapi/app\<close>) keeps rules, their
  versions and approvals, checks every status change against a table of transitions, and plans the
  execution of compiled rules; engines, connectors, profiling jobs and a user interface surround it.
  This development models the part that decides what may happen to a rule, to a request and to an
  execution plan, and the way of a rule from its text to the verdict of the engine on a table. Paths below are relative to \<open>src/dq-api/fastapi/app\<close>.

  \<^bold>\<open>Theories, and the code they model.\<close>

  \<^item> \<open>DQ_Prelude\<close>: Python text operations (\<open>strip\<close>, \<open>lower\<close>, \<open>replace\<close>, \<open>in\<close>), dictionaries as association
    lists in insertion order, payload values, paging, decimal numbers, first-match list updates, and
    the locale \<open>preserved\<close>: an invariant that every step keeps holds after every run.
  \<^item> \<open>Status_Governance\<close>: \<open>domain/status_governance.py\<close> and
    \<open>application/services/status_governance_policy_loader.py\<close>. The five status tables, normalisation,
    \<open>is_transition_defined\<close>, \<open>is_transition_allowed\<close>, the map of allowed transitions, and the policy overrides,
    which are the argument \<open>ov\<close>. Locales \<open>entry_gate\<close> and \<open>absorbing_status\<close> state what users of a status
    model rely on; they are interpreted on the default tables.
  \<^item> \<open>Rule_Repository\<close>: the in-memory rule repository (\<open>infrastructure/repositories/_in_memory_rule_helpers.py\<close>,
    \<open>_in_memory_rules_read.py\<close>, \<open>_in_memory_rules_write.py\<close>, \<open>_in_memory_rule_lifecycle.py\<close>,
    \<open>_in_memory_rule_audit.py\<close>) and the status derivations of \<open>domain/entities/rule_policy.py\<close>. The attributes
    of the repository object are the record \<open>rule_repo\<close>, one definition per method, and \<open>repo_step\<close> is one call.
  \<^item> \<open>Rule_Lifecycle\<close>: rule records (\<open>domain/entities/rule.py\<close>) and the use cases
    \<open>application/use_cases/transition_rule_lifecycle.py\<close> and \<open>remove_rule.py\<close>, with the properties of the
    repository under the default policy.
  \<^item> \<open>Rule_Versions\<close>: \<open>_in_memory_rule_versions.py\<close>: listing, comparison, statistics, rollback, tags, marks
    and validation results of rule versions.
  \<^item> \<open>Run_Plans\<close>: \<open>domain/entities/gx_run_plan_governance.py\<close> and
    \<open>infrastructure/repositories/in_memory_gx_run_plan_repository.py\<close>: the state machine of run plan versions,
    its log, and \<open>plan_step\<close>.
  \<^item> \<open>Comment_Governance\<close>: \<open>domain/comment_governance.py\<close> and the thread computation of
    \<open>domain/entities/approvals.py\<close>.
  \<^item> \<open>Approvals\<close>: \<open>infrastructure/repositories/in_memory_approvals_repository.py\<close>.
  \<^item> \<open>Run_Plan_Requests\<close>: the use case \<open>transition_gx_run_plan_version_governance_state\<close> of
    \<open>application/use_cases/gx_run_plans.py\<close> over two repositories. The \<open>ApprovalsRepository\<close> interface is the
    locale \<open>approval_store\<close>, interpreted on the in-memory implementation.
  \<^item> \<open>Run_Plan_Validation\<close>: the other use cases of \<open>gx_run_plans.py\<close> (creation, validation, activation) with
    \<open>application/services/gx_suite_validation.py\<close> and \<open>gx_run_plan_validation.py\<close>.
  \<^item> \<open>Execution_Runs\<close>: \<open>infrastructure/repositories/in_memory_gx_execution_run_repository.py\<close>: runs, their status
    changes and history; \<open>run_step\<close> is one call.
  \<^item> \<open>Exception_Facts\<close>: \<open>in_memory_gx_execution_violation_repository.py\<close> and
    \<open>application/services/exception_retention.py\<close>: storing, filtering and summarising exception facts and the
    purge loop. What the purge needs of a store is the locale \<open>fact_store\<close>, interpreted on the in-memory one.
  \<^item> \<open>Grouped_Execution\<close>: \<open>application/services/grouped_execution_planner.py\<close> and
    \<open>execution_engine_capabilities.py\<close>.
  \<^item> \<open>Rule_Expressions\<close>: \<open>application/services/rule_expression.py\<close>: filter expressions and join definitions.
  \<^item> \<open>Rule_Conflicts\<close>: \<open>application/services/conflict_detection.py\<close>.
  \<^item> \<open>Service_Levels\<close>: \<open>application/use_cases/sla_slo_management.py\<close> with \<open>in_memory_sla_slo_repository.py\<close> and
    \<open>in_memory_dq_result_event_repository.py\<close>.
  \<^item> \<open>Storage_Classification\<close>: \<open>domain/services/classification_validation.py\<close> and its constants.
  \<^item> \<open>Join_Metrics\<close>: \<open>domain/entities/execution_metrics.py\<close> and
    \<open>application/services/join_consistency_metrics_calculator.py\<close>.
  \<^item> \<open>Check_Expressions\<close>: \<open>application/services/check_type_expression_generator.py\<close>: one definition per
    \<open>_generate_\<close> function, over parameter dictionaries of payload values.
  \<^item> \<open>Contract_Governance\<close>: \<open>application/services/data_contract_governance.py\<close> with the asset records of
    \<open>domain/entities/data_asset.py\<close>: canonical snapshots, their comparison, and conformance.
  \<^item> \<open>Artifact_Store\<close>: \<open>in_memory_validation_artifact_repository.py\<close>, \<open>in_memory_gx_suite_repository.py\<close> and
    \<open>_in_memory_compiler_artifacts.py\<close>: versioned artifacts, their status history and hashes.
  \<^item> \<open>Publication_Contracts\<close>: the contracts of \<open>domain/entities/rule_autopublish_policy.py\<close>: target engine, next version,
    catalog lookup and join pair contracts.
  \<^item> \<open>Text_Patterns\<close>: the matcher of Python's \<open>re\<close> for the patterns the code uses: greedy and lazy repetition, ordered
    alternatives, groups, word boundaries, \<open>finditer\<close>, \<open>sub\<close> and \<open>fullmatch\<close>.
  \<^item> \<open>Rule_Compiler\<close>: \<open>application/services/rule_compiler.py\<close> and the alias types of \<open>rule_expression.py\<close>: normalisation,
    tokens, the recursive descent parser, flat predicates, diagnostics and \<open>compile_rule_to_intermediate_model\<close>.
    \<open>Compiled_Rules\<close> holds its theorems.
  \<^item> \<open>Gx_Expectations\<close>: \<open>application/services/gx_expectations.py\<close>: literals, field references, row conditions, conditional allow
    lists, and the expectations of a compiled rule.
  \<^item> \<open>Engine_Evaluation\<close>: \<open>evaluate_expectations_spark\<close> of \<open>src/dq-engine/gx_dispatch_expectations.py\<close>. A table is a list of
    rows; the column expressions that the code builds are data, and what Spark does with them is an argument.
  \<^item> \<open>Rule_Execution\<close> and \<open>Allow_Lists\<close>: the composition of the last two, against the three-valued truth of a rule on
    a row; \<open>Execution_Examples\<close> instantiates every argument and evaluates concrete rules.
  \<^item> \<open>Direct_Checks\<close>: \<open>application/services/gx_rule_expectations.py\<close>: one definition per \<open>_build_\<close> function over the same
    parameter dictionaries as \<open>Check_Expressions\<close>, and the dispatcher. \<open>Check_Execution\<close> shows what they promise, \<open>Range_Checks\<close>
    follows range checks and contextual ranges to the verdict of the engine, \<open>Published_Checks\<close> the whole chain of a check with its
    generated expression, and \<open>Check_Examples\<close> holds the concrete checks.
  \<^item> \<open>Rule_Activation\<close>: the use case \<open>application/use_cases/activate_rule.py\<close> over the rule repository and
    the artifact stores.

  \<^bold>\<open>How code becomes definitions.\<close> A dictionary or object with fixed keys is a record, with \<open>None\<close> for a
  missing or null column; text is a list of characters (Latin-1). An operation takes the readings of
  clock, \<open>uuid4\<close> and random numbers it makes as an argument, then its own arguments and the state; it returns its
  answer or error (a sum) together with the state it leaves behind, also when it raises. Reads of
  \<open>asyncio\<close> are sequential: no modelled operation awaits anything but its own repository. There are no
  fuel bounds: every loop is a traversal of a list or a text with a termination proof; the parser, whose calls could fail to consume a
  token, has an outcome for that case that is shown never to occur. The exception is the purge loop of exception
  facts, which runs until the store deletes less than a full batch. It is a \<open>partial_function\<close> in
  \<open>option\<close>, and that it returns is a theorem. Arguments of the definitions are \<open>has_any_scope\<close> of the external
  package \<open>platform_auth\<close>, \<open>fromisoformat\<close> and \<open>isoformat\<close>, SHA-256, JSON encoding and decoding, the readers that
  check a stored value against a schema, the roundings of floating-point numbers, the seed resolver, the
  dispatcher and the ticket system. Theorems that need something of such an argument state it as a hypothesis, and their
  witnesses give a function that meets it.

  \<^bold>\<open>What is shown.\<close>
  \<^item> Status governance: no path reaches \<open>activated\<close> except through approval; terminal statuses have no exit; the
    published map of transitions agrees with the check; a loaded policy is enforced; the checks depend
    only on canonical names.
  \<^item> Rules: along every run removed rules are inactive, versions keep falling numbers and distinct identifiers, and
    histories stay sorted; what each operation does on success and on refusal; use cases
    answer only when the caller is authorised; round trips of creation and update.
  \<^item> Versions: a rollback restores its target under the next number and keeps all earlier versions; exactly when it
    keeps the repository invariant; comparison and statistics are exact.
  \<^item> Run plans: at most one version of a plan may run and it is the current one; whatever runs was approved; only
    the running version is dispatched; validation decides the state exactly by completeness; a complete
    approved version is activated.
  \<^item> Approvals: nobody reviews their own request; the log only grows and contains every creation and latest review.
  \<^item> Requests: a successful request registers one pending approval and cannot be repeated.
  \<^item> Execution: the history of a run is an unbroken trail to its status; the planner implements the grouping of
    suites by target; join metrics round trip and their summaries are exact.
  \<^item> Exception facts: the purge returns and removes exactly the expired facts; policies stay within their bounds;
    summaries count every fact; hash stripes partition a listing.
  \<^item> Expressions and conflicts: the filter scan decides the bracket grammar; join definitions normalise to a fixed point;
    contradictions are the fields without a strict solution; all pairs of rules are compared.
  \<^item> Service levels: no definition becomes active without a ticket; one breach event per observation; counts add up and
    rates are percentages. Storage: which names and which exports pass is characterised exactly.
  \<^item> Check types: an expression generated from parameters of the documented shape passes the bracket scan.
    Contracts: canonical snapshots are well typed, the classification of a comparison is the one of a
    specification by names, and a change that is not breaking keeps conformance.
  \<^item> Artifacts: histories are trails, versions are unique, the answered hash guards the next overwrite, one compiler artifact of a
    rule version is active. Activation is authorised, and a publication adds a version above all stored ones.
  \<^item> Compilation: the parser always answers, reads every printed tree back, and what a compiled model holds and when it is
    compilable is exact. Execution of rules: a row condition selects the rows on which the rule is true; conjunctions and
    conditional allow lists are enforced exactly, from the compiled rule to the verdict of the engine; an evaluation accounts for every
    expectation.
  \<^item> Structured checks: every expectation a builder gives carries a condition that implies the one of the rule; a contextual range is
    enforced exactly; a row count check works with both bounds only; a published range check is evaluated on valid rows
    only.
  \<^item> Deviations of the code from its intent are theorems as well: comments lost on creation, creation
    outside the default workspace, activation of retired rules, activation by rollback, page-wise current
    versions, plans left active by a transition, drafts left requested after a failed approval request,
    comment events that are ignored, escaped quotes that are rejected, reopened runs that keep their first
    completion time, grouped plan versions activated without validation, evaluations that conflict with their own breach
    event, changed definitions that stay approved, touching bounds reported as contradictory, synthetic exports
    refused as mixed, ranges over attributes named \<open>or...\<close> that are rejected, list values that add conditions, required
    additions that count twice, envelopes that conflict with themselves, rules left active by a failed publication, literals changed by normalisation, arithmetic dropped
    after a number, alternatives that are checked on valid rows only, wrappers around fields that are dropped, strict ages checked
    weakly, row counts taken from a released frame, range checks that cannot fail once they are published with their own expression, and
    checks that cannot be published with theirs.

  \<^bold>\<open>What is not modelled.\<close> The Postgres repositories, HTTP endpoints and presenters: glue around the modelled operations. The
  lowerers of the structured rule language; building an artifact is an argument of the activation use case with the one
  hypothesis that a built envelope carries the identifier and version it was asked for. The dispatcher of check types calls one of these
  lowerers for custom queries, and takes it as an argument. The source text of row conditions, which
  repeats their blocks in Python syntax, and the objects of Great Expectations made from them. Resolution of seeds and dispatch to queues;
  connectors, incidents, scorecards, drift detection, the catalog, profiling, the workers of the engines around the evaluation
  of expectations, and the user interface. Derived taxonomies of rule entities and the \<open>json.dumps\<close> encoding of two
  listed columns are left out of the rule model; evaluation of expressions by Python's \<open>eval\<close> and the
  conversion of execution runs to result events are not modelled.

  \<^bold>\<open>Plan.\<close> What would extend the development next: the lowerers of the structured rule language over the same engine model, the use cases
  \<open>create_rule\<close> and \<open>update_rule\<close>, incidents, and onboarding suggestions.
\<close>

section \<open>Properties that span components\<close>

text \<open>
  The run plan transitions that status governance publishes are those the run plan repository accepts, with one
  exception: governance lists activation-requested to active, which the repository refuses, since there a requested
  version first becomes approved\_pending\_activation and is then activated.\<close>

theorem published_run_plan_transitions:
  "list_all (\<lambda>(f, t). is_transition_defined [] ''run_plan'' f t \<and>
     (is_valid_run_plan_version_transition f t \<longleftrightarrow> (f, t) \<noteq> (''activation-requested'', ''active'')))
     (table_edges run_plan_status_transitions)"
  by (simp add: default_step_edges default_table_defs is_valid_run_plan_version_transition_def
      run_plan_version_allowed_transitions_def dict_get_def canonicalize_status_value_def normalize_status_value_def text_eval)

end
